(* ===== verification/Prelude.thy ===== *)
theory Prelude
  imports Main "HOL-Library.Char_ord" "HOL-Library.List_Lexorder" "HOL-Library.Multiset"
begin

text \<open>
  Shared vocabulary of the development: Go's errors, the parts of Go's \<open>strings\<close>
  package the panel uses, HTTP replies, and the lemma collections the component
  theories add to.

  A Go string is a byte string, so it is a \<^typ>\<open>string\<close> here (\<^typ>\<open>char\<close> is one
  byte). \<open>ToLower\<close> and \<open>ToUpper\<close> are exact on ASCII; on bytes above 127 they are
  the identity, where Go's functions map the rune.
\<close>

named_theorems go_errors \<open>definitions of the sentinel errors\<close>
named_theorems go_strings \<open>definitions of the string functions\<close>
named_theorems handler_defs \<open>definitions of the HTTP handlers\<close>

subsection \<open>Errors\<close>

text \<open>
  \<open>ErrNew s\<close> is \<open>errors.New(s)\<close> or a \<open>fmt.Errorf\<close> that wraps nothing;
  \<open>Errorf p e s\<close> is \<open>fmt.Errorf\<close> with one \<open>%w\<close>, the text before and after it.
\<close>

datatype go_error = ErrNew string | Errorf string go_error string

primrec err_text :: "go_error \<Rightarrow> string" where
  "err_text (ErrNew s) = s"
| "err_text (Errorf p e s) = p @ err_text e @ s"

primrec errors_Is :: "go_error \<Rightarrow> go_error \<Rightarrow> bool" where
  "errors_Is (ErrNew s) t = (ErrNew s = t)"
| "errors_Is (Errorf p e s) t = (Errorf p e s = t \<or> errors_Is e t)"

lemma errors_Is_refl [simp, intro]: "errors_Is e e"
  by (cases e) auto

lemma errors_Is_ErrNew_Errorf [simp]: "errors_Is (Errorf p e s) (ErrNew m) = errors_Is e (ErrNew m)"
  by simp

subsection \<open>Replies of the HTTP handlers\<close>

text \<open>
  \<open>Fail code msg\<close> is \<open>fiber.NewError(code, msg)\<close> returned as the handler's error;
  \<open>Reply code body\<close> is a response the handler wrote itself; \<open>Panic\<close> is a handler that panicked.
\<close>

datatype 'b reply = Reply nat 'b | Fail nat string | Panic

primrec is_Reply :: "'b reply \<Rightarrow> bool" where
  "is_Reply (Reply n b) = True"
| "is_Reply (Fail n s) = False"
| "is_Reply Panic = False"

definition ErrUnauthorized :: "'b reply" where
  "ErrUnauthorized = Fail 401 ''Unauthorized''"

lemma ErrUnauthorized_neq_Reply [simp]: "ErrUnauthorized \<noteq> Reply n b" "Reply n b \<noteq> ErrUnauthorized"
  by (simp_all add: ErrUnauthorized_def)

subsection \<open>Characters\<close>

abbreviation ch :: "char \<Rightarrow> nat" where "ch c \<equiv> of_char c"

definition is_lower :: "char \<Rightarrow> bool" where
  "is_lower c \<longleftrightarrow> 97 \<le> ch c \<and> ch c \<le> 122"

definition is_upper :: "char \<Rightarrow> bool" where
  "is_upper c \<longleftrightarrow> 65 \<le> ch c \<and> ch c \<le> 90"

definition is_digit :: "char \<Rightarrow> bool" where
  "is_digit c \<longleftrightarrow> 48 \<le> ch c \<and> ch c \<le> 57"

definition is_space :: "char \<Rightarrow> bool" where
  "is_space c \<longleftrightarrow> ch c = 32 \<or> (9 \<le> ch c \<and> ch c \<le> 13)"

definition lower_char :: "char \<Rightarrow> char" where
  "lower_char c = (if is_upper c then char_of (ch c + 32) else c)"

definition upper_char :: "char \<Rightarrow> char" where
  "upper_char c = (if is_lower c then char_of (ch c - 32) else c)"

lemmas char_class_defs [go_strings] =
  is_lower_def is_upper_def is_digit_def is_space_def lower_char_def upper_char_def

lemma ch_less [simp]: "ch c < 256"
  using of_char_mod_256 [of c, where ?'a = nat] by (metis mod_less_divisor zero_less_numeral)

lemma ch_inject: "ch c = ch d \<longleftrightarrow> c = d"
  by (metis char_of_char)

lemma ch_char_of [simp]: "n < 256 \<Longrightarrow> ch (char_of (n::nat)) = n"
  by simp

lemma lower_char_not_upper [simp]: "\<not> is_upper (lower_char c)"
  by (auto simp: lower_char_def is_upper_def)

lemma lower_char_id: "\<not> is_upper c \<Longrightarrow> lower_char c = c"
  by (simp add: lower_char_def)

lemma lower_char_idem [simp]: "lower_char (lower_char c) = lower_char c"
  by (simp add: lower_char_id)

subsection \<open>Go's strings package\<close>

definition ToLower :: "string \<Rightarrow> string" where
  "ToLower s = map lower_char s"

definition ToUpper :: "string \<Rightarrow> string" where
  "ToUpper s = map upper_char s"

text \<open>
  \<open>TrimSpace\<close> also cuts the white space outside ASCII, by its UTF-8 encodings: U+0085, U+00A0,
  U+1680, U+2000 to U+200A, U+2028, U+2029, U+202F, U+205F and U+3000.
\<close>

definition space2 :: "char \<Rightarrow> char \<Rightarrow> bool" where
  "space2 a b \<longleftrightarrow> ch a = 194 \<and> (ch b = 133 \<or> ch b = 160)"

definition space3 :: "char \<Rightarrow> char \<Rightarrow> char \<Rightarrow> bool" where
  "space3 a b c \<longleftrightarrow>
     (ch a = 225 \<and> ch b = 154 \<and> ch c = 128) \<or>
     (ch a = 226 \<and> ch b = 128 \<and> (128 \<le> ch c \<and> ch c \<le> 138 \<or> ch c = 168 \<or> ch c = 169 \<or> ch c = 175)) \<or>
     (ch a = 226 \<and> ch b = 129 \<and> ch c = 159) \<or>
     (ch a = 227 \<and> ch b = 128 \<and> ch c = 128)"

fun TrimLeft :: "string \<Rightarrow> string" where
  "TrimLeft [] = []"
| "TrimLeft [a] = (if is_space a then [] else [a])"
| "TrimLeft [a, b] =
     (if is_space a then TrimLeft [b] else if space2 a b then [] else [a, b])"
| "TrimLeft (a # b # c # ds) =
     (if is_space a then TrimLeft (b # c # ds) else if space2 a b then TrimLeft (c # ds)
      else if space3 a b c then TrimLeft ds else a # b # c # ds)"

text \<open>The same from the right, on the reversed string.\<close>

fun TrimRev :: "string \<Rightarrow> string" where
  "TrimRev [] = []"
| "TrimRev [a] = (if is_space a then [] else [a])"
| "TrimRev [b, a] =
     (if is_space b then TrimRev [a] else if space2 a b then [] else [b, a])"
| "TrimRev (c # b # a # ds) =
     (if is_space c then TrimRev (b # a # ds) else if space2 b c then TrimRev (a # ds)
      else if space3 a b c then TrimRev ds else c # b # a # ds)"

definition TrimSpace :: "string \<Rightarrow> string" where
  "TrimSpace s = rev (TrimRev (rev (TrimLeft s)))"

definition HasPrefix :: "string \<Rightarrow> string \<Rightarrow> bool" where
  "HasPrefix s p \<longleftrightarrow> take (length p) s = p"

definition HasSuffix :: "string \<Rightarrow> string \<Rightarrow> bool" where
  "HasSuffix s p \<longleftrightarrow> length p \<le> length s \<and> drop (length s - length p) s = p"

definition TrimPrefix :: "string \<Rightarrow> string \<Rightarrow> string" where
  "TrimPrefix s p = (if HasPrefix s p then drop (length p) s else s)"

definition TrimSuffix :: "string \<Rightarrow> string \<Rightarrow> string" where
  "TrimSuffix s p = (if HasSuffix s p then take (length s - length p) s else s)"

text \<open>\<open>strings.Split(s, sep)\<close> for a separator of one byte.\<close>

fun Split :: "string \<Rightarrow> char \<Rightarrow> string list" where
  "Split [] c = [[]]"
| "Split (x # xs) c =
     (if x = c then [] # Split xs c
      else (case Split xs c of [] \<Rightarrow> [[x]] | y # ys \<Rightarrow> (x # y) # ys))"

fun Join :: "string list \<Rightarrow> string \<Rightarrow> string" where
  "Join [] sep = []"
| "Join [x] sep = x"
| "Join (x # y # ys) sep = x @ sep @ Join (y # ys) sep"

text \<open>\<open>strings.SplitN(s, sep, 2)\<close> for a separator of one byte.\<close>

fun SplitN2 :: "string \<Rightarrow> char \<Rightarrow> string list" where
  "SplitN2 [] c = [[]]"
| "SplitN2 (x # xs) c =
     (if x = c then [[], xs]
      else (case SplitN2 xs c of [] \<Rightarrow> [[x]] | y # ys \<Rightarrow> (x # y) # ys))"

definition ContainsChar :: "string \<Rightarrow> char \<Rightarrow> bool" where
  "ContainsChar s c \<longleftrightarrow> c \<in> set s"

lemmas string_defs [go_strings] =
  ToLower_def ToUpper_def TrimSpace_def HasPrefix_def HasSuffix_def
  TrimPrefix_def TrimSuffix_def ContainsChar_def

lemma ToLower_Nil [simp]: "ToLower [] = []"
  by (simp add: ToLower_def)

lemma ToLower_eq_Nil [simp]: "ToLower s = [] \<longleftrightarrow> s = []"
  by (simp add: ToLower_def)

lemma length_ToLower [simp]: "length (ToLower s) = length s"
  by (simp add: ToLower_def)

lemma ToLower_idem [simp]: "ToLower (ToLower s) = ToLower s"
  by (simp add: ToLower_def)

lemma set_TrimLeft: "set (TrimLeft s) \<subseteq> set s"
  by (induction s rule: TrimLeft.induct) auto

lemma set_TrimRev: "set (TrimRev s) \<subseteq> set s"
  by (induction s rule: TrimRev.induct) auto

lemma set_TrimSpace: "set (TrimSpace s) \<subseteq> set s"
  using set_TrimRev [of "rev (TrimLeft s)"] set_TrimLeft [of s] by (auto simp: TrimSpace_def)

text \<open>Characters that are neither white space nor part of its encodings.\<close>

definition solid :: "char \<Rightarrow> bool" where
  "solid c \<longleftrightarrow> \<not> is_space c \<and> ch c < 128"

lemma TrimLeft_solid: "solid c \<Longrightarrow> TrimLeft (c # cs) = c # cs"
  by (cases "c # cs" rule: TrimLeft.cases) (auto simp: solid_def space2_def space3_def)

lemma TrimRev_solid: "solid c \<Longrightarrow> TrimRev (c # cs) = c # cs"
  by (cases "c # cs" rule: TrimRev.cases) (auto simp: solid_def space2_def space3_def)

lemma TrimSpace_solid:
  assumes "s = [] \<or> solid (hd s) \<and> solid (last s)"
  shows "TrimSpace s = s"
proof (cases s)
  case (Cons c cs)
  with assms have "TrimLeft s = s" "solid (last s)" by (auto intro: TrimLeft_solid)
  moreover have "rev s = last s # rev (butlast s)"
    using Cons by (metis append_butlast_last_id list.distinct(1) rev_eq_Cons_iff rev_rev_ident)
  ultimately show ?thesis
    by (metis TrimSpace_def TrimRev_solid rev_rev_ident)
qed (simp add: TrimSpace_def)

lemma HasPrefix_iff: "HasPrefix s p \<longleftrightarrow> (\<exists>t. s = p @ t)"
  by (auto simp: HasPrefix_def) (metis append_take_drop_id)

lemma HasPrefix_append [simp]: "HasPrefix (p @ t) p"
  by (auto simp: HasPrefix_iff)

lemma TrimPrefix_append [simp]: "TrimPrefix (p @ t) p = t"
  by (simp add: TrimPrefix_def)

lemma HasSuffix_iff: "HasSuffix s p \<longleftrightarrow> (\<exists>t. s = t @ p)"
proof
  assume "HasSuffix s p"
  then have "s = take (length s - length p) s @ p"
    by (metis HasSuffix_def append_take_drop_id)
  then show "\<exists>t. s = t @ p" by blast
qed (auto simp: HasSuffix_def)

lemma TrimSuffix_append [simp]: "TrimSuffix (t @ p) p = t"
  by (simp add: TrimSuffix_def HasSuffix_def)

lemma Split_not_Nil [simp]: "Split s c \<noteq> []"
  by (cases s) (auto split: list.splits)

lemma Split_no_sep: "c \<notin> set s \<Longrightarrow> Split s c = [s]"
  by (induction s) auto

lemma Split_pieces_no_sep: "p \<in> set (Split s c) \<Longrightarrow> c \<notin> set p"
  by (induction s arbitrary: p) (auto split: if_splits list.splits)

lemma Join_Cons: "xs \<noteq> [] \<Longrightarrow> Join (x # xs) sep = x @ sep @ Join xs sep"
  by (cases xs) auto

lemma Join_Cons_char: "Join ((a # x) # xs) sep = a # Join (x # xs) sep"
  by (cases xs) auto

text \<open>Splitting and joining again gives the string back, and the other way round.\<close>

lemma Join_Split: "Join (Split s c) [c] = s"
proof (induction s)
  case Nil
  then show ?case by simp
next
  case (Cons x xs)
  then show ?case
    by (cases "Split xs c") (auto simp: Join_Cons Join_Cons_char)
qed

lemma Split_append: "c \<notin> set s \<Longrightarrow> Split (s @ c # t) c = s # Split t c"
  by (induction s) auto

lemma Split_Join:
  "xs \<noteq> [] \<Longrightarrow> (\<And>x. x \<in> set xs \<Longrightarrow> c \<notin> set x) \<Longrightarrow> Split (Join xs [c]) c = xs"
proof (induction xs)
  case Nil
  then show ?case by simp
next
  case (Cons x xs)
  then show ?case
    by (cases xs) (auto simp: Split_no_sep Split_append Join_Cons)
qed

lemma length_Split: "length (Split s c) = Suc (count_list s c)"
  by (induction s) (auto split: list.splits)

lemma SplitN2_append: "c \<notin> set s \<Longrightarrow> SplitN2 (s @ c # t) c = [s, t]"
  by (induction s) auto

subsection \<open>Numbers as text\<close>

text \<open>The \<open>%d\<close> verb of \<open>fmt\<close> on an \<open>int\<close>.\<close>

fun string_of_nat :: "nat \<Rightarrow> string" where
  "string_of_nat n =
     (if n < 10 then [char_of (48 + n)] else string_of_nat (n div 10) @ [char_of (48 + n mod 10)])"

declare string_of_nat.simps [simp del]

definition string_of_int :: "int \<Rightarrow> string" where
  "string_of_int i = (if i < 0 then CHR ''-'' # string_of_nat (nat (- i)) else string_of_nat (nat i))"

fun nat_of_string :: "nat \<Rightarrow> string \<Rightarrow> nat" where
  "nat_of_string acc [] = acc"
| "nat_of_string acc (c # cs) = nat_of_string (10 * acc + (ch c - 48)) cs"

lemma nat_of_string_append:
  "nat_of_string acc (xs @ ys) = nat_of_string (nat_of_string acc xs) ys"
  by (induction xs arbitrary: acc) auto

lemma string_of_nat_digits: "c \<in> set (string_of_nat n) \<Longrightarrow> is_digit c"
proof (induction n rule: string_of_nat.induct)
  case (1 n)
  show ?case
  proof (cases "n < 10")
    case True
    with "1.prems" show ?thesis
      by (subst (asm) string_of_nat.simps) (auto simp: is_digit_def)
  next
    case False
    with "1.prems" have "c \<in> set (string_of_nat (n div 10)) \<or> c = char_of (48 + n mod 10)"
      by (subst (asm) string_of_nat.simps) auto
    then show ?thesis
      using "1.IH" [OF False] by (auto simp: is_digit_def)
  qed
qed

lemma nat_of_string_of_nat: "nat_of_string 0 (string_of_nat n) = n"
proof (induction n rule: string_of_nat.induct)
  case (1 n)
  then show ?case
    by (subst string_of_nat.simps) (auto simp: nat_of_string_append)
qed

lemma string_of_nat_inject [simp]: "string_of_nat m = string_of_nat n \<longleftrightarrow> m = n"
  by (metis nat_of_string_of_nat)

lemma string_of_nat_not_Nil [simp]: "string_of_nat n \<noteq> []"
  by (subst string_of_nat.simps) auto

lemma minus_not_digit: "\<not> is_digit (CHR ''-'')"
  by (simp add: is_digit_def)

lemma string_of_int_inject [simp]: "string_of_int i = string_of_int j \<longleftrightarrow> i = j"
proof -
  have "CHR ''-'' # xs \<noteq> string_of_nat n" for xs n
    using string_of_nat_digits [of "CHR ''-''" n] minus_not_digit
    by (metis list.set_intros(1))
  then show ?thesis
    by (auto simp: string_of_int_def split: if_splits) metis+
qed

subsection \<open>Lists and sums\<close>

lemma sum_case_Inr: "(case x of Inl e \<Rightarrow> Inl (f e) | Inr r \<Rightarrow> g r) = Inr y \<longleftrightarrow> (\<exists>r. x = Inr r \<and> g r = Inr y)"
  by (cases x) auto

lemma filter_map_id:
  "(\<And>x. x \<in> set xs \<Longrightarrow> P x \<Longrightarrow> f x = x) \<Longrightarrow> (\<And>x. x \<in> set xs \<Longrightarrow> P (f x) = P x) \<Longrightarrow>
   filter P (map f xs) = filter P xs"
  by (induction xs) auto

lemma sort_key_eq_Nil [simp]: "sort_key f xs = [] \<longleftrightarrow> xs = []"
  by (metis length_0_conv length_sort)

lemma sort_key_hd_least:
  assumes "sort_key f xs = r # rs" and "x \<in> set xs"
  shows "f r \<le> f x"
proof -
  have "sorted (map f (r # rs))" using sorted_sort_key [of f xs] assms(1) by simp
  moreover have "x \<in> set (r # rs)" using assms by (metis set_sort)
  ultimately show ?thesis by auto
qed

lemma sort_key_hd_mem:
  assumes "sort_key f xs = r # rs"
  shows "r \<in> set xs"
  by (metis assms list.set_intros(1) set_sort)

lemma filter_key_sort: "filter (\<lambda>x. k = f x) (sort_key f xs) = filter (\<lambda>x. k = f x) xs"
  using sort_key_stable [of f k xs] by (simp add: eq_commute)

lemma sort_key_snoc_greatest:
  assumes "\<forall>x\<in>set xs. f x < f r"
  shows "sort_key f (xs @ [r]) = sort_key f xs @ [r]"
proof (rule properties_for_sort_key)
  show "mset (sort_key f xs @ [r]) = mset (xs @ [r])" by simp
  show "\<And>k. k \<in> set (sort_key f xs @ [r]) \<Longrightarrow>
      filter (\<lambda>x. f k = f x) (sort_key f xs @ [r]) = filter (\<lambda>x. f k = f x) (xs @ [r])"
    by (simp add: filter_key_sort)
  show "sorted (map f (sort_key f xs @ [r]))"
    using assms by (auto simp: sorted_append less_imp_le)
qed

lemma distinct_map_mset:
  assumes "mset xs = mset ys"
  shows "distinct (map f xs) \<longleftrightarrow> distinct (map f ys)"
proof -
  have "mset (map f xs) = mset (map f ys)"
    by (simp only: mset_map assms)
  then show ?thesis by (rule mset_eq_imp_distinct_iff)
qed

lemma sorted_unique_by_key:
  assumes "mset xs = mset ys" "distinct (map f xs)"
    and "sorted (map f xs)" "sorted (map f ys)"
  shows "xs = ys"
proof (rule map_sorted_distinct_set_unique)
  show "distinct (map f ys)"
    using distinct_map_mset [OF assms(1), of f] assms(2) by blast
  show "set xs = set ys"
    using assms(1) by (rule mset_eq_setD)
  then show "inj_on f (set xs \<union> set ys)"
    using assms(2) by (simp add: distinct_map)
qed (use assms in simp_all)

end
