(* ===== verification/Gorm.thy ===== *)
theory Gorm
  imports Prelude
begin

text \<open>
  The database interface. GORM and SQLite are not part of the repository, so a table is
  a record of operations the services are given (\<open>table\<close>), over an unknown type \<open>'d\<close>
  of database states. What the code relies on is the locale \<open>gorm_table\<close>: the documented
  effect of each call on the rows of the table, where any call may also fail and then
  changes nothing. The locale \<open>gorm_table_up\<close> adds that calls fail only where the data
  makes them fail. The in-memory table at the end satisfies both.

  \<open>base\<close> and \<open>BeforeCreate\<close> are \<open>models.Base\<close> of internal/db/models/models.go;
  every row type extends \<open>base\<close>. A \<open>Delete\<close> is GORM's soft delete: it sets
  \<open>DeletedAt\<close>, queries skip such rows, unique indexes do not; \<open>tScan\<close> is a query by
  table name, which does not skip them.
\<close>

record base =
  ID :: string
  CreatedAt :: int
  UpdatedAt :: int
  DeletedAt :: "int option"

definition BeforeCreate :: "string \<Rightarrow> 'a base_scheme \<Rightarrow> 'a base_scheme" where
  "BeforeCreate new b = (if ID b = [] then b\<lparr>ID := new\<rparr> else b)"

definition ErrRecordNotFound :: go_error where
  "ErrRecordNotFound = ErrNew ''record not found''"

definition live :: "'a base_scheme \<Rightarrow> bool" where
  "live r \<longleftrightarrow> DeletedAt r = None"

definition stamp :: "int \<Rightarrow> 'a base_scheme \<Rightarrow> 'a base_scheme" where
  "stamp now r = r\<lparr>CreatedAt := now, UpdatedAt := now\<rparr>"

lemma stamp_simps [simp]:
  "ID (stamp now r) = ID r" "CreatedAt (stamp now r) = now" "UpdatedAt (stamp now r) = now"
  "DeletedAt (stamp now r) = DeletedAt r" "base.more (stamp now r) = base.more r"
  by (simp_all add: stamp_def)

lemma BeforeCreate_simps [simp]:
  "CreatedAt (BeforeCreate new r) = CreatedAt r" "UpdatedAt (BeforeCreate new r) = UpdatedAt r"
  "DeletedAt (BeforeCreate new r) = DeletedAt r" "base.more (BeforeCreate new r) = base.more r"
  by (simp_all add: BeforeCreate_def)

subsection \<open>What the statements mean on a list of rows\<close>

definition sel :: "('a base_scheme \<Rightarrow> bool) \<Rightarrow> 'a base_scheme list \<Rightarrow> 'a base_scheme list" where
  "sel p rows = filter (\<lambda>r. live r \<and> p r) rows"

definition first_row :: "('a base_scheme \<Rightarrow> bool) \<Rightarrow> 'a base_scheme list \<Rightarrow> 'a base_scheme option" where
  "first_row p rows = (case sort_key ID (sel p rows) of [] \<Rightarrow> None | r # _ \<Rightarrow> Some r)"

definition save_row :: "int \<Rightarrow> 'a base_scheme \<Rightarrow> 'a base_scheme list \<Rightarrow> 'a base_scheme list" where
  "save_row now r rows = map (\<lambda>x. if live x \<and> ID x = ID r then r\<lparr>UpdatedAt := now\<rparr> else x) rows"

definition upd_rows :: "int \<Rightarrow> ('a base_scheme \<Rightarrow> bool) \<Rightarrow> ('a base_scheme \<Rightarrow> 'a base_scheme) \<Rightarrow>
    'a base_scheme list \<Rightarrow> 'a base_scheme list" where
  "upd_rows now p f rows = map (\<lambda>x. if live x \<and> p x then (f x)\<lparr>UpdatedAt := now\<rparr> else x) rows"

definition del_rows :: "int \<Rightarrow> ('a base_scheme \<Rightarrow> bool) \<Rightarrow> 'a base_scheme list \<Rightarrow> 'a base_scheme list" where
  "del_rows now p rows = map (\<lambda>x. if live x \<and> p x then x\<lparr>DeletedAt := Some now\<rparr> else x) rows"

definition purge_rows :: "('a base_scheme \<Rightarrow> bool) \<Rightarrow> 'a base_scheme list \<Rightarrow> 'a base_scheme list" where
  "purge_rows p rows = filter (\<lambda>x. \<not> p x) rows"

definition total_preorder :: "('r \<Rightarrow> 'r \<Rightarrow> bool) \<Rightarrow> bool" where
  "total_preorder ord \<longleftrightarrow> (\<forall>x y. ord x y \<or> ord y x) \<and> (\<forall>x y z. ord x y \<longrightarrow> ord y z \<longrightarrow> ord x z)"

lemma in_sel [simp]: "r \<in> set (sel p rows) \<longleftrightarrow> r \<in> set rows \<and> live r \<and> p r"
  by (auto simp: sel_def)

lemma sel_append [simp]: "sel p (xs @ ys) = sel p xs @ sel p ys"
  by (simp add: sel_def)

lemma first_row_Some:
  assumes "first_row p rows = Some r"
  shows "r \<in> set rows" "live r" "p r"
proof -
  obtain rs where "sort_key ID (sel p rows) = r # rs"
    using assms by (auto simp: first_row_def split: list.splits)
  then have "r \<in> set (sel p rows)" by (rule sort_key_hd_mem)
  then show "r \<in> set rows" "live r" "p r" by auto
qed

lemma first_row_None: "first_row p rows = None \<longleftrightarrow> (\<forall>r\<in>set rows. live r \<longrightarrow> \<not> p r)"
proof -
  have "first_row p rows = None \<longleftrightarrow> sel p rows = []"
    by (auto simp: first_row_def split: list.splits)
  then show ?thesis by (auto simp: sel_def filter_empty_conv)
qed

lemma first_row_least:
  assumes "first_row p rows = Some r" and "x \<in> set rows" "live x" "p x"
  shows "ID r \<le> ID x"
proof -
  obtain rs where "sort_key ID (sel p rows) = r # rs"
    using assms(1) by (auto simp: first_row_def split: list.splits)
  then show ?thesis
    by (rule sort_key_hd_least) (simp add: assms)
qed

lemma first_row_Nil [simp]: "first_row p [] = None"
  by (simp add: first_row_def sel_def)

lemma first_row_unique:
  assumes "r \<in> set rows" "live r" "p r"
    and "\<And>x. x \<in> set rows \<Longrightarrow> live x \<Longrightarrow> p x \<Longrightarrow> x = r"
  shows "first_row p rows = Some r"
proof (cases "first_row p rows")
  case None
  with assms(1-3) show ?thesis by (simp add: first_row_None)
next
  case (Some x)
  with assms(4) [OF first_row_Some [OF Some]] show ?thesis by simp
qed

lemma live_stamp [simp]: "live (stamp now r) = live r"
  by (simp add: live_def)

lemma sel_del_rows [simp]: "sel q (del_rows now p rows) = sel (\<lambda>r. q r \<and> \<not> p r) rows"
  by (induction rows) (auto simp: sel_def del_rows_def live_def)

lemma first_row_del_rows [simp]: "first_row q (del_rows now p rows) = first_row (\<lambda>r. q r \<and> \<not> p r) rows"
  by (simp add: first_row_def)

lemma length_rows_simps [simp]:
  "length (del_rows now p rows) = length rows" "length (save_row now r rows) = length rows"
  "length (upd_rows now p f rows) = length rows"
  by (simp_all add: del_rows_def save_row_def upd_rows_def)

text \<open>IDs identify rows.\<close>

definition ids_ok :: "'a base_scheme list \<Rightarrow> bool" where
  "ids_ok rows \<longleftrightarrow> distinct (map ID rows)"

lemma ids_ok_unique: "ids_ok rows \<Longrightarrow> r \<in> set rows \<Longrightarrow> x \<in> set rows \<Longrightarrow> ID x = ID r \<Longrightarrow> x = r"
  by (auto simp: ids_ok_def distinct_map inj_on_def)

lemma ids_ok_save_row [simp]: "ids_ok (save_row now r rows) = ids_ok rows"
proof -
  have "map ID (save_row now r rows) = map ID rows"
    by (induction rows) (auto simp: save_row_def)
  then show ?thesis by (simp add: ids_ok_def)
qed

lemma ids_ok_del_rows [simp]: "ids_ok (del_rows now p rows) = ids_ok rows"
proof -
  have "map ID (del_rows now p rows) = map ID rows"
    by (induction rows) (auto simp: del_rows_def)
  then show ?thesis by (simp add: ids_ok_def)
qed

lemma ids_ok_upd_rows [simp]:
  "(\<And>x. ID (f x) = ID x) \<Longrightarrow> ids_ok (upd_rows now p f rows) = ids_ok rows"
proof -
  assume "\<And>x. ID (f x) = ID x"
  then have "map ID (upd_rows now p f rows) = map ID rows"
    by (induction rows) (auto simp: upd_rows_def)
  then show ?thesis by (simp add: ids_ok_def)
qed

text \<open>With distinct IDs, \<open>First\<close> is the matching row of the least ID.\<close>

lemma first_rowI:
  assumes "ids_ok rows" "r \<in> set rows" "live r" "p r"
    and "\<And>x. x \<in> set rows \<Longrightarrow> live x \<Longrightarrow> p x \<Longrightarrow> ID r \<le> ID x"
  shows "first_row p rows = Some r"
proof (cases "first_row p rows")
  case None
  with assms(2-4) show ?thesis by (simp add: first_row_None)
next
  case (Some x)
  have "ID r \<le> ID x" using assms(5) first_row_Some [OF Some] by blast
  moreover have "ID x \<le> ID r" using first_row_least [OF Some assms(2-4)] .
  ultimately have "x = r"
    using ids_ok_unique [OF assms(1,2), of x] first_row_Some [OF Some] by simp
  with Some show ?thesis by simp
qed

lemma in_save_row:
  "x \<in> set (save_row now r rows) \<longleftrightarrow>
     (x = r\<lparr>UpdatedAt := now\<rparr> \<and> (\<exists>y\<in>set rows. live y \<and> ID y = ID r)) \<or>
     (x \<in> set rows \<and> \<not> (live x \<and> ID x = ID r))"
  by (auto simp: save_row_def)

lemma first_row_save:
  assumes "ids_ok rows" "first_row p rows = Some r"
    and "ID r' = ID r" "live r'" "p (r'\<lparr>UpdatedAt := now\<rparr>)"
  shows "first_row p (save_row now r' rows) = Some (r'\<lparr>UpdatedAt := now\<rparr>)"
proof (rule first_rowI)
  note r = first_row_Some [OF assms(2)]
  show "r'\<lparr>UpdatedAt := now\<rparr> \<in> set (save_row now r' rows)"
    using r assms(3) by (auto simp: in_save_row)
  show "ID (r'\<lparr>UpdatedAt := now\<rparr>) \<le> ID x" if "x \<in> set (save_row now r' rows)" "live x" "p x" for x
    using that first_row_least [OF assms(2), of x] assms(3) by (auto simp: in_save_row)
qed (use assms in \<open>simp_all add: live_def\<close>)

subsection \<open>Table operations\<close>

record ('d, 'r) table =
  tFirst :: "('r \<Rightarrow> bool) \<Rightarrow> 'd \<Rightarrow> go_error + 'r"
  tFind :: "('r \<Rightarrow> bool) \<Rightarrow> ('r \<Rightarrow> 'r \<Rightarrow> bool) \<Rightarrow> 'd \<Rightarrow> go_error + 'r list"
  tCount :: "('r \<Rightarrow> bool) \<Rightarrow> 'd \<Rightarrow> go_error + nat"
  tScan :: "('r \<Rightarrow> bool) \<Rightarrow> 'd \<Rightarrow> go_error + 'r list"
  tCreate :: "int \<Rightarrow> 'r \<Rightarrow> 'd \<Rightarrow> (go_error + 'r) \<times> 'd"
  tSave :: "int \<Rightarrow> 'r \<Rightarrow> 'd \<Rightarrow> go_error option \<times> 'd"
  tUpdates :: "int \<Rightarrow> ('r \<Rightarrow> bool) \<Rightarrow> ('r \<Rightarrow> 'r) \<Rightarrow> 'd \<Rightarrow> (go_error + nat) \<times> 'd"
  tDelete :: "int \<Rightarrow> ('r \<Rightarrow> bool) \<Rightarrow> 'd \<Rightarrow> (go_error + nat) \<times> 'd"
  tPurge :: "('r \<Rightarrow> bool) \<Rightarrow> 'd \<Rightarrow> (go_error + nat) \<times> 'd"

text \<open>
  The laws. \<open>view\<close> reads the tables of a database state, \<open>get\<close> and \<open>put\<close> pick this
  table's rows, \<open>dflt\<close> fills in the \<open>default:\<close> tags of the model, \<open>clash\<close> holds of
  two rows a unique index forbids together.
\<close>

locale gorm_table =
  fixes T :: "('d, 'a base_scheme) table"
    and view :: "'d \<Rightarrow> 'v"
    and get :: "'v \<Rightarrow> 'a base_scheme list"
    and put :: "'a base_scheme list \<Rightarrow> 'v \<Rightarrow> 'v"
    and dflt :: "'a base_scheme \<Rightarrow> 'a base_scheme"
    and clash :: "'a base_scheme \<Rightarrow> 'a base_scheme \<Rightarrow> bool"
  assumes first_ok: "tFirst T p d = Inr r \<Longrightarrow> first_row p (get (view d)) = Some r"
    and first_missing: "tFirst T p d = Inl e \<Longrightarrow> errors_Is e ErrRecordNotFound \<Longrightarrow>
          first_row p (get (view d)) = None"
    and find_ok: "tFind T p ord d = Inr rs \<Longrightarrow> mset rs = mset (sel p (get (view d)))"
    and find_sorted: "tFind T p ord d = Inr rs \<Longrightarrow> total_preorder ord \<Longrightarrow> sorted_wrt ord rs"
    and count_ok: "tCount T p d = Inr n \<Longrightarrow> n = length (sel p (get (view d)))"
    and scan_ok: "tScan T p d = Inr rs \<Longrightarrow> mset rs = mset (filter p (get (view d)))"
    and create_ok: "tCreate T now r d = (Inr r', d') \<Longrightarrow>
          r' = stamp now (dflt r) \<and> (\<forall>x\<in>set (get (view d)). \<not> clash x r') \<and>
          view d' = put (get (view d) @ [r']) (view d)"
    and create_fail: "tCreate T now r d = (Inl e, d') \<Longrightarrow> view d' = view d"
    and save_ok: "tSave T now r d = (None, d') \<Longrightarrow> first_row (\<lambda>x. ID x = ID r) (get (view d)) \<noteq> None \<Longrightarrow>
          view d' = put (save_row now r (get (view d))) (view d)"
    and save_unique: "tSave T now r d = (None, d') \<Longrightarrow> first_row (\<lambda>x. ID x = ID r) (get (view d)) \<noteq> None \<Longrightarrow>
          x \<in> set (get (view d)) \<Longrightarrow> ID x \<noteq> ID r \<Longrightarrow> \<not> clash x r"
    and save_fail: "tSave T now r d = (Some e, d') \<Longrightarrow> view d' = view d"
    and updates_ok: "tUpdates T now p f d = (Inr n, d') \<Longrightarrow>
          n = length (sel p (get (view d))) \<and> view d' = put (upd_rows now p f (get (view d))) (view d)"
    and updates_fail: "tUpdates T now p f d = (Inl e, d') \<Longrightarrow> view d' = view d"
    and delete_ok: "tDelete T now p d = (Inr n, d') \<Longrightarrow>
          n = length (sel p (get (view d))) \<and> view d' = put (del_rows now p (get (view d))) (view d)"
    and delete_fail: "tDelete T now p d = (Inl e, d') \<Longrightarrow> view d' = view d"
    and purge_ok: "tPurge T p d = (Inr n, d') \<Longrightarrow> view d' = put (purge_rows p (get (view d))) (view d)"
    and purge_fail: "tPurge T p d = (Inl e, d') \<Longrightarrow> view d' = view d"
begin

lemma first_mem:
  assumes "tFirst T p d = Inr r"
  shows "r \<in> set (get (view d))" "live r" "p r"
  using first_row_Some [OF first_ok [OF assms]] by auto

lemma first_none:
  assumes "tFirst T p d = Inl e" "errors_Is e ErrRecordNotFound" "r \<in> set (get (view d))" "live r"
  shows "\<not> p r"
  using first_missing [OF assms(1,2)] assms(3,4) by (auto simp: first_row_None)

lemma find_mem: "tFind T p ord d = Inr rs \<Longrightarrow> r \<in> set rs \<longleftrightarrow> r \<in> set (get (view d)) \<and> live r \<and> p r"
  using find_ok [of p ord d rs] by (metis in_sel set_mset_mset)

lemma scan_mem: "tScan T p d = Inr rs \<Longrightarrow> r \<in> set rs \<longleftrightarrow> r \<in> set (get (view d)) \<and> p r"
  using mset_eq_setD [OF scan_ok [of p d rs]] by auto

lemma create_rows: "tCreate T now r d = (res, d') \<Longrightarrow>
    view d' = view d \<or> (\<exists>r'. res = Inr r' \<and> view d' = put (get (view d) @ [r']) (view d))"
  using create_ok [of now r d _ d'] create_fail [of now r d _ d'] by (cases res) auto

end

locale gorm_table_up = gorm_table T view get put dflt clash
  for T :: "('d, 'a base_scheme) table" and view :: "'d \<Rightarrow> 'v" and get put dflt clash +
  assumes first_up: "tFirst T p d =
            (case first_row p (get (view d)) of None \<Rightarrow> Inl ErrRecordNotFound | Some r \<Rightarrow> Inr r)"
    and find_up: "\<exists>rs. tFind T p ord d = Inr rs"
    and count_up: "\<exists>n. tCount T p d = Inr n"
    and scan_up: "\<exists>rs. tScan T p d = Inr rs"
    and create_up: "(\<forall>x\<in>set (get (view d)). \<not> clash x (stamp now (dflt r))) \<Longrightarrow>
            \<exists>r' d'. tCreate T now r d = (Inr r', d')"
    and save_up: "(\<forall>x\<in>set (get (view d)). ID x \<noteq> ID r \<longrightarrow> \<not> clash x r) \<Longrightarrow>
            \<exists>d'. tSave T now r d = (None, d')"
    and updates_up: "\<exists>n d'. tUpdates T now p f d = (Inr n, d')"
    and delete_up: "\<exists>n d'. tDelete T now p d = (Inr n, d')"
    and purge_up: "\<exists>n d'. tPurge T p d = (Inr n, d')"

subsection \<open>A table held in memory\<close>

fun insert_by :: "('r \<Rightarrow> 'r \<Rightarrow> bool) \<Rightarrow> 'r \<Rightarrow> 'r list \<Rightarrow> 'r list" where
  "insert_by ord x [] = [x]"
| "insert_by ord x (y # ys) = (if ord x y then x # y # ys else y # insert_by ord x ys)"

definition sort_by :: "('r \<Rightarrow> 'r \<Rightarrow> bool) \<Rightarrow> 'r list \<Rightarrow> 'r list" where
  "sort_by ord xs = foldr (insert_by ord) xs []"

lemma mset_insert_by [simp]: "mset (insert_by ord x ys) = add_mset x (mset ys)"
  by (induction ys) auto

lemma mset_sort_by [simp]: "mset (sort_by ord xs) = mset xs"
  by (induction xs) (auto simp: sort_by_def)

lemma sorted_insert_by:
  assumes "total_preorder ord"
  shows "sorted_wrt ord ys \<Longrightarrow> sorted_wrt ord (insert_by ord x ys)"
proof (induction ys)
  case (Cons y ys)
  have "set (insert_by ord x ys) = insert x (set ys)"
    by (metis mset_insert_by set_mset_add_mset_insert set_mset_mset)
  with Cons assms show ?case
    unfolding total_preorder_def by (auto; blast)
qed auto

lemma sorted_sort_by: "total_preorder ord \<Longrightarrow> sorted_wrt ord (sort_by ord xs)"
  by (induction xs) (auto simp: sort_by_def sorted_insert_by)

definition ErrUnique :: go_error where
  "ErrUnique = ErrNew ''UNIQUE constraint failed''"

definition mem_table :: "('v \<Rightarrow> 'a base_scheme list) \<Rightarrow> ('a base_scheme list \<Rightarrow> 'v \<Rightarrow> 'v) \<Rightarrow>
    ('a base_scheme \<Rightarrow> 'a base_scheme) \<Rightarrow> ('a base_scheme \<Rightarrow> 'a base_scheme \<Rightarrow> bool) \<Rightarrow>
    ('v, 'a base_scheme) table" where
  "mem_table get put dflt clash =
     \<lparr>tFirst = (\<lambda>p d. case first_row p (get d) of None \<Rightarrow> Inl ErrRecordNotFound | Some r \<Rightarrow> Inr r),
      tFind = (\<lambda>p ord d. Inr (sort_by ord (sel p (get d)))),
      tCount = (\<lambda>p d. Inr (length (sel p (get d)))),
      tScan = (\<lambda>p d. Inr (filter p (get d))),
      tCreate = (\<lambda>now r d.
         let r' = stamp now (dflt r)
         in if list_ex (\<lambda>x. clash x r') (get d) then (Inl ErrUnique, d)
            else (Inr r', put (get d @ [r']) d)),
      tSave = (\<lambda>now r d.
         if list_ex (\<lambda>x. ID x \<noteq> ID r \<and> clash x r) (get d) then (Some ErrUnique, d)
         else (None, put (save_row now r (get d)) d)),
      tUpdates = (\<lambda>now p f d. (Inr (length (sel p (get d))), put (upd_rows now p f (get d)) d)),
      tDelete = (\<lambda>now p d. (Inr (length (sel p (get d))), put (del_rows now p (get d)) d)),
      tPurge = (\<lambda>p d. (Inr (length (filter p (get d))), put (purge_rows p (get d)) d))\<rparr>"

lemma ErrUnique_not_missing [simp]: "\<not> errors_Is ErrUnique ErrRecordNotFound"
  by (simp add: ErrUnique_def ErrRecordNotFound_def)

lemma mem_table_laws: "gorm_table_up (mem_table get put dflt clash) (\<lambda>d. d) get put dflt clash"
  by unfold_locales
    (auto simp: mem_table_def Let_def list_ex_iff sorted_sort_by split: option.splits if_splits)

interpretation mem_table: gorm_table_up "mem_table get put dflt clash" "\<lambda>d. d" get put dflt clash
  for get put dflt clash
  by (rule mem_table_laws)

end
