(* ===== verification/Models.thy ===== *)
theory Models
  imports Gorm
begin

text \<open>
  The data models of internal/db/models/models.go: one record per table, extending
  \<open>base\<close>, with the defaults its \<open>default:\<close> tags give a zero field on insert and the
  pairs of rows its unique indexes forbid; the whole database as one record of row lists;
  the database handle as a record of tables with transactions.

  A Go \<open>int\<close> is an \<^typ>\<open>int\<close>, a \<open>time.Time\<close> an \<^typ>\<open>int\<close> of nanoseconds since
  1970-01-01 UTC, a nil-able pointer an \<open>option\<close>.
\<close>

named_theorems model_defaults \<open>definitions of the column defaults\<close>
named_theorems model_clash \<open>definitions of the unique indexes\<close>

record tenant = base +
  t_Name :: string
  t_Slug :: string
  t_Type :: string
  t_Status :: string

definition tenant_defaults :: "tenant \<Rightarrow> tenant" where
  "tenant_defaults x = x\<lparr>t_Type := (if t_Type x = [] then ''admin'' else t_Type x),
       t_Status := (if t_Status x = [] then ''active'' else t_Status x)\<rparr>"

definition tenant_clash :: "tenant \<Rightarrow> tenant \<Rightarrow> bool" where
  "tenant_clash x y \<longleftrightarrow> ID x = ID y \<or> t_Slug x = t_Slug y"

record user = base +
  u_Email :: string
  u_PasswordHash :: string
  u_Role :: string
  u_TenantID :: string
  u_AccountID :: string
  u_TOTPSecret :: string
  u_TOTPEnabled :: bool
  u_FailedLogins :: int
  u_LockedUntil :: "int option"
  u_LastLoginAt :: "int option"
  u_LastLoginIP :: string
  u_Status :: string

definition user_defaults :: "user \<Rightarrow> user" where
  "user_defaults x = x\<lparr>u_Role := (if u_Role x = [] then ''account_owner'' else u_Role x),
       u_Status := (if u_Status x = [] then ''active'' else u_Status x)\<rparr>"

definition user_clash :: "user \<Rightarrow> user \<Rightarrow> bool" where
  "user_clash x y \<longleftrightarrow> ID x = ID y \<or> u_Email x = u_Email y"

record user_session = base +
  s_UserID :: string
  s_SessionID :: string
  s_RefreshHash :: string
  s_UserAgent :: string
  s_IP :: string
  s_ExpiresAt :: int
  s_RevokedAt :: "int option"
  s_RevokeReason :: string

definition user_session_defaults :: "user_session \<Rightarrow> user_session" where
  "user_session_defaults x = x"

definition user_session_clash :: "user_session \<Rightarrow> user_session \<Rightarrow> bool" where
  "user_session_clash x y \<longleftrightarrow> ID x = ID y \<or> s_SessionID x = s_SessionID y"

record account = base +
  ac_Username :: string
  ac_Domain :: string
  ac_TenantID :: string
  ac_Plan :: string
  ac_DiskQuotaMB :: int
  ac_BandwidthGB :: int
  ac_BandwidthUsedGB :: int
  ac_DiskUsedMB :: int
  ac_Status :: string

definition account_defaults :: "account \<Rightarrow> account" where
  "account_defaults x = x\<lparr>ac_Plan := (if ac_Plan x = [] then ''basic'' else ac_Plan x),
       ac_DiskQuotaMB := (if ac_DiskQuotaMB x = 0 then 10240 else ac_DiskQuotaMB x),
       ac_BandwidthGB := (if ac_BandwidthGB x = 0 then 100 else ac_BandwidthGB x),
       ac_Status := (if ac_Status x = [] then ''active'' else ac_Status x)\<rparr>"

definition account_clash :: "account \<Rightarrow> account \<Rightarrow> bool" where
  "account_clash x y \<longleftrightarrow> ID x = ID y \<or> ac_Username x = ac_Username y \<or> ac_Domain x = ac_Domain y"

record audit_entry = base +
  ae_Timestamp :: int
  ae_UserID :: string
  ae_UserEmail :: string
  ae_UserRole :: string
  ae_ActorIP :: string
  ae_SessionID :: string
  ae_Action :: string
  ae_ResourceType :: string
  ae_ResourceID :: string
  ae_ResourceName :: string
  ae_Result :: string
  ae_DurationMS :: int
  ae_Detail :: string
  ae_PrevHash :: string
  ae_Hash :: string

definition audit_entry_defaults :: "audit_entry \<Rightarrow> audit_entry" where
  "audit_entry_defaults x = x"

definition audit_entry_clash :: "audit_entry \<Rightarrow> audit_entry \<Rightarrow> bool" where
  "audit_entry_clash x y \<longleftrightarrow> ID x = ID y \<or> ae_Hash x = ae_Hash y"

record api_key = base +
  k_TenantID :: string
  k_CreatedByID :: string
  k_Name :: string
  k_KeyHash :: string
  k_Prefix :: string
  k_Role :: string
  k_Scopes :: string
  k_ExpiresAt :: "int option"
  k_LastUsedAt :: "int option"
  k_LastUsedIP :: string
  k_RevokedAt :: "int option"
  k_RevokeReason :: string

definition api_key_defaults :: "api_key \<Rightarrow> api_key" where
  "api_key_defaults x = x"

definition api_key_clash :: "api_key \<Rightarrow> api_key \<Rightarrow> bool" where
  "api_key_clash x y \<longleftrightarrow> ID x = ID y \<or> k_KeyHash x = k_KeyHash y"

record custom_role = base +
  r_TenantID :: string
  r_Name :: string
  r_Permissions :: string
  r_IsBuiltin :: bool
  r_Description :: string

definition custom_role_defaults :: "custom_role \<Rightarrow> custom_role" where
  "custom_role_defaults x = x"

definition custom_role_clash :: "custom_role \<Rightarrow> custom_role \<Rightarrow> bool" where
  "custom_role_clash x y \<longleftrightarrow> ID x = ID y \<or> r_Name x = r_Name y"

record secret = base +
  sec_TenantID :: string
  sec_Name :: string
  sec_Ciphertext :: string
  sec_Version :: int
  sec_CreatedByID :: string
  sec_RotatedAt :: "int option"
  sec_RotatedByID :: "string option"

definition secret_defaults :: "secret \<Rightarrow> secret" where
  "secret_defaults x = x\<lparr>sec_Version := (if sec_Version x = 0 then 1 else sec_Version x)\<rparr>"

definition secret_clash :: "secret \<Rightarrow> secret \<Rightarrow> bool" where
  "secret_clash x y \<longleftrightarrow> ID x = ID y \<or> (sec_TenantID x = sec_TenantID y \<and> sec_Name x = sec_Name y)"

record tenant_quota = base +
  q_TenantID :: string
  q_MaxAccounts :: int
  q_MaxUsers :: int
  q_MaxDomains :: int
  q_MaxStorageMB :: int
  q_MaxBandwidthGB :: int
  q_MaxAPIKeys :: int
  q_MaxCustomRoles :: int
  q_MaxSecrets :: int

definition tenant_quota_defaults :: "tenant_quota \<Rightarrow> tenant_quota" where
  "tenant_quota_defaults x = x"

definition tenant_quota_clash :: "tenant_quota \<Rightarrow> tenant_quota \<Rightarrow> bool" where
  "tenant_quota_clash x y \<longleftrightarrow> ID x = ID y \<or> q_TenantID x = q_TenantID y"

record license_store = base +
  ls_KeyID :: string
  ls_Ciphertext :: string
  ls_ParsedTier :: string
  ls_ParsedExpiresAt :: int
  ls_ParsedIssuedAt :: int
  ls_UploadedByID :: string
  ls_UploadedAt :: int

definition license_store_defaults :: "license_store \<Rightarrow> license_store" where
  "license_store_defaults x = x\<lparr>ls_KeyID := (if ls_KeyID x = [] then ''singleton'' else ls_KeyID x)\<rparr>"

definition license_store_clash :: "license_store \<Rightarrow> license_store \<Rightarrow> bool" where
  "license_store_clash x y \<longleftrightarrow> ID x = ID y \<or> ls_KeyID x = ls_KeyID y"

record dns_zone = base +
  z_AccountID :: string
  z_TenantID :: string
  z_Domain :: string
  z_Type :: string
  z_Masters :: string
  z_SoaRefresh :: int
  z_SoaRetry :: int
  z_SoaExpire :: int
  z_SoaMinimum :: int
  z_Status :: string

definition dns_zone_defaults :: "dns_zone \<Rightarrow> dns_zone" where
  "dns_zone_defaults x = x\<lparr>z_Type := (if z_Type x = [] then ''native'' else z_Type x),
       z_SoaRefresh := (if z_SoaRefresh x = 0 then 10800 else z_SoaRefresh x),
       z_SoaRetry := (if z_SoaRetry x = 0 then 7200 else z_SoaRetry x),
       z_SoaExpire := (if z_SoaExpire x = 0 then 604800 else z_SoaExpire x),
       z_SoaMinimum := (if z_SoaMinimum x = 0 then 3600 else z_SoaMinimum x),
       z_Status := (if z_Status x = [] then ''active'' else z_Status x)\<rparr>"

definition dns_zone_clash :: "dns_zone \<Rightarrow> dns_zone \<Rightarrow> bool" where
  "dns_zone_clash x y \<longleftrightarrow> ID x = ID y \<or> z_Domain x = z_Domain y"

record dns_record = base +
  rr_ZoneID :: string
  rr_Name :: string
  rr_Type :: string
  rr_Content :: string
  rr_TTL :: int
  rr_Priority :: int
  rr_Disabled :: bool

definition dns_record_defaults :: "dns_record \<Rightarrow> dns_record" where
  "dns_record_defaults x = x\<lparr>rr_TTL := (if rr_TTL x = 0 then 3600 else rr_TTL x)\<rparr>"

definition dns_record_clash :: "dns_record \<Rightarrow> dns_record \<Rightarrow> bool" where
  "dns_record_clash x y \<longleftrightarrow> ID x = ID y"

record dns_zone_template = base +
  tp_TenantID :: string
  tp_Name :: string
  tp_Description :: string
  tp_Records :: string

definition dns_zone_template_defaults :: "dns_zone_template \<Rightarrow> dns_zone_template" where
  "dns_zone_template_defaults x = x"

definition dns_zone_template_clash :: "dns_zone_template \<Rightarrow> dns_zone_template \<Rightarrow> bool" where
  "dns_zone_template_clash x y \<longleftrightarrow> ID x = ID y \<or> tp_Name x = tp_Name y"

lemmas all_defaults [model_defaults] =
  tenant_defaults_def
  user_defaults_def
  user_session_defaults_def
  account_defaults_def
  audit_entry_defaults_def
  api_key_defaults_def
  custom_role_defaults_def
  secret_defaults_def
  tenant_quota_defaults_def
  license_store_defaults_def
  dns_zone_defaults_def
  dns_record_defaults_def
  dns_zone_template_defaults_def

lemmas all_clash [model_clash] =
  tenant_clash_def
  user_clash_def
  user_session_clash_def
  account_clash_def
  audit_entry_clash_def
  api_key_clash_def
  custom_role_clash_def
  secret_clash_def
  tenant_quota_clash_def
  license_store_clash_def
  dns_zone_clash_def
  dns_record_clash_def
  dns_zone_template_clash_def

lemma tenant_defaults_simps [simp]:
  "ID (tenant_defaults x) = ID x"
  "DeletedAt (tenant_defaults x) = DeletedAt x"
  "t_Name (tenant_defaults x) = t_Name x"
  "t_Slug (tenant_defaults x) = t_Slug x"
  by (simp_all add: tenant_defaults_def)

lemma tenant_stamp_simps [simp]:
  "t_Name (stamp now x) = t_Name x"
  "t_Slug (stamp now x) = t_Slug x"
  "t_Type (stamp now x) = t_Type x"
  "t_Status (stamp now x) = t_Status x"
  by (simp_all add: stamp_def)

lemma tenant_BeforeCreate_simps [simp]:
  "t_Name (BeforeCreate new x) = t_Name x"
  "t_Slug (BeforeCreate new x) = t_Slug x"
  "t_Type (BeforeCreate new x) = t_Type x"
  "t_Status (BeforeCreate new x) = t_Status x"
  by (simp_all add: BeforeCreate_def)

lemma user_defaults_simps [simp]:
  "ID (user_defaults x) = ID x"
  "DeletedAt (user_defaults x) = DeletedAt x"
  "u_Email (user_defaults x) = u_Email x"
  "u_PasswordHash (user_defaults x) = u_PasswordHash x"
  "u_TenantID (user_defaults x) = u_TenantID x"
  "u_AccountID (user_defaults x) = u_AccountID x"
  "u_TOTPSecret (user_defaults x) = u_TOTPSecret x"
  "u_TOTPEnabled (user_defaults x) = u_TOTPEnabled x"
  "u_FailedLogins (user_defaults x) = u_FailedLogins x"
  "u_LockedUntil (user_defaults x) = u_LockedUntil x"
  "u_LastLoginAt (user_defaults x) = u_LastLoginAt x"
  "u_LastLoginIP (user_defaults x) = u_LastLoginIP x"
  by (simp_all add: user_defaults_def)

lemma user_stamp_simps [simp]:
  "u_Email (stamp now x) = u_Email x"
  "u_PasswordHash (stamp now x) = u_PasswordHash x"
  "u_Role (stamp now x) = u_Role x"
  "u_TenantID (stamp now x) = u_TenantID x"
  "u_AccountID (stamp now x) = u_AccountID x"
  "u_TOTPSecret (stamp now x) = u_TOTPSecret x"
  "u_TOTPEnabled (stamp now x) = u_TOTPEnabled x"
  "u_FailedLogins (stamp now x) = u_FailedLogins x"
  "u_LockedUntil (stamp now x) = u_LockedUntil x"
  "u_LastLoginAt (stamp now x) = u_LastLoginAt x"
  "u_LastLoginIP (stamp now x) = u_LastLoginIP x"
  "u_Status (stamp now x) = u_Status x"
  by (simp_all add: stamp_def)

lemma user_BeforeCreate_simps [simp]:
  "u_Email (BeforeCreate new x) = u_Email x"
  "u_PasswordHash (BeforeCreate new x) = u_PasswordHash x"
  "u_Role (BeforeCreate new x) = u_Role x"
  "u_TenantID (BeforeCreate new x) = u_TenantID x"
  "u_AccountID (BeforeCreate new x) = u_AccountID x"
  "u_TOTPSecret (BeforeCreate new x) = u_TOTPSecret x"
  "u_TOTPEnabled (BeforeCreate new x) = u_TOTPEnabled x"
  "u_FailedLogins (BeforeCreate new x) = u_FailedLogins x"
  "u_LockedUntil (BeforeCreate new x) = u_LockedUntil x"
  "u_LastLoginAt (BeforeCreate new x) = u_LastLoginAt x"
  "u_LastLoginIP (BeforeCreate new x) = u_LastLoginIP x"
  "u_Status (BeforeCreate new x) = u_Status x"
  by (simp_all add: BeforeCreate_def)

lemma user_session_defaults_simps [simp]:
  "ID (user_session_defaults x) = ID x"
  "DeletedAt (user_session_defaults x) = DeletedAt x"
  "s_UserID (user_session_defaults x) = s_UserID x"
  "s_SessionID (user_session_defaults x) = s_SessionID x"
  "s_RefreshHash (user_session_defaults x) = s_RefreshHash x"
  "s_UserAgent (user_session_defaults x) = s_UserAgent x"
  "s_IP (user_session_defaults x) = s_IP x"
  "s_ExpiresAt (user_session_defaults x) = s_ExpiresAt x"
  "s_RevokedAt (user_session_defaults x) = s_RevokedAt x"
  "s_RevokeReason (user_session_defaults x) = s_RevokeReason x"
  by (simp_all add: user_session_defaults_def)

lemma user_session_stamp_simps [simp]:
  "s_UserID (stamp now x) = s_UserID x"
  "s_SessionID (stamp now x) = s_SessionID x"
  "s_RefreshHash (stamp now x) = s_RefreshHash x"
  "s_UserAgent (stamp now x) = s_UserAgent x"
  "s_IP (stamp now x) = s_IP x"
  "s_ExpiresAt (stamp now x) = s_ExpiresAt x"
  "s_RevokedAt (stamp now x) = s_RevokedAt x"
  "s_RevokeReason (stamp now x) = s_RevokeReason x"
  by (simp_all add: stamp_def)

lemma user_session_BeforeCreate_simps [simp]:
  "s_UserID (BeforeCreate new x) = s_UserID x"
  "s_SessionID (BeforeCreate new x) = s_SessionID x"
  "s_RefreshHash (BeforeCreate new x) = s_RefreshHash x"
  "s_UserAgent (BeforeCreate new x) = s_UserAgent x"
  "s_IP (BeforeCreate new x) = s_IP x"
  "s_ExpiresAt (BeforeCreate new x) = s_ExpiresAt x"
  "s_RevokedAt (BeforeCreate new x) = s_RevokedAt x"
  "s_RevokeReason (BeforeCreate new x) = s_RevokeReason x"
  by (simp_all add: BeforeCreate_def)

lemma account_defaults_simps [simp]:
  "ID (account_defaults x) = ID x"
  "DeletedAt (account_defaults x) = DeletedAt x"
  "ac_Username (account_defaults x) = ac_Username x"
  "ac_Domain (account_defaults x) = ac_Domain x"
  "ac_TenantID (account_defaults x) = ac_TenantID x"
  "ac_BandwidthUsedGB (account_defaults x) = ac_BandwidthUsedGB x"
  "ac_DiskUsedMB (account_defaults x) = ac_DiskUsedMB x"
  by (simp_all add: account_defaults_def)

lemma account_stamp_simps [simp]:
  "ac_Username (stamp now x) = ac_Username x"
  "ac_Domain (stamp now x) = ac_Domain x"
  "ac_TenantID (stamp now x) = ac_TenantID x"
  "ac_Plan (stamp now x) = ac_Plan x"
  "ac_DiskQuotaMB (stamp now x) = ac_DiskQuotaMB x"
  "ac_BandwidthGB (stamp now x) = ac_BandwidthGB x"
  "ac_BandwidthUsedGB (stamp now x) = ac_BandwidthUsedGB x"
  "ac_DiskUsedMB (stamp now x) = ac_DiskUsedMB x"
  "ac_Status (stamp now x) = ac_Status x"
  by (simp_all add: stamp_def)

lemma account_BeforeCreate_simps [simp]:
  "ac_Username (BeforeCreate new x) = ac_Username x"
  "ac_Domain (BeforeCreate new x) = ac_Domain x"
  "ac_TenantID (BeforeCreate new x) = ac_TenantID x"
  "ac_Plan (BeforeCreate new x) = ac_Plan x"
  "ac_DiskQuotaMB (BeforeCreate new x) = ac_DiskQuotaMB x"
  "ac_BandwidthGB (BeforeCreate new x) = ac_BandwidthGB x"
  "ac_BandwidthUsedGB (BeforeCreate new x) = ac_BandwidthUsedGB x"
  "ac_DiskUsedMB (BeforeCreate new x) = ac_DiskUsedMB x"
  "ac_Status (BeforeCreate new x) = ac_Status x"
  by (simp_all add: BeforeCreate_def)

lemma audit_entry_defaults_simps [simp]:
  "ID (audit_entry_defaults x) = ID x"
  "DeletedAt (audit_entry_defaults x) = DeletedAt x"
  "ae_Timestamp (audit_entry_defaults x) = ae_Timestamp x"
  "ae_UserID (audit_entry_defaults x) = ae_UserID x"
  "ae_UserEmail (audit_entry_defaults x) = ae_UserEmail x"
  "ae_UserRole (audit_entry_defaults x) = ae_UserRole x"
  "ae_ActorIP (audit_entry_defaults x) = ae_ActorIP x"
  "ae_SessionID (audit_entry_defaults x) = ae_SessionID x"
  "ae_Action (audit_entry_defaults x) = ae_Action x"
  "ae_ResourceType (audit_entry_defaults x) = ae_ResourceType x"
  "ae_ResourceID (audit_entry_defaults x) = ae_ResourceID x"
  "ae_ResourceName (audit_entry_defaults x) = ae_ResourceName x"
  "ae_Result (audit_entry_defaults x) = ae_Result x"
  "ae_DurationMS (audit_entry_defaults x) = ae_DurationMS x"
  "ae_Detail (audit_entry_defaults x) = ae_Detail x"
  "ae_PrevHash (audit_entry_defaults x) = ae_PrevHash x"
  "ae_Hash (audit_entry_defaults x) = ae_Hash x"
  by (simp_all add: audit_entry_defaults_def)

lemma audit_entry_stamp_simps [simp]:
  "ae_Timestamp (stamp now x) = ae_Timestamp x"
  "ae_UserID (stamp now x) = ae_UserID x"
  "ae_UserEmail (stamp now x) = ae_UserEmail x"
  "ae_UserRole (stamp now x) = ae_UserRole x"
  "ae_ActorIP (stamp now x) = ae_ActorIP x"
  "ae_SessionID (stamp now x) = ae_SessionID x"
  "ae_Action (stamp now x) = ae_Action x"
  "ae_ResourceType (stamp now x) = ae_ResourceType x"
  "ae_ResourceID (stamp now x) = ae_ResourceID x"
  "ae_ResourceName (stamp now x) = ae_ResourceName x"
  "ae_Result (stamp now x) = ae_Result x"
  "ae_DurationMS (stamp now x) = ae_DurationMS x"
  "ae_Detail (stamp now x) = ae_Detail x"
  "ae_PrevHash (stamp now x) = ae_PrevHash x"
  "ae_Hash (stamp now x) = ae_Hash x"
  by (simp_all add: stamp_def)

lemma audit_entry_BeforeCreate_simps [simp]:
  "ae_Timestamp (BeforeCreate new x) = ae_Timestamp x"
  "ae_UserID (BeforeCreate new x) = ae_UserID x"
  "ae_UserEmail (BeforeCreate new x) = ae_UserEmail x"
  "ae_UserRole (BeforeCreate new x) = ae_UserRole x"
  "ae_ActorIP (BeforeCreate new x) = ae_ActorIP x"
  "ae_SessionID (BeforeCreate new x) = ae_SessionID x"
  "ae_Action (BeforeCreate new x) = ae_Action x"
  "ae_ResourceType (BeforeCreate new x) = ae_ResourceType x"
  "ae_ResourceID (BeforeCreate new x) = ae_ResourceID x"
  "ae_ResourceName (BeforeCreate new x) = ae_ResourceName x"
  "ae_Result (BeforeCreate new x) = ae_Result x"
  "ae_DurationMS (BeforeCreate new x) = ae_DurationMS x"
  "ae_Detail (BeforeCreate new x) = ae_Detail x"
  "ae_PrevHash (BeforeCreate new x) = ae_PrevHash x"
  "ae_Hash (BeforeCreate new x) = ae_Hash x"
  by (simp_all add: BeforeCreate_def)

lemma api_key_defaults_simps [simp]:
  "ID (api_key_defaults x) = ID x"
  "DeletedAt (api_key_defaults x) = DeletedAt x"
  "k_TenantID (api_key_defaults x) = k_TenantID x"
  "k_CreatedByID (api_key_defaults x) = k_CreatedByID x"
  "k_Name (api_key_defaults x) = k_Name x"
  "k_KeyHash (api_key_defaults x) = k_KeyHash x"
  "k_Prefix (api_key_defaults x) = k_Prefix x"
  "k_Role (api_key_defaults x) = k_Role x"
  "k_Scopes (api_key_defaults x) = k_Scopes x"
  "k_ExpiresAt (api_key_defaults x) = k_ExpiresAt x"
  "k_LastUsedAt (api_key_defaults x) = k_LastUsedAt x"
  "k_LastUsedIP (api_key_defaults x) = k_LastUsedIP x"
  "k_RevokedAt (api_key_defaults x) = k_RevokedAt x"
  "k_RevokeReason (api_key_defaults x) = k_RevokeReason x"
  by (simp_all add: api_key_defaults_def)

lemma api_key_stamp_simps [simp]:
  "k_TenantID (stamp now x) = k_TenantID x"
  "k_CreatedByID (stamp now x) = k_CreatedByID x"
  "k_Name (stamp now x) = k_Name x"
  "k_KeyHash (stamp now x) = k_KeyHash x"
  "k_Prefix (stamp now x) = k_Prefix x"
  "k_Role (stamp now x) = k_Role x"
  "k_Scopes (stamp now x) = k_Scopes x"
  "k_ExpiresAt (stamp now x) = k_ExpiresAt x"
  "k_LastUsedAt (stamp now x) = k_LastUsedAt x"
  "k_LastUsedIP (stamp now x) = k_LastUsedIP x"
  "k_RevokedAt (stamp now x) = k_RevokedAt x"
  "k_RevokeReason (stamp now x) = k_RevokeReason x"
  by (simp_all add: stamp_def)

lemma api_key_BeforeCreate_simps [simp]:
  "k_TenantID (BeforeCreate new x) = k_TenantID x"
  "k_CreatedByID (BeforeCreate new x) = k_CreatedByID x"
  "k_Name (BeforeCreate new x) = k_Name x"
  "k_KeyHash (BeforeCreate new x) = k_KeyHash x"
  "k_Prefix (BeforeCreate new x) = k_Prefix x"
  "k_Role (BeforeCreate new x) = k_Role x"
  "k_Scopes (BeforeCreate new x) = k_Scopes x"
  "k_ExpiresAt (BeforeCreate new x) = k_ExpiresAt x"
  "k_LastUsedAt (BeforeCreate new x) = k_LastUsedAt x"
  "k_LastUsedIP (BeforeCreate new x) = k_LastUsedIP x"
  "k_RevokedAt (BeforeCreate new x) = k_RevokedAt x"
  "k_RevokeReason (BeforeCreate new x) = k_RevokeReason x"
  by (simp_all add: BeforeCreate_def)

lemma custom_role_defaults_simps [simp]:
  "ID (custom_role_defaults x) = ID x"
  "DeletedAt (custom_role_defaults x) = DeletedAt x"
  "r_TenantID (custom_role_defaults x) = r_TenantID x"
  "r_Name (custom_role_defaults x) = r_Name x"
  "r_Permissions (custom_role_defaults x) = r_Permissions x"
  "r_IsBuiltin (custom_role_defaults x) = r_IsBuiltin x"
  "r_Description (custom_role_defaults x) = r_Description x"
  by (simp_all add: custom_role_defaults_def)

lemma custom_role_stamp_simps [simp]:
  "r_TenantID (stamp now x) = r_TenantID x"
  "r_Name (stamp now x) = r_Name x"
  "r_Permissions (stamp now x) = r_Permissions x"
  "r_IsBuiltin (stamp now x) = r_IsBuiltin x"
  "r_Description (stamp now x) = r_Description x"
  by (simp_all add: stamp_def)

lemma custom_role_BeforeCreate_simps [simp]:
  "r_TenantID (BeforeCreate new x) = r_TenantID x"
  "r_Name (BeforeCreate new x) = r_Name x"
  "r_Permissions (BeforeCreate new x) = r_Permissions x"
  "r_IsBuiltin (BeforeCreate new x) = r_IsBuiltin x"
  "r_Description (BeforeCreate new x) = r_Description x"
  by (simp_all add: BeforeCreate_def)

lemma secret_defaults_simps [simp]:
  "ID (secret_defaults x) = ID x"
  "DeletedAt (secret_defaults x) = DeletedAt x"
  "sec_TenantID (secret_defaults x) = sec_TenantID x"
  "sec_Name (secret_defaults x) = sec_Name x"
  "sec_Ciphertext (secret_defaults x) = sec_Ciphertext x"
  "sec_CreatedByID (secret_defaults x) = sec_CreatedByID x"
  "sec_RotatedAt (secret_defaults x) = sec_RotatedAt x"
  "sec_RotatedByID (secret_defaults x) = sec_RotatedByID x"
  by (simp_all add: secret_defaults_def)

lemma secret_stamp_simps [simp]:
  "sec_TenantID (stamp now x) = sec_TenantID x"
  "sec_Name (stamp now x) = sec_Name x"
  "sec_Ciphertext (stamp now x) = sec_Ciphertext x"
  "sec_Version (stamp now x) = sec_Version x"
  "sec_CreatedByID (stamp now x) = sec_CreatedByID x"
  "sec_RotatedAt (stamp now x) = sec_RotatedAt x"
  "sec_RotatedByID (stamp now x) = sec_RotatedByID x"
  by (simp_all add: stamp_def)

lemma secret_BeforeCreate_simps [simp]:
  "sec_TenantID (BeforeCreate new x) = sec_TenantID x"
  "sec_Name (BeforeCreate new x) = sec_Name x"
  "sec_Ciphertext (BeforeCreate new x) = sec_Ciphertext x"
  "sec_Version (BeforeCreate new x) = sec_Version x"
  "sec_CreatedByID (BeforeCreate new x) = sec_CreatedByID x"
  "sec_RotatedAt (BeforeCreate new x) = sec_RotatedAt x"
  "sec_RotatedByID (BeforeCreate new x) = sec_RotatedByID x"
  by (simp_all add: BeforeCreate_def)

lemma tenant_quota_defaults_simps [simp]:
  "ID (tenant_quota_defaults x) = ID x"
  "DeletedAt (tenant_quota_defaults x) = DeletedAt x"
  "q_TenantID (tenant_quota_defaults x) = q_TenantID x"
  "q_MaxAccounts (tenant_quota_defaults x) = q_MaxAccounts x"
  "q_MaxUsers (tenant_quota_defaults x) = q_MaxUsers x"
  "q_MaxDomains (tenant_quota_defaults x) = q_MaxDomains x"
  "q_MaxStorageMB (tenant_quota_defaults x) = q_MaxStorageMB x"
  "q_MaxBandwidthGB (tenant_quota_defaults x) = q_MaxBandwidthGB x"
  "q_MaxAPIKeys (tenant_quota_defaults x) = q_MaxAPIKeys x"
  "q_MaxCustomRoles (tenant_quota_defaults x) = q_MaxCustomRoles x"
  "q_MaxSecrets (tenant_quota_defaults x) = q_MaxSecrets x"
  by (simp_all add: tenant_quota_defaults_def)

lemma tenant_quota_stamp_simps [simp]:
  "q_TenantID (stamp now x) = q_TenantID x"
  "q_MaxAccounts (stamp now x) = q_MaxAccounts x"
  "q_MaxUsers (stamp now x) = q_MaxUsers x"
  "q_MaxDomains (stamp now x) = q_MaxDomains x"
  "q_MaxStorageMB (stamp now x) = q_MaxStorageMB x"
  "q_MaxBandwidthGB (stamp now x) = q_MaxBandwidthGB x"
  "q_MaxAPIKeys (stamp now x) = q_MaxAPIKeys x"
  "q_MaxCustomRoles (stamp now x) = q_MaxCustomRoles x"
  "q_MaxSecrets (stamp now x) = q_MaxSecrets x"
  by (simp_all add: stamp_def)

lemma tenant_quota_BeforeCreate_simps [simp]:
  "q_TenantID (BeforeCreate new x) = q_TenantID x"
  "q_MaxAccounts (BeforeCreate new x) = q_MaxAccounts x"
  "q_MaxUsers (BeforeCreate new x) = q_MaxUsers x"
  "q_MaxDomains (BeforeCreate new x) = q_MaxDomains x"
  "q_MaxStorageMB (BeforeCreate new x) = q_MaxStorageMB x"
  "q_MaxBandwidthGB (BeforeCreate new x) = q_MaxBandwidthGB x"
  "q_MaxAPIKeys (BeforeCreate new x) = q_MaxAPIKeys x"
  "q_MaxCustomRoles (BeforeCreate new x) = q_MaxCustomRoles x"
  "q_MaxSecrets (BeforeCreate new x) = q_MaxSecrets x"
  by (simp_all add: BeforeCreate_def)

lemma license_store_defaults_simps [simp]:
  "ID (license_store_defaults x) = ID x"
  "DeletedAt (license_store_defaults x) = DeletedAt x"
  "ls_Ciphertext (license_store_defaults x) = ls_Ciphertext x"
  "ls_ParsedTier (license_store_defaults x) = ls_ParsedTier x"
  "ls_ParsedExpiresAt (license_store_defaults x) = ls_ParsedExpiresAt x"
  "ls_ParsedIssuedAt (license_store_defaults x) = ls_ParsedIssuedAt x"
  "ls_UploadedByID (license_store_defaults x) = ls_UploadedByID x"
  "ls_UploadedAt (license_store_defaults x) = ls_UploadedAt x"
  by (simp_all add: license_store_defaults_def)

lemma license_store_stamp_simps [simp]:
  "ls_KeyID (stamp now x) = ls_KeyID x"
  "ls_Ciphertext (stamp now x) = ls_Ciphertext x"
  "ls_ParsedTier (stamp now x) = ls_ParsedTier x"
  "ls_ParsedExpiresAt (stamp now x) = ls_ParsedExpiresAt x"
  "ls_ParsedIssuedAt (stamp now x) = ls_ParsedIssuedAt x"
  "ls_UploadedByID (stamp now x) = ls_UploadedByID x"
  "ls_UploadedAt (stamp now x) = ls_UploadedAt x"
  by (simp_all add: stamp_def)

lemma license_store_BeforeCreate_simps [simp]:
  "ls_KeyID (BeforeCreate new x) = ls_KeyID x"
  "ls_Ciphertext (BeforeCreate new x) = ls_Ciphertext x"
  "ls_ParsedTier (BeforeCreate new x) = ls_ParsedTier x"
  "ls_ParsedExpiresAt (BeforeCreate new x) = ls_ParsedExpiresAt x"
  "ls_ParsedIssuedAt (BeforeCreate new x) = ls_ParsedIssuedAt x"
  "ls_UploadedByID (BeforeCreate new x) = ls_UploadedByID x"
  "ls_UploadedAt (BeforeCreate new x) = ls_UploadedAt x"
  by (simp_all add: BeforeCreate_def)

lemma dns_zone_defaults_simps [simp]:
  "ID (dns_zone_defaults x) = ID x"
  "DeletedAt (dns_zone_defaults x) = DeletedAt x"
  "z_AccountID (dns_zone_defaults x) = z_AccountID x"
  "z_TenantID (dns_zone_defaults x) = z_TenantID x"
  "z_Domain (dns_zone_defaults x) = z_Domain x"
  "z_Masters (dns_zone_defaults x) = z_Masters x"
  by (simp_all add: dns_zone_defaults_def)

lemma dns_zone_stamp_simps [simp]:
  "z_AccountID (stamp now x) = z_AccountID x"
  "z_TenantID (stamp now x) = z_TenantID x"
  "z_Domain (stamp now x) = z_Domain x"
  "z_Type (stamp now x) = z_Type x"
  "z_Masters (stamp now x) = z_Masters x"
  "z_SoaRefresh (stamp now x) = z_SoaRefresh x"
  "z_SoaRetry (stamp now x) = z_SoaRetry x"
  "z_SoaExpire (stamp now x) = z_SoaExpire x"
  "z_SoaMinimum (stamp now x) = z_SoaMinimum x"
  "z_Status (stamp now x) = z_Status x"
  by (simp_all add: stamp_def)

lemma dns_zone_BeforeCreate_simps [simp]:
  "z_AccountID (BeforeCreate new x) = z_AccountID x"
  "z_TenantID (BeforeCreate new x) = z_TenantID x"
  "z_Domain (BeforeCreate new x) = z_Domain x"
  "z_Type (BeforeCreate new x) = z_Type x"
  "z_Masters (BeforeCreate new x) = z_Masters x"
  "z_SoaRefresh (BeforeCreate new x) = z_SoaRefresh x"
  "z_SoaRetry (BeforeCreate new x) = z_SoaRetry x"
  "z_SoaExpire (BeforeCreate new x) = z_SoaExpire x"
  "z_SoaMinimum (BeforeCreate new x) = z_SoaMinimum x"
  "z_Status (BeforeCreate new x) = z_Status x"
  by (simp_all add: BeforeCreate_def)

lemma dns_record_defaults_simps [simp]:
  "ID (dns_record_defaults x) = ID x"
  "DeletedAt (dns_record_defaults x) = DeletedAt x"
  "rr_ZoneID (dns_record_defaults x) = rr_ZoneID x"
  "rr_Name (dns_record_defaults x) = rr_Name x"
  "rr_Type (dns_record_defaults x) = rr_Type x"
  "rr_Content (dns_record_defaults x) = rr_Content x"
  "rr_Priority (dns_record_defaults x) = rr_Priority x"
  "rr_Disabled (dns_record_defaults x) = rr_Disabled x"
  by (simp_all add: dns_record_defaults_def)

lemma dns_record_stamp_simps [simp]:
  "rr_ZoneID (stamp now x) = rr_ZoneID x"
  "rr_Name (stamp now x) = rr_Name x"
  "rr_Type (stamp now x) = rr_Type x"
  "rr_Content (stamp now x) = rr_Content x"
  "rr_TTL (stamp now x) = rr_TTL x"
  "rr_Priority (stamp now x) = rr_Priority x"
  "rr_Disabled (stamp now x) = rr_Disabled x"
  by (simp_all add: stamp_def)

lemma dns_record_BeforeCreate_simps [simp]:
  "rr_ZoneID (BeforeCreate new x) = rr_ZoneID x"
  "rr_Name (BeforeCreate new x) = rr_Name x"
  "rr_Type (BeforeCreate new x) = rr_Type x"
  "rr_Content (BeforeCreate new x) = rr_Content x"
  "rr_TTL (BeforeCreate new x) = rr_TTL x"
  "rr_Priority (BeforeCreate new x) = rr_Priority x"
  "rr_Disabled (BeforeCreate new x) = rr_Disabled x"
  by (simp_all add: BeforeCreate_def)

lemma dns_zone_template_defaults_simps [simp]:
  "ID (dns_zone_template_defaults x) = ID x"
  "DeletedAt (dns_zone_template_defaults x) = DeletedAt x"
  "tp_TenantID (dns_zone_template_defaults x) = tp_TenantID x"
  "tp_Name (dns_zone_template_defaults x) = tp_Name x"
  "tp_Description (dns_zone_template_defaults x) = tp_Description x"
  "tp_Records (dns_zone_template_defaults x) = tp_Records x"
  by (simp_all add: dns_zone_template_defaults_def)

lemma dns_zone_template_stamp_simps [simp]:
  "tp_TenantID (stamp now x) = tp_TenantID x"
  "tp_Name (stamp now x) = tp_Name x"
  "tp_Description (stamp now x) = tp_Description x"
  "tp_Records (stamp now x) = tp_Records x"
  by (simp_all add: stamp_def)

lemma dns_zone_template_BeforeCreate_simps [simp]:
  "tp_TenantID (BeforeCreate new x) = tp_TenantID x"
  "tp_Name (BeforeCreate new x) = tp_Name x"
  "tp_Description (BeforeCreate new x) = tp_Description x"
  "tp_Records (BeforeCreate new x) = tp_Records x"
  by (simp_all add: BeforeCreate_def)

subsection \<open>Validity of sessions and API keys\<close>

definition session_IsActive :: "int \<Rightarrow> user_session \<Rightarrow> bool" where
  "session_IsActive now s = (if s_RevokedAt s \<noteq> None then False else now < s_ExpiresAt s)"

definition api_key_IsActive :: "int \<Rightarrow> api_key \<Rightarrow> bool" where
  "api_key_IsActive now k =
     (if k_RevokedAt k \<noteq> None then False
      else (case k_ExpiresAt k of None \<Rightarrow> True | Some e \<Rightarrow> \<not> e < now))"

subsection \<open>The database\<close>

record database =
  db_tenants :: "tenant list"
  db_users :: "user list"
  db_sessions :: "user_session list"
  db_accounts :: "account list"
  db_audit :: "audit_entry list"
  db_api_keys :: "api_key list"
  db_custom_roles :: "custom_role list"
  db_secrets :: "secret list"
  db_quotas :: "tenant_quota list"
  db_licenses :: "license_store list"
  db_zones :: "dns_zone list"
  db_records :: "dns_record list"
  db_templates :: "dns_zone_template list"

definition empty_database :: database where
  "empty_database = \<lparr>db_tenants = [], db_users = [], db_sessions = [], db_accounts = [], db_audit = [], db_api_keys = [], 
     db_custom_roles = [], db_secrets = [], db_quotas = [], db_licenses = [], db_zones = [], 
     db_records = [], db_templates = []\<rparr>"

record 'd gorm =
  Tenants :: "('d, tenant) table"
  Users :: "('d, user) table"
  Sessions :: "('d, user_session) table"
  Accounts :: "('d, account) table"
  AuditEntries :: "('d, audit_entry) table"
  APIKeys :: "('d, api_key) table"
  CustomRoles :: "('d, custom_role) table"
  Secrets :: "('d, secret) table"
  TenantQuotas :: "('d, tenant_quota) table"
  LicenseStores :: "('d, license_store) table"
  DNSZones :: "('d, dns_zone) table"
  DNSRecords :: "('d, dns_record) table"
  DNSTemplates :: "('d, dns_zone_template) table"
  Begin :: "'d \<Rightarrow> go_error + 'd"
  Commit :: "'d \<Rightarrow> 'd \<Rightarrow> go_error option \<times> 'd"
  Rollback :: "'d \<Rightarrow> 'd \<Rightarrow> 'd"

text \<open>
  \<open>Begin\<close> opens a transaction on a working state; \<open>Commit d t\<close> makes the working
  state \<open>t\<close> the database, or fails and leaves \<open>d\<close>; \<open>Rollback d t\<close> drops it.
\<close>

locale gorm_db =
  tenant: gorm_table "Tenants G" view db_tenants "\<lambda>xs v. v\<lparr>db_tenants := xs\<rparr>" tenant_defaults tenant_clash +
  user: gorm_table "Users G" view db_users "\<lambda>xs v. v\<lparr>db_users := xs\<rparr>" user_defaults user_clash +
  user_session: gorm_table "Sessions G" view db_sessions "\<lambda>xs v. v\<lparr>db_sessions := xs\<rparr>" user_session_defaults user_session_clash +
  account: gorm_table "Accounts G" view db_accounts "\<lambda>xs v. v\<lparr>db_accounts := xs\<rparr>" account_defaults account_clash +
  audit_entry: gorm_table "AuditEntries G" view db_audit "\<lambda>xs v. v\<lparr>db_audit := xs\<rparr>" audit_entry_defaults audit_entry_clash +
  api_key: gorm_table "APIKeys G" view db_api_keys "\<lambda>xs v. v\<lparr>db_api_keys := xs\<rparr>" api_key_defaults api_key_clash +
  custom_role: gorm_table "CustomRoles G" view db_custom_roles "\<lambda>xs v. v\<lparr>db_custom_roles := xs\<rparr>" custom_role_defaults custom_role_clash +
  secret: gorm_table "Secrets G" view db_secrets "\<lambda>xs v. v\<lparr>db_secrets := xs\<rparr>" secret_defaults secret_clash +
  tenant_quota: gorm_table "TenantQuotas G" view db_quotas "\<lambda>xs v. v\<lparr>db_quotas := xs\<rparr>" tenant_quota_defaults tenant_quota_clash +
  license_store: gorm_table "LicenseStores G" view db_licenses "\<lambda>xs v. v\<lparr>db_licenses := xs\<rparr>" license_store_defaults license_store_clash +
  dns_zone: gorm_table "DNSZones G" view db_zones "\<lambda>xs v. v\<lparr>db_zones := xs\<rparr>" dns_zone_defaults dns_zone_clash +
  dns_record: gorm_table "DNSRecords G" view db_records "\<lambda>xs v. v\<lparr>db_records := xs\<rparr>" dns_record_defaults dns_record_clash +
  dns_zone_template: gorm_table "DNSTemplates G" view db_templates "\<lambda>xs v. v\<lparr>db_templates := xs\<rparr>" dns_zone_template_defaults dns_zone_template_clash
  for G :: "'d gorm" and view :: "'d \<Rightarrow> database" +
  assumes begin_ok: "Begin G d = Inr t \<Longrightarrow> view t = view d"
    and commit_ok: "Commit G d t = (None, d') \<Longrightarrow> view d' = view t"
    and commit_fail: "Commit G d t = (Some e, d') \<Longrightarrow> view d' = view d"
    and rollback_view: "view (Rollback G d t) = view d"

locale gorm_db_up = gorm_db G view +
  tenant: gorm_table_up "Tenants G" view db_tenants "\<lambda>xs v. v\<lparr>db_tenants := xs\<rparr>" tenant_defaults tenant_clash +
  user: gorm_table_up "Users G" view db_users "\<lambda>xs v. v\<lparr>db_users := xs\<rparr>" user_defaults user_clash +
  user_session: gorm_table_up "Sessions G" view db_sessions "\<lambda>xs v. v\<lparr>db_sessions := xs\<rparr>" user_session_defaults user_session_clash +
  account: gorm_table_up "Accounts G" view db_accounts "\<lambda>xs v. v\<lparr>db_accounts := xs\<rparr>" account_defaults account_clash +
  audit_entry: gorm_table_up "AuditEntries G" view db_audit "\<lambda>xs v. v\<lparr>db_audit := xs\<rparr>" audit_entry_defaults audit_entry_clash +
  api_key: gorm_table_up "APIKeys G" view db_api_keys "\<lambda>xs v. v\<lparr>db_api_keys := xs\<rparr>" api_key_defaults api_key_clash +
  custom_role: gorm_table_up "CustomRoles G" view db_custom_roles "\<lambda>xs v. v\<lparr>db_custom_roles := xs\<rparr>" custom_role_defaults custom_role_clash +
  secret: gorm_table_up "Secrets G" view db_secrets "\<lambda>xs v. v\<lparr>db_secrets := xs\<rparr>" secret_defaults secret_clash +
  tenant_quota: gorm_table_up "TenantQuotas G" view db_quotas "\<lambda>xs v. v\<lparr>db_quotas := xs\<rparr>" tenant_quota_defaults tenant_quota_clash +
  license_store: gorm_table_up "LicenseStores G" view db_licenses "\<lambda>xs v. v\<lparr>db_licenses := xs\<rparr>" license_store_defaults license_store_clash +
  dns_zone: gorm_table_up "DNSZones G" view db_zones "\<lambda>xs v. v\<lparr>db_zones := xs\<rparr>" dns_zone_defaults dns_zone_clash +
  dns_record: gorm_table_up "DNSRecords G" view db_records "\<lambda>xs v. v\<lparr>db_records := xs\<rparr>" dns_record_defaults dns_record_clash +
  dns_zone_template: gorm_table_up "DNSTemplates G" view db_templates "\<lambda>xs v. v\<lparr>db_templates := xs\<rparr>" dns_zone_template_defaults dns_zone_template_clash
  for G :: "'d gorm" and view :: "'d \<Rightarrow> database" +
  assumes begin_up: "\<exists>t. Begin G d = Inr t"
    and commit_up: "\<exists>d'. Commit G d t = (None, d')"

subsection \<open>The database held in memory\<close>

definition mem_gorm :: "database gorm" where
  "mem_gorm =
     \<lparr>Tenants = mem_table db_tenants (\<lambda>xs v. v\<lparr>db_tenants := xs\<rparr>) tenant_defaults tenant_clash,
      Users = mem_table db_users (\<lambda>xs v. v\<lparr>db_users := xs\<rparr>) user_defaults user_clash,
      Sessions = mem_table db_sessions (\<lambda>xs v. v\<lparr>db_sessions := xs\<rparr>) user_session_defaults user_session_clash,
      Accounts = mem_table db_accounts (\<lambda>xs v. v\<lparr>db_accounts := xs\<rparr>) account_defaults account_clash,
      AuditEntries = mem_table db_audit (\<lambda>xs v. v\<lparr>db_audit := xs\<rparr>) audit_entry_defaults audit_entry_clash,
      APIKeys = mem_table db_api_keys (\<lambda>xs v. v\<lparr>db_api_keys := xs\<rparr>) api_key_defaults api_key_clash,
      CustomRoles = mem_table db_custom_roles (\<lambda>xs v. v\<lparr>db_custom_roles := xs\<rparr>) custom_role_defaults custom_role_clash,
      Secrets = mem_table db_secrets (\<lambda>xs v. v\<lparr>db_secrets := xs\<rparr>) secret_defaults secret_clash,
      TenantQuotas = mem_table db_quotas (\<lambda>xs v. v\<lparr>db_quotas := xs\<rparr>) tenant_quota_defaults tenant_quota_clash,
      LicenseStores = mem_table db_licenses (\<lambda>xs v. v\<lparr>db_licenses := xs\<rparr>) license_store_defaults license_store_clash,
      DNSZones = mem_table db_zones (\<lambda>xs v. v\<lparr>db_zones := xs\<rparr>) dns_zone_defaults dns_zone_clash,
      DNSRecords = mem_table db_records (\<lambda>xs v. v\<lparr>db_records := xs\<rparr>) dns_record_defaults dns_record_clash,
      DNSTemplates = mem_table db_templates (\<lambda>xs v. v\<lparr>db_templates := xs\<rparr>) dns_zone_template_defaults dns_zone_template_clash,
      Begin = (\<lambda>d. Inr d),
      Commit = (\<lambda>d t. (None, t)),
      Rollback = (\<lambda>d t. d)\<rparr>"

interpretation mem: gorm_db_up mem_gorm "\<lambda>d. d"
  by (simp add: gorm_db_up_def gorm_db_def gorm_db_axioms_def gorm_db_up_axioms_def
      mem_gorm_def mem_table_laws mem_table.gorm_table_axioms)

lemma mem_gorm_db: "gorm_db mem_gorm (\<lambda>d. d)"
  by (rule mem.gorm_db_axioms)

lemma mem_gorm_db_up: "gorm_db_up mem_gorm (\<lambda>d. d)"
  by (rule mem.gorm_db_up_axioms)

end
