(* ===== verification/Encoding.thy ===== *)
theory Encoding
  imports Prelude
begin

text \<open>
  The encoders of Go's standard library the panel uses: encoding/hex, the string values of
  encoding/json (Go 1.22), and base64.RawURLEncoding. Each comes with the lemma that it
  loses nothing: decoding gives the input back.
\<close>

subsection \<open>Hexadecimal\<close>

definition hex_digit :: "nat \<Rightarrow> char" where
  "hex_digit n = (if n < 10 then char_of (48 + n) else char_of (87 + n))"

definition unhex :: "char \<Rightarrow> nat" where
  "unhex c = (if ch c < 58 then ch c - 48 else ch c - 87)"

definition hex_encode :: "string \<Rightarrow> string" where
  "hex_encode s = concat (map (\<lambda>c. [hex_digit (ch c div 16), hex_digit (ch c mod 16)]) s)"

fun hex_decode :: "string \<Rightarrow> string" where
  "hex_decode (a # b # cs) = char_of (unhex a * 16 + unhex b) # hex_decode cs"
| "hex_decode _ = []"

lemma ch_hex_digit: "n < 16 \<Longrightarrow> ch (hex_digit n) = (if n < 10 then 48 + n else 87 + n)"
  by (simp add: hex_digit_def)

lemma unhex_hex_digit [simp]: "n < 16 \<Longrightarrow> unhex (hex_digit n) = n"
  by (auto simp: unhex_def ch_hex_digit)

lemma char_of_nibbles [simp]: "char_of (ch c div 16 * 16 + ch c mod 16) = c"
  by (metis char_of_char div_mult_mod_eq)

lemma nibble_less [simp]: "ch c div 16 < 16"
  using ch_less [of c] by linarith

lemma hex_decode_encode [simp]: "hex_decode (hex_encode s) = s"
  by (induction s) (auto simp: hex_encode_def)

lemma hex_encode_inject [simp]: "hex_encode s = hex_encode t \<longleftrightarrow> s = t"
  by (metis hex_decode_encode)

lemma hex_encode_no_NUL: "char_of (0::nat) \<notin> set (hex_encode s)"
proof
  assume "char_of (0::nat) \<in> set (hex_encode s)"
  then obtain n where "n < 16" and "char_of (0::nat) = hex_digit n"
    by (auto simp: hex_encode_def) (metis mod_less_divisor zero_less_numeral nibble_less)+
  then have "ch (char_of (0::nat)) = ch (hex_digit n)" by simp
  with \<open>n < 16\<close> show False by (simp add: ch_hex_digit split: if_splits)
qed

subsection \<open>UTF-8\<close>

definition cont_byte :: "char \<Rightarrow> bool" where
  "cont_byte c \<longleftrightarrow> 128 \<le> ch c \<and> ch c \<le> 191"

text \<open>The length of the multi-byte encoding at the front of a string, 0 if there is none.\<close>

definition utf8_len2 :: "char \<Rightarrow> char \<Rightarrow> bool" where
  "utf8_len2 a b \<longleftrightarrow> 194 \<le> ch a \<and> ch a \<le> 223 \<and> cont_byte b"

definition utf8_len3 :: "char \<Rightarrow> char \<Rightarrow> char \<Rightarrow> bool" where
  "utf8_len3 a b c \<longleftrightarrow> 224 \<le> ch a \<and> ch a \<le> 239 \<and> cont_byte b \<and> cont_byte c \<and>
     (ch a = 224 \<longrightarrow> 160 \<le> ch b) \<and> (ch a = 237 \<longrightarrow> ch b \<le> 159)"

definition utf8_len4 :: "char \<Rightarrow> char \<Rightarrow> char \<Rightarrow> char \<Rightarrow> bool" where
  "utf8_len4 a b c d \<longleftrightarrow> 240 \<le> ch a \<and> ch a \<le> 244 \<and> cont_byte b \<and> cont_byte c \<and> cont_byte d \<and>
     (ch a = 240 \<longrightarrow> 144 \<le> ch b) \<and> (ch a = 244 \<longrightarrow> ch b \<le> 143)"

fun utf8_len :: "string \<Rightarrow> nat" where
  "utf8_len [] = 0"
| "utf8_len [a] = 0"
| "utf8_len [a, b] = (if utf8_len2 a b then 2 else 0)"
| "utf8_len [a, b, c] = (if utf8_len2 a b then 2 else if utf8_len3 a b c then 3 else 0)"
| "utf8_len (a # b # c # d # ds) =
     (if utf8_len2 a b then 2 else if utf8_len3 a b c then 3
      else if utf8_len4 a b c d then 4 else 0)"

text \<open>
  \<open>to_valid\<close> replaces every byte that is not part of a valid encoding by U+FFFD: what a
  string value has gone through after \<open>json.Marshal\<close> and \<open>json.Unmarshal\<close>.
\<close>

function to_valid :: "string \<Rightarrow> string" where
  "to_valid [] = []"
| "to_valid (c # cs) =
     (if ch c < 128 then c # to_valid cs
      else if utf8_len (c # cs) = 0
           then [CHR 0xEF, CHR 0xBF, CHR 0xBD] @ to_valid cs
           else take (utf8_len (c # cs)) (c # cs) @ to_valid (drop (utf8_len (c # cs)) (c # cs)))"
  by pat_completeness auto
termination
  by (relation "measure length") auto

definition valid_utf8 :: "string \<Rightarrow> bool" where
  "valid_utf8 s \<longleftrightarrow> to_valid s = s"

definition ascii :: "string \<Rightarrow> bool" where
  "ascii s \<longleftrightarrow> list_all (\<lambda>c. ch c < 128) s"

lemma ascii_valid_utf8: "ascii s \<Longrightarrow> valid_utf8 s"
  by (induction s) (auto simp: ascii_def valid_utf8_def)

definition utf8_encode :: "nat \<Rightarrow> string" where
  "utf8_encode v =
     (if v < 128 then [char_of v]
      else if v < 2048 then [char_of (192 + v div 64), char_of (128 + v mod 64)]
      else [char_of (224 + v div 4096), char_of (128 + v div 64 mod 64), char_of (128 + v mod 64)])"

subsection \<open>JSON strings\<close>

definition json_char :: "char \<Rightarrow> string" where
  "json_char c =
     (if ch c = 34 \<or> ch c = 92 then [CHR 0x5C, c]
      else if ch c = 8 then [CHR 0x5C, CHR ''b'']
      else if ch c = 12 then [CHR 0x5C, CHR ''f'']
      else if ch c = 10 then [CHR 0x5C, CHR ''n'']
      else if ch c = 13 then [CHR 0x5C, CHR ''r'']
      else if ch c = 9 then [CHR 0x5C, CHR ''t'']
      else if ch c < 32 \<or> ch c = 60 \<or> ch c = 62 \<or> ch c = 38
           then [CHR 0x5C, CHR ''u'', CHR ''0'', CHR ''0'', hex_digit (ch c div 16), hex_digit (ch c mod 16)]
      else [c])"

text \<open>U+2028 and U+2029 are written as escapes; other multi-byte runes as they are.\<close>

fun json_body :: "string \<Rightarrow> string" where
  "json_body [] = []"
| "json_body [a] = json_char a"
| "json_body [a, b] = json_char a @ json_char b"
| "json_body (a # b # c # cs) =
     (if ch a = 226 \<and> ch b = 128 \<and> (ch c = 168 \<or> ch c = 169)
      then [CHR 0x5C, CHR ''u'', CHR ''2'', CHR ''0'', CHR ''2'', (if ch c = 168 then CHR ''8'' else CHR ''9'')]
           @ json_body cs
      else json_char a @ json_body (b # c # cs))"

definition json_string :: "string \<Rightarrow> string" where
  "json_string s = [CHR 0x22] @ json_body (to_valid s) @ [CHR 0x22]"

text \<open>Reading a string value back, up to its closing quote.\<close>

definition json_unescape :: "char \<Rightarrow> char" where
  "json_unescape e =
     (if ch e = 98 then char_of (8::nat) else if ch e = 102 then char_of (12::nat)
      else if ch e = 110 then char_of (10::nat) else if ch e = 114 then char_of (13::nat)
      else if ch e = 116 then char_of (9::nat) else e)"

function json_read :: "string \<Rightarrow> (string \<times> string) option" where
  "json_read [] = None"
| "json_read (c # cs) =
     (if ch c = 34 then Some ([], cs)
      else if ch c = 92 then
        (case cs of [] \<Rightarrow> None
         | e # r \<Rightarrow>
             if ch e = 117 then
               (case r of h1 # h2 # h3 # h4 # r' \<Rightarrow>
                  map_option (apfst (\<lambda>t. utf8_encode (((unhex h1 * 16 + unhex h2) * 16 + unhex h3) * 16 + unhex h4) @ t))
                    (json_read r')
                | _ \<Rightarrow> None)
             else map_option (apfst (\<lambda>t. json_unescape e # t)) (json_read r))
      else map_option (apfst (\<lambda>t. c # t)) (json_read cs))"
  by pat_completeness auto
termination
  by (relation "measure length") auto

lemma append_Cons_fun: "(@) (c # xs) = (\<lambda>t. c # (xs @ t))"
  by (rule ext) simp

lemma json_read_char: "json_read (json_char c @ r) = map_option (apfst (\<lambda>t. c # t)) (json_read r)"
proof -
  have c: "c = char_of n" if "ch c = n" for n :: nat
    using that by (metis char_of_char)
  consider "ch c = 34 \<or> ch c = 92" | "ch c = 8 \<or> ch c = 12 \<or> ch c = 10 \<or> ch c = 13 \<or> ch c = 9"
    | "ch c \<noteq> 34" "ch c \<noteq> 92" "ch c \<noteq> 8" "ch c \<noteq> 12" "ch c \<noteq> 10" "ch c \<noteq> 13" "ch c \<noteq> 9" by blast
  then show ?thesis
  proof cases
    case 1
    then show ?thesis by (auto simp: json_char_def json_unescape_def)
  next
    case 2
    then show ?thesis by (auto simp: json_char_def json_unescape_def dest!: c)
  next
    case 3
    then show ?thesis
      by (auto simp: json_char_def unhex_def [of "CHR ''0''"] utf8_encode_def append_Cons_fun dest: c)
  qed
qed

declare json_read.simps(2) [simp del]

lemma json_read_sep:
  assumes "ch a = 226" "ch b = 128" "ch c = 168 \<or> ch c = 169"
  shows "json_read ([CHR 0x5C, CHR ''u'', CHR ''2'', CHR ''0'', CHR ''2'',
           (if ch c = 168 then CHR ''8'' else CHR ''9'')] @ r) =
         map_option (apfst (\<lambda>t. a # b # c # t)) (json_read r)"
proof -
  have c: "c = char_of n" if "ch c = n" for n :: nat and c
    using that by (metis char_of_char)
  show ?thesis
    using assms(3) c [OF assms(1)] c [OF assms(2)]
    by (auto simp: json_read.simps(2) unhex_def utf8_encode_def append_Cons_fun dest!: c)
qed

lemma json_read_body: "json_read (json_body s @ CHR 0x22 # x) = Some (s, x)"
proof (induction s rule: json_body.induct)
  case (4 a b c cs)
  show ?case
  proof (cases "ch a = 226 \<and> ch b = 128 \<and> (ch c = 168 \<or> ch c = 169)")
    case True
    then show ?thesis
      using 4(1) json_read_sep [of a b c "json_body cs @ CHR 0x22 # x"] by simp
  next
    case False
    then show ?thesis
      using 4(2) [OF False] by (subst json_body.simps(4), subst if_not_P [OF False]) (simp add: json_read_char)
  qed
qed (auto simp: json_read_char json_read.simps(2))

lemma json_body_inject:
  "json_body s @ CHR 0x22 # x = json_body t @ CHR 0x22 # y \<longleftrightarrow> s = t \<and> x = y"
  by (metis Pair_inject json_read_body option.inject)

lemma json_string_inject:
  "valid_utf8 s \<Longrightarrow> valid_utf8 t \<Longrightarrow>
   json_string s @ x = json_string t @ y \<longleftrightarrow> s = t \<and> x = y"
  by (simp add: json_string_def valid_utf8_def json_body_inject)

text \<open>The escapes leave no control character in the text.\<close>

lemma json_char_printable: "x \<in> set (json_char c) \<Longrightarrow> 32 \<le> ch x"
  by (auto simp: json_char_def ch_hex_digit split: if_splits)

lemma json_body_printable: "x \<in> set (json_body s) \<Longrightarrow> 32 \<le> ch x"
  by (induction s rule: json_body.induct) (auto dest: json_char_printable split: if_splits)

lemma json_string_printable: "x \<in> set (json_string s) \<Longrightarrow> 32 \<le> ch x"
  by (auto simp: json_string_def dest: json_body_printable)

subsection \<open>The verb q of fmt\<close>

text \<open>
  \<open>strconv.Quote\<close>, exact on ASCII; a byte above 127 is kept, as it is in a printable rune.
\<close>

definition quote_char :: "char \<Rightarrow> string" where
  "quote_char c =
     (if ch c = 34 \<or> ch c = 92 then [CHR 0x5C, c]
      else if ch c = 7 then [CHR 0x5C, CHR ''a'']
      else if ch c = 8 then [CHR 0x5C, CHR ''b'']
      else if ch c = 9 then [CHR 0x5C, CHR ''t'']
      else if ch c = 10 then [CHR 0x5C, CHR ''n'']
      else if ch c = 11 then [CHR 0x5C, CHR ''v'']
      else if ch c = 12 then [CHR 0x5C, CHR ''f'']
      else if ch c = 13 then [CHR 0x5C, CHR ''r'']
      else if ch c < 32 \<or> ch c = 127
           then [CHR 0x5C, CHR ''x'', hex_digit (ch c div 16), hex_digit (ch c mod 16)]
      else [c])"

definition go_quote :: "string \<Rightarrow> string" where
  "go_quote s = [CHR 0x22] @ concat (map quote_char s) @ [CHR 0x22]"

subsection \<open>base64.RawURLEncoding\<close>

definition b64_char :: "nat \<Rightarrow> char" where
  "b64_char n =
     (if n < 26 then char_of (65 + n) else if n < 52 then char_of (71 + n)
      else if n < 62 then char_of (n - 4) else if n = 62 then CHR ''-'' else CHR ''_'')"

definition b64_val :: "char \<Rightarrow> nat option" where
  "b64_val c =
     (if is_upper c then Some (ch c - 65) else if is_lower c then Some (ch c - 71)
      else if is_digit c then Some (ch c + 4) else if ch c = 45 then Some 62
      else if ch c = 95 then Some 63 else None)"

fun b64_sextets :: "nat list \<Rightarrow> nat list" where
  "b64_sextets [] = []"
| "b64_sextets [a] = [a div 4, a mod 4 * 16]"
| "b64_sextets [a, b] = [a div 4, a mod 4 * 16 + b div 16, b mod 16 * 4]"
| "b64_sextets (a # b # c # r) =
     a div 4 # (a mod 4 * 16 + b div 16) # (b mod 16 * 4 + c div 64) # c mod 64 # b64_sextets r"

fun b64_bytes :: "nat list \<Rightarrow> nat list option" where
  "b64_bytes [] = Some []"
| "b64_bytes [w] = None"
| "b64_bytes [w, x] = Some [w * 4 + x div 16]"
| "b64_bytes [w, x, y] = Some [w * 4 + x div 16, x mod 16 * 16 + y div 4]"
| "b64_bytes (w # x # y # z # r) =
     map_option (\<lambda>bs. (w * 4 + x div 16) # (x mod 16 * 16 + y div 4) # (y mod 4 * 64 + z) # bs) (b64_bytes r)"

definition RawURLEncode :: "string \<Rightarrow> string" where
  "RawURLEncode s = map b64_char (b64_sextets (map ch s))"

definition ErrCorruptInput :: go_error where
  "ErrCorruptInput = ErrNew ''illegal base64 data''"

text \<open>The decoder skips carriage returns and newlines, and rejects any other foreign byte.\<close>

definition RawURLDecode :: "string \<Rightarrow> go_error + string" where
  "RawURLDecode s =
     (case Option.bind (those (map b64_val (filter (\<lambda>c. ch c \<noteq> 10 \<and> ch c \<noteq> 13) s))) b64_bytes of
        None \<Rightarrow> Inl ErrCorruptInput
      | Some bs \<Rightarrow> Inr (map char_of bs))"

lemma b64_char_ch: "n < 64 \<Longrightarrow> ch (b64_char n) =
    (if n < 26 then 65 + n else if n < 52 then 71 + n else if n < 62 then n - 4 else if n = 62 then 45 else 95)"
  by (auto simp: b64_char_def)

lemma b64_val_char [simp]: "n < 64 \<Longrightarrow> b64_val (b64_char n) = Some n"
  by (auto simp: b64_val_def b64_char_ch is_upper_def is_lower_def is_digit_def)

lemma b64_char_no_newline: "n < 64 \<Longrightarrow> ch (b64_char n) \<noteq> 10 \<and> ch (b64_char n) \<noteq> 13"
  by (auto simp: b64_char_ch)

lemma b64_sextets_bound: "\<forall>b\<in>set bs. b < 256 \<Longrightarrow> n \<in> set (b64_sextets bs) \<Longrightarrow> n < 64"
  by (induction bs rule: b64_sextets.induct) (auto; presburger)+

lemma b64_regroup:
  fixes b c :: nat
  shows "b < 256 \<Longrightarrow> b div 16 div 16 = 0" "b < 256 \<Longrightarrow> b div 16 mod 16 = b div 16"
    and "c < 256 \<Longrightarrow> c div 64 div 4 = 0" "c < 256 \<Longrightarrow> c div 64 mod 4 = c div 64"
  by (simp_all add: div_mult2_eq [symmetric] less_mult_imp_div_less)

lemma b64_bytes_sextets: "\<forall>b\<in>set bs. b < 256 \<Longrightarrow> b64_bytes (b64_sextets bs) = Some bs"
  by (induction bs rule: b64_sextets.induct) (simp_all add: b64_regroup)

lemma those_map_Some: "(\<And>x. x \<in> set xs \<Longrightarrow> g (f x) = Some x) \<Longrightarrow> those (map (g \<circ> f) xs) = Some xs"
  by (induction xs) auto

lemma RawURLDecode_Encode [simp]: "RawURLDecode (RawURLEncode s) = Inr s"
proof -
  let ?ns = "b64_sextets (map ch s)"
  have n: "n < 64" if "n \<in> set ?ns" for n
    using that by (rule b64_sextets_bound [rotated]) simp
  then have "filter (\<lambda>c. ch c \<noteq> 10 \<and> ch c \<noteq> 13) (map b64_char ?ns) = map b64_char ?ns"
    using b64_char_no_newline by (simp add: filter_id_conv)
  moreover have "those (map b64_val (map b64_char ?ns)) = Some ?ns"
    using n by (simp add: those_map_Some del: map_map add: map_map)
  moreover have "b64_bytes ?ns = Some (map ch s)"
    by (rule b64_bytes_sextets) simp
  moreover have "map char_of (map ch s) = s"
    by (simp add: comp_def)
  ultimately show ?thesis
    by (simp only: RawURLDecode_def RawURLEncode_def Option.bind.bind_lunit option.case)
qed

end
