(* ===== verification/GoTime.thy ===== *)
theory GoTime
  imports Prelude "HOL-Library.Signed_Division"
begin

text \<open>
  Go's \<open>time.Time\<close> and \<open>time.Duration\<close>. A time is its number of nanoseconds since 1970
  as an unbounded \<^typ>\<open>int\<close>; a duration is an \<open>int64\<close>, so products wrap around
  (\<open>wrap64\<close>), and \<open>Time.Sub\<close> saturates. A time keeps its seconds since year 1 in an
  \<open>int64\<close>, which wraps as well (\<open>norm_time\<close>).
\<close>

definition wrap64 :: "int \<Rightarrow> int" where
  "wrap64 x = (x + 2 ^ 63) mod 2 ^ 64 - 2 ^ 63"

definition int64_range :: "int \<Rightarrow> bool" where
  "int64_range x \<longleftrightarrow> - (2 ^ 63) \<le> x \<and> x < 2 ^ 63"

abbreviation Second :: int where "Second \<equiv> 1000000000"

definition Minute :: int where "Minute = 60 * Second"

definition Hour :: int where "Hour = 3600 * Second"

definition Day :: int where "Day = 24 * Hour"

definition unix_to_internal :: int where "unix_to_internal = 62135596800"

text \<open>The zero \<open>time.Time\<close>, the first of January of year 1.\<close>

definition zero_time :: int where
  "zero_time = - 62135596800 * 10 ^ 9"

definition norm_time :: "int \<Rightarrow> int" where
  "norm_time t = (wrap64 (t div Second + unix_to_internal) - unix_to_internal) * Second + t mod Second"

definition time_Unix :: "int \<Rightarrow> int" where
  "time_Unix sec = norm_time (sec * Second)"

definition time_Add :: "int \<Rightarrow> int \<Rightarrow> int" where
  "time_Add t d = norm_time (t + d)"

definition time_Sub :: "int \<Rightarrow> int \<Rightarrow> int" where
  "time_Sub t u = max (- (2 ^ 63)) (min (2 ^ 63 - 1) (t - u))"

lemma wrap64_id: "int64_range x \<Longrightarrow> wrap64 x = x"
  by (simp add: wrap64_def int64_range_def)

lemma wrap64_range: "int64_range (wrap64 x)"
proof -
  have "0 \<le> (x + 2 ^ 63) mod 2 ^ 64" "(x + 2 ^ 63) mod 2 ^ 64 < 2 ^ 64" by simp_all
  then show ?thesis by (simp add: wrap64_def int64_range_def)
qed

lemma norm_time_id:
  "int64_range (t div Second + unix_to_internal) \<Longrightarrow> norm_time t = t"
  by (simp add: norm_time_def wrap64_id)

text \<open>Times from year 1 to about 10^10 years on are represented as they are.\<close>

lemma norm_time_sane: "- (2 ^ 62) * Second \<le> t \<Longrightarrow> t \<le> 2 ^ 62 * Second \<Longrightarrow> norm_time t = t"
  by (rule norm_time_id) (auto simp: int64_range_def unix_to_internal_def zdiv_mono1)

lemma time_Sub_exact: "int64_range (t - u) \<Longrightarrow> time_Sub t u = t - u"
  by (auto simp: time_Sub_def int64_range_def)

text \<open>Division of durations truncates towards zero.\<close>

lemma trunc_nonneg: "0 \<le> a \<Longrightarrow> 0 < b \<Longrightarrow> a sdiv b = a div (b::int)"
  by (cases "a = 0") (simp_all add: signed_divide_int_def sgn_if)

lemma trunc_neg: "a < 0 \<Longrightarrow> 0 < b \<Longrightarrow> a sdiv b = - ((- a) div (b::int))"
  by (simp add: signed_divide_int_def)

end
