(* ===== verification/AuditLog.thy ===== *)
theory AuditLog
  imports Models Encoding GoTime
begin

text \<open>
  The append-only audit log of internal/audit/audit.go: the hash of an event
  (\<open>computeHash\<close> over \<open>canonicalJSON\<close>), \<open>Record\<close>, \<open>VerifyChain\<close> and the start-up
  \<open>loadLastHash\<close>. The state is the database and the auditor's cached last hash.
  \<open>Record\<close> is also split at its two critical sections, so that concurrent calls can be
  interleaved.

  SHA-256 is the parameter \<open>sum256\<close> (a function from bytes to bytes) and the
  RFC 3339 text of a time the parameter \<open>tf\<close>, which fails for years outside 0 to 9999.
\<close>

record event =
  Timestamp :: int
  UserID :: string
  UserEmail :: string
  UserRole :: string
  ActorIP :: string
  SessionID :: string
  Action :: string
  ResourceType :: string
  ResourceID :: string
  ResourceName :: string
  Result :: string
  DurationMS :: int
  Detail :: string

definition empty_event :: event where
  "empty_event = \<lparr>Timestamp = zero_time, UserID = [], UserEmail = [], UserRole = [], ActorIP = [],
     SessionID = [], Action = [], ResourceType = [], ResourceID = [], ResourceName = [],
     Result = [], DurationMS = 0, Detail = []\<rparr>"

subsection \<open>The hash of an event\<close>

datatype json_value = JStr string | JNum int

text \<open>
  \<open>json.Unmarshal\<close> into a map makes a number a float64, and \<open>json.Marshal\<close> writes
  the shortest decimal text that reads back as it (for the integers of an \<open>int\<close>, all
  below 1e21, without an exponent): up to 2^53 the number itself.
\<close>

function float_unit :: "nat \<Rightarrow> nat" where
  "float_unit n = (if n < 2 ^ 53 then 1 else 2 * float_unit (n div 2))"
  by pat_completeness auto
termination
  by (relation "measure id") auto

declare float_unit.simps [simp del]

definition nearest :: "nat \<Rightarrow> nat \<Rightarrow> nat" where
  "nearest n u =
     (let q = n div u; r = n mod u
      in (if u < 2 * r \<or> (u = 2 * r \<and> odd q) then q + 1 else q) * u)"

definition float_of_nat :: "nat \<Rightarrow> nat" where
  "float_of_nat n = nearest n (float_unit n)"

fun shortest :: "nat \<Rightarrow> nat \<Rightarrow> nat" where
  "shortest f 0 = f"
| "shortest f (Suc j) =
     (let c = nearest f (10 ^ Suc j) in if float_of_nat c = f then c else shortest f j)"

definition float64_text :: "int \<Rightarrow> string" where
  "float64_text n =
     (if \<bar>n\<bar> \<le> 2 ^ 53 then string_of_int n
      else string_of_int (sgn n * int (shortest (float_of_nat (nat \<bar>n\<bar>)) 19)))"

primrec json_marshal :: "json_value \<Rightarrow> string" where
  "json_marshal (JStr s) = json_string s"
| "json_marshal (JNum n) = float64_text n"

definition event_map :: "string \<Rightarrow> event \<Rightarrow> (string \<times> json_value) list" where
  "event_map ts ev =
     [(''Timestamp'', JStr ts), (''UserID'', JStr (UserID ev)), (''UserEmail'', JStr (UserEmail ev)),
      (''UserRole'', JStr (UserRole ev)), (''ActorIP'', JStr (ActorIP ev)),
      (''SessionID'', JStr (SessionID ev)), (''Action'', JStr (Action ev)),
      (''ResourceType'', JStr (ResourceType ev)), (''ResourceID'', JStr (ResourceID ev)),
      (''ResourceName'', JStr (ResourceName ev)), (''Result'', JStr (Result ev)),
      (''DurationMS'', JNum (DurationMS ev)), (''Detail'', JStr (Detail ev))]"

text \<open>
  \<open>json.Marshal\<close> followed by \<open>json.Unmarshal\<close> into a map gives \<open>event_map\<close> (with
  every string made valid UTF-8, which \<open>json_string\<close> does again); the keys are then
  sorted and written one by one.
\<close>

definition canonicalJSON :: "(int \<Rightarrow> go_error + string) \<Rightarrow> event \<Rightarrow> go_error + string" where
  "canonicalJSON tf ev =
     (case tf (Timestamp ev) of
        Inl e \<Rightarrow> Inl e
      | Inr ts \<Rightarrow>
          Inr ([CHR 0x7B] @
               Join (map (\<lambda>(k, v). json_string k @ '':'' @ json_marshal v)
                       (sort_key fst (event_map ts ev))) '','' @
               [CHR 0x7D]))"

definition computeHash :: "(string \<Rightarrow> string) \<Rightarrow> (int \<Rightarrow> go_error + string) \<Rightarrow> string \<Rightarrow> event \<Rightarrow>
    go_error + string" where
  "computeHash sum256 tf prev ev =
     (case canonicalJSON tf ev of
        Inl e \<Rightarrow> Inl e
      | Inr canonical \<Rightarrow>
          Inr (''sha256:'' @ hex_encode (sum256 (prev @ [CHR 0x00] @ canonical))))"

subsection \<open>Recording an event\<close>

record 'd auditor =
  au_gorm :: "'d gorm"
  au_sum :: "string \<Rightarrow> string"
  au_tf :: "int \<Rightarrow> go_error + string"

text \<open>The state the services share: the database and the auditor's cache.\<close>

record 'd world =
  wdb :: 'd
  wcache :: string

definition fill_event :: "int \<Rightarrow> event \<Rightarrow> event" where
  "fill_event now ev =
     (let ev = (if Timestamp ev = zero_time then ev\<lparr>Timestamp := now\<rparr> else ev)
      in if Result ev = [] then ev\<lparr>Result := ''success''\<rparr> else ev)"

definition audit_row :: "string \<Rightarrow> string \<Rightarrow> string \<Rightarrow> event \<Rightarrow> audit_entry" where
  "audit_row newid prev hash ev =
     \<lparr>ID = newid, CreatedAt = zero_time, UpdatedAt = zero_time, DeletedAt = None,
      ae_Timestamp = Timestamp ev, ae_UserID = UserID ev, ae_UserEmail = UserEmail ev,
      ae_UserRole = UserRole ev, ae_ActorIP = ActorIP ev, ae_SessionID = SessionID ev,
      ae_Action = Action ev, ae_ResourceType = ResourceType ev, ae_ResourceID = ResourceID ev,
      ae_ResourceName = ResourceName ev, ae_Result = Result ev, ae_DurationMS = DurationMS ev,
      ae_Detail = Detail ev, ae_PrevHash = prev, ae_Hash = hash\<rparr>"

text \<open>\<open>newid\<close> is the ULID \<open>newID()\<close> draws for the row.\<close>

definition Record :: "'d auditor \<Rightarrow> int \<Rightarrow> string \<Rightarrow> event \<Rightarrow> 'd world \<Rightarrow> go_error option \<times> 'd world" where
  "Record A now newid ev0 w =
     (let ev = fill_event now ev0; prev = wcache w
      in case computeHash (au_sum A) (au_tf A) prev ev of
           Inl e \<Rightarrow> (Some (Errorf ''compute hash: '' e []), w)
         | Inr hash \<Rightarrow>
             (case tCreate (AuditEntries (au_gorm A)) now (audit_row newid prev hash ev) (wdb w) of
                (Inl e, d) \<Rightarrow> (Some (Errorf ''insert audit: '' e []), w\<lparr>wdb := d\<rparr>)
              | (Inr r, d) \<Rightarrow> (None, w\<lparr>wdb := d, wcache := hash\<rparr>)))"

text \<open>
  The handlers record through an auditor that may be nil, and ignore the error.
\<close>

definition audit_ignore :: "'d auditor option \<Rightarrow> int \<Rightarrow> string \<Rightarrow> event \<Rightarrow> 'd world \<Rightarrow> 'd world" where
  "audit_ignore a now newid ev w =
     (case a of None \<Rightarrow> w | Some A \<Rightarrow> snd (Record A now newid ev w))"

text \<open>\<open>loadLastHash\<close>, run by \<open>New\<close>: the row with the greatest ID gives the cache.\<close>

definition loadLastHash :: "'d auditor \<Rightarrow> 'd \<Rightarrow> go_error + string" where
  "loadLastHash A d =
     (case tFind (AuditEntries (au_gorm A)) (\<lambda>_. True) (\<lambda>a b. ID b \<le> ID a) d of
        Inl e \<Rightarrow> Inl (Errorf ''load last audit hash: '' e [])
      | Inr [] \<Rightarrow> Inr []
      | Inr (r # _) \<Rightarrow> Inr (ae_Hash r))"

definition New :: "'d auditor \<Rightarrow> 'd \<Rightarrow> go_error + 'd world" where
  "New A d = (case loadLastHash A d of Inl e \<Rightarrow> Inl e | Inr h \<Rightarrow> Inr \<lparr>wdb = d, wcache = h\<rparr>)"

subsection \<open>Verifying the chain\<close>

definition row_event :: "audit_entry \<Rightarrow> event" where
  "row_event r =
     \<lparr>Timestamp = ae_Timestamp r, UserID = ae_UserID r, UserEmail = ae_UserEmail r,
      UserRole = ae_UserRole r, ActorIP = ae_ActorIP r, SessionID = ae_SessionID r,
      Action = ae_Action r, ResourceType = ae_ResourceType r, ResourceID = ae_ResourceID r,
      ResourceName = ae_ResourceName r, Result = ae_Result r, DurationMS = ae_DurationMS r,
      Detail = ae_Detail r\<rparr>"

fun verify_rows :: "(string \<Rightarrow> string) \<Rightarrow> (int \<Rightarrow> go_error + string) \<Rightarrow> int \<Rightarrow> string \<Rightarrow> audit_entry list \<Rightarrow>
    int \<times> go_error option" where
  "verify_rows sum256 tf i prev [] = (-1, None)"
| "verify_rows sum256 tf i prev (r # rs) =
     (case computeHash sum256 tf prev (row_event r) of
        Inl e \<Rightarrow> (i, Some (Errorf (''hash row '' @ string_of_int i @ '': '') e []))
      | Inr expected \<Rightarrow>
          if ae_PrevHash r \<noteq> prev \<or> ae_Hash r \<noteq> expected then (i, None)
          else verify_rows sum256 tf (i + 1) (ae_Hash r) rs)"

definition VerifyChain :: "'d auditor \<Rightarrow> 'd \<Rightarrow> int \<times> go_error option" where
  "VerifyChain A d =
     (case tFind (AuditEntries (au_gorm A)) (\<lambda>_. True) (\<lambda>a b. ID a \<le> ID b) d of
        Inl e \<Rightarrow> (0, Some e)
      | Inr rows \<Rightarrow> verify_rows (au_sum A) (au_tf A) 0 [] rows)"

text \<open>The admin endpoint over it, internal/api/v1/admin.go: the reply's (tampered, first_bad_row).\<close>

definition AdminAuditVerify :: "'d auditor option \<Rightarrow> 'd \<Rightarrow> (bool \<times> int \<times> go_error option) reply" where
  "AdminAuditVerify a d =
     (case a of
        None \<Rightarrow> Fail 500 ''audit_not_injected''
      | Some A \<Rightarrow>
          (case VerifyChain A d of
             (idx, Some e) \<Rightarrow> Reply 200 (True, idx, Some e)
           | (idx, None) \<Rightarrow> Reply 200 (False, -1, None)))"

subsection \<open>What the chain promises\<close>

text \<open>A row is linked to the hash before it; the chain is a list of linked rows.\<close>

definition linked :: "(string \<Rightarrow> string) \<Rightarrow> (int \<Rightarrow> go_error + string) \<Rightarrow> string \<Rightarrow> audit_entry \<Rightarrow> bool" where
  "linked sum256 tf prev r \<longleftrightarrow>
     ae_PrevHash r = prev \<and> computeHash sum256 tf prev (row_event r) = Inr (ae_Hash r)"

fun chain_ok :: "(string \<Rightarrow> string) \<Rightarrow> (int \<Rightarrow> go_error + string) \<Rightarrow> string \<Rightarrow> audit_entry list \<Rightarrow> bool" where
  "chain_ok sum256 tf prev [] = True"
| "chain_ok sum256 tf prev (r # rs) = (linked sum256 tf prev r \<and> chain_ok sum256 tf (ae_Hash r) rs)"

fun last_hash :: "string \<Rightarrow> audit_entry list \<Rightarrow> string" where
  "last_hash prev [] = prev"
| "last_hash prev (r # rs) = last_hash (ae_Hash r) rs"

lemma chain_ok_append:
  "chain_ok s t p (xs @ ys) \<longleftrightarrow> chain_ok s t p xs \<and> chain_ok s t (last_hash p xs) ys"
  by (induction xs arbitrary: p) auto

lemma last_hash_append [simp]: "last_hash p (xs @ ys) = last_hash (last_hash p xs) ys"
  by (induction xs arbitrary: p) auto

lemma verify_rows_clean:
  "0 \<le> i \<Longrightarrow> verify_rows s t i p rs = (-1, None) \<longleftrightarrow> chain_ok s t p rs"
proof (induction rs arbitrary: i p)
  case (Cons r rs)
  then show ?case
    by (auto simp: linked_def split: sum.splits)
qed simp

lemma verify_rows_err_index: "verify_rows s t i p rs = (-1, e) \<Longrightarrow> 0 \<le> i \<Longrightarrow> e = None"
  by (induction rs arbitrary: i p) (auto split: sum.splits if_splits)

text \<open>Otherwise the index points at the first row that is not linked.\<close>

lemma verify_rows_first_bad:
  assumes "verify_rows s t i p rs = (k, e)" "0 \<le> i" "k \<noteq> -1"
  shows "i \<le> k \<and> nat (k - i) < length rs \<and> chain_ok s t p (take (nat (k - i)) rs) \<and>
    \<not> linked s t (last_hash p (take (nat (k - i)) rs)) (rs ! nat (k - i))"
  using assms
proof (induction rs arbitrary: i p)
  case (Cons r rs)
  show ?case
  proof (cases "linked s t p r")
    case False
    then have "k = i"
      using Cons.prems by (auto simp: linked_def split: sum.splits if_splits)
    with False show ?thesis by simp
  next
    case True
    then have "verify_rows s t (i + 1) (ae_Hash r) rs = (k, e)"
      using Cons.prems by (auto simp: linked_def)
    with Cons.IH [of "i + 1" "ae_Hash r"] Cons.prems
    have IH: "i + 1 \<le> k" "nat (k - (i + 1)) < length rs"
      "chain_ok s t (ae_Hash r) (take (nat (k - (i + 1))) rs)"
      "\<not> linked s t (last_hash (ae_Hash r) (take (nat (k - (i + 1))) rs)) (rs ! nat (k - (i + 1)))"
      by auto
    moreover have "nat (k - i) = Suc (nat (k - (i + 1)))" using IH(1) by simp
    ultimately show ?thesis using True by simp
  qed
qed simp

lemma row_event_audit_row [simp]: "row_event (audit_row newid prev hash ev) = ev"
  by (simp add: row_event_def audit_row_def)

lemma row_event_stamp [simp]: "row_event (stamp now r) = row_event r"
  by (simp add: row_event_def)

lemma audit_row_simps [simp]:
  "ID (audit_row newid prev hash ev) = newid" "DeletedAt (audit_row newid prev hash ev) = None"
  "ae_PrevHash (audit_row newid prev hash ev) = prev" "ae_Hash (audit_row newid prev hash ev) = hash"
  by (simp_all add: audit_row_def)

text \<open>The log is the table read in the order of the IDs.\<close>

definition audit_log :: "audit_entry list \<Rightarrow> audit_entry list" where
  "audit_log rows = sort_key ID (sel (\<lambda>_. True) rows)"

definition audit_inv :: "'d auditor \<Rightarrow> ('d \<Rightarrow> database) \<Rightarrow> 'd world \<Rightarrow> bool" where
  "audit_inv A view w \<longleftrightarrow>
     distinct (map ID (db_audit (view (wdb w)))) \<and>
     chain_ok (au_sum A) (au_tf A) [] (audit_log (db_audit (view (wdb w)))) \<and>
     wcache w = last_hash [] (audit_log (db_audit (view (wdb w))))"

text \<open>
  A handler may change every other table and then record: the chain stays intact. \<open>audit_frame\<close>
  says that the log and the cache are as before.
\<close>

definition audit_frame :: "('d \<Rightarrow> database) \<Rightarrow> 'd world \<Rightarrow> 'd world \<Rightarrow> bool" where
  "audit_frame view w w' \<longleftrightarrow> db_audit (view (wdb w')) = db_audit (view (wdb w)) \<and> wcache w' = wcache w"

definition audit_okay :: "'d gorm \<Rightarrow> ('d \<Rightarrow> database) \<Rightarrow> 'd auditor option \<Rightarrow> 'd world \<Rightarrow> bool" where
  "audit_okay G view a w \<longleftrightarrow> (\<forall>A. a = Some A \<longrightarrow> au_gorm A = G \<and> audit_inv A view w)"

lemma total_preorder_ID [simp]:
  "total_preorder (\<lambda>a b. ID a \<le> ID b)" "total_preorder (\<lambda>a b. ID b \<le> ID a)"
  by (auto simp: total_preorder_def)

lemma distinct_ID_sel: "distinct (map ID rows) \<Longrightarrow> distinct (map ID (sel p rows))"
  by (simp add: sel_def distinct_map_filter)

lemma distinct_ID_audit_log: "distinct (map ID rows) \<Longrightarrow> distinct (map ID (audit_log rows))"
  unfolding audit_log_def using distinct_map_mset [of "sort_key ID (sel (\<lambda>_. True) rows)" _ ID]
  by (metis distinct_ID_sel mset_sort)

lemma last_hash_conv: "last_hash p xs = (if xs = [] then p else ae_Hash (last xs))"
  by (induction xs arbitrary: p) auto

context gorm_db
begin

lemma find_log:
  assumes "tFind (AuditEntries G) (\<lambda>_. True) (\<lambda>a b. ID a \<le> ID b) d = Inr rs"
    and "distinct (map ID (db_audit (view d)))"
  shows "rs = audit_log (db_audit (view d))"
proof (rule sorted_unique_by_key [where f = ID])
  show "mset rs = mset (audit_log (db_audit (view d)))"
    using audit_entry.find_ok [OF assms(1)] by (simp add: audit_log_def)
  then show "distinct (map ID rs)"
    using distinct_map_mset distinct_ID_audit_log [OF assms(2)] by blast
  show "sorted (map ID rs)"
    using audit_entry.find_sorted [OF assms(1)] by (simp add: sorted_map)
  show "sorted (map ID (audit_log (db_audit (view d))))"
    by (simp add: audit_log_def)
qed

lemma find_log_desc:
  assumes "tFind (AuditEntries G) (\<lambda>_. True) (\<lambda>a b. ID b \<le> ID a) d = Inr rs"
    and "distinct (map ID (db_audit (view d)))"
  shows "rs = rev (audit_log (db_audit (view d)))"
proof -
  have "rev rs = audit_log (db_audit (view d))"
  proof (rule sorted_unique_by_key [where f = ID])
    show "mset (rev rs) = mset (audit_log (db_audit (view d)))"
      using audit_entry.find_ok [OF assms(1)] by (simp add: audit_log_def)
    then show "distinct (map ID (rev rs))"
      using distinct_map_mset distinct_ID_audit_log [OF assms(2)] by blast
    show "sorted (map ID (rev rs))"
      using audit_entry.find_sorted [OF assms(1)] by (simp add: sorted_map sorted_wrt_rev)
    show "sorted (map ID (audit_log (db_audit (view d))))"
      by (simp add: audit_log_def)
  qed
  then show ?thesis by (metis rev_rev_ident)
qed

lemma Record_inv:
  assumes G: "au_gorm A = G" and inv: "audit_inv A view w"
    and rec: "Record A now newid ev w = (res, w')"
    and new: "\<forall>r\<in>set (db_audit (view (wdb w))). ID r < newid"
  shows "audit_inv A view w'"
proof (cases "computeHash (au_sum A) (au_tf A) (wcache w) (fill_event now ev)")
  case (Inl e)
  with rec inv show ?thesis by (simp add: Record_def Let_def)
next
  case (Inr hash)
  let ?row = "audit_row newid (wcache w) hash (fill_event now ev)"
  obtain x d where cr: "tCreate (AuditEntries G) now ?row (wdb w) = (x, d)" by fastforce
  show ?thesis
  proof (cases x)
    case (Inl e)
    with cr rec Inr G have "w' = w\<lparr>wdb := d\<rparr>" by (simp add: Record_def)
    moreover have "view d = view (wdb w)" using audit_entry.create_fail cr Inl by blast
    ultimately show ?thesis using inv by (simp add: audit_inv_def)
  next
    case (Inr r)
    with cr rec \<open>computeHash _ _ _ _ = Inr hash\<close> G
    have w': "w' = w\<lparr>wdb := d, wcache := hash\<rparr>" by (simp add: Record_def)
    have r: "r = stamp now ?row" and d: "db_audit (view d) = db_audit (view (wdb w)) @ [r]"
      using audit_entry.create_ok [OF cr [unfolded Inr]] by (simp_all add: audit_entry_defaults_def)
    have "audit_log (db_audit (view d)) = audit_log (db_audit (view (wdb w))) @ [r]"
      using new by (subst d, unfold audit_log_def sel_append, subst sort_key_snoc_greatest [symmetric])
        (auto simp: r sel_def live_def)
    then show ?thesis
      using inv new \<open>computeHash _ _ _ _ = Inr hash\<close>
      by (auto simp: audit_inv_def w' chain_ok_append linked_def d r)
  qed
qed

text \<open>A recorded event is the last row of the log.\<close>

lemma Record_log:
  assumes G: "au_gorm A = G" and rec: "Record A now newid ev w = (res, w')"
    and new: "\<forall>r\<in>set (db_audit (view (wdb w))). ID r < newid"
  shows "case res of Some e \<Rightarrow> db_audit (view (wdb w')) = db_audit (view (wdb w))
    | None \<Rightarrow> \<exists>r. row_event r = fill_event now ev \<and> ID r = newid \<and>
        audit_log (db_audit (view (wdb w'))) = audit_log (db_audit (view (wdb w))) @ [r]"
proof (cases "computeHash (au_sum A) (au_tf A) (wcache w) (fill_event now ev)")
  case (Inl e)
  with rec show ?thesis by (auto simp: Record_def Let_def)
next
  case (Inr hash)
  let ?row = "audit_row newid (wcache w) hash (fill_event now ev)"
  obtain x d where cr: "tCreate (AuditEntries G) now ?row (wdb w) = (x, d)" by fastforce
  show ?thesis
  proof (cases x)
    case (Inl e)
    with cr rec Inr G have "res \<noteq> None" "w' = w\<lparr>wdb := d\<rparr>" by (auto simp: Record_def)
    moreover have "view d = view (wdb w)" using audit_entry.create_fail cr Inl by blast
    ultimately show ?thesis by auto
  next
    case (Inr r)
    with cr rec \<open>computeHash _ _ _ _ = Inr hash\<close> G
    have w': "res = None" "w' = w\<lparr>wdb := d, wcache := hash\<rparr>" by (simp_all add: Record_def)
    have r: "r = stamp now ?row" and d: "db_audit (view d) = db_audit (view (wdb w)) @ [r]"
      using audit_entry.create_ok [OF cr [unfolded Inr]] by (simp_all add: audit_entry_defaults_def)
    have "audit_log (db_audit (view d)) = audit_log (db_audit (view (wdb w))) @ [r]"
      using new by (subst d, unfold audit_log_def sel_append, subst sort_key_snoc_greatest [symmetric])
        (auto simp: r sel_def live_def)
    then show ?thesis using w' r by auto
  qed
qed

lemma New_inv:
  assumes "au_gorm A = G" "New A d = Inr w"
    and "distinct (map ID (db_audit (view d)))"
    and "chain_ok (au_sum A) (au_tf A) [] (audit_log (db_audit (view d)))"
  shows "audit_inv A view w \<and> wdb w = d"
proof -
  obtain rs where rs: "tFind (AuditEntries G) (\<lambda>_. True) (\<lambda>a b. ID b \<le> ID a) d = Inr rs"
    and w: "w = \<lparr>wdb = d, wcache = (case rs of [] \<Rightarrow> [] | r # _ \<Rightarrow> ae_Hash r)\<rparr>"
    using assms(1,2) by (auto simp: New_def loadLastHash_def split: sum.splits list.splits)
  have "rs = rev (audit_log (db_audit (view d)))"
    using find_log_desc [OF rs assms(3)] .
  then have "(case rs of [] \<Rightarrow> [] | r # _ \<Rightarrow> ae_Hash r) = last_hash [] (audit_log (db_audit (view d)))"
    by (cases "audit_log (db_audit (view d))" rule: rev_cases) (auto simp: last_hash_conv)
  then show ?thesis using assms(3,4) by (simp add: audit_inv_def w)
qed

lemma VerifyChain_rows:
  assumes "au_gorm A = G" "distinct (map ID (db_audit (view d)))"
    and "tFind (AuditEntries G) (\<lambda>_. True) (\<lambda>a b. ID a \<le> ID b) d = Inr rs"
  shows "VerifyChain A d = verify_rows (au_sum A) (au_tf A) 0 [] (audit_log (db_audit (view d)))"
  using assms find_log [OF assms(3,2)] by (simp add: VerifyChain_def)

lemma Record_frame:
  assumes "au_gorm A = G" "Record A now newid ev w = (res, w')"
  shows "view (wdb w') = (view (wdb w))\<lparr>db_audit := db_audit (view (wdb w'))\<rparr>"
  using assms audit_entry.create_ok audit_entry.create_fail
  by (fastforce simp: Record_def Let_def split: sum.splits prod.splits)

lemma audit_ignore_okay:
  assumes "audit_okay G view a w" "audit_frame view w w1" "\<forall>r\<in>set (db_audit (view (wdb w))). ID r < newid"
  shows "audit_okay G view a (audit_ignore a now newid ev w1)"
proof (cases a)
  case (Some A)
  then have "audit_inv A view w1" "au_gorm A = G"
    using assms(1,2) by (auto simp: audit_okay_def audit_frame_def audit_inv_def)
  moreover obtain res w' where "Record A now newid ev w1 = (res, w')" by fastforce
  ultimately show ?thesis
    using Record_inv [of A w1 now newid ev res w'] assms(2,3)
    by (simp add: audit_okay_def audit_ignore_def Some audit_frame_def)
qed (simp add: audit_okay_def)

end

end
