(* ===== verification/AuditChain.thy ===== *)
theory AuditChain
  imports AuditLog
begin

text \<open>
  What the hash chain of the audit log promises: recording keeps it, verifying it is
  exact, two logs that verify and end in the same hash hold the same events, and
  where concurrent calls of \<open>Record\<close> break it.
\<close>

subsection \<open>A run of calls\<close>

record call =
  c_now :: int
  c_newid :: string
  c_event :: event

fun record_all :: "'d auditor \<Rightarrow> call list \<Rightarrow> 'd world \<Rightarrow> 'd world" where
  "record_all A [] w = w"
| "record_all A (c # cs) w = record_all A cs (snd (Record A (c_now c) (c_newid c) (c_event c) w))"

text \<open>IDs are drawn in increasing order, above those of the rows already there.\<close>

definition fresh_ids :: "call list \<Rightarrow> audit_entry list \<Rightarrow> bool" where
  "fresh_ids cs rows \<longleftrightarrow> sorted_wrt (<) (map c_newid cs) \<and> (\<forall>r\<in>set rows. \<forall>c\<in>set cs. ID r < c_newid c)"

context gorm_db
begin

lemma Record_IDs:
  assumes "au_gorm A = G" "Record A now newid ev w = (res, w')" "r \<in> set (db_audit (view (wdb w')))"
  shows "ID r = newid \<or> r \<in> set (db_audit (view (wdb w)))"
  using assms audit_entry.create_ok audit_entry.create_fail
  by (fastforce simp: Record_def Let_def audit_entry_defaults_def split: sum.splits prod.splits)

lemma record_all_inv:
  "au_gorm A = G \<Longrightarrow> audit_inv A view w \<Longrightarrow> fresh_ids cs (db_audit (view (wdb w))) \<Longrightarrow>
   audit_inv A view (record_all A cs w)"
proof (induction cs arbitrary: w)
  case (Cons c cs)
  obtain res w' where rec: "Record A (c_now c) (c_newid c) (c_event c) w = (res, w')" by fastforce
  have "audit_inv A view w'"
    using Record_inv [OF Cons.prems(1,2) rec] Cons.prems(3) by (simp add: fresh_ids_def)
  moreover have "fresh_ids cs (db_audit (view (wdb w')))"
    using Cons.prems(3) Record_IDs [OF Cons.prems(1) rec] by (fastforce simp: fresh_ids_def)
  ultimately show ?case
    using Cons.IH Cons.prems(1) rec by simp
qed simp

end

context gorm_db_up
begin

lemma VerifyChain_up:
  assumes "au_gorm A = G" "distinct (map ID (db_audit (view d)))"
  shows "VerifyChain A d = verify_rows (au_sum A) (au_tf A) 0 [] (audit_log (db_audit (view d)))"
  using audit_entry.find_up VerifyChain_rows [OF assms] by blast

lemma VerifyChain_clean:
  assumes "au_gorm A = G" "distinct (map ID (db_audit (view d)))"
  shows "VerifyChain A d = (-1, None) \<longleftrightarrow> chain_ok (au_sum A) (au_tf A) [] (audit_log (db_audit (view d)))"
  by (simp add: VerifyChain_up [OF assms] verify_rows_clean)

end

text \<open>
  Whatever events are recorded, one call after the other with increasing ULIDs and with
  any of the inserts failing, the chain invariant holds afterwards and \<open>VerifyChain\<close>
  reports a clean log.
\<close>

theorem record_all_verifies:
  assumes "gorm_db_up G view" "au_gorm A = G" "audit_inv A view w"
    and "fresh_ids cs (db_audit (view (wdb w)))"
  shows "audit_inv A view (record_all A cs w) \<and> VerifyChain A (wdb (record_all A cs w)) = (-1, None)"
proof -
  note db = gorm_db_up.axioms(1) [OF assms(1)]
  have inv: "audit_inv A view (record_all A cs w)"
    using gorm_db.record_all_inv [OF db assms(2-4)] .
  then show ?thesis
    using gorm_db_up.VerifyChain_clean [OF assms(1,2)] by (simp add: audit_inv_def)
qed

definition mem_auditor :: "database auditor" where
  "mem_auditor = \<lparr>au_gorm = mem_gorm, au_sum = (\<lambda>s. s), au_tf = (\<lambda>t. Inr (string_of_int t))\<rparr>"

lemma mem_auditor_simps [simp]:
  "au_gorm mem_auditor = mem_gorm" "au_sum mem_auditor = (\<lambda>s. s)"
  "au_tf mem_auditor = (\<lambda>t. Inr (string_of_int t))"
  by (simp_all add: mem_auditor_def)

definition empty_world :: "database world" where
  "empty_world = \<lparr>wdb = empty_database, wcache = []\<rparr>"

lemma empty_world_inv: "audit_inv mem_auditor (\<lambda>d. d) empty_world"
  by (simp add: audit_inv_def empty_world_def empty_database_def audit_log_def sel_def)

definition demo_calls :: "call list" where
  "demo_calls =
     [\<lparr>c_now = 1, c_newid = ''01'', c_event = empty_event\<lparr>Action := ''auth.login''\<rparr>\<rparr>,
      \<lparr>c_now = 2, c_newid = ''02'', c_event = empty_event\<lparr>Action := ''vault.read''\<rparr>\<rparr>]"

lemma demo_calls_fresh: "fresh_ids demo_calls (db_audit (wdb empty_world))"
  by (simp add: fresh_ids_def demo_calls_def empty_world_def empty_database_def)

theorem record_all_verifies_witness:
  "VerifyChain mem_auditor (wdb (record_all mem_auditor demo_calls empty_world)) = (-1, None)"
  using record_all_verifies [OF mem_gorm_db_up mem_auditor_simps(1) empty_world_inv demo_calls_fresh]
  by simp

text \<open>
  C13: \<open>VerifyChain\<close> is exact: on a table with distinct IDs it returns -1 just when every row,
  in the order of the IDs, is linked to the row before it, and otherwise the position of the
  first row that is not.
\<close>

theorem VerifyChain_exact:
  assumes "gorm_db_up G view" "au_gorm A = G" "distinct (map ID (db_audit (view d)))"
    and "rows = audit_log (db_audit (view d))" "VerifyChain A d = (k, e)"
  shows "if k = -1 then chain_ok (au_sum A) (au_tf A) [] rows
         else 0 \<le> k \<and> nat k < length rows \<and> chain_ok (au_sum A) (au_tf A) [] (take (nat k) rows) \<and>
           \<not> linked (au_sum A) (au_tf A) (last_hash [] (take (nat k) rows)) (rows ! nat k)"
proof (cases "k = -1")
  case True
  have "e = None"
    using assms(5) gorm_db_up.VerifyChain_up [OF assms(1-3)] verify_rows_err_index True by force
  with True show ?thesis
    using assms gorm_db_up.VerifyChain_clean [OF assms(1-3)] by simp
next
  case False
  then show ?thesis
    using verify_rows_first_bad [of _ _ 0 "[]" rows k e] assms(4,5)
      gorm_db_up.VerifyChain_up [OF assms(1-3)] by simp
qed

definition forged_row :: audit_entry where
  "forged_row = (audit_row ''01'' ''sha256:00'' ''sha256:01'' empty_event)\<lparr>CreatedAt := 5\<rparr>"

lemma forged_log: "audit_log [forged_row] = [forged_row]"
  by (simp add: audit_log_def sel_def live_def forged_row_def)

lemma forged_run: "VerifyChain mem_auditor (empty_database\<lparr>db_audit := [forged_row]\<rparr>) = (0, None)"
proof -
  have "ae_PrevHash forged_row \<noteq> []" by (simp add: forged_row_def)
  then show ?thesis
    using mem.VerifyChain_up [of mem_auditor "empty_database\<lparr>db_audit := [forged_row]\<rparr>"]
    by (simp add: forged_log computeHash_def canonicalJSON_def)
qed

theorem VerifyChain_exact_witness:
  "VerifyChain mem_auditor (empty_database\<lparr>db_audit := [forged_row]\<rparr>) = (0, None) \<and>
   \<not> linked (\<lambda>s. s) (\<lambda>t. Inr (string_of_int t)) [] forged_row"
proof -
  let ?d = "empty_database\<lparr>db_audit := [forged_row]\<rparr>"
  have ids: "distinct (map ID (db_audit ?d))" by simp
  have log: "[forged_row] = audit_log (db_audit ?d)" by (simp add: forged_log)
  show ?thesis
    using VerifyChain_exact [OF mem_gorm_db_up mem_auditor_simps(1) ids log forged_run] forged_run by simp
qed

subsection \<open>Tamper evidence\<close>

text \<open>
  What RFC 3339 formatting promises: ASCII text, and different times give different texts.
\<close>

definition rfc3339 :: "(int \<Rightarrow> go_error + string) \<Rightarrow> bool" where
  "rfc3339 tf \<longleftrightarrow> (\<forall>t s. tf t = Inr s \<longrightarrow> ascii s) \<and> (\<forall>t u s. tf t = Inr s \<longrightarrow> tf u = Inr s \<longrightarrow> t = u)"

definition event_valid :: "event \<Rightarrow> bool" where
  "event_valid ev \<longleftrightarrow>
     list_all valid_utf8 [UserID ev, UserEmail ev, UserRole ev, ActorIP ev, SessionID ev, Action ev,
       ResourceType ev, ResourceID ev, ResourceName ev, Result ev, Detail ev] \<and> \<bar>DurationMS ev\<bar> \<le> 2 ^ 53"

text \<open>The bytes hashed for each row of a log.\<close>

fun hashed :: "(int \<Rightarrow> go_error + string) \<Rightarrow> string \<Rightarrow> audit_entry list \<Rightarrow> string list" where
  "hashed tf prev [] = []"
| "hashed tf prev (r # rs) =
     (case canonicalJSON tf (row_event r) of
        Inl e \<Rightarrow> []
      | Inr c \<Rightarrow> (prev @ [CHR 0x00] @ c) # hashed tf (ae_Hash r) rs)"

lemma keys_sorted: "sort_key fst (event_map ts ev) =
   [(''Action'', JStr (Action ev)), (''ActorIP'', JStr (ActorIP ev)), (''Detail'', JStr (Detail ev)),
    (''DurationMS'', JNum (DurationMS ev)), (''ResourceID'', JStr (ResourceID ev)),
    (''ResourceName'', JStr (ResourceName ev)), (''ResourceType'', JStr (ResourceType ev)),
    (''Result'', JStr (Result ev)), (''SessionID'', JStr (SessionID ev)), (''Timestamp'', JStr ts),
    (''UserEmail'', JStr (UserEmail ev)), (''UserID'', JStr (UserID ev)), (''UserRole'', JStr (UserRole ev))]"
  by (simp add: event_map_def less_eq_char_def)

lemma rfc3339_valid: "rfc3339 tf \<Longrightarrow> tf t = Inr s \<Longrightarrow> valid_utf8 s"
  by (auto simp: rfc3339_def ascii_valid_utf8)

lemma rfc3339_inject: "rfc3339 tf \<Longrightarrow> tf t = Inr s \<Longrightarrow> tf u = Inr s \<Longrightarrow> t = u"
  by (auto simp: rfc3339_def)

lemma takeWhile_num: "takeWhile (\<lambda>c. c \<noteq> CHR '','') (string_of_int n @ CHR '','' # x) = string_of_int n"
proof -
  have "CHR '','' \<notin> set (string_of_int n)"
    using string_of_nat_digits [of "CHR '',''"] by (auto simp: string_of_int_def is_digit_def)
  then show ?thesis by (subst takeWhile_append2) auto
qed

lemma json_num_inject:
  "\<bar>m\<bar> \<le> 2 ^ 53 \<Longrightarrow> \<bar>n\<bar> \<le> 2 ^ 53 \<Longrightarrow>
   float64_text m @ CHR '','' # x = float64_text n @ CHR '','' # y \<longleftrightarrow> m = n \<and> x = y"
  unfolding float64_text_def
  by (simp, metis (no_types, lifting) append_Cons list.inject same_append_eq string_of_int_inject takeWhile_num)

lemma json_string_inject_end:
  "valid_utf8 s \<Longrightarrow> valid_utf8 t \<Longrightarrow> json_string s = json_string t \<longleftrightarrow> s = t"
  using json_string_inject [of s t "[]" "[]"] by simp

text \<open>The canonical text determines the event.\<close>

lemma canonicalJSON_inject:
  assumes "rfc3339 tf" "event_valid a" "event_valid b"
    and "canonicalJSON tf a = Inr s" "canonicalJSON tf b = Inr s"
  shows "a = b"
proof -
  obtain ta tb where t: "tf (Timestamp a) = Inr ta" "tf (Timestamp b) = Inr tb"
    using assms(4,5) by (auto simp: canonicalJSON_def split: sum.splits)
  then have v: "valid_utf8 ta" "valid_utf8 tb" using rfc3339_valid assms(1) by blast+
  have "canonicalJSON tf a = canonicalJSON tf b" using assms(4,5) by simp
  then have "ta = tb \<and> a\<lparr>Timestamp := 0\<rparr> = b\<lparr>Timestamp := 0\<rparr>"
    using assms(2,3) v
    by (auto simp: canonicalJSON_def t keys_sorted event_valid_def json_string_inject
        json_string_inject_end json_num_inject)
  moreover from this have "Timestamp a = Timestamp b"
    using t rfc3339_inject [OF assms(1)] by simp
  ultimately show ?thesis
    by (cases a, cases b) simp
qed

lemma linked_canonical:
  "linked s tf p r \<Longrightarrow> \<exists>c. canonicalJSON tf (row_event r) = Inr c \<and>
     ae_Hash r = ''sha256:'' @ hex_encode (s (p @ [CHR 0x00] @ c))"
  by (auto simp: linked_def computeHash_def split: sum.splits)

lemma hashed_append:
  "chain_ok s tf p xs \<Longrightarrow> hashed tf p (xs @ ys) = hashed tf p xs @ hashed tf (last_hash p xs) ys"
proof (induction xs arbitrary: p)
  case (Cons r rs)
  then show ?case using linked_canonical [of s tf p r] by auto
qed simp

lemma NUL_not_hex: "CHR 0x00 \<notin> set (hex_encode x)"
proof -
  have "ch (CHR 0x00) = 0" by simp
  then have "char_of (0::nat) = CHR 0x00" by (metis char_of_char)
  then show ?thesis using hex_encode_no_NUL by metis
qed

lemma chain_hash_no_NUL: "chain_ok s tf [] xs \<Longrightarrow> CHR 0x00 \<notin> set (last_hash [] xs)"
proof (cases xs rule: rev_cases)
  case (snoc ys r)
  assume "chain_ok s tf [] xs"
  then have "linked s tf (last_hash [] ys) r" by (simp add: snoc chain_ok_append)
  then show ?thesis
    using NUL_not_hex linked_canonical [of s tf "last_hash [] ys" r] by (auto simp: snoc)
qed simp

lemma chain_hash_Nil: "chain_ok s tf [] xs \<Longrightarrow> last_hash [] xs = [] \<longleftrightarrow> xs = []"
proof (cases xs rule: rev_cases)
  case (snoc ys r)
  assume "chain_ok s tf [] xs"
  then have "linked s tf (last_hash [] ys) r" by (simp add: snoc chain_ok_append)
  then show ?thesis using linked_canonical [of s tf "last_hash [] ys" r] by (auto simp: snoc)
qed simp

lemma NUL_split:
  "(c::char) \<notin> set p \<Longrightarrow> c \<notin> set q \<Longrightarrow> p @ c # x = q @ c # y \<Longrightarrow> p = q \<and> x = y"
  by (metis SplitN2_append list.inject)

text \<open>The step: equal hashes of two linked rows give equal events and equal hashes before them.\<close>

lemma linked_inject:
  assumes "linked s tf p a" "linked s tf q b" "ae_Hash a = ae_Hash b"
    and "rfc3339 tf" "event_valid (row_event a)" "event_valid (row_event b)"
    and "CHR 0x00 \<notin> set p" "CHR 0x00 \<notin> set q"
    and "inj_on s (set (hashed tf p [a]) \<union> set (hashed tf q [b]))"
  shows "p = q \<and> row_event a = row_event b"
proof -
  obtain c where c: "canonicalJSON tf (row_event a) = Inr c"
    "ae_Hash a = ''sha256:'' @ hex_encode (s (p @ [CHR 0x00] @ c))"
    using linked_canonical [OF assms(1)] by blast
  obtain d where d: "canonicalJSON tf (row_event b) = Inr d"
    "ae_Hash b = ''sha256:'' @ hex_encode (s (q @ [CHR 0x00] @ d))"
    using linked_canonical [OF assms(2)] by blast
  have "s (p @ [CHR 0x00] @ c) = s (q @ [CHR 0x00] @ d)"
    using c(2) d(2) assms(3) by simp
  then have "p @ [CHR 0x00] @ c = q @ [CHR 0x00] @ d"
    by (rule inj_onD [OF assms(9)]) (simp_all add: c(1) d(1))
  then have "p = q" "c = d"
    using NUL_split [OF assms(7,8)] by auto
  then show ?thesis
    using canonicalJSON_inject [OF assms(4-6)] c(1) d(1) by simp
qed


lemma string_of_int_ascii: "ascii (string_of_int n)"
  using string_of_nat_digits
  by (fastforce simp: ascii_def list_all_iff string_of_int_def is_digit_def split: if_splits)

lemma rfc3339_demo: "rfc3339 (\<lambda>t. Inr (string_of_int t))"
  by (auto simp: rfc3339_def string_of_int_ascii)

definition demo_row :: "string \<Rightarrow> audit_entry" where
  "demo_row newid =
     audit_row newid []
       (case computeHash (\<lambda>s. s) (\<lambda>t. Inr (string_of_int t)) [] empty_event of Inl e \<Rightarrow> [] | Inr h \<Rightarrow> h)
       empty_event"

lemma demo_row_simps [simp]:
  "row_event (demo_row newid) = empty_event" "ae_PrevHash (demo_row newid) = []"
  "linked (\<lambda>s. s) (\<lambda>t. Inr (string_of_int t)) [] (demo_row newid)"
  by (simp_all add: demo_row_def linked_def computeHash_def canonicalJSON_def)

lemma demo_row_hash: "ae_Hash (demo_row i) = ae_Hash (demo_row j)"
  by (simp add: demo_row_def)

lemma valid_utf8_Nil [simp]: "valid_utf8 []"
  by (simp add: valid_utf8_def)


lemma verify_rows_no_error:
  "\<forall>t. \<exists>s. tf t = Inr s \<Longrightarrow> snd (verify_rows s tf i p rs) = None"
proof (induction rs arbitrary: i p)
  case (Cons r rs)
  obtain ts where "tf (ae_Timestamp r) = Inr ts" using Cons.prems by blast
  then show ?case
    using Cons by (auto simp: computeHash_def canonicalJSON_def row_event_def)
qed simp

text \<open>
  \<open>AdminAuditVerify\<close> cannot report tampering: on every database that answers, with any
  rows in the audit table, it replies \<open>tampered = false\<close>, because it looks at the error of
  \<open>VerifyChain\<close> and not at the position it returns.
\<close>

theorem AdminAuditVerify_blind:
  assumes "gorm_db_up G view" "au_gorm A = G" "distinct (map ID (db_audit (view d)))"
    and "\<forall>t. \<exists>s. au_tf A t = Inr s"
  shows "AdminAuditVerify (Some A) d = Reply 200 (False, -1, None)"
  using gorm_db_up.VerifyChain_up [OF assms(1-3)] verify_rows_no_error [OF assms(4)]
  by (auto simp: AdminAuditVerify_def split: prod.splits option.splits) (metis option.distinct(1) snd_conv)

theorem AdminAuditVerify_blind_witness:
  "VerifyChain mem_auditor (empty_database\<lparr>db_audit := [forged_row]\<rparr>) = (0, None) \<and>
   AdminAuditVerify (Some mem_auditor) (empty_database\<lparr>db_audit := [forged_row]\<rparr>) = Reply 200 (False, -1, None)"
  using forged_run
    AdminAuditVerify_blind [OF mem_gorm_db_up mem_auditor_simps(1),
      of "empty_database\<lparr>db_audit := [forged_row]\<rparr>"] by simp

subsection \<open>Concurrent calls\<close>

text \<open>
  \<open>Record\<close> takes the mutex twice: to read the cache, and to publish the new hash. Between the
  two the hash is computed and the row inserted with the mutex free.
\<close>

definition record_load :: "'d world \<Rightarrow> string" where
  "record_load w = wcache w"

definition record_store :: "'d auditor \<Rightarrow> call \<Rightarrow> string \<Rightarrow> 'd world \<Rightarrow> (go_error + string) \<times> 'd world" where
  "record_store A c prev w =
     (let ev = fill_event (c_now c) (c_event c)
      in case computeHash (au_sum A) (au_tf A) prev ev of
           Inl e \<Rightarrow> (Inl (Errorf ''compute hash: '' e []), w)
         | Inr hash \<Rightarrow>
             (case tCreate (AuditEntries (au_gorm A)) (c_now c) (audit_row (c_newid c) prev hash ev) (wdb w) of
                (Inl e, d) \<Rightarrow> (Inl (Errorf ''insert audit: '' e []), w\<lparr>wdb := d\<rparr>)
              | (Inr r, d) \<Rightarrow> (Inr hash, w\<lparr>wdb := d\<rparr>)))"

definition record_publish :: "string \<Rightarrow> 'd world \<Rightarrow> 'd world" where
  "record_publish hash w = w\<lparr>wcache := hash\<rparr>"

text \<open>One call run without interruption is \<open>Record\<close>.\<close>

lemma Record_phases:
  "Record A (c_now c) (c_newid c) (c_event c) w =
     (case record_store A c (record_load w) w of
        (Inl e, w1) \<Rightarrow> (Some e, w1)
      | (Inr h, w1) \<Rightarrow> (None, record_publish h w1))"
  by (simp add: Record_def record_store_def record_load_def record_publish_def Let_def
      split: sum.splits prod.splits)

datatype phase = Start call | Loaded call string | Stored string | Done "go_error option"

inductive conc_step :: "'d auditor \<Rightarrow> 'd world \<times> phase list \<Rightarrow> 'd world \<times> phase list \<Rightarrow> bool"
  for A :: "'d auditor" where
  load: "i < length ps \<Longrightarrow> ps ! i = Start c \<Longrightarrow> conc_step A (w, ps) (w, ps[i := Loaded c (record_load w)])"
| store: "i < length ps \<Longrightarrow> ps ! i = Loaded c prev \<Longrightarrow> record_store A c prev w = (Inr h, w') \<Longrightarrow>
    conc_step A (w, ps) (w', ps[i := Stored h])"
| fail: "i < length ps \<Longrightarrow> ps ! i = Loaded c prev \<Longrightarrow> record_store A c prev w = (Inl e, w') \<Longrightarrow>
    conc_step A (w, ps) (w', ps[i := Done (Some e)])"
| publish: "i < length ps \<Longrightarrow> ps ! i = Stored h \<Longrightarrow>
    conc_step A (w, ps) (record_publish h w, ps[i := Done None])"

text \<open>The order load, load, store, store, publish, publish of two calls.\<close>

lemma race_run:
  assumes "record_store A c (wcache w) w = (Inr h1, w1)" "record_store A d (wcache w) w1 = (Inr h2, w2)"
  shows "(conc_step A)\<^sup>*\<^sup>* (w, [Start c, Start d]) (w2\<lparr>wcache := h2\<rparr>, [Done None, Done None])"
proof -
  have "conc_step A (w, [Start c, Start d]) (w, [Loaded c (wcache w), Start d])"
    using conc_step.load [of 0 "[Start c, Start d]" c A w] by (simp add: record_load_def)
  moreover have "conc_step A (w, [Loaded c (wcache w), Start d]) (w, [Loaded c (wcache w), Loaded d (wcache w)])"
    using conc_step.load [of 1 "[Loaded c (wcache w), Start d]" d A w] by (simp add: record_load_def)
  moreover have "conc_step A (w, [Loaded c (wcache w), Loaded d (wcache w)]) (w1, [Stored h1, Loaded d (wcache w)])"
    using conc_step.store [of 0 "[Loaded c (wcache w), Loaded d (wcache w)]" c "wcache w" A w h1 w1] assms(1)
    by simp
  moreover have "conc_step A (w1, [Stored h1, Loaded d (wcache w)]) (w2, [Stored h1, Stored h2])"
    using conc_step.store [of 1 "[Stored h1, Loaded d (wcache w)]" d "wcache w" A w1 h2 w2] assms(2)
    by simp
  moreover have "conc_step A (w2, [Stored h1, Stored h2]) (w2\<lparr>wcache := h1\<rparr>, [Done None, Stored h2])"
    using conc_step.publish [of 0 "[Stored h1, Stored h2]" h1 A w2] by (simp add: record_publish_def)
  moreover have "conc_step A (w2\<lparr>wcache := h1\<rparr>, [Done None, Stored h2]) (w2\<lparr>wcache := h2\<rparr>, [Done None, Done None])"
    using conc_step.publish [of 1 "[Done None, Stored h2]" h2 A "w2\<lparr>wcache := h1\<rparr>"]
    by (simp add: record_publish_def)
  ultimately show ?thesis
    by (meson converse_rtranclp_into_rtranclp rtranclp.rtrancl_refl)
qed

context gorm_db_up
begin

lemma record_store_up:
  assumes "au_gorm A = G"
    and "computeHash (au_sum A) (au_tf A) prev (fill_event (c_now c) (c_event c)) = Inr h"
    and "\<forall>r\<in>set (db_audit (view (wdb w))). ID r \<noteq> c_newid c \<and> ae_Hash r \<noteq> h"
  shows "\<exists>d. record_store A c prev w = (Inr h, w\<lparr>wdb := d\<rparr>) \<and>
    db_audit (view d) = db_audit (view (wdb w)) @
      [stamp (c_now c) (audit_row (c_newid c) prev h (fill_event (c_now c) (c_event c)))]"
proof -
  let ?row = "audit_row (c_newid c) prev h (fill_event (c_now c) (c_event c))"
  have "\<forall>x\<in>set (db_audit (view (wdb w))). \<not> audit_entry_clash x (stamp (c_now c) (audit_entry_defaults ?row))"
    using assms(3) by (auto simp: audit_entry_clash_def audit_entry_defaults_def)
  then obtain r d where cr: "tCreate (AuditEntries G) (c_now c) ?row (wdb w) = (Inr r, d)"
    using audit_entry.create_up by blast
  then show ?thesis
    using audit_entry.create_ok [OF cr] assms(1,2)
    by (intro exI [of _ d]) (simp add: record_store_def Let_def audit_entry_defaults_def)
qed

lemma race_breaks:
  assumes A: "au_gorm A = G" and w: "db_audit (view (wdb w)) = []" "wcache w = []"
    and h: "computeHash (au_sum A) (au_tf A) [] (fill_event (c_now c) (c_event c)) = Inr h1"
      "computeHash (au_sum A) (au_tf A) [] (fill_event (c_now d) (c_event d)) = Inr h2"
    and neq: "h1 \<noteq> h2" and ids: "c_newid c < c_newid d" and tf: "\<forall>t. \<exists>s. au_tf A t = Inr s"
  shows "\<exists>w'. (conc_step A)\<^sup>*\<^sup>* (w, [Start c, Start d]) (w', [Done None, Done None]) \<and>
    VerifyChain A (wdb w') = (1, None)"
proof -
  obtain d1 where 1: "record_store A c [] w = (Inr h1, w\<lparr>wdb := d1\<rparr>)"
    "db_audit (view d1) = [stamp (c_now c) (audit_row (c_newid c) [] h1 (fill_event (c_now c) (c_event c)))]"
    using record_store_up [OF A h(1), of w] w by auto
  obtain d2 where 2: "record_store A d [] (w\<lparr>wdb := d1\<rparr>) = (Inr h2, w\<lparr>wdb := d2\<rparr>)"
    "db_audit (view d2) = db_audit (view d1) @
      [stamp (c_now d) (audit_row (c_newid d) [] h2 (fill_event (c_now d) (c_event d)))]"
    using record_store_up [OF A h(2), of "w\<lparr>wdb := d1\<rparr>"] w less_imp_neq [OF ids] neq 1(2) by auto
  have run: "(conc_step A)\<^sup>*\<^sup>* (w, [Start c, Start d]) (w\<lparr>wdb := d2, wcache := h2\<rparr>, [Done None, Done None])"
    using race_run [of A c w h1 "w\<lparr>wdb := d1\<rparr>" d h2 "w\<lparr>wdb := d2\<rparr>"] 1(1) 2(1) w by simp
  have "h1 \<noteq> []" using h(1) by (auto simp: computeHash_def split: sum.splits)
  moreover obtain ts where "au_tf A (Timestamp (fill_event (c_now d) (c_event d))) = Inr ts" using tf by blast
  moreover have "distinct (map ID (db_audit (view d2)))" using 1(2) 2(2) ids by simp
  moreover have "audit_log (db_audit (view d2)) = db_audit (view d2)"
    using 1(2) 2(2) ids by (simp add: audit_log_def sel_def live_def less_imp_le)
  ultimately have "VerifyChain A d2 = (1, None)"
    using VerifyChain_up [OF A, of d2] 1(2) 2(2) h(1)
    by (auto simp: computeHash_def canonicalJSON_def split: sum.splits)
  with run show ?thesis by fastforce
qed

end

text \<open>
  C19: \<open>Record\<close> is not safe for concurrent use. From an empty log, two concurrent calls can run
  so that both succeed and the second row still carries the hash before the first one:
  \<open>VerifyChain\<close> then points at row 1 of a log nobody tampered with.
\<close>

theorem concurrent_Record_forks:
  assumes "gorm_db_up G view" "au_gorm A = G"
    and "db_audit (view (wdb w)) = []" "wcache w = []"
    and "computeHash (au_sum A) (au_tf A) [] (fill_event (c_now c) (c_event c)) = Inr h1"
    and "computeHash (au_sum A) (au_tf A) [] (fill_event (c_now d) (c_event d)) = Inr h2"
    and "h1 \<noteq> h2" "c_newid c < c_newid d" "\<forall>t. \<exists>s. au_tf A t = Inr s"
  shows "\<exists>w'. (conc_step A)\<^sup>*\<^sup>* (w, [Start c, Start d]) (w', [Done None, Done None]) \<and>
    VerifyChain A (wdb w') = (1, None)"
  by (rule gorm_db_up.race_breaks [OF assms])

definition demo_call :: "string \<Rightarrow> string \<Rightarrow> call" where
  "demo_call newid act = \<lparr>c_now = 1, c_newid = newid, c_event = empty_event\<lparr>Action := act\<rparr>\<rparr>"

theorem concurrent_Record_forks_witness:
  "\<exists>w'. (conc_step mem_auditor)\<^sup>*\<^sup>*
      (empty_world, [Start (demo_call ''01'' ''auth.login''), Start (demo_call ''02'' ''vault.read'')])
      (w', [Done None, Done None]) \<and> VerifyChain mem_auditor (wdb w') = (1, None)"
proof -
  let ?h = "\<lambda>a. ''sha256:'' @ hex_encode ([CHR 0x00] @
    projr (canonicalJSON (\<lambda>t. Inr (string_of_int t)) (fill_event 1 (empty_event\<lparr>Action := a\<rparr>))))"
  have h: "computeHash (\<lambda>s. s) (\<lambda>t. Inr (string_of_int t)) [] (fill_event 1 (empty_event\<lparr>Action := a\<rparr>)) =
    Inr (?h a)" for a
    by (simp add: computeHash_def canonicalJSON_def)
  have "event_valid (fill_event 1 (empty_event\<lparr>Action := a\<rparr>))" if "ascii a" for a
    using that by (simp add: event_valid_def fill_event_def empty_event_def ascii_valid_utf8 Let_def ascii_def)
  then have "?h ''auth.login'' \<noteq> ?h ''vault.read''"
    using canonicalJSON_inject [OF rfc3339_demo, of "fill_event 1 (empty_event\<lparr>Action := ''auth.login''\<rparr>)"
        "fill_event 1 (empty_event\<lparr>Action := ''vault.read''\<rparr>)"]
    by (auto simp: canonicalJSON_def ascii_def fill_event_def empty_event_def)
  then show ?thesis
    using concurrent_Record_forks [OF mem_gorm_db_up mem_auditor_simps(1), of empty_world
        "demo_call ''01'' ''auth.login''" _ "demo_call ''02'' ''vault.read''"] h
    by (simp add: demo_call_def empty_world_def empty_database_def)
qed

end
