(* ===== verification/Roles.thy ===== *)
theory Roles
  imports Models Encoding
begin

text \<open>
  The role names of internal/auth/roles.go and the claims of a token (internal/auth/jwt.go,
  \<open>Claims\<close>), which every handler reads.
\<close>

definition RoleRootAdmin :: string where "RoleRootAdmin = ''root_admin''"

definition RoleResellerAdmin :: string where "RoleResellerAdmin = ''reseller_admin''"

definition RoleResellerAgent :: string where "RoleResellerAgent = ''reseller_agent''"

definition RoleAccountOwner :: string where "RoleAccountOwner = ''account_owner''"

definition RoleAccountDev :: string where "RoleAccountDev = ''account_dev''"

definition RoleAccountViewer :: string where "RoleAccountViewer = ''account_viewer''"

definition RoleMailAdmin :: string where "RoleMailAdmin = ''mail_admin''"

definition RoleDBAdmin :: string where "RoleDBAdmin = ''db_admin''"

definition RoleSecurityAdmin :: string where "RoleSecurityAdmin = ''security_admin''"

definition RoleMonitor :: string where "RoleMonitor = ''monitor''"

definition RoleSupport :: string where "RoleSupport = ''support''"

definition RoleBilling :: string where "RoleBilling = ''billing''"

lemmas role_defs =
  RoleRootAdmin_def RoleResellerAdmin_def RoleResellerAgent_def RoleAccountOwner_def
  RoleAccountDev_def RoleAccountViewer_def RoleMailAdmin_def RoleDBAdmin_def
  RoleSecurityAdmin_def RoleMonitor_def RoleSupport_def RoleBilling_def

definition AllRoles :: "string list" where
  "AllRoles = [RoleRootAdmin, RoleResellerAdmin, RoleResellerAgent, RoleAccountOwner,
     RoleAccountDev, RoleAccountViewer, RoleMailAdmin, RoleDBAdmin, RoleSecurityAdmin,
     RoleMonitor, RoleSupport, RoleBilling]"

definition IsValidRole :: "string \<Rightarrow> bool" where
  "IsValidRole s = list_ex (\<lambda>r. r = s) AllRoles"

lemma IsValidRole_iff: "IsValidRole s \<longleftrightarrow> s \<in> set AllRoles"
  by (auto simp: IsValidRole_def list_ex_iff)

text \<open>
  The payload of a token. \<open>cl_Exp\<close> and \<open>cl_Iat\<close> are the registered claims in seconds,
  \<open>cl_Iss\<close> and \<open>cl_Sub\<close> the issuer and the subject.
\<close>

record claims =
  cl_UserID :: string
  cl_Email :: string
  cl_Role :: string
  cl_TenantID :: string
  cl_AccountID :: string
  cl_SessionID :: string
  cl_Iss :: string
  cl_Sub :: string
  cl_Exp :: int
  cl_Iat :: int

end
