(* ===== verification/AuditExport.thy ===== *)
theory AuditExport
  imports AuditLog Roles
begin

text \<open>
  Searching the audit log (internal/audit/search.go) and exporting it as CEF lines
  (internal/audit/export.go), with their endpoints in internal/api/v1/audit.go and admin.go.

  \<open>LIKE\<close> is SQLite's: \<open>%\<close> matches any text, \<open>_\<close> one character (here one byte), letters
  match in either case. File, UDP and TCP output are operations of the record \<open>outputs\<close>.
\<close>

subsection \<open>Search\<close>

record search_request =
  sr_TenantID :: string
  sr_UserID :: string
  sr_Action :: string
  sr_Result :: string
  sr_ResourceType :: string
  sr_Since :: "int option"
  sr_Until :: "int option"
  sr_Limit :: int
  sr_Offset :: int

record search_response =
  sp_Rows :: "audit_entry list"
  sp_Total :: nat
  sp_Limit :: int
  sp_Offset :: int
  sp_NextOffset :: int
  sp_FiltersEcho :: search_request

fun sql_like :: "string \<Rightarrow> string \<Rightarrow> bool" where
  "sql_like [] s = (s = [])"
| "sql_like (p # ps) [] = (p = CHR ''%'' \<and> sql_like ps [])"
| "sql_like (p # ps) (c # cs) =
     (if p = CHR ''%'' then sql_like ps (c # cs) \<or> sql_like (p # ps) cs
      else (p = CHR ''_'' \<or> lower_char p = lower_char c) \<and> sql_like ps cs)"

definition no_such_column :: go_error where
  "no_such_column = ErrNew ''no such column: tenant_id''"

definition normalize_page :: "search_request \<Rightarrow> search_request" where
  "normalize_page req =
     (let req = (if sr_Limit req \<le> 0 \<or> sr_Limit req > 1000 then req\<lparr>sr_Limit := 100\<rparr> else req)
      in if sr_Offset req < 0 then req\<lparr>sr_Offset := 0\<rparr> else req)"

definition search_filter :: "search_request \<Rightarrow> audit_entry \<Rightarrow> bool" where
  "search_filter req r \<longleftrightarrow>
     (sr_TenantID req \<noteq> [] \<longrightarrow> sql_like (''ROOT_'' @ sr_TenantID req @ ''%'') (ae_UserID r)) \<and>
     (sr_UserID req \<noteq> [] \<longrightarrow> ae_UserID r = sr_UserID req) \<and>
     (sr_Action req \<noteq> [] \<longrightarrow> sql_like (''%'' @ sr_Action req @ ''%'') (ae_Action r)) \<and>
     (sr_Result req \<noteq> [] \<longrightarrow> ae_Result r = sr_Result req) \<and>
     (sr_ResourceType req \<noteq> [] \<longrightarrow> ae_ResourceType r = sr_ResourceType req) \<and>
     (case sr_Since req of None \<Rightarrow> True | Some t \<Rightarrow> t \<le> ae_Timestamp r) \<and>
     (case sr_Until req of None \<Rightarrow> True | Some t \<Rightarrow> ae_Timestamp r \<le> t)"

text \<open>
  The table has no \<open>tenant_id\<close> column, so with a forced tenant the first query fails.
\<close>

definition Search :: "'d auditor \<Rightarrow> search_request \<Rightarrow> string \<Rightarrow> 'd \<Rightarrow> go_error + search_response" where
  "Search A req0 forceTenantID d =
     (let req = normalize_page req0
      in if forceTenantID \<noteq> [] then Inl no_such_column
         else (case tCount (AuditEntries (au_gorm A)) (search_filter req) d of
            Inl e \<Rightarrow> Inl e
          | Inr ntotal \<Rightarrow>
              (case tFind (AuditEntries (au_gorm A)) (search_filter req)
                      (\<lambda>a b. ae_Timestamp b \<le> ae_Timestamp a) d of
                 Inl e \<Rightarrow> Inl e
               | Inr found \<Rightarrow>
                   let rows = take (nat (sr_Limit req)) (drop (nat (sr_Offset req)) found);
                       nxt = sr_Offset req + int (length rows)
                   in Inr \<lparr>sp_Rows = rows, sp_Total = ntotal, sp_Limit = sr_Limit req,
                           sp_Offset = sr_Offset req,
                           sp_NextOffset = (if nxt < int ntotal then nxt else 0),
                           sp_FiltersEcho = req\<rparr>)))"

definition SanitizeAction :: "string \<Rightarrow> string" where
  "SanitizeAction s =
     TrimSpace (filter (\<lambda>c. c \<noteq> CHR ''_'') (filter (\<lambda>c. c \<noteq> CHR ''%'') s))"

definition AuditSearchHandler :: "'d auditor \<Rightarrow> claims option \<Rightarrow> search_request option \<Rightarrow> 'd \<Rightarrow>
    search_response reply" where
  "AuditSearchHandler A claims body d =
     (case claims of
        None \<Rightarrow> ErrUnauthorized
      | Some cl \<Rightarrow>
          (case body of
             None \<Rightarrow> Fail 400 ''invalid_body''
           | Some req \<Rightarrow>
               let req = req\<lparr>sr_Action := SanitizeAction (sr_Action req)\<rparr>;
                   forceTenant = (if cl_Role cl \<noteq> RoleRootAdmin then cl_TenantID cl else [])
               in (case Search A req forceTenant d of
                     Inl e \<Rightarrow> Fail 500 ''audit_search_failed''
                   | Inr resp \<Rightarrow> Reply 200 resp)))"

text \<open>\<open>Limit\<close> with a negative number is no limit.\<close>

definition AdminAuditLog :: "'d gorm option \<Rightarrow> int \<Rightarrow> 'd \<Rightarrow> audit_entry list reply" where
  "AdminAuditLog db limit0 d =
     (case db of
        None \<Rightarrow> Fail 500 ''db_not_injected''
      | Some G \<Rightarrow>
          let limit = (if limit0 > 500 then 500 else limit0)
          in (case tFind (AuditEntries G) (\<lambda>_. True) (\<lambda>a b. ae_Timestamp b \<le> ae_Timestamp a) d of
                Inl e \<Rightarrow> Fail 500 ''db_error''
              | Inr rows \<Rightarrow> Reply 200 (if limit < 0 then rows else take (nat limit) rows)))"

subsection \<open>CEF lines\<close>

definition CEFVersion :: string where "CEFVersion = ''0.3.0''"

definition CEFVendor :: string where "CEFVendor = ''Orvix''"

definition CEFProduct :: string where "CEFProduct = ''Panel''"

definition SyslogTag :: string where "SyslogTag = ''orvix-audit''"

definition Facility :: int where "Facility = 1"

definition escape_char :: "char \<Rightarrow> string" where
  "escape_char c =
     (if c = CHR 0x5C then [CHR 0x5C, CHR 0x5C]
      else if c = CHR ''|'' then [CHR 0x5C, CHR ''|'']
      else if c = CHR ''='' then [CHR 0x5C, CHR ''='']
      else if c = CHR 0x0A then [CHR 0x5C, CHR ''n'']
      else if c = CHR 0x0D then [CHR 0x5C, CHR ''r'']
      else [c])"

definition escapeCEF :: "string \<Rightarrow> string" where
  "escapeCEF s = concat (map escape_char s)"

text \<open>\<open>strings.ToUpper\<close> of a single byte that is not ASCII gives U+FFFD.\<close>

definition upper_byte :: "char \<Rightarrow> string" where
  "upper_byte c = (if ch c < 128 then [upper_char c] else [CHR 0xEF, CHR 0xBF, CHR 0xBD])"

definition humanizeAction :: "string \<Rightarrow> string" where
  "humanizeAction s =
     (case map (\<lambda>c. if c = CHR ''.'' then CHR '' '' else c) s of
        [] \<Rightarrow> ''Unknown action''
      | c # cs \<Rightarrow> upper_byte c @ cs)"

definition severityFromResult :: "string \<Rightarrow> string" where
  "severityFromResult r =
     (if r = ''success'' then ''3'' else if r = ''failure'' then ''7''
      else if r = ''denied'' then ''5'' else ''5'')"

definition field :: "string \<Rightarrow> string \<Rightarrow> string \<Rightarrow> string list" where
  "field v pre post = (if v \<noteq> [] then [pre @ escapeCEF v @ post] else [])"

definition cef_ext :: "audit_entry \<Rightarrow> string list" where
  "cef_ext r =
     [''rt='' @ string_of_int (ae_Timestamp r div 1000000), ''dvchost=orvixpanel''] @
     field (ae_UserID r) ''suser='' [] @
     field (ae_UserEmail r) ''suid='' [] @
     field (ae_ActorIP r) ''src='' [] @
     field (ae_SessionID r) ''cs1='' '' cs1Label=session_id'' @
     field (ae_ResourceType r) ''cs2='' '' cs2Label=resource_type'' @
     field (ae_ResourceID r) ''cs3='' '' cs3Label=resource_id'' @
     field (ae_ResourceName r) ''cs4='' '' cs4Label=resource_name'' @
     [''outcome='' @ escapeCEF (ae_Result r)] @
     (if ae_DurationMS r > 0 then [''cat=action duration='' @ string_of_int (ae_DurationMS r)] else []) @
     field (ae_Detail r) ''msg='' []"

definition or_default :: "string \<Rightarrow> string \<Rightarrow> string" where
  "or_default s t = (if s = [] then t else s)"

definition FormatCEF :: "audit_entry \<Rightarrow> string \<Rightarrow> string \<Rightarrow> string \<Rightarrow> string" where
  "FormatCEF r vendor product version =
     ''CEF:0|'' @ or_default vendor CEFVendor @ ''|'' @ or_default product CEFProduct @ ''|'' @
     or_default version CEFVersion @ ''|'' @ ae_Action r @ ''|'' @ humanizeAction (ae_Action r) @ ''|'' @
     severityFromResult (ae_Result r) @ ''|'' @ Join (cef_ext r) '' ''"

definition FormatSyslog :: "string \<Rightarrow> string \<Rightarrow> string \<Rightarrow> string" where
  "FormatSyslog ts host cefLine =
     ''<'' @ string_of_int (Facility * 8 + 6) @ ''>'' @ ts @ '' '' @ host @ '' '' @ SyslogTag @ '': '' @ cefLine"

subsection \<open>Export\<close>

record export_request =
  ex_Transport :: string
  ex_Host :: string
  ex_Port :: int
  ex_FilePath :: string
  ex_Since :: "int option"
  ex_Until :: "int option"
  ex_DeviceVendor :: string
  ex_DeviceProduct :: string
  ex_MaxRows :: int

record export_response =
  er_Exported :: nat
  er_Transport :: string
  er_Errors :: nat
  er_FirstError :: string

text \<open>
  The outside world of an export, with a state \<open>'o\<close>: opening a file, resolving and dialling
  an address, writing one chunk, and the text of the clock in a syslog frame.
\<close>

record 'o outputs =
  OpenFile :: "string \<Rightarrow> 'o \<Rightarrow> go_error option \<times> 'o"
  ResolveAddr :: "string \<Rightarrow> string \<Rightarrow> go_error option"
  Dial :: "string \<Rightarrow> string \<Rightarrow> 'o \<Rightarrow> go_error option \<times> 'o"
  WriteOut :: "string \<Rightarrow> 'o \<Rightarrow> go_error option \<times> 'o"
  SyslogTime :: "'o \<Rightarrow> string"
  Hostname :: string

fun stream_rows :: "(string \<Rightarrow> 'o \<Rightarrow> go_error option \<times> 'o) \<Rightarrow> export_request \<Rightarrow> audit_entry list \<Rightarrow>
    export_response \<Rightarrow> 'o \<Rightarrow> export_response \<times> 'o" where
  "stream_rows write req [] resp s = (resp, s)"
| "stream_rows write req (r # rs) resp s =
     (case write (FormatCEF r (ex_DeviceVendor req) (ex_DeviceProduct req) CEFVersion) s of
        (Some e, s') \<Rightarrow>
          stream_rows write req rs
            (resp\<lparr>er_Errors := er_Errors resp + 1,
                  er_FirstError := (if er_FirstError resp = [] then err_text e else er_FirstError resp)\<rparr>) s'
      | (None, s') \<Rightarrow> stream_rows write req rs (resp\<lparr>er_Exported := er_Exported resp + 1\<rparr>) s')"

definition export_filter :: "export_request \<Rightarrow> audit_entry \<Rightarrow> bool" where
  "export_filter req r \<longleftrightarrow>
     (case ex_Since req of None \<Rightarrow> True | Some t \<Rightarrow> t \<le> ae_Timestamp r) \<and>
     (case ex_Until req of None \<Rightarrow> True | Some t \<Rightarrow> ae_Timestamp r \<le> t)"

definition write_line :: "'o outputs \<Rightarrow> string \<Rightarrow> 'o \<Rightarrow> go_error option \<times> 'o" where
  "write_line out line s = WriteOut out (line @ [CHR 0x0A]) s"

definition write_frame :: "'o outputs \<Rightarrow> string \<Rightarrow> 'o \<Rightarrow> go_error option \<times> 'o" where
  "write_frame out line s = WriteOut out (FormatSyslog (SyslogTime out s) (Hostname out) line) s"

text \<open>The transport the request names: an error, or how a line is written.\<close>

definition wire :: "'o outputs \<Rightarrow> export_request \<Rightarrow> 'o \<Rightarrow>
    (go_error + (string \<Rightarrow> 'o \<Rightarrow> go_error option \<times> 'o)) \<times> 'o" where
  "wire out req s =
     (let addr = ex_Host req @ '':'' @ string_of_int (ex_Port req)
      in if ex_Transport req = ''file'' then
           (if ex_FilePath req = [] then (Inl (ErrNew ''file_path required for transport=file''), s)
            else (case OpenFile out (ex_FilePath req) s of
                    (Some e, s') \<Rightarrow> (Inl (Errorf ''open file: '' e []), s')
                  | (None, s') \<Rightarrow> (Inr (write_line out), s')))
         else if ex_Transport req = ''syslog_udp'' then
           (case ResolveAddr out ''udp'' addr of
              Some e \<Rightarrow> (Inl (Errorf ''resolve udp: '' e []), s)
            | None \<Rightarrow>
                (case Dial out ''udp'' addr s of
                   (Some e, s') \<Rightarrow> (Inl (Errorf ''dial udp: '' e []), s')
                 | (None, s') \<Rightarrow> (Inr (write_frame out), s')))
         else if ex_Transport req = ''syslog_tcp'' then
           (case ResolveAddr out ''tcp'' addr of
              Some e \<Rightarrow> (Inl (Errorf ''resolve tcp: '' e []), s)
            | None \<Rightarrow>
                (case Dial out ''tcp'' addr s of
                   (Some e, s') \<Rightarrow> (Inl (Errorf ''dial tcp: '' e []), s')
                 | (None, s') \<Rightarrow> (Inr (write_line out), s')))
         else (Inl (ErrNew (''unknown transport: '' @ go_quote (ex_Transport req))), s))"

definition Export :: "'d auditor \<Rightarrow> 'o outputs \<Rightarrow> export_request \<Rightarrow> 'd \<Rightarrow> 'o \<Rightarrow>
    (go_error + export_response) \<times> 'o" where
  "Export A out req0 d s =
     (let req = (if ex_MaxRows req0 \<le> 0 then req0\<lparr>ex_MaxRows := 10000\<rparr> else req0);
          resp = \<lparr>er_Exported = 0, er_Transport = ex_Transport req, er_Errors = 0, er_FirstError = []\<rparr>
      in case tFind (AuditEntries (au_gorm A)) (export_filter req)
               (\<lambda>a b. ae_Timestamp a \<le> ae_Timestamp b) d of
           Inl e \<Rightarrow> (Inl (Errorf ''query rows: '' e []), s)
         | Inr found \<Rightarrow>
             let rows = take (nat (ex_MaxRows req)) found
             in (case wire out req s of
                   (Inl e, s1) \<Rightarrow> (Inl e, s1)
                 | (Inr write, s1) \<Rightarrow>
                     (case stream_rows write req rows resp s1 of (resp', s2) \<Rightarrow> (Inr resp', s2))))"

definition AuditExportHandler :: "'d auditor \<Rightarrow> 'o outputs \<Rightarrow> export_request option \<Rightarrow> 'd \<Rightarrow> 'o \<Rightarrow>
    export_response reply \<times> 'o" where
  "AuditExportHandler A out body d s =
     (case body of
        None \<Rightarrow> (Fail 400 ''invalid_body'', s)
      | Some req \<Rightarrow>
          (case Export A out req d s of
             (Inl e, s') \<Rightarrow> (Fail 400 (''audit_export_failed:'' @ err_text e), s')
           | (Inr resp, s') \<Rightarrow> (Reply 200 resp, s')))"

subsection \<open>Searching\<close>

lemma like_percent:
  "sql_like (CHR ''%'' # ps) s \<longleftrightarrow> (\<exists>u v. s = u @ v \<and> sql_like ps v)"
proof (induction s)
  case (Cons c cs)
  then show ?case by (auto simp: Cons_eq_append_conv)
qed simp

lemma like_literal:
  "CHR ''%'' \<notin> set a \<Longrightarrow> CHR ''_'' \<notin> set a \<Longrightarrow>
   sql_like (a @ ps) s \<longleftrightarrow> (\<exists>u v. s = u @ v \<and> ToLower u = ToLower a \<and> sql_like ps v)"
proof (induction a arbitrary: s)
  case (Cons x a)
  show ?case
  proof (cases s)
    case Nil
    with Cons.prems show ?thesis by (auto simp: ToLower_def)
  next
    case (Cons c cs)
    have "(\<exists>u v. s = u @ v \<and> ToLower u = ToLower (x # a) \<and> sql_like ps v) \<longleftrightarrow>
      lower_char c = lower_char x \<and> (\<exists>u v. cs = u @ v \<and> ToLower u = ToLower a \<and> sql_like ps v)"
    proof
      assume "lower_char c = lower_char x \<and> (\<exists>u v. cs = u @ v \<and> ToLower u = ToLower a \<and> sql_like ps v)"
      then obtain u v where "lower_char c = lower_char x" "cs = u @ v" "ToLower u = ToLower a" "sql_like ps v"
        by blast
      then show "\<exists>u v. s = u @ v \<and> ToLower u = ToLower (x # a) \<and> sql_like ps v"
        by (intro exI [of _ "c # u"] exI [of _ v]) (simp add: Cons ToLower_def)
    qed (auto simp: Cons Cons_eq_append_conv ToLower_def)
    then show ?thesis
      using Cons.IH [of cs] Cons.prems by (auto simp: Cons)
  qed
qed (simp add: ToLower_def)

lemma like_substring:
  assumes "CHR ''%'' \<notin> set a" "CHR ''_'' \<notin> set a"
  shows "sql_like (''%'' @ a @ ''%'') s \<longleftrightarrow> (\<exists>u v w. s = u @ v @ w \<and> ToLower v = ToLower a)"
proof -
  have "sql_like (CHR ''%'' # a @ ''%'') s \<longleftrightarrow>
      (\<exists>u v. s = u @ v \<and> (\<exists>w z. v = w @ z \<and> ToLower w = ToLower a \<and> sql_like ''%'' z))"
    by (simp only: like_percent like_literal [OF assms])
  then show ?thesis
    using like_percent [of "[]"] by auto
qed

lemma SanitizeAction_no_wildcard:
  "CHR ''%'' \<notin> set (SanitizeAction s)" "CHR ''_'' \<notin> set (SanitizeAction s)"
  using set_TrimSpace [of "filter (\<lambda>c. c \<noteq> CHR ''_'') (filter (\<lambda>c. c \<noteq> CHR ''%'') s)"]
  by (auto simp: SanitizeAction_def)

lemma total_preorder_timestamp [simp]:
  "total_preorder (\<lambda>a b. ae_Timestamp a \<le> ae_Timestamp b)"
  "total_preorder (\<lambda>a b. ae_Timestamp b \<le> ae_Timestamp a)"
  by (auto simp: total_preorder_def)

lemma normalize_page_bounds:
  "1 \<le> sr_Limit (normalize_page req)" "sr_Limit (normalize_page req) \<le> 1000"
  "0 \<le> sr_Offset (normalize_page req)"
  by (auto simp: normalize_page_def Let_def)

lemma normalize_page_filter [simp]: "search_filter (normalize_page req) = search_filter req"
  by (auto simp: normalize_page_def search_filter_def Let_def fun_eq_iff)

text \<open>A page of a search: part of the matching rows, newest first.\<close>

definition is_page :: "audit_entry list \<Rightarrow> search_request \<Rightarrow> search_response \<Rightarrow> bool" where
  "is_page rows req resp \<longleftrightarrow>
     sp_Total resp = length (sel (search_filter req) rows) \<and>
     mset (sp_Rows resp) \<subseteq># mset (sel (search_filter req) rows) \<and>
     sorted_wrt (\<lambda>a b. ae_Timestamp b \<le> ae_Timestamp a) (sp_Rows resp) \<and>
     1 \<le> sp_Limit resp \<and> sp_Limit resp \<le> 1000 \<and> 0 \<le> sp_Offset resp \<and>
     int (length (sp_Rows resp)) =
       min (sp_Limit resp) (max 0 (int (sp_Total resp) - sp_Offset resp)) \<and>
     sp_NextOffset resp =
       (if sp_Offset resp + sp_Limit resp < int (sp_Total resp) then sp_Offset resp + sp_Limit resp else 0)"

lemma mset_page: "mset (take n (drop m xs)) \<subseteq># mset xs"
  by (metis append_take_drop_id mset_append mset_subset_eq_add_left mset_subset_eq_add_right subset_mset.trans)

context gorm_db
begin

lemma Search_page:
  assumes "au_gorm A = G" "Search A req [] d = Inr resp"
  shows "is_page (db_audit (view d)) req resp"
proof -
  let ?req = "normalize_page req"
  obtain n found where c: "tCount (AuditEntries G) (search_filter req) d = Inr n"
    and f: "tFind (AuditEntries G) (search_filter req) (\<lambda>a b. ae_Timestamp b \<le> ae_Timestamp a) d = Inr found"
    and resp: "resp = (let rows = take (nat (sr_Limit ?req)) (drop (nat (sr_Offset ?req)) found);
        nxt = sr_Offset ?req + int (length rows)
      in \<lparr>sp_Rows = rows, sp_Total = n, sp_Limit = sr_Limit ?req, sp_Offset = sr_Offset ?req,
          sp_NextOffset = (if nxt < int n then nxt else 0), sp_FiltersEcho = ?req\<rparr>)"
    using assms by (auto simp: Search_def Let_def split: sum.splits)
  have m: "mset found = mset (sel (search_filter req) (db_audit (view d)))"
    using audit_entry.find_ok [OF f] .
  then have len: "length found = n"
    using audit_entry.count_ok [OF c] by (metis size_mset)
  have "sorted_wrt (\<lambda>a b. ae_Timestamp b \<le> ae_Timestamp a) found"
    using audit_entry.find_sorted [OF f] by simp
  then have "sorted_wrt (\<lambda>a b. ae_Timestamp b \<le> ae_Timestamp a) (sp_Rows resp)"
    by (simp add: resp Let_def sorted_wrt_take sorted_wrt_drop)
  moreover have "mset (sp_Rows resp) \<subseteq># mset (sel (search_filter req) (db_audit (view d)))"
    using mset_page [of _ _ found] m by (simp add: resp Let_def)
  ultimately show ?thesis
    using normalize_page_bounds [of req] audit_entry.count_ok [OF c] len
    by (auto simp: is_page_def resp Let_def)
qed

end

text \<open>
  What a root admin gets from the search endpoint. The reply is a page of the matching rows,
  newest first, of at most 1000 rows, with the right total and the offset of the next page (0 when
  there is none); and a row matches the action filter just when its action contains the sanitized
  text, in either case: no wildcard of the request reaches \<open>LIKE\<close>.
\<close>

theorem AuditSearchHandler_page:
  assumes "gorm_db G view" "au_gorm A = G" "cl_Role cl = RoleRootAdmin"
    and "AuditSearchHandler A (Some cl) (Some req) d = Reply code resp"
  shows "code = 200 \<and> is_page (db_audit (view d)) (req\<lparr>sr_Action := SanitizeAction (sr_Action req)\<rparr>) resp \<and>
    (SanitizeAction (sr_Action req) \<noteq> [] \<longrightarrow>
      (\<forall>r\<in>set (sp_Rows resp). \<exists>u v w. ae_Action r = u @ v @ w \<and>
        ToLower v = ToLower (SanitizeAction (sr_Action req))))"
proof -
  let ?req = "req\<lparr>sr_Action := SanitizeAction (sr_Action req)\<rparr>"
  have s: "Search A ?req [] d = Inr resp" "code = 200"
    using assms(3,4) by (auto simp: AuditSearchHandler_def Let_def split: sum.splits)
  then have p: "is_page (db_audit (view d)) ?req resp"
    using gorm_db.Search_page [OF assms(1,2)] by blast
  then have "search_filter ?req r" if "r \<in> set (sp_Rows resp)" for r
    using that mset_subset_eqD [of "mset (sp_Rows resp)" _ r] by (fastforce simp: is_page_def)
  then show ?thesis
    using s p like_substring [OF SanitizeAction_no_wildcard] by (auto simp: search_filter_def)
qed

lemma Search_tenant_fails: "t \<noteq> [] \<Longrightarrow> Search A req t d = Inl no_such_column"
  by (simp add: Search_def Let_def)

definition root_claims :: claims where
  "root_claims = \<lparr>cl_UserID = ''01U'', cl_Email = ''root@example.com'', cl_Role = ''root_admin'',
     cl_TenantID = ''01T'', cl_AccountID = [], cl_SessionID = ''s'', cl_Iss = ''orvixpanel'',
     cl_Sub = ''01U'', cl_Exp = 900, cl_Iat = 0\<rparr>"

definition demo_entry :: audit_entry where
  "demo_entry = audit_row ''01'' [] [] (empty_event\<lparr>Action := ''vault.read''\<rparr>)"

definition demo_search :: search_request where
  "demo_search = \<lparr>sr_TenantID = [], sr_UserID = [], sr_Action = '' VAULT%'', sr_Result = [],
     sr_ResourceType = [], sr_Since = None, sr_Until = None, sr_Limit = 0, sr_Offset = -3\<rparr>"

definition log_auditor :: "database auditor" where
  "log_auditor = \<lparr>au_gorm = mem_gorm, au_sum = (\<lambda>s. s), au_tf = (\<lambda>t. Inr (string_of_int t))\<rparr>"

lemma demo_search_filter:
  "SanitizeAction (sr_Action demo_search) = ''VAULT''"
  "search_filter (demo_search\<lparr>sr_Action := ''VAULT''\<rparr>) demo_entry"
  by code_simp+

lemma demo_search_run:
  "AuditSearchHandler log_auditor (Some root_claims) (Some demo_search)
     (empty_database\<lparr>db_audit := [demo_entry]\<rparr>) =
   Reply 200 \<lparr>sp_Rows = [demo_entry], sp_Total = 1, sp_Limit = 100, sp_Offset = 0, sp_NextOffset = 0,
     sp_FiltersEcho = normalize_page (demo_search\<lparr>sr_Action := ''VAULT''\<rparr>)\<rparr>"
proof -
  have n: "sr_Limit (normalize_page (demo_search\<lparr>sr_Action := ''VAULT''\<rparr>)) = 100"
    "sr_Offset (normalize_page (demo_search\<lparr>sr_Action := ''VAULT''\<rparr>)) = 0"
    by (simp_all add: normalize_page_def demo_search_def)
  have "live demo_entry" by (simp add: live_def demo_entry_def)
  then show ?thesis
    using n demo_search_filter
    by (simp add: AuditSearchHandler_def root_claims_def RoleRootAdmin_def Search_def Let_def
        log_auditor_def mem_gorm_def mem_table_def sel_def sort_by_def)
qed

theorem AuditSearchHandler_page_witness:
  "is_page [demo_entry] (demo_search\<lparr>sr_Action := SanitizeAction (sr_Action demo_search)\<rparr>)
     \<lparr>sp_Rows = [demo_entry], sp_Total = 1, sp_Limit = 100, sp_Offset = 0, sp_NextOffset = 0,
      sp_FiltersEcho = normalize_page (demo_search\<lparr>sr_Action := ''VAULT''\<rparr>)\<rparr>"
  using AuditSearchHandler_page [OF mem_gorm_db _ _ demo_search_run]
  by (simp add: root_claims_def RoleRootAdmin_def log_auditor_def)

subsection \<open>Lines\<close>

fun unescapeCEF :: "string \<Rightarrow> string" where
  "unescapeCEF [] = []"
| "unescapeCEF [c] = [c]"
| "unescapeCEF (c # d # cs) =
     (if c = CHR 0x5C
      then (if d = CHR ''n'' then CHR 0x0A else if d = CHR ''r'' then CHR 0x0D else d) # unescapeCEF cs
      else c # unescapeCEF (d # cs))"

lemma escapeCEF_simps [simp]:
  "escapeCEF [] = []" "escapeCEF (c # cs) = escape_char c @ escapeCEF cs"
  by (simp_all add: escapeCEF_def)

lemma unescape_plain: "c \<noteq> CHR 0x5C \<Longrightarrow> unescapeCEF (c # cs) = c # unescapeCEF cs"
  by (cases cs) auto

lemma unescape_escape: "unescapeCEF (escape_char c @ cs) = c # unescapeCEF cs"
  by (auto simp: escape_char_def unescape_plain)

lemma unescapeCEF_escapeCEF: "unescapeCEF (escapeCEF s) = s"
  by (induction s) (auto simp: unescape_escape)

text \<open>No newline, carriage return, bare bar or bare equals sign is left.\<close>

lemma escapeCEF_no_newline: "CHR 0x0A \<notin> set (escapeCEF s)" "CHR 0x0D \<notin> set (escapeCEF s)"
  by (induction s) (auto simp: escape_char_def)

definition one_line :: "string \<Rightarrow> bool" where
  "one_line s \<longleftrightarrow> CHR 0x0A \<notin> set s \<and> CHR 0x0D \<notin> set s"

lemma one_line_append [simp]: "one_line (s @ t) \<longleftrightarrow> one_line s \<and> one_line t"
  by (auto simp: one_line_def)

lemma one_line_Cons [simp]: "one_line (c # s) \<longleftrightarrow> c \<noteq> CHR 0x0A \<and> c \<noteq> CHR 0x0D \<and> one_line s"
  by (auto simp: one_line_def)

lemma one_line_Nil [simp]: "one_line []"
  by (simp add: one_line_def)

lemma one_line_escapeCEF [simp]: "one_line (escapeCEF s)"
  by (simp add: one_line_def escapeCEF_no_newline)

lemma one_line_int [simp]: "one_line (string_of_int n)"
  using string_of_nat_digits by (fastforce simp: one_line_def string_of_int_def is_digit_def)

lemma one_line_Join: "(\<And>x. x \<in> set xs \<Longrightarrow> one_line x) \<Longrightarrow> one_line sep \<Longrightarrow> one_line (Join xs sep)"
  by (induction xs sep rule: Join.induct) auto

lemma one_line_field: "x \<in> set (field v pre post) \<Longrightarrow> one_line pre \<Longrightarrow> one_line post \<Longrightarrow> one_line x"
  by (auto simp: field_def split: if_splits)

lemma one_line_ext: "x \<in> set (cef_ext r) \<Longrightarrow> one_line x"
  by (auto simp: cef_ext_def split: if_splits dest: one_line_field)

lemma upper_char_control: "ch (upper_char d) < 65 \<Longrightarrow> upper_char d = d"
  by (auto simp: upper_char_def is_lower_def)

lemma one_line_upper_byte: "one_line [d] \<Longrightarrow> one_line (upper_byte d)"
  using upper_char_control [of d] by (auto simp: upper_byte_def)

lemma one_line_humanize: "one_line s \<Longrightarrow> one_line (humanizeAction s)"
proof (cases s)
  case (Cons c cs)
  assume s: "one_line s"
  have "one_line (map (\<lambda>c. if c = CHR ''.'' then CHR '' '' else c) t)" if "one_line t" for t
    using that by (auto simp: one_line_def split: if_splits)
  then show ?thesis
    using s one_line_upper_byte by (auto simp: humanizeAction_def Cons)
qed (simp add: humanizeAction_def)

lemma FormatCEF_one_line:
  assumes "one_line (ae_Action r)" "one_line v" "one_line p" "one_line ver"
  shows "one_line (FormatCEF r v p ver)"
proof -
  have "one_line (Join (cef_ext r) '' '')" by (rule one_line_Join) (auto dest: one_line_ext)
  then show ?thesis
    using assms one_line_humanize
    by (simp add: FormatCEF_def or_default_def severityFromResult_def CEFVendor_def CEFProduct_def CEFVersion_def)
qed

text \<open>
  C21: The value of a CEF extension field can be read back, and a line stays one line: whatever a
  row holds apart from its action, the line has no newline and no carriage return, so a row cannot
  forge a second line. (The action is not escaped: it must be free of newlines itself.)
\<close>

theorem CEF_line_safe:
  assumes "one_line (ae_Action r)" "one_line v" "one_line p" "one_line ver"
  shows "one_line (FormatCEF r v p ver) \<and> unescapeCEF (escapeCEF (ae_Detail r)) = ae_Detail r"
  using FormatCEF_one_line [OF assms] unescapeCEF_escapeCEF by blast

theorem CEF_line_safe_witness:
  "one_line (FormatCEF (demo_entry\<lparr>ae_Detail := ''x'' @ [CHR 0x0A] @ ''CEF:0|a=b''\<rparr>) [] [] [])"
proof -
  have "one_line (ae_Action (demo_entry\<lparr>ae_Detail := ''x'' @ [CHR 0x0A] @ ''CEF:0|a=b''\<rparr>))"
    by (simp add: demo_entry_def audit_row_def)
  then show ?thesis using CEF_line_safe [OF _ one_line_Nil one_line_Nil one_line_Nil] by blast
qed

subsection \<open>Exporting to a file\<close>

definition cef_line :: "export_request \<Rightarrow> audit_entry \<Rightarrow> string" where
  "cef_line req r = FormatCEF r (ex_DeviceVendor req) (ex_DeviceProduct req) CEFVersion"

text \<open>Every row is either exported or counted as an error, whatever the writes do.\<close>

lemma stream_rows_count:
  "stream_rows write req rs resp s = (resp', s') \<Longrightarrow>
   er_Exported resp' + er_Errors resp' = er_Exported resp + er_Errors resp + length rs"
  by (induction rs arbitrary: resp s) (fastforce split: prod.splits option.splits)+

lemma stream_rows_state:
  "snd (stream_rows write req rs resp s) = fold (\<lambda>r s. snd (write (cef_line req r) s)) rs s"
  by (induction rs arbitrary: resp s) (auto simp: cef_line_def split: prod.splits option.splits)

lemma stream_rows_ok:
  assumes "\<forall>t s. \<exists>s'. write t s = (None, s')"
  shows "er_Errors (fst (stream_rows write req rs resp s)) = er_Errors resp"
proof (induction rs arbitrary: resp s)
  case (Cons r rs)
  obtain s' where "write (FormatCEF r (ex_DeviceVendor req) (ex_DeviceProduct req) CEFVersion) s = (None, s')"
    using assms by blast
  with Cons show ?case by simp
qed simp

lemma fold_append_lines: "fold (\<lambda>r s. s @ f r) rs s = s @ concat (map f rs)"
  by (induction rs arbitrary: s) auto

text \<open>An append-only file.\<close>

definition file_like :: "string outputs \<Rightarrow> bool" where
  "file_like out \<longleftrightarrow> (\<forall>t s. WriteOut out t s = (None, s @ t)) \<and> (\<forall>p s. OpenFile out p s = (None, s))"

definition export_rows :: "audit_entry list \<Rightarrow> export_request \<Rightarrow> audit_entry list \<Rightarrow> bool" where
  "export_rows table req rows \<longleftrightarrow>
     mset rows \<subseteq># mset (sel (export_filter req) table) \<and>
     sorted_wrt (\<lambda>a b. ae_Timestamp a \<le> ae_Timestamp b) rows \<and>
     length rows = min (nat (if ex_MaxRows req \<le> 0 then 10000 else ex_MaxRows req))
       (length (sel (export_filter req) table))"

context gorm_db
begin

lemma Export_file:
  assumes "au_gorm A = G" "file_like out" "ex_Transport req = ''file''"
    and "Export A out req d s = (Inr resp, s')"
  shows "\<exists>rows. export_rows (db_audit (view d)) req rows \<and> er_Exported resp = length rows \<and>
    er_Errors resp = 0 \<and> s' = s @ concat (map (\<lambda>r. cef_line req r @ [CHR 0x0A]) rows)"
proof -
  define req' where "req' = (if ex_MaxRows req \<le> 0 then req\<lparr>ex_MaxRows := 10000\<rparr> else req)"
  have f: "export_filter req' = export_filter req" "cef_line req' = cef_line req"
    "ex_Transport req' = ''file''"
    using assms(3) by (auto simp: req'_def export_filter_def cef_line_def fun_eq_iff)
  obtain found where found: "tFind (AuditEntries G) (export_filter req)
      (\<lambda>a b. ae_Timestamp a \<le> ae_Timestamp b) d = Inr found"
    using assms(1,4) f by (auto simp: Export_def Let_def req'_def [symmetric] split: sum.splits)
  let ?rows = "take (nat (ex_MaxRows req')) found"
  let ?resp = "\<lparr>er_Exported = 0, er_Transport = ex_Transport req', er_Errors = 0, er_FirstError = []\<rparr>"
  have E: "(case wire out req' s of
        (Inl e, s1) \<Rightarrow> (Inl e, s1)
      | (Inr write, s1) \<Rightarrow>
          (case stream_rows write req' ?rows ?resp s1 of (resp', s2) \<Rightarrow> (Inr resp', s2))) = (Inr resp, s')"
    using assms(1,4) found f(1,3) by (simp add: Export_def Let_def req'_def [symmetric])
  then have w: "wire out req' s = (Inr (write_line out), s)"
    using assms(2) by (auto simp: wire_def f(3) file_like_def split: if_splits)
  have run: "stream_rows (write_line out) req' ?rows ?resp s = (resp, s')"
    using E by (simp add: w split: prod.splits)
  have ok: "\<forall>t s. write_line out t s = (None, s @ t @ [CHR 0x0A])"
    using assms(2) by (simp add: file_like_def write_line_def)
  have "er_Errors resp = 0"
    using stream_rows_ok [of "write_line out" req' ?rows ?resp s] ok run by simp
  moreover have "er_Exported resp + er_Errors resp = length ?rows"
    using stream_rows_count [OF run] by simp
  moreover have "s' = s @ concat (map (\<lambda>r. cef_line req r @ [CHR 0x0A]) ?rows)"
    using stream_rows_state [of "write_line out" req' ?rows ?resp s] ok run
    by (simp add: fold_append_lines f)
  moreover have m: "mset found = mset (sel (export_filter req) (db_audit (view d)))"
    using audit_entry.find_ok [OF found] .
  moreover have "length found = length (sel (export_filter req) (db_audit (view d)))"
    using mset_eq_length [OF m] .
  moreover have "mset ?rows \<subseteq># mset found"
    using mset_page [of "nat (ex_MaxRows req')" 0 found] by simp
  moreover have "sorted_wrt (\<lambda>a b. ae_Timestamp a \<le> ae_Timestamp b) ?rows"
    using audit_entry.find_sorted [OF found] by (simp add: sorted_wrt_take)
  ultimately have "export_rows (db_audit (view d)) req ?rows"
    by (simp add: export_rows_def req'_def min.commute)
  then show ?thesis
    using \<open>er_Errors resp = 0\<close> \<open>er_Exported resp + er_Errors resp = length ?rows\<close>
      \<open>s' = s @ concat (map (\<lambda>r. cef_line req r @ [CHR 0x0A]) ?rows)\<close> by auto
qed

end


definition demo_out :: "string outputs" where
  "demo_out = \<lparr>OpenFile = (\<lambda>p s. (None, s)), ResolveAddr = (\<lambda>n a. None), Dial = (\<lambda>n a s. (None, s)),
     WriteOut = (\<lambda>t s. (None, s @ t)), SyslogTime = (\<lambda>s. ''Jan  1 00:00:00''), Hostname = ''h''\<rparr>"

definition demo_export :: export_request where
  "demo_export = \<lparr>ex_Transport = ''file'', ex_Host = [], ex_Port = 0, ex_FilePath = ''/tmp/a'',
     ex_Since = None, ex_Until = None, ex_DeviceVendor = [], ex_DeviceProduct = [], ex_MaxRows = 0\<rparr>"

lemma demo_export_run:
  "Export log_auditor demo_out demo_export (empty_database\<lparr>db_audit := [demo_entry]\<rparr>) [] =
   (Inr \<lparr>er_Exported = 1, er_Transport = ''file'', er_Errors = 0, er_FirstError = []\<rparr>,
    cef_line demo_export demo_entry @ [CHR 0x0A])"
proof -
  have "live demo_entry" by (simp add: live_def demo_entry_def)
  then show ?thesis
    by (simp add: Export_def demo_export_def log_auditor_def mem_gorm_def mem_table_def sel_def sort_by_def
        Let_def wire_def demo_out_def write_line_def cef_line_def export_filter_def)
qed


end
