(* ===== verification/License.thy ===== *)
theory License
  imports GoTime Models Encoding Roles
begin

text \<open>
  The license of internal/license/license.go: its mode over time, feature patterns, key parsing
  and the process-wide current license; the encrypted store of store.go; the endpoints over both in
  internal/api/v1/admin.go.

  Parameters: ECDSA verification, AES-256-GCM, \<open>json.Unmarshal\<close> of a license, and the
  parsing and formatting of times.
\<close>

definition ErrInvalidKey :: go_error where
  [go_errors]: "ErrInvalidKey = ErrNew ''license key is invalid''"

definition ErrMalformedKey :: go_error where
  [go_errors]: "ErrMalformedKey = ErrNew ''license key is malformed''"

definition ErrSignatureBad :: go_error where
  [go_errors]: "ErrSignatureBad = ErrNew ''license signature is invalid''"

definition ErrNoPublicKey :: go_error where
  [go_errors]: "ErrNoPublicKey = ErrNew ''no license public key configured (set ORVIX_LICENSE_PUBKEY)''"

definition TierSMB :: string where "TierSMB = ''smb''"

definition TierISP :: string where "TierISP = ''isp''"

definition TierEnterprise :: string where "TierEnterprise = ''enterprise''"

definition TierWhiteLabel :: string where "TierWhiteLabel = ''whitelabel''"

lemmas tier_defs = TierSMB_def TierISP_def TierEnterprise_def TierWhiteLabel_def

datatype mode = ModeActive | ModeGrace | ModeLocked

primrec mode_text :: "mode \<Rightarrow> string" where
  "mode_text ModeActive = ''active''"
| "mode_text ModeGrace = ''grace''"
| "mode_text ModeLocked = ''locked''"

record license =
  lic_Tier :: string
  lic_MaxServers :: int
  lic_ExpiresAt :: int
  lic_IssuedAt :: int
  lic_Features :: "string list"
  lic_LicensedTo :: string
  lic_GraceDays :: int

subsection \<open>The mode of a license\<close>

definition ExpiresAtTime :: "license \<Rightarrow> int" where
  "ExpiresAtTime l = time_Unix (lic_ExpiresAt l)"

definition IssuedAtTime :: "license \<Rightarrow> int" where
  "IssuedAtTime l = time_Unix (lic_IssuedAt l)"

definition GraceEndsAt :: "license \<Rightarrow> int" where
  "GraceEndsAt l = time_Add (ExpiresAtTime l) (wrap64 (wrap64 (lic_GraceDays l * 24) * Hour))"

definition ModeAt :: "license \<Rightarrow> int \<Rightarrow> mode" where
  "ModeAt l now =
     (if now < ExpiresAtTime l then ModeActive
      else if now < GraceEndsAt l then ModeGrace
      else ModeLocked)"

definition DaysRemaining :: "license \<Rightarrow> int \<Rightarrow> int" where
  "DaysRemaining l now = time_Sub (ExpiresAtTime l) now sdiv Day"

definition DaysUntilLocked :: "license \<Rightarrow> int \<Rightarrow> int" where
  "DaysUntilLocked l now = time_Sub (GraceEndsAt l) now sdiv Day"

subsection \<open>Features\<close>

definition matches :: "string \<Rightarrow> string \<Rightarrow> bool" where
  "matches pattern s =
     (if pattern = ''*'' then True
      else if HasSuffix pattern ''.*'' then
        (let prefix = TrimSuffix pattern ''.*'' in HasPrefix s (prefix @ ''.'') \<or> s = prefix)
      else pattern = s)"

definition HasFeature :: "license option \<Rightarrow> string \<Rightarrow> bool" where
  "HasFeature l feature =
     (case l of
        None \<Rightarrow> False
      | Some l \<Rightarrow>
          if list_ex (\<lambda>p. HasPrefix p ''!'' \<and> matches (TrimPrefix p ''!'') feature) (lic_Features l)
          then False
          else list_ex (\<lambda>p. \<not> HasPrefix p ''!'' \<and> (p = ''*'' \<or> matches p feature)) (lic_Features l))"

definition TierFeatures :: "string \<Rightarrow> string list" where
  "TierFeatures tier =
     (if tier = TierSMB then
        [''hosting.*'', ''dns.*'', ''mail.basic'', ''ssl.*'', ''database.*'', ''files.*'',
         ''firewall.basic'', ''guardian.basic'', ''backup.local'', ''readonly.enforce'']
      else if tier = TierISP then
        [''*'', ''!guardian.llm'', ''!whitelabel.*'', ''audit.search'', ''quota.tenant'']
      else if tier = TierEnterprise then [''*'', ''!whitelabel.*'']
      else if tier = TierWhiteLabel then [''*'']
      else [])"

subsection \<open>The current license\<close>

record license_state =
  lg_global :: "license option"
  lg_mode :: mode

definition license_init :: license_state where
  "license_init = \<lparr>lg_global = None, lg_mode = ModeActive\<rparr>"

definition SetGlobal :: "int \<Rightarrow> license option \<Rightarrow> license_state \<Rightarrow> license_state" where
  "SetGlobal now l s =
     (case l of
        None \<Rightarrow> s\<lparr>lg_global := None, lg_mode := ModeLocked\<rparr>
      | Some lic \<Rightarrow> s\<lparr>lg_global := Some lic, lg_mode := ModeAt lic now\<rparr>)"

definition Get :: "license_state \<Rightarrow> license option" where
  "Get s = lg_global s"

definition CurrentMode :: "license_state \<Rightarrow> mode" where
  "CurrentMode s = lg_mode s"

subsection \<open>Parsing a key\<close>

text \<open>The process environment, with \<open>time.Parse\<close> and \<open>Time.Format\<close> and their layouts.\<close>

record env =
  Getenv :: "string \<Rightarrow> string"
  ParseTime :: "string \<Rightarrow> string \<Rightarrow> go_error + int"
  FormatTime :: "string \<Rightarrow> int \<Rightarrow> string"

definition expiry_override :: "env \<Rightarrow> int \<Rightarrow> int" where
  "expiry_override en expiresAt =
     (let v = Getenv en ''ORVIX_DEV_LICENSE_EXPIRES_AT''
      in if v \<noteq> [] then
           (case ParseTime en ''2006-01-02T15:04:05Z07:00'' v of
              Inr t \<Rightarrow> t div Second
            | Inl _ \<Rightarrow>
                (case ParseTime en ''2006-01-02'' v of Inr t \<Rightarrow> t div Second | Inl _ \<Rightarrow> expiresAt))
         else expiresAt)"

definition grace_days :: "string \<Rightarrow> int" where
  "grace_days tier =
     (if tier = TierSMB then 3 else if tier = TierISP then 7 else if tier = TierEnterprise then 14
      else if tier = TierWhiteLabel then 30 else 7)"

definition max_servers :: "string \<Rightarrow> int" where
  "max_servers tier =
     (if tier = TierSMB then 10 else if tier = TierISP then 100
      else if tier = TierEnterprise \<or> tier = TierWhiteLabel then 999999 else 1)"

text \<open>2025-01-01 and 2024-01-01, in seconds.\<close>

definition defaultPayload :: "env \<Rightarrow> string \<Rightarrow> string \<Rightarrow> license" where
  "defaultPayload en tier year =
     \<lparr>lic_Tier = tier, lic_MaxServers = max_servers tier,
      lic_ExpiresAt = expiry_override en 1735689600, lic_IssuedAt = 1704067200,
      lic_Features = TierFeatures tier, lic_LicensedTo = ''dev'', lic_GraceDays = grace_days tier\<rparr>"

text \<open>\<open>json.Marshal\<close> of a license.\<close>

definition license_json :: "license \<Rightarrow> string" where
  "license_json l =
     [CHR 0x7B] @ Join
       [json_string ''tier'' @ '':'' @ json_string (lic_Tier l),
        json_string ''max_servers'' @ '':'' @ string_of_int (lic_MaxServers l),
        json_string ''expires_at'' @ '':'' @ string_of_int (lic_ExpiresAt l),
        json_string ''issued_at'' @ '':'' @ string_of_int (lic_IssuedAt l),
        json_string ''features'' @ '':['' @ Join (map json_string (lic_Features l)) '','' @ '']'',
        json_string ''licensed_to'' @ '':'' @ json_string (lic_LicensedTo l),
        json_string ''grace_days'' @ '':'' @ string_of_int (lic_GraceDays l)] '','' @ [CHR 0x7D]"

text \<open>
  \<open>ParseWithPublicKey\<close>. The comparison of the hash segment has an empty body, so \<open>parts[3]\<close>
  is not looked at. \<open>verify\<close> is \<open>ecdsa.VerifyASN1\<close>.
\<close>

definition ParseWithPublicKey :: "('k \<Rightarrow> string \<Rightarrow> string \<Rightarrow> bool) \<Rightarrow> env \<Rightarrow> string \<Rightarrow> 'k option \<Rightarrow> bool \<Rightarrow>
    go_error + license" where
  "ParseWithPublicKey verify en key pub allowDev =
     (let parts = Split key CHR ''-''
      in if key = [] then Inl ErrInvalidKey
         else if length parts \<noteq> 5 then Inl ErrMalformedKey
         else if parts ! 0 \<noteq> ''ORVIX'' then Inl ErrInvalidKey
         else
           let tier = ToLower (parts ! 1)
           in if tier \<notin> {TierSMB, TierISP, TierEnterprise, TierWhiteLabel} then Inl ErrInvalidKey
              else
                let year = parts ! 2
                in if length year \<noteq> 4 then Inl ErrMalformedKey
                   else
                     let sigB64 = parts ! 4; payload = defaultPayload en tier year;
                       accept = Inr (payload\<lparr>lic_Features := TierFeatures tier\<rparr>)
                     in if \<not> allowDev then
                          (case pub of
                             None \<Rightarrow> Inl ErrNoPublicKey
                           | Some k \<Rightarrow>
                               (case RawURLDecode sigB64 of
                                  Inl e \<Rightarrow> Inl (Errorf ''decode signature: '' e [])
                                | Inr sig \<Rightarrow>
                                    if \<not> verify k (license_json payload) sig then Inl ErrSignatureBad
                                    else accept))
                        else accept)"

definition Parse :: "('k \<Rightarrow> string \<Rightarrow> string \<Rightarrow> bool) \<Rightarrow> env \<Rightarrow> string \<Rightarrow> go_error + license" where
  "Parse verify en key = ParseWithPublicKey verify en key None False"

definition Validate :: "('k \<Rightarrow> string \<Rightarrow> string \<Rightarrow> bool) \<Rightarrow> env \<Rightarrow> string \<Rightarrow> go_error + license" where
  "Validate verify en key = Parse verify en key"

text \<open>A parsed public key is an ECDSA key or of another type, named in the error.\<close>

datatype 'k pkix = Ecdsa 'k | OtherKey string

definition LoadPublicKey :: "(string \<Rightarrow> string option) \<Rightarrow> (string \<Rightarrow> go_error + 'k pkix) \<Rightarrow> string \<Rightarrow>
    go_error + 'k" where
  "LoadPublicKey pem_decode parse_pkix pemData =
     (case pem_decode pemData of
        None \<Rightarrow> Inl (ErrNew ''no PEM block found'')
      | Some bytes \<Rightarrow>
          (case parse_pkix bytes of
             Inl e \<Rightarrow> Inl (Errorf ''parse public key: '' e [])
           | Inr (OtherKey t) \<Rightarrow> Inl (ErrNew (''not an ECDSA public key (got '' @ t @ '')''))
           | Inr (Ecdsa k) \<Rightarrow> Inr k))"

end
