(* ===== verification/Crypto.thy ===== *)
theory Crypto
  imports Encoding
begin

text \<open>
  AES-256-GCM as the panel uses it: a sealing and an opening function for a key, both
  parameters of the model, and the blob \<open>nonce || ciphertext\<close> the license store and the
  vault put in the database. What the code relies on is \<open>aead_ok\<close>.
\<close>

record gcm =
  Seal :: "string \<Rightarrow> string \<Rightarrow> string"
  Open :: "string \<Rightarrow> string \<Rightarrow> go_error + string"

definition NonceSize :: nat where "NonceSize = 12"

definition aead_ok :: "gcm \<Rightarrow> bool" where
  "aead_ok g \<longleftrightarrow> (\<forall>n p. length n = NonceSize \<longrightarrow> Open g n (Seal g n p) = Inr p)"

definition open_blob :: "gcm \<Rightarrow> string \<Rightarrow> go_error + string" where
  "open_blob g raw =
     (if length raw < NonceSize then Inl (ErrNew ''cipher blob too short'')
      else Open g (take NonceSize raw) (drop NonceSize raw))"

lemma open_blob_seal: "aead_ok g \<Longrightarrow> length n = NonceSize \<Longrightarrow> open_blob g (n @ Seal g n p) = Inr p"
  by (simp add: open_blob_def aead_ok_def)

text \<open>The construction shared by \<open>NewStore\<close> and \<open>vault.New\<close>; \<open>aes\<close> builds the cipher of a key.\<close>

definition new_gcm :: "(string \<Rightarrow> go_error + gcm) \<Rightarrow> string \<Rightarrow> go_error + gcm" where
  "new_gcm aes masterKey =
     (if length masterKey \<noteq> 32
      then Inl (ErrNew (''master key must be 32 bytes, got '' @ string_of_nat (length masterKey)))
      else (case aes masterKey of Inl e \<Rightarrow> Inl (Errorf ''aes.NewCipher: '' e []) | Inr g \<Rightarrow> Inr g))"

text \<open>An instance for concrete runs: a tag of sixteen zero bytes and the text itself.\<close>

definition demo_gcm :: gcm where
  "demo_gcm =
     \<lparr>Seal = (\<lambda>n p. p @ replicate 16 (CHR 0x00)),
      Open = (\<lambda>n c. if length c < 16 then Inl (ErrNew ''cipher: message authentication failed'')
                    else Inr (take (length c - 16) c))\<rparr>"

lemma demo_gcm_ok: "aead_ok demo_gcm"
  by (simp add: aead_ok_def demo_gcm_def)

definition demo_nonce :: string where "demo_nonce = ''0123456789ab''"

lemma length_demo_nonce [simp]: "length demo_nonce = NonceSize"
  by (simp add: demo_nonce_def NonceSize_def)

end
