(* ===== verification/LicenseStore.thy ===== *)
theory LicenseStore
  imports License Crypto
begin

text \<open>
  The encrypted license store of internal/license/store.go, and the license endpoints of
  internal/api/v1/admin.go. The state is the database and the process-wide license.
\<close>

definition licenseStoreKeyID :: string where "licenseStoreKeyID = ''singleton''"

definition cipherVersion :: string where "cipherVersion = ''v1''"

definition MasterKeySource :: "(string \<Rightarrow> string) \<Rightarrow> env \<Rightarrow> go_error + string" where
  "MasterKeySource sum256 en =
     (let h = Getenv en ''ORVIX_MASTER_KEY''
      in if h \<noteq> [] then
           (case RawURLDecode h of
              Inl e \<Rightarrow> Inl (Errorf ''ORVIX_MASTER_KEY must be base64url: '' e [])
            | Inr raw \<Rightarrow>
                if length raw \<noteq> 32
                then Inl (ErrNew (''ORVIX_MASTER_KEY must decode to 32 bytes, got '' @
                       string_of_nat (length raw)))
                else Inr raw)
         else if Getenv en ''ORVIX_ALLOW_DEV'' = ''1'' then
           (let sk = Getenv en ''ORVIX_SECRET_KEY''
            in if sk = [] then Inl (ErrNew ''dev mode needs ORVIX_SECRET_KEY or ORVIX_MASTER_KEY'')
               else Inr (sum256 (''orvix-master-key-v1:'' @ sk)))
         else Inl (ErrNew ''ORVIX_MASTER_KEY not set (or set ORVIX_ALLOW_DEV=1)''))"

text \<open>\<open>st_Unmarshal\<close> is \<open>json.Unmarshal\<close> into a license.\<close>

record 'd store =
  st_gorm :: "'d gorm"
  st_gcm :: gcm
  st_Unmarshal :: "string \<Rightarrow> go_error + license"

definition NewStore :: "(string \<Rightarrow> go_error + gcm) \<Rightarrow> (string \<Rightarrow> go_error + license) \<Rightarrow> 'd gorm \<Rightarrow> string \<Rightarrow>
    go_error + 'd store" where
  "NewStore aes unmarshal G masterKey =
     (case new_gcm aes masterKey of
        Inl e \<Rightarrow> Inl e
      | Inr g \<Rightarrow> Inr \<lparr>st_gorm = G, st_gcm = g, st_Unmarshal = unmarshal\<rparr>)"

definition license_blob :: "gcm \<Rightarrow> string \<Rightarrow> license \<Rightarrow> string" where
  "license_blob g nonce lic =
     cipherVersion @ '':'' @ RawURLEncode (nonce @ Seal g nonce (license_json lic))"

definition license_row :: "string \<Rightarrow> string \<Rightarrow> license \<Rightarrow> string \<Rightarrow> license_store" where
  "license_row newid blob lic uploadedBy =
     \<lparr>ID = newid, CreatedAt = zero_time, UpdatedAt = zero_time, DeletedAt = None,
      ls_KeyID = licenseStoreKeyID, ls_Ciphertext = blob, ls_ParsedTier = lic_Tier lic,
      ls_ParsedExpiresAt = lic_ExpiresAt lic, ls_ParsedIssuedAt = lic_IssuedAt lic,
      ls_UploadedByID = uploadedBy, ls_UploadedAt = zero_time\<rparr>"

text \<open>\<open>nonce\<close> is what \<open>io.ReadFull(rand.Reader, nonce)\<close> returned.\<close>

definition Save :: "'d store \<Rightarrow> int \<Rightarrow> string \<Rightarrow> go_error + string \<Rightarrow> license option \<Rightarrow> string \<Rightarrow> 'd \<Rightarrow>
    go_error option \<times> 'd" where
  "Save S now newid nonce lic0 uploadedBy d =
     (case lic0 of
        None \<Rightarrow> (Some (ErrNew ''license is nil''), d)
      | Some lic \<Rightarrow>
          (case nonce of
             Inl e \<Rightarrow> (Some (Errorf ''nonce: '' e []), d)
           | Inr n \<Rightarrow>
               let row = license_row newid (license_blob (st_gcm S) n lic) lic uploadedBy
               in (case tDelete (LicenseStores (st_gorm S)) now (\<lambda>r. ls_KeyID r = licenseStoreKeyID) d of
                     (Inl e, d1) \<Rightarrow> (Some (Errorf ''delete old license row: '' e []), d1)
                   | (Inr k, d1) \<Rightarrow>
                       (case tCreate (LicenseStores (st_gorm S)) now row d1 of
                          (Inl e, d2) \<Rightarrow> (Some (Errorf ''insert license row: '' e []), d2)
                        | (Inr r, d2) \<Rightarrow> (None, d2)))))"

definition license_decrypt :: "'d store \<Rightarrow> string \<Rightarrow> go_error + license" where
  "license_decrypt S blob =
     (if length blob < 3 \<or> take 3 blob \<noteq> cipherVersion @ '':''
      then Inl (ErrNew (''unsupported cipher version: '' @ go_quote blob))
      else (case RawURLDecode (drop 3 blob) of
         Inl e \<Rightarrow> Inl (Errorf ''decode cipher blob: '' e [])
       | Inr raw \<Rightarrow>
           if length raw < NonceSize then Inl (ErrNew ''cipher blob too short'')
           else (case Open (st_gcm S) (take NonceSize raw) (drop NonceSize raw) of
              Inl e \<Rightarrow> Inl (Errorf ''gcm open: '' e [])
            | Inr plain \<Rightarrow>
                (case st_Unmarshal S plain of
                   Inl e \<Rightarrow> Inl (Errorf ''unmarshal license: '' e [])
                 | Inr lic \<Rightarrow> Inr lic))))"

definition Load :: "'d store \<Rightarrow> 'd \<Rightarrow> go_error + license" where
  "Load S d =
     (case tFirst (LicenseStores (st_gorm S)) (\<lambda>r. ls_KeyID r = licenseStoreKeyID) d of
        Inl e \<Rightarrow> if errors_Is e ErrRecordNotFound then Inl ErrInvalidKey
                 else Inl (Errorf ''load license: '' e [])
      | Inr row \<Rightarrow> license_decrypt S (ls_Ciphertext row))"

record renewal =
  rn_Tier :: string
  rn_LicensedTo :: string
  rn_IssuedAt :: string
  rn_ExpiresAt :: string
  rn_GraceEndsAt :: string
  rn_DaysRemaining :: int
  rn_DaysUntilLocked :: int
  rn_Mode :: string
  rn_MaxServers :: int
  rn_FeatureCount :: nat

datatype renewal_info = NotLoaded string | Loaded renewal

definition timeRFC3339 :: string where "timeRFC3339 = ''2006-01-02T15:04:05Z07:00''"

definition RenewalInfo :: "'d store \<Rightarrow> env \<Rightarrow> int \<Rightarrow> 'd \<Rightarrow> go_error + renewal_info" where
  "RenewalInfo S en now d =
     (case Load S d of
        Inl e \<Rightarrow> if errors_Is e ErrInvalidKey then Inr (NotLoaded (mode_text ModeLocked)) else Inl e
      | Inr lic \<Rightarrow>
          Inr (Loaded
            \<lparr>rn_Tier = lic_Tier lic, rn_LicensedTo = lic_LicensedTo lic,
             rn_IssuedAt = FormatTime en timeRFC3339 (IssuedAtTime lic),
             rn_ExpiresAt = FormatTime en timeRFC3339 (ExpiresAtTime lic),
             rn_GraceEndsAt = FormatTime en timeRFC3339 (GraceEndsAt lic),
             rn_DaysRemaining = DaysRemaining lic now,
             rn_DaysUntilLocked = DaysUntilLocked lic now,
             rn_Mode = mode_text (ModeAt lic now),
             rn_MaxServers = lic_MaxServers lic,
             rn_FeatureCount = length (lic_Features lic)\<rparr>))"

subsection \<open>Endpoints\<close>

definition AdminLicense :: "license_state \<Rightarrow> license option reply" where
  "AdminLicense s = Reply 200 (Get s)"

definition AdminLicenseRenewal :: "'d store option \<Rightarrow> env \<Rightarrow> int \<Rightarrow> 'd \<Rightarrow> renewal_info reply" where
  "AdminLicenseRenewal store en now d =
     (case store of
        None \<Rightarrow> Fail 503 ''license_store_unavailable''
      | Some S \<Rightarrow>
          (case RenewalInfo S en now d of
             Inl e \<Rightarrow> Fail 500 ''license_renewal_failed''
           | Inr info \<Rightarrow> Reply 200 info))"

text \<open>\<open>body\<close> is the parsed request, with its only field \<open>Key\<close>.\<close>

definition AdminLicenseUpload :: "('k \<Rightarrow> string \<Rightarrow> string \<Rightarrow> bool) \<Rightarrow> env \<Rightarrow> 'd store option \<Rightarrow> int \<Rightarrow> string \<Rightarrow>
    go_error + string \<Rightarrow> claims option \<Rightarrow> string option \<Rightarrow> 'd \<Rightarrow> license_state \<Rightarrow>
    license reply \<times> 'd \<times> license_state" where
  "AdminLicenseUpload verify en store now newid nonce claims body d g =
     (case store of
        None \<Rightarrow> (Fail 503 ''license_store_unavailable'', d, g)
      | Some S \<Rightarrow>
          (case body of
             None \<Rightarrow> (Fail 400 ''invalid_body'', d, g)
           | Some key \<Rightarrow>
               if key = [] then (Fail 400 ''missing_key'', d, g)
               else (case Parse verify en key of
                  Inl e \<Rightarrow> (Fail 400 (''license_parse_failed:'' @ err_text e), d, g)
                | Inr lic \<Rightarrow>
                    let uploader = (case claims of None \<Rightarrow> [] | Some cl \<Rightarrow> cl_UserID cl)
                    in (case Save S now newid nonce (Some lic) uploader d of
                          (Some e, d') \<Rightarrow> (Fail 500 ''license_save_failed'', d', g)
                        | (None, d') \<Rightarrow> (Reply 200 lic, d', SetGlobal now (Some lic) g)))))"

end
