(* ===== verification/LicenseProps.thy ===== *)
theory LicenseProps
  imports LicenseStore
begin

text \<open>
  What a license promises: its three windows over time, what a tier may use, what a key must
  have to be accepted, and how the store keeps it.
\<close>

subsection \<open>Modes over time\<close>

primrec mode_rank :: "mode \<Rightarrow> nat" where
  "mode_rank ModeActive = 0"
| "mode_rank ModeGrace = 1"
| "mode_rank ModeLocked = 2"

text \<open>The modes in the order in which a license passes through them.\<close>

instantiation mode :: linorder
begin

definition less_eq_mode :: "mode \<Rightarrow> mode \<Rightarrow> bool" where
  "m \<le> n \<longleftrightarrow> mode_rank m \<le> mode_rank n"

definition less_mode :: "mode \<Rightarrow> mode \<Rightarrow> bool" where
  "m < n \<longleftrightarrow> mode_rank m < mode_rank n"

instance
proof
  fix m n k :: mode
  show "m < n \<longleftrightarrow> m \<le> n \<and> \<not> n \<le> m" by (auto simp: less_eq_mode_def less_mode_def)
  show "m \<le> m" "m \<le> n \<or> n \<le> m" by (auto simp: less_eq_mode_def)
  show "m \<le> n \<Longrightarrow> n \<le> k \<Longrightarrow> m \<le> k" by (simp add: less_eq_mode_def)
  show "m \<le> n \<Longrightarrow> n \<le> m \<Longrightarrow> m = n" by (cases m; cases n) (simp_all add: less_eq_mode_def)
qed

end

text \<open>
  Bounds under which nothing wraps around: 106751 days are the most whole days an \<open>int64\<close> of
  nanoseconds holds.
\<close>

definition plain_license :: "license \<Rightarrow> bool" where
  "plain_license l \<longleftrightarrow> 0 \<le> lic_GraceDays l \<and> lic_GraceDays l \<le> 106751 \<and> \<bar>lic_ExpiresAt l\<bar> \<le> 2 ^ 61"

lemma ExpiresAtTime_plain: "plain_license l \<Longrightarrow> ExpiresAtTime l = lic_ExpiresAt l * Second"
  unfolding ExpiresAtTime_def time_Unix_def plain_license_def
  by (rule norm_time_sane) auto

lemma GraceEndsAt_plain:
  assumes "plain_license l"
  shows "GraceEndsAt l = (lic_ExpiresAt l + lic_GraceDays l * 86400) * Second"
proof -
  have "wrap64 (lic_GraceDays l * 24) = lic_GraceDays l * 24"
    using assms by (intro wrap64_id) (simp add: plain_license_def int64_range_def)
  moreover have "wrap64 (lic_GraceDays l * 24 * Hour) = lic_GraceDays l * 24 * Hour"
    using assms by (intro wrap64_id) (simp add: plain_license_def int64_range_def Hour_def)
  moreover have "norm_time (lic_ExpiresAt l * Second + lic_GraceDays l * 24 * Hour) =
      lic_ExpiresAt l * Second + lic_GraceDays l * 24 * Hour"
    using assms by (intro norm_time_sane) (auto simp: plain_license_def Hour_def)
  ultimately show ?thesis
    by (simp add: GraceEndsAt_def time_Add_def ExpiresAtTime_plain [OF assms] Hour_def algebra_simps)
qed

text \<open>One day more and the grace period wraps around to before the expiry: there is none.\<close>

lemma grace_wraps:
  assumes "lic_GraceDays l = 106752" "\<bar>lic_ExpiresAt l\<bar> \<le> 2 ^ 61"
  shows "ModeAt l now \<noteq> ModeGrace"
proof -
  have e: "ExpiresAtTime l = lic_ExpiresAt l * Second"
    using assms(2) unfolding ExpiresAtTime_def time_Unix_def by (intro norm_time_sane) auto
  have "wrap64 (wrap64 (106752 * 24) * Hour) = - 9223371273709551616"
    by (simp add: wrap64_def Hour_def)
  moreover have "norm_time (lic_ExpiresAt l * Second - 9223371273709551616) =
      lic_ExpiresAt l * Second - 9223371273709551616"
    using assms(2) by (intro norm_time_sane) auto
  ultimately have "GraceEndsAt l < ExpiresAtTime l"
    by (simp add: GraceEndsAt_def assms(1) time_Add_def e)
  then show ?thesis by (auto simp: ModeAt_def)
qed

text \<open>
  C22: A license is active before its expiry, in grace for exactly \<open>GraceDays\<close> days of 86400
  seconds from then on, and locked ever after: as time passes it only moves forward through these
  modes.
\<close>

theorem ModeAt_windows:
  assumes "plain_license l"
  shows "(ModeAt l now = ModeActive \<longleftrightarrow> now < lic_ExpiresAt l * Second) \<and>
    (ModeAt l now = ModeGrace \<longleftrightarrow> lic_ExpiresAt l * Second \<le> now \<and>
       now < (lic_ExpiresAt l + lic_GraceDays l * 86400) * Second) \<and>
    mono (ModeAt l)"
  using assms by (auto simp: mono_def less_eq_mode_def ModeAt_def ExpiresAtTime_plain GraceEndsAt_plain plain_license_def)

definition demo_env :: env where
  "demo_env = \<lparr>Getenv = (\<lambda>_. []), ParseTime = (\<lambda>_ _. Inl (ErrNew ''parsing time'')),
     FormatTime = (\<lambda>_ t. string_of_int t)\<rparr>"

definition demo_license :: license where
  "demo_license = defaultPayload demo_env ''enterprise'' ''2024''"

lemma demo_license_simps [simp]:
  "lic_ExpiresAt demo_license = 1735689600" "lic_GraceDays demo_license = 14"
  "lic_Features demo_license = TierFeatures ''enterprise''" "lic_Tier demo_license = ''enterprise''"
  by (simp_all add: demo_license_def defaultPayload_def expiry_override_def demo_env_def grace_days_def tier_defs)

theorem ModeAt_windows_witness:
  "ModeAt demo_license (1736899199 * Second) = ModeGrace \<and>
   ModeAt demo_license (1736899200 * Second) \<noteq> ModeGrace"
  using ModeAt_windows [of demo_license "1736899199 * Second"]
    ModeAt_windows [of demo_license "1736899200 * Second"]
  by (simp add: plain_license_def)

text \<open>
  \<open>DaysRemaining\<close> is rounded towards zero: it is the number of full days left before the
  expiry and the negated number of full days after it. So it is 0 for a day on either side of the
  expiry, where the comment says rounded down and negative once expired.
\<close>

theorem DaysRemaining_truncates:
  assumes "plain_license l" "int64_range (lic_ExpiresAt l * Second - now)"
  shows "(now \<le> lic_ExpiresAt l * Second \<longrightarrow>
           DaysRemaining l now = (lic_ExpiresAt l * Second - now) div Day) \<and>
    (lic_ExpiresAt l * Second < now \<longrightarrow>
           DaysRemaining l now = - ((now - lic_ExpiresAt l * Second) div Day)) \<and>
    (DaysRemaining l now = 0 \<longleftrightarrow> \<bar>now - lic_ExpiresAt l * Second\<bar> < Day)"
proof -
  have d: "DaysRemaining l now = (lic_ExpiresAt l * Second - now) sdiv Day"
    using assms by (simp add: DaysRemaining_def ExpiresAtTime_plain time_Sub_exact)
  have "0 < Day" by (simp add: Day_def Hour_def)
  then show ?thesis
    by (cases "now \<le> lic_ExpiresAt l * Second")
      (auto simp: d trunc_nonneg trunc_neg zdiv_eq_0_iff)
qed

theorem DaysRemaining_truncates_witness:
  "DaysRemaining demo_license (1735689601 * Second) = 0 \<and>
   ModeAt demo_license (1735689601 * Second) = ModeGrace"
proof -
  have "plain_license demo_license" "int64_range (lic_ExpiresAt demo_license * Second - 1735689601 * Second)"
    by (simp_all add: plain_license_def int64_range_def)
  from DaysRemaining_truncates [OF this] show ?thesis
    by (simp add: Day_def Hour_def ModeAt_def ExpiresAtTime_plain GraceEndsAt_plain
        \<open>plain_license demo_license\<close>)
qed

subsection \<open>Features\<close>

lemma matches_star [simp]: "matches ''*'' s"
  by (simp add: matches_def)

lemma matches_prefix:
  "matches (p @ ''.*'') s \<longleftrightarrow> p @ ''.*'' = ''*'' \<or> HasPrefix s (p @ ''.'') \<or> s = p"
  by (simp add: matches_def HasSuffix_iff Let_def)

lemma matches_plain: "\<not> HasSuffix p ''.*'' \<Longrightarrow> p \<noteq> ''*'' \<Longrightarrow> matches p s \<longleftrightarrow> p = s"
  by (simp add: matches_def)

text \<open>A negated pattern wins over every positive one, wherever the two stand in the list.\<close>

lemma HasFeature_iff:
  "HasFeature (Some l) f \<longleftrightarrow>
     (\<forall>p\<in>set (lic_Features l). HasPrefix p ''!'' \<longrightarrow> \<not> matches (TrimPrefix p ''!'') f) \<and>
     (\<exists>p\<in>set (lic_Features l). \<not> HasPrefix p ''!'' \<and> matches p f)"
  by (auto simp: HasFeature_def list_ex_iff)

definition family :: "string \<Rightarrow> string \<Rightarrow> bool" where
  "family p f \<longleftrightarrow> f = p \<or> HasPrefix f (p @ ''.'')"

lemma matches_tier_pattern:
  "matches ''hosting.*'' f = family ''hosting'' f" "matches ''dns.*'' f = family ''dns'' f"
  "matches ''ssl.*'' f = family ''ssl'' f" "matches ''database.*'' f = family ''database'' f"
  "matches ''files.*'' f = family ''files'' f" "matches ''whitelabel.*'' f = family ''whitelabel'' f"
  "matches ''mail.basic'' f \<longleftrightarrow> f = ''mail.basic''" "matches ''firewall.basic'' f \<longleftrightarrow> f = ''firewall.basic''"
  "matches ''guardian.basic'' f \<longleftrightarrow> f = ''guardian.basic''" "matches ''backup.local'' f \<longleftrightarrow> f = ''backup.local''"
  "matches ''readonly.enforce'' f \<longleftrightarrow> f = ''readonly.enforce''" "matches ''guardian.llm'' f \<longleftrightarrow> f = ''guardian.llm''"
  by (auto simp: matches_def HasSuffix_def TrimSuffix_def family_def Let_def)

lemma negated_tier_pattern:
  "HasPrefix ''!whitelabel.*'' ''!''" "TrimPrefix ''!whitelabel.*'' ''!'' = ''whitelabel.*''"
  "HasPrefix ''!guardian.llm'' ''!''" "TrimPrefix ''!guardian.llm'' ''!'' = ''guardian.llm''"
  by (simp_all add: HasPrefix_def TrimPrefix_def)

lemma positive_pattern: "c \<noteq> CHR ''!'' \<Longrightarrow> \<not> HasPrefix (c # cs) ''!''"
  by (simp add: HasPrefix_def)

lemmas tier_pattern_simps = matches_tier_pattern negated_tier_pattern positive_pattern

text \<open>
  What each tier may use. Enterprise has every feature except \<open>whitelabel\<close> and what is
  below it; ISP has those of enterprise except \<open>guardian.llm\<close>; white label has every feature; SMB has
  five families and five single features; and no license at all has none.
\<close>

theorem HasFeature_tiers:
  assumes "lic_Features l = TierFeatures tier"
  shows "(tier = TierEnterprise \<longrightarrow> (HasFeature (Some l) f \<longleftrightarrow> \<not> family ''whitelabel'' f)) \<and>
    (tier = TierISP \<longrightarrow> (HasFeature (Some l) f \<longleftrightarrow> \<not> family ''whitelabel'' f \<and> f \<noteq> ''guardian.llm'')) \<and>
    (tier = TierWhiteLabel \<longrightarrow> HasFeature (Some l) f) \<and>
    (tier = TierSMB \<longrightarrow>
       (HasFeature (Some l) f \<longleftrightarrow>
          list_ex (\<lambda>p. family p f) [''hosting'', ''dns'', ''ssl'', ''database'', ''files''] \<or>
          f \<in> {''mail.basic'', ''firewall.basic'', ''guardian.basic'', ''backup.local'', ''readonly.enforce''})) \<and>
    \<not> HasFeature None f"
proof (intro conjI impI)
  note t = HasFeature_iff assms TierFeatures_def tier_pattern_simps tier_defs
  show "HasFeature (Some l) f \<longleftrightarrow> \<not> family ''whitelabel'' f" if "tier = TierEnterprise"
    using that by (simp add: t)
  show "HasFeature (Some l) f \<longleftrightarrow> \<not> family ''whitelabel'' f \<and> f \<noteq> ''guardian.llm''" if "tier = TierISP"
    using that by (auto simp: t)
  show "HasFeature (Some l) f" if "tier = TierWhiteLabel"
    using that by (simp add: t)
  show "HasFeature (Some l) f \<longleftrightarrow>
      list_ex (\<lambda>p. family p f) [''hosting'', ''dns'', ''ssl'', ''database'', ''files''] \<or>
      f \<in> {''mail.basic'', ''firewall.basic'', ''guardian.basic'', ''backup.local'', ''readonly.enforce''}"
    if "tier = TierSMB"
    using that by (auto simp: t)
qed (simp add: HasFeature_def)

theorem HasFeature_tiers_witness:
  "\<not> HasFeature (Some demo_license) ''whitelabel.logo'' \<and> HasFeature (Some demo_license) ''vault''"
  using HasFeature_tiers [of demo_license "''enterprise''" "''whitelabel.logo''"]
    HasFeature_tiers [of demo_license "''enterprise''" "''vault''"]
  by (simp add: tier_defs family_def HasPrefix_def)

subsection \<open>Keys\<close>

text \<open>The parts of a key that is accepted.\<close>

lemma ParseWithPublicKey_Inr:
  assumes "ParseWithPublicKey verify en key pub dev = Inr l"
  shows "\<exists>tier year hash sig. key = ''ORVIX-'' @ tier @ ''-'' @ year @ ''-'' @ hash @ ''-'' @ sig \<and>
    length year = 4 \<and> ToLower tier \<in> {TierSMB, TierISP, TierEnterprise, TierWhiteLabel} \<and>
    l = defaultPayload en (ToLower tier) year \<and>
    (dev \<or> (\<exists>k raw. pub = Some k \<and> RawURLDecode sig = Inr raw \<and> verify k (license_json l) raw))"
proof -
  let ?ps = "Split key CHR ''-''"
  have len: "length ?ps = 5" and p0: "?ps ! 0 = ''ORVIX''"
    using assms by (auto simp: ParseWithPublicKey_def Let_def split: if_splits)
  then obtain a b c d e where ps: "?ps = [a, b, c, d, e]"
    by (auto simp: numeral_eq_Suc length_Suc_conv)
  have key: "key = ''ORVIX-'' @ b @ ''-'' @ c @ ''-'' @ d @ ''-'' @ e"
    using Join_Split [of key "CHR ''-''"] p0 by (simp add: ps)
  have l: "l = defaultPayload en (ToLower b) c"
    using assms by (auto simp: ParseWithPublicKey_def Let_def ps defaultPayload_def
        split: if_splits option.splits sum.splits)
  have "length c = 4" "ToLower b \<in> {TierSMB, TierISP, TierEnterprise, TierWhiteLabel}"
    using assms by (auto simp: ParseWithPublicKey_def Let_def ps split: if_splits)
  moreover have "dev \<or> (\<exists>k raw. pub = Some k \<and> RawURLDecode e = Inr raw \<and> verify k (license_json l) raw)"
    using assms by (auto simp: ParseWithPublicKey_def Let_def ps l split: if_splits option.splits sum.splits)
  ultimately show ?thesis using key l by blast
qed


definition demo_verify :: "unit \<Rightarrow> string \<Rightarrow> string \<Rightarrow> bool" where
  "demo_verify k payload sig \<longleftrightarrow> sig = ''sig''"

lemma demo_parse:
  "ParseWithPublicKey demo_verify demo_env ''ORVIX-SMB-2031-00000000-c2ln'' (Some ()) False =
   Inr (defaultPayload demo_env ''smb'' ''2031'')"
proof -
  have "RawURLDecode ''c2ln'' = Inr ''sig''" by code_simp
  moreover have "ToLower ''SMB'' = ''smb''" by code_simp
  ultimately show ?thesis
    by (simp add: ParseWithPublicKey_def demo_verify_def tier_defs defaultPayload_def Let_def)
qed


subsection \<open>The store\<close>

lemma license_decrypt_blob:
  assumes "aead_ok (st_gcm S)" "length n = NonceSize" "st_Unmarshal S (license_json lic) = Inr lic"
  shows "license_decrypt S (license_blob (st_gcm S) n lic) = Inr lic"
  using assms by (simp add: license_decrypt_def license_blob_def cipherVersion_def aead_ok_def)

lemma license_row_simps [simp]:
  "ID (license_row i b l u) = i" "DeletedAt (license_row i b l u) = None"
  "ls_KeyID (license_row i b l u) = licenseStoreKeyID" "ls_Ciphertext (license_row i b l u) = b"
  by (simp_all add: license_row_def)

context gorm_db_up
begin

lemma Save_Load:
  assumes S: "st_gorm S = G" "aead_ok (st_gcm S)" "st_Unmarshal S (license_json lic) = Inr lic"
    and n: "length n = NonceSize"
    and save: "Save S now newid (Inr n) (Some lic) uploader d = (None, d')"
  shows "Load S d' = Inr lic"
proof -
  let ?row = "license_row newid (license_blob (st_gcm S) n lic) lic uploader"
  let ?old = "\<lambda>r. ls_KeyID r = licenseStoreKeyID"
  obtain k d1 where del: "tDelete (LicenseStores G) now ?old d = (Inr k, d1)"
    using license_store.delete_up by blast
  obtain r where cr: "tCreate (LicenseStores G) now ?row d1 = (Inr r, d')"
    using save del S(1) by (auto simp: Save_def Let_def split: sum.splits prod.splits)
  have rows: "db_licenses (view d1) = del_rows now ?old (db_licenses (view d))"
    using license_store.delete_ok [OF del] by simp
  have r: "ls_KeyID r = licenseStoreKeyID" "ls_Ciphertext r = ls_Ciphertext ?row" "live r"
    and new: "db_licenses (view d') = db_licenses (view d1) @ [r]"
    using license_store.create_ok [OF cr]
    by (simp_all add: license_store_defaults_def licenseStoreKeyID_def live_def)
  have "first_row ?old (db_licenses (view d')) = Some r"
    using r by (intro first_row_unique) (auto simp: new rows del_rows_def live_def)
  then have "tFirst (LicenseStores G) ?old d' = Inr r"
    using license_store.first_up [of ?old d'] by simp
  then show ?thesis
    using license_decrypt_blob [OF S(2) n S(3)] r by (simp add: Load_def S(1))
qed

lemma Save_again:
  assumes S: "st_gorm S = G"
    and row: "r0 \<in> set (db_licenses (view d))" "ls_KeyID r0 = licenseStoreKeyID"
    and save: "Save S now newid (Inr n) (Some lic) uploader d = (res, d')"
  shows "(\<exists>e. res = Some e) \<and> Load S d' = Inl ErrInvalidKey"
proof -
  let ?row = "license_row newid (license_blob (st_gcm S) n lic) lic uploader"
  let ?old = "\<lambda>r. ls_KeyID r = licenseStoreKeyID"
  obtain k d1 where del: "tDelete (LicenseStores G) now ?old d = (Inr k, d1)"
    using license_store.delete_up by blast
  have rows: "db_licenses (view d1) = del_rows now ?old (db_licenses (view d))"
    using license_store.delete_ok [OF del] by simp
  obtain r1 where r1: "r1 \<in> set (db_licenses (view d1))" "ls_KeyID r1 = licenseStoreKeyID"
    using row by (auto simp: rows del_rows_def intro!: that [of "if live r0 then r0\<lparr>DeletedAt := Some now\<rparr> else r0"])
  obtain x d2 where cr: "tCreate (LicenseStores G) now ?row d1 = (x, d2)" by fastforce
  have "x \<noteq> Inr r" for r
    using license_store.create_ok [of now ?row d1 r d2] cr r1
    by (auto simp: license_store_clash_def license_store_defaults_def licenseStoreKeyID_def)
  then obtain e where x: "x = Inl e" by (cases x) auto
  have d2: "d' = d2" "\<exists>e. res = Some e"
    using save del cr x S by (auto simp: Save_def Let_def)
  have "db_licenses (view d') = db_licenses (view d1)"
    using license_store.create_fail [OF cr [unfolded x]] d2 by simp
  then have "first_row ?old (db_licenses (view d')) = None"
    by (auto simp: first_row_None rows del_rows_def live_def)
  then have "tFirst (LicenseStores G) ?old d' = Inl ErrRecordNotFound"
    using license_store.first_up [of ?old d'] by simp
  then show ?thesis using d2 S by (simp add: Load_def)
qed

end

text \<open>
  C24: A license that was saved is loaded back as it was: when \<open>Save\<close> succeeds, \<open>Load\<close>
  returns the license, decrypted with the same key. But it can only be saved once: the old row is
  soft-deleted and its unique \<open>key_id\<close> still occupies the index, so a second \<open>Save\<close> fails
  on the insert, after the old license is gone; then no license is stored at all.
\<close>

theorem license_Save_Load:
  assumes "gorm_db_up G view" "st_gorm S = G" "aead_ok (st_gcm S)"
    and "st_Unmarshal S (license_json lic) = Inr lic" "length n = NonceSize"
    and "Save S now newid (Inr n) (Some lic) uploader d = (res, d')"
  shows "(res = None \<longrightarrow> Load S d' = Inr lic) \<and>
    ((\<exists>r\<in>set (db_licenses (view d)). ls_KeyID r = licenseStoreKeyID) \<longrightarrow>
       res \<noteq> None \<and> Load S d' = Inl ErrInvalidKey)"
  using gorm_db_up.Save_Load [OF assms(1-5)] gorm_db_up.Save_again [OF assms(1,2)] assms(6) by blast

definition demo_store :: "database store" where
  "demo_store = \<lparr>st_gorm = mem_gorm, st_gcm = demo_gcm,
     st_Unmarshal = (\<lambda>s. if s = license_json demo_license then Inr demo_license
       else Inl (ErrNew ''unexpected end of JSON input''))\<rparr>"

definition demo_saved :: database where
  "demo_saved = snd (Save demo_store 0 ''01L'' (Inr demo_nonce) (Some demo_license) ''01U'' empty_database)"

theorem license_Save_Load_witness:
  "Load demo_store demo_saved = Inr demo_license \<and>
   Load demo_store (snd (Save demo_store 1 ''02L'' (Inr demo_nonce) (Some demo_license) ''01U'' demo_saved)) =
     Inl ErrInvalidKey"
proof -
  note th = license_Save_Load [OF mem_gorm_db_up, of demo_store demo_license demo_nonce]
  have s: "st_gorm demo_store = mem_gorm" "aead_ok (st_gcm demo_store)"
    "st_Unmarshal demo_store (license_json demo_license) = Inr demo_license"
    by (simp_all add: demo_store_def demo_gcm_ok)
  have run: "\<exists>r. Save demo_store 0 ''01L'' (Inr demo_nonce) (Some demo_license) ''01U'' empty_database =
      (None, empty_database\<lparr>db_licenses := [r]\<rparr>) \<and> ls_KeyID r = licenseStoreKeyID"
    by (simp add: Save_def demo_store_def mem_gorm_def mem_table_def empty_database_def Let_def sel_def
        del_rows_def license_store_defaults_def licenseStoreKeyID_def)
  then obtain r where r: "Save demo_store 0 ''01L'' (Inr demo_nonce) (Some demo_license) ''01U'' empty_database =
      (None, demo_saved)" "demo_saved = empty_database\<lparr>db_licenses := [r]\<rparr>" "ls_KeyID r = licenseStoreKeyID"
    unfolding demo_saved_def by fastforce
  have "\<exists>r\<in>set (db_licenses demo_saved). ls_KeyID r = licenseStoreKeyID"
    unfolding r(2) using r(3) by simp
  then show ?thesis
    using th [OF s length_demo_nonce r(1)]
      th [OF s length_demo_nonce prod.collapse [symmetric], of 1 "''02L''" "''01U''" demo_saved] by blast
qed

end
