(* ===== verification/Rbac.thy ===== *)
theory Rbac
  imports AuditLog Roles
begin

text \<open>
  Roles and permissions: the built-in map of internal/api/middleware/rbac.go, the custom roles of
  internal/rbac/custom.go in the database, and the endpoints of internal/rbac/handlers.go.

  \<open>json.Unmarshal\<close> of a permissions blob is the field \<open>rb_Unmarshal\<close>; a nil slice is the
  empty list.
\<close>

subsection \<open>The built-in map\<close>

record permission =
  p_Resource :: string
  p_Action :: string

definition perm :: "string \<Rightarrow> string \<Rightarrow> permission" where
  "perm r a = \<lparr>p_Resource = r, p_Action = a\<rparr>"

definition RolePermissions :: "string \<Rightarrow> permission list option" where
  "RolePermissions role =
     (if role = ''root_admin'' then Some [perm ''*'' ''*'']
      else if role = ''reseller_admin'' then Some
        [perm ''reseller'' ''*'', perm ''account'' ''*'', perm ''domain'' ''*'', perm ''hosting'' ''*'',
         perm ''dns'' ''*'', perm ''mail'' ''*'', perm ''database'' ''*'', perm ''files'' ''*'',
         perm ''ssl'' ''*'', perm ''firewall'' ''read'', perm ''guardian'' ''read'',
         perm ''metrics'' ''read'', perm ''audit'' ''read'']
      else if role = ''reseller_agent'' then Some
        [perm ''account'' ''read'', perm ''domain'' ''read'', perm ''hosting'' ''read'', perm ''metrics'' ''read'']
      else if role = ''account_owner'' then Some
        [perm ''domain'' ''*'', perm ''hosting'' ''*'', perm ''database'' ''*'', perm ''files'' ''*'',
         perm ''mail'' ''*'', perm ''ssl'' ''*'', perm ''dns'' ''*'', perm ''backup'' ''*'',
         perm ''metrics'' ''read'', perm ''firewall'' ''read'']
      else if role = ''account_dev'' then Some
        [perm ''domain'' ''read'', perm ''hosting'' ''*'', perm ''database'' ''*'', perm ''files'' ''*'',
         perm ''metrics'' ''read'']
      else if role = ''account_viewer'' then Some
        [perm ''domain'' ''read'', perm ''hosting'' ''read'', perm ''database'' ''read'',
         perm ''files'' ''read'', perm ''metrics'' ''read'']
      else if role = ''mail_admin'' then Some
        [perm ''mail'' ''*'', perm ''ssl'' ''read'', perm ''domain'' ''read'']
      else if role = ''db_admin'' then Some [perm ''database'' ''*'', perm ''domain'' ''read'']
      else if role = ''security_admin'' then Some
        [perm ''firewall'' ''*'', perm ''waf'' ''*'', perm ''ids'' ''*'', perm ''ssl'' ''*'', perm ''audit'' ''read'']
      else if role = ''monitor'' then Some
        [perm ''metrics'' ''read'', perm ''audit'' ''read'', perm ''guardian'' ''read'']
      else if role = ''support'' then Some
        [perm ''account'' ''read'', perm ''domain'' ''read'', perm ''hosting'' ''read'']
      else if role = ''billing'' then Some
        [perm ''billing'' ''*'', perm ''license'' ''*'', perm ''account'' ''read'']
      else None)"

definition match_perm :: "string \<Rightarrow> string \<Rightarrow> bool" where
  "match_perm pattern s = (if pattern = ''*'' then True else pattern = s)"

definition HasPermission :: "string \<Rightarrow> string \<Rightarrow> string \<Rightarrow> bool" where
  "HasPermission role resource action =
     (case RolePermissions role of
        None \<Rightarrow> False
      | Some perms \<Rightarrow> list_ex (\<lambda>p. match_perm (p_Resource p) resource \<and> match_perm (p_Action p) action) perms)"

subsection \<open>Custom roles\<close>

record grant =
  g_Resource :: string
  g_Actions :: "string list"

definition mk_grant :: "string \<Rightarrow> string list \<Rightarrow> grant" where
  "mk_grant r as = \<lparr>g_Resource = r, g_Actions = as\<rparr>"

definition ErrInvalidRoleName :: go_error where
  [go_errors]: "ErrInvalidRoleName = ErrNew ''role name must be alphanumeric+dash, 1-64 chars''"

definition ErrBuiltinRoleClash :: go_error where
  [go_errors]: "ErrBuiltinRoleClash = ErrNew ''role name clashes with a built-in role''"

definition ErrRoleNotFound :: go_error where
  [go_errors]: "ErrRoleNotFound = ErrNew ''role not found''"

definition ErrBuiltinImmutable :: go_error where
  [go_errors]: "ErrBuiltinImmutable = ErrNew ''built-in roles are immutable''"

record 'd rbac =
  rb_gorm :: "'d gorm"
  rb_Unmarshal :: "string \<Rightarrow> go_error + grant list"

definition builtin_names :: "string list" where
  "builtin_names = [''root_admin'', ''reseller_admin'', ''reseller_agent'', ''account_owner'',
     ''account_dev'', ''account_viewer'', ''mail_admin'', ''db_admin'', ''security_admin'',
     ''monitor'', ''support'', ''billing'']"

text \<open>The loop of \<open>ValidateName\<close>; \<open>i\<close> is the position.\<close>

fun name_chars :: "nat \<Rightarrow> string \<Rightarrow> bool" where
  "name_chars i [] = True"
| "name_chars i (c # cs) =
     (if is_lower c \<or> is_upper c \<or> is_digit c then name_chars (Suc i) cs
      else if c = CHR ''-'' \<or> c = CHR ''_'' then (if i = 0 then False else name_chars (Suc i) cs)
      else False)"

definition ValidateName :: "string \<Rightarrow> go_error option" where
  "ValidateName name0 =
     (let name = TrimSpace name0
      in if name = [] \<or> length name > 64 then Some ErrInvalidRoleName
         else if \<not> name_chars 0 name then Some ErrInvalidRoleName
         else if name \<in> set builtin_names then Some ErrBuiltinRoleClash
         else None)"

fun check_perms :: "grant list \<Rightarrow> go_error option" where
  "check_perms [] = None"
| "check_perms (p # ps) =
     (if TrimSpace (g_Resource p) = []
      then Some (Errorf [] ErrInvalidRoleName '': resource cannot be empty'')
      else if g_Actions p = []
      then Some (Errorf [] ErrInvalidRoleName ('': actions cannot be empty for resource '' @ go_quote (g_Resource p)))
      else check_perms ps)"

definition grant_json :: "grant \<Rightarrow> string" where
  "grant_json g =
     [CHR 0x7B] @ json_string ''resource'' @ '':'' @ json_string (g_Resource g) @ '','' @
     json_string ''actions'' @ '':['' @ Join (map json_string (g_Actions g)) '','' @ '']'' @ [CHR 0x7D]"

definition grants_json :: "grant list \<Rightarrow> string" where
  "grants_json gs = ''['' @ Join (map grant_json gs) '','' @ '']''"

definition role_row :: "string \<Rightarrow> string \<Rightarrow> string \<Rightarrow> string \<Rightarrow> grant list \<Rightarrow> custom_role" where
  "role_row newid tenantID name description perms =
     BeforeCreate newid
       \<lparr>ID = [], CreatedAt = zero_time, UpdatedAt = zero_time, DeletedAt = None, r_TenantID = tenantID,
        r_Name = name, r_Permissions = grants_json perms, r_IsBuiltin = False, r_Description = description\<rparr>"

definition role_Create :: "'d rbac \<Rightarrow> int \<Rightarrow> string \<Rightarrow> string \<Rightarrow> string \<Rightarrow> string \<Rightarrow> grant list \<Rightarrow> 'd \<Rightarrow>
    (go_error + custom_role) \<times> 'd" where
  "role_Create S now newid tenantID name description perms d =
     (case ValidateName name of
        Some e \<Rightarrow> (Inl e, d)
      | None \<Rightarrow>
          if perms = [] then (Inl (Errorf [] ErrInvalidRoleName '': permissions cannot be empty''), d)
          else (case check_perms perms of
             Some e \<Rightarrow> (Inl e, d)
           | None \<Rightarrow>
               (case tCreate (CustomRoles (rb_gorm S)) now (role_row newid tenantID name description perms) d of
                  (Inl e, d') \<Rightarrow> (Inl (Errorf ''create custom role: '' e []), d')
                | (Inr row, d') \<Rightarrow> (Inr row, d'))))"

definition is_role :: "string \<Rightarrow> string \<Rightarrow> custom_role \<Rightarrow> bool" where
  "is_role tenantID name r \<longleftrightarrow> r_TenantID r = tenantID \<and> r_Name r = name"

definition role_Get :: "'d rbac \<Rightarrow> string \<Rightarrow> string \<Rightarrow> 'd \<Rightarrow> go_error + custom_role" where
  "role_Get S tenantID name d =
     (case tFirst (CustomRoles (rb_gorm S)) (is_role tenantID name) d of
        Inl e \<Rightarrow> if errors_Is e ErrRecordNotFound then Inl ErrRoleNotFound
                 else Inl (Errorf ''get custom role: '' e [])
      | Inr row \<Rightarrow> Inr row)"

definition role_Update :: "'d rbac \<Rightarrow> int \<Rightarrow> string \<Rightarrow> string \<Rightarrow> string \<Rightarrow> grant list \<Rightarrow> 'd \<Rightarrow>
    go_error option \<times> 'd" where
  "role_Update S now tenantID name description perms d =
     (case role_Get S tenantID name d of
        Inl e \<Rightarrow> (Some e, d)
      | Inr row \<Rightarrow>
          if r_IsBuiltin row then (Some ErrBuiltinImmutable, d)
          else tSave (CustomRoles (rb_gorm S)) now
                 (row\<lparr>r_Permissions := grants_json perms, r_Description := description\<rparr>) d)"

definition role_Delete :: "'d rbac \<Rightarrow> int \<Rightarrow> string \<Rightarrow> string \<Rightarrow> 'd \<Rightarrow> go_error option \<times> 'd" where
  "role_Delete S now tenantID name d =
     (case role_Get S tenantID name d of
        Inl e \<Rightarrow> (Some e, d)
      | Inr row \<Rightarrow>
          if r_IsBuiltin row then (Some ErrBuiltinImmutable, d)
          else (case tDelete (CustomRoles (rb_gorm S)) now (\<lambda>r. ID r = ID row) d of
                  (Inl e, d') \<Rightarrow> (Some e, d')
                | (Inr n, d') \<Rightarrow> (None, d')))"

definition role_List :: "'d rbac \<Rightarrow> string \<Rightarrow> 'd \<Rightarrow> go_error + custom_role list" where
  "role_List S tenantID d =
     (case tFind (CustomRoles (rb_gorm S)) (\<lambda>r. r_TenantID r = tenantID) (\<lambda>a b. r_Name a \<le> r_Name b) d of
        Inl e \<Rightarrow> Inl (Errorf ''list custom roles: '' e [])
      | Inr rows \<Rightarrow> Inr rows)"

definition role_Count :: "'d rbac \<Rightarrow> string \<Rightarrow> 'd \<Rightarrow> go_error + nat" where
  "role_Count S tenantID d = tCount (CustomRoles (rb_gorm S)) (\<lambda>r. r_TenantID r = tenantID) d"

definition ParsePermissions :: "'d rbac \<Rightarrow> custom_role \<Rightarrow> go_error + grant list" where
  "ParsePermissions S row =
     (if r_Permissions row = [] then Inr []
      else (case rb_Unmarshal S (r_Permissions row) of
         Inl e \<Rightarrow> Inl (Errorf ''parse permissions: '' e [])
       | Inr out \<Rightarrow> Inr out))"

subsection \<open>Looking permissions up\<close>

definition builtInSet :: "string \<Rightarrow> bool" where
  "builtInSet role \<longleftrightarrow> role \<in> set builtin_names"

definition Lookup :: "'d rbac option \<Rightarrow> string \<Rightarrow> go_error + grant list" where
  "Lookup s roleName =
     (case s of None \<Rightarrow> Inr [] | Some S \<Rightarrow> if builtInSet roleName then Inr [] else Inl ErrRoleNotFound)"

definition fromBuiltIn :: "string \<Rightarrow> grant list" where
  "fromBuiltIn role =
     (if role = ''root_admin'' then [mk_grant ''*'' [''*'']]
      else if role = ''reseller_admin'' then
        [mk_grant ''reseller'' [''*''], mk_grant ''account'' [''*''], mk_grant ''domain'' [''*''],
         mk_grant ''hosting'' [''*''], mk_grant ''dns'' [''*''], mk_grant ''mail'' [''*''],
         mk_grant ''database'' [''*''], mk_grant ''files'' [''*''], mk_grant ''ssl'' [''*''],
         mk_grant ''firewall'' [''read''], mk_grant ''guardian'' [''read''],
         mk_grant ''metrics'' [''read''], mk_grant ''audit'' [''read'']]
      else if role = ''reseller_agent'' then
        [mk_grant ''account'' [''read''], mk_grant ''domain'' [''read''], mk_grant ''hosting'' [''read''],
         mk_grant ''metrics'' [''read'']]
      else if role = ''account_owner'' then
        [mk_grant ''domain'' [''*''], mk_grant ''hosting'' [''*''], mk_grant ''database'' [''*''],
         mk_grant ''files'' [''*''], mk_grant ''mail'' [''*''], mk_grant ''ssl'' [''*''],
         mk_grant ''dns'' [''*''], mk_grant ''backup'' [''*''], mk_grant ''metrics'' [''read''],
         mk_grant ''firewall'' [''read'']]
      else if role = ''account_dev'' then
        [mk_grant ''domain'' [''read''], mk_grant ''hosting'' [''*''], mk_grant ''database'' [''*''],
         mk_grant ''files'' [''*''], mk_grant ''metrics'' [''read'']]
      else if role = ''account_viewer'' then
        [mk_grant ''domain'' [''read''], mk_grant ''hosting'' [''read''], mk_grant ''database'' [''read''],
         mk_grant ''files'' [''read''], mk_grant ''metrics'' [''read'']]
      else if role = ''mail_admin'' then
        [mk_grant ''mail'' [''*''], mk_grant ''ssl'' [''read''], mk_grant ''domain'' [''read'']]
      else if role = ''db_admin'' then
        [mk_grant ''database'' [''*''], mk_grant ''domain'' [''read'']]
      else if role = ''security_admin'' then
        [mk_grant ''firewall'' [''*''], mk_grant ''waf'' [''*''], mk_grant ''ids'' [''*''],
         mk_grant ''ssl'' [''*''], mk_grant ''audit'' [''read'']]
      else if role = ''monitor'' then
        [mk_grant ''metrics'' [''read''], mk_grant ''audit'' [''read''], mk_grant ''guardian'' [''read'']]
      else if role = ''support'' then
        [mk_grant ''account'' [''read''], mk_grant ''domain'' [''read''], mk_grant ''hosting'' [''read'']]
      else if role = ''billing'' then
        [mk_grant ''billing'' [''*''], mk_grant ''license'' [''*''], mk_grant ''account'' [''read'']]
      else [])"

definition LookupWithTenant :: "'d rbac \<Rightarrow> string \<Rightarrow> string \<Rightarrow> 'd \<Rightarrow> go_error + grant list" where
  "LookupWithTenant S tenantID roleName d =
     (if builtInSet roleName then Inr (fromBuiltIn roleName)
      else (case role_Get S tenantID roleName d of Inl e \<Rightarrow> Inl e | Inr row \<Rightarrow> ParsePermissions S row))"

definition matchR :: "string \<Rightarrow> string \<Rightarrow> bool" where
  "matchR pattern s = (if pattern = ''*'' then True else pattern = s)"

definition granted :: "grant list \<Rightarrow> string \<Rightarrow> string \<Rightarrow> bool" where
  "granted grants resource action =
     list_ex (\<lambda>g. matchR (g_Resource g) resource \<and> list_ex (\<lambda>a. a = ''*'' \<or> a = action) (g_Actions g)) grants"

definition HasPermissionFor :: "'d rbac \<Rightarrow> string \<Rightarrow> string \<Rightarrow> string \<Rightarrow> string \<Rightarrow> 'd \<Rightarrow> bool" where
  "HasPermissionFor S tenantID roleName resource action d =
     (if roleName = [] then False
      else (case LookupWithTenant S tenantID roleName d of
         Inl e \<Rightarrow> False
       | Inr grants \<Rightarrow> granted grants resource action))"

text \<open>The middleware: \<open>None\<close> lets the request through.\<close>

definition RequirePermission :: "'d rbac option \<Rightarrow> string \<Rightarrow> string \<Rightarrow> claims option \<Rightarrow> 'd \<Rightarrow>
    'b reply option" where
  "RequirePermission svc resource action claims d =
     (case claims of
        None \<Rightarrow> Some ErrUnauthorized
      | Some cl \<Rightarrow>
          if HasPermission (cl_Role cl) resource action then None
          else (case svc of
             None \<Rightarrow> Some (Fail 403 ''permission_denied'')
           | Some S \<Rightarrow>
               if HasPermissionFor S (cl_TenantID cl) (cl_Role cl) resource action d then None
               else Some (Fail 403 ''permission_denied'')))"

subsection \<open>Assigning a role\<close>

definition AssignRole :: "'d gorm \<Rightarrow> int \<Rightarrow> string \<Rightarrow> string \<Rightarrow> 'd \<Rightarrow> go_error option \<times> 'd" where
  "AssignRole G now userID roleName d =
     (if roleName = [] then (Some (ErrNew ''role name is empty''), d)
      else
        let update = (case tUpdates (Users G) now (\<lambda>u. ID u = userID) (\<lambda>u. u\<lparr>u_Role := roleName\<rparr>) d of
                        (Inl e, d') \<Rightarrow> (Some e, d')
                      | (Inr n, d') \<Rightarrow> (None, d'))
        in if \<not> builtInSet roleName then
             (case tCount (CustomRoles G) (\<lambda>r. r_Name r = roleName) d of
                Inl e \<Rightarrow> (Some e, d)
              | Inr n \<Rightarrow> if n = 0 then (Some ErrRoleNotFound, d) else update)
           else update)"

text \<open>The in-process cache \<open>RoleAssignable\<close>, keyed by tenant and role joined with a colon.\<close>

type_synonym role_cache = "string \<rightharpoonup> grant list"

definition NewRoleCache :: role_cache where
  "NewRoleCache = Map.empty"

definition cache_key :: "string \<Rightarrow> string \<Rightarrow> string" where
  "cache_key tenantID role = tenantID @ '':'' @ role"

definition cache_Get :: "role_cache \<Rightarrow> string \<Rightarrow> string \<Rightarrow> grant list option" where
  "cache_Get c tenantID role = c (cache_key tenantID role)"

definition cache_Set :: "string \<Rightarrow> string \<Rightarrow> grant list \<Rightarrow> role_cache \<Rightarrow> role_cache" where
  "cache_Set tenantID role g c = c(cache_key tenantID role \<mapsto> g)"

definition cache_Invalidate :: "string \<Rightarrow> string \<Rightarrow> role_cache \<Rightarrow> role_cache" where
  "cache_Invalidate tenantID role c = c(cache_key tenantID role := None)"

end
