(* ===== verification/Request.thy ===== *)
theory Request
  imports AuditLog Roles
begin

text \<open>
  What a handler sees of a request besides its body: the claims the authentication left in the
  Fiber locals, the peer address, and the values drawn from the outside while it runs: the clock, the
  ULIDs of a new row and of an audit row, a nonce, random bytes. A body is an argument of the handler,
  \<open>None\<close> when \<open>BodyParser\<close> fails; so is a path parameter.
\<close>

record request =
  rq_claims :: "claims option"
  rq_ip :: string
  rq_now :: int
  rq_id :: string
  rq_audit :: string
  rq_nonce :: "go_error + string"
  rq_random :: "go_error + string"

text \<open>Writing an audit event at the end of a handler.\<close>

definition record_event :: "'d auditor option \<Rightarrow> request \<Rightarrow> event \<Rightarrow> 'd world \<Rightarrow> 'd world" where
  "record_event a rq ev w = audit_ignore a (rq_now rq) (rq_audit rq) ev w"

definition demo_request :: request where
  "demo_request = \<lparr>rq_claims = None, rq_ip = ''192.0.2.1'', rq_now = 1735689600000000000, rq_id = ''01R'',
     rq_audit = ''01A'', rq_nonce = Inr ''0123456789ab'', rq_random = Inr (replicate 32 (CHR ''r''))\<rparr>"

text \<open>
  A handler run is safe for the audit log when it changes no audit row itself and records at most
  once with a fresh ID; \<open>audit_safe\<close> says what then holds of the worlds before and after.
\<close>

definition audit_safe :: "'d gorm \<Rightarrow> ('d \<Rightarrow> database) \<Rightarrow> 'd auditor option \<Rightarrow> request \<Rightarrow> 'd world \<Rightarrow> 'd world \<Rightarrow> bool" where
  "audit_safe G view a rq w w' \<longleftrightarrow>
     (audit_okay G view a w \<longrightarrow> (\<forall>r\<in>set (db_audit (view (wdb w))). ID r < rq_audit rq) \<longrightarrow>
      audit_okay G view a w')"

lemma audit_frame_refl [simp]: "audit_frame view w w"
  by (simp add: audit_frame_def)

lemma audit_frame_db:
  "db_audit (view d) = db_audit (view (wdb w)) \<Longrightarrow> audit_frame view w (w\<lparr>wdb := d\<rparr>)"
  by (simp add: audit_frame_def)

lemma audit_inv_frame:
  assumes "audit_frame view w w'"
  shows "audit_inv A view w' \<longleftrightarrow> audit_inv A view w"
proof -
  have "db_audit (view (wdb w')) = db_audit (view (wdb w))" "wcache w' = wcache w"
    using assms by (simp_all add: audit_frame_def)
  then show ?thesis unfolding audit_inv_def by (simp only:)
qed

lemma audit_okay_frame: "audit_frame view w w' \<Longrightarrow> audit_okay G view a w' \<longleftrightarrow> audit_okay G view a w"
  unfolding audit_okay_def using audit_inv_frame by blast

context gorm_db
begin

lemma audit_safe_frame: "audit_frame view w w' \<Longrightarrow> audit_safe G view a rq w w'"
  by (simp add: audit_safe_def audit_okay_frame)

lemma audit_safe_record: "audit_frame view w w1 \<Longrightarrow> audit_safe G view a rq w (record_event a rq ev w1)"
  unfolding audit_safe_def record_event_def using audit_ignore_okay by blast

end

text \<open>Recording changes the audit table only.\<close>

lemma audit_ignore_view:
  assumes "gorm_db G view" "\<forall>A. a = Some A \<longrightarrow> au_gorm A = G"
  shows "view (wdb (audit_ignore a now newid ev w)) =
    (view (wdb w))\<lparr>db_audit := db_audit (view (wdb (audit_ignore a now newid ev w)))\<rparr>"
proof (cases a)
  case (Some A)
  then show ?thesis
    using gorm_db.Record_frame [OF assms(1), of A now newid ev w "fst (Record A now newid ev w)"] assms(2)
    by (simp add: audit_ignore_def)
qed (simp add: audit_ignore_def)

lemma record_event_view:
  assumes "gorm_db G view" "\<forall>A. a = Some A \<longrightarrow> au_gorm A = G"
  shows "view (wdb (record_event a rq ev w)) =
    (view (wdb w))\<lparr>db_audit := db_audit (view (wdb (record_event a rq ev w)))\<rparr>"
  unfolding record_event_def by (rule audit_ignore_view [OF assms])

end
