(* ===== verification/RbacHandlers.thy ===== *)
theory RbacHandlers
  imports Rbac Request
begin

text \<open>The role endpoints of internal/rbac/handlers.go.\<close>

record 'd rbac_deps =
  rd_Service :: "'d rbac"
  rd_DB :: "'d gorm"
  rd_Audit :: "'d auditor option"

record role_request =
  cr_Name :: string
  cr_Description :: string
  cr_Permissions :: "grant list"

definition mapRBACError :: "go_error \<Rightarrow> 'b reply" where
  "mapRBACError e =
     (if errors_Is e ErrRoleNotFound then Fail 404 ''role_not_found''
      else if errors_Is e ErrBuiltinRoleClash then Fail 400 ''role_name_reserved''
      else if errors_Is e ErrBuiltinImmutable then Fail 403 ''builtin_role_immutable''
      else if errors_Is e ErrInvalidRoleName then Fail 400 ''invalid_role_name''
      else Fail 500 (''rbac_failed:'' @ err_text e))"

definition auditCustomRole :: "'d auditor option \<Rightarrow> request \<Rightarrow> claims option \<Rightarrow> string \<Rightarrow> string \<Rightarrow> bool \<Rightarrow> string \<Rightarrow>
    'd world \<Rightarrow> 'd world" where
  "auditCustomRole a rq claims action name ok detail w =
     (case claims of
        None \<Rightarrow> w
      | Some cl \<Rightarrow>
          record_event a rq
            (empty_event\<lparr>Action := ''rbac.custom.'' @ action, ResourceType := ''role'', ResourceName := name,
               Result := (if ok then ''success'' else ''denied''), Detail := detail,
               UserID := cl_UserID cl, UserEmail := cl_Email cl, UserRole := cl_Role cl,
               ActorIP := rq_ip rq\<rparr>) w)"

definition isBuiltin :: "string \<Rightarrow> bool" where
  "isBuiltin role \<longleftrightarrow> role \<in> set builtin_names"

definition role_CreateHandler :: "'d rbac_deps \<Rightarrow> request \<Rightarrow> role_request option \<Rightarrow> 'd world \<Rightarrow>
    custom_role reply \<times> 'd world" where
  "role_CreateHandler D rq body w =
     (case rq_claims rq of
        None \<Rightarrow> (ErrUnauthorized, w)
      | Some cl \<Rightarrow>
          (case body of
             None \<Rightarrow> (Fail 400 ''invalid_body'', w)
           | Some req \<Rightarrow>
               (case role_Create (rd_Service D) (rq_now rq) (rq_id rq) (cl_TenantID cl)
                       (TrimSpace (cr_Name req)) (cr_Description req) (cr_Permissions req) (wdb w) of
                  (Inl e, d) \<Rightarrow> (mapRBACError e, w\<lparr>wdb := d\<rparr>)
                | (Inr row, d) \<Rightarrow>
                    (Reply 201 row,
                     auditCustomRole (rd_Audit D) rq (Some cl) ''create'' (r_Name row) True [] (w\<lparr>wdb := d\<rparr>)))))"

definition role_UpdateHandler :: "'d rbac_deps \<Rightarrow> request \<Rightarrow> string \<Rightarrow> role_request option \<Rightarrow> 'd world \<Rightarrow>
    unit reply \<times> 'd world" where
  "role_UpdateHandler D rq name body w =
     (case rq_claims rq of
        None \<Rightarrow> (ErrUnauthorized, w)
      | Some cl \<Rightarrow>
          (case body of
             None \<Rightarrow> (Fail 400 ''invalid_body'', w)
           | Some req \<Rightarrow>
               (case role_Update (rd_Service D) (rq_now rq) (cl_TenantID cl) name
                       (cr_Description req) (cr_Permissions req) (wdb w) of
                  (Some e, d) \<Rightarrow> (mapRBACError e, w\<lparr>wdb := d\<rparr>)
                | (None, d) \<Rightarrow>
                    (Reply 204 (),
                     auditCustomRole (rd_Audit D) rq (Some cl) ''update'' name True [] (w\<lparr>wdb := d\<rparr>)))))"

definition role_DeleteHandler :: "'d rbac_deps \<Rightarrow> request \<Rightarrow> string \<Rightarrow> 'd world \<Rightarrow> unit reply \<times> 'd world" where
  "role_DeleteHandler D rq name w =
     (case rq_claims rq of
        None \<Rightarrow> (ErrUnauthorized, w)
      | Some cl \<Rightarrow>
          (case role_Delete (rd_Service D) (rq_now rq) (cl_TenantID cl) name (wdb w) of
             (Some e, d) \<Rightarrow> (mapRBACError e, w\<lparr>wdb := d\<rparr>)
           | (None, d) \<Rightarrow>
               (Reply 204 (),
                auditCustomRole (rd_Audit D) rq (Some cl) ''delete'' name True [] (w\<lparr>wdb := d\<rparr>))))"

record role_view =
  rv_id :: string
  rv_name :: string
  rv_description :: string
  rv_permissions :: "grant list"
  rv_is_builtin :: bool
  rv_created_at :: int
  rv_updated_at :: int

definition role_ListHandler :: "'d rbac_deps \<Rightarrow> request \<Rightarrow> 'd world \<Rightarrow> role_view list reply" where
  "role_ListHandler D rq w =
     (case rq_claims rq of
        None \<Rightarrow> ErrUnauthorized
      | Some cl \<Rightarrow>
          (case role_List (rd_Service D) (cl_TenantID cl) (wdb w) of
             Inl e \<Rightarrow> Fail 500 ''rbac_list_failed''
           | Inr rows \<Rightarrow>
               Reply 200 (map (\<lambda>row.
                 \<lparr>rv_id = ID row, rv_name = r_Name row, rv_description = r_Description row,
                  rv_permissions = (case ParsePermissions (rd_Service D) row of Inl e \<Rightarrow> [] | Inr p \<Rightarrow> p),
                  rv_is_builtin = r_IsBuiltin row, rv_created_at = CreatedAt row,
                  rv_updated_at = UpdatedAt row\<rparr>) rows)))"

text \<open>The last part of the handler, after its checks.\<close>

definition do_assign :: "'d rbac_deps \<Rightarrow> request \<Rightarrow> claims \<Rightarrow> string \<Rightarrow> string \<Rightarrow> 'd world \<Rightarrow>
    (string \<times> string) reply \<times> 'd world" where
  "do_assign D rq actor userID role w =
     (case AssignRole (rd_DB D) (rq_now rq) userID role (wdb w) of
        (Some e, d) \<Rightarrow> (mapRBACError e, w\<lparr>wdb := d\<rparr>)
      | (None, d) \<Rightarrow>
          (Reply 200 (userID, role),
           auditCustomRole (rd_Audit D) rq (Some actor) ''assign'' (role @ '' to '' @ userID) True []
             (w\<lparr>wdb := d\<rparr>)))"

text \<open>The tenant of the target is read by table name; no row leaves it empty.\<close>

definition AssignRoleHandler :: "'d rbac_deps \<Rightarrow> request \<Rightarrow> string \<Rightarrow> string option \<Rightarrow> 'd world \<Rightarrow>
    (string \<times> string) reply \<times> 'd world" where
  "AssignRoleHandler D rq userID body w =
     (case rq_claims rq of
        None \<Rightarrow> (ErrUnauthorized, w)
      | Some actor \<Rightarrow>
          (case body of
             None \<Rightarrow> (Fail 400 ''invalid_body'', w)
           | Some role \<Rightarrow>
               (case tScan (Users (rd_DB D)) (\<lambda>u. ID u = userID) (wdb w) of
                  Inl e \<Rightarrow> (Fail 404 ''user_not_found'', w)
                | Inr rows \<Rightarrow>
                    let target = (case rows of [] \<Rightarrow> [] | u # _ \<Rightarrow> u_TenantID u)
                    in if target \<noteq> cl_TenantID actor then (Fail 403 ''user_not_in_your_tenant'', w)
                       else if \<not> isBuiltin role then
                         (case role_Get (rd_Service D) (cl_TenantID actor) role (wdb w) of
                            Inl e \<Rightarrow> (mapRBACError e, w)
                          | Inr _ \<Rightarrow> do_assign D rq actor userID role w)
                       else do_assign D rq actor userID role w)))"

lemma mapRBACError_not_Reply [simp]: "mapRBACError e \<noteq> Reply n b" "Reply n b \<noteq> mapRBACError e"
  by (simp_all add: mapRBACError_def)

end
