(* ===== verification/RbacProps.thy ===== *)
theory RbacProps
  imports RbacHandlers
begin

text \<open>
  What the role system promises: the two copies of the built-in map agree, names of custom
  roles are safe, what a custom role grants after it is created, updated or deleted, and what
  assigning a role can and cannot do.
\<close>

subsection \<open>The built-in maps\<close>

definition expand_grant :: "grant \<Rightarrow> permission list" where
  "expand_grant g = map (perm (g_Resource g)) (g_Actions g)"

lemma RolePermissions_expand:
  "RolePermissions role =
     (if builtInSet role then Some (concat (map expand_grant (fromBuiltIn role))) else None)"
proof (cases "builtInSet role")
  case True
  then show ?thesis
    unfolding builtInSet_def builtin_names_def list.set insert_iff empty_iff
    by (elim disjE) (simp_all add: RolePermissions_def fromBuiltIn_def expand_grant_def mk_grant_def
        builtInSet_def builtin_names_def)
next
  case False
  then show ?thesis
    by (simp add: RolePermissions_def builtInSet_def builtin_names_def)
qed

lemma granted_expand:
  "list_ex (\<lambda>p. match_perm (p_Resource p) r \<and> match_perm (p_Action p) a) (concat (map expand_grant gs)) =
   granted gs r a"
  by (simp add: granted_def list_ex_iff) (auto simp: expand_grant_def perm_def match_perm_def matchR_def)

lemma HasPermission_granted: "HasPermission role r a \<longleftrightarrow> builtInSet role \<and> granted (fromBuiltIn role) r a"
  by (simp add: HasPermission_def RolePermissions_expand granted_expand)

lemma builtInSet_not_Nil [simp]: "\<not> builtInSet []"
  by (simp add: builtInSet_def builtin_names_def)

lemma RequirePermission_eq:
  "RequirePermission (Some S) resource action (Some cl) d =
    (if HasPermissionFor S (cl_TenantID cl) (cl_Role cl) resource action d then None
     else Some (Fail 403 ''permission_denied''))"
proof -
  have "HasPermissionFor S (cl_TenantID cl) (cl_Role cl) resource action d"
    if "HasPermission (cl_Role cl) resource action"
    using that by (auto simp: HasPermission_granted HasPermissionFor_def LookupWithTenant_def)
  then show ?thesis by (auto simp: RequirePermission_def)
qed

text \<open>
  The two copies of the built-in permission map agree. \<open>HasPermission\<close> of the middleware allows
  an action to a role just when \<open>fromBuiltIn\<close> of the custom-role service grants it, for every role,
  resource and action; so with the service injected the middleware lets a caller through just when
  \<open>HasPermissionFor\<close> holds of his tenant and role, and with no claims never.
\<close>

theorem builtin_maps_agree:
  "HasPermission role resource action =
     (builtInSet role \<and> granted (fromBuiltIn role) resource action) \<and>
   (RequirePermission (Some S) resource action (Some cl) d = None \<longleftrightarrow>
     HasPermissionFor S (cl_TenantID cl) (cl_Role cl) resource action d) \<and>
   (RequirePermission svc resource action None d = Some ErrUnauthorized)"
proof (intro conjI)
  show "HasPermission role resource action = (builtInSet role \<and> granted (fromBuiltIn role) resource action)"
    by (rule HasPermission_granted)
qed (simp add: RequirePermission_eq, simp add: RequirePermission_def)

subsection \<open>Names\<close>

definition name_char :: "char \<Rightarrow> bool" where
  "name_char c \<longleftrightarrow> is_lower c \<or> is_upper c \<or> is_digit c \<or> c = CHR ''-'' \<or> c = CHR ''_''"

definition alnum :: "char \<Rightarrow> bool" where
  "alnum c \<longleftrightarrow> is_lower c \<or> is_upper c \<or> is_digit c"

lemma name_chars_Suc: "name_chars (Suc i) cs \<longleftrightarrow> list_all name_char cs"
  by (induction cs arbitrary: i) (auto simp: name_char_def)

lemma name_chars_0: "name_chars 0 cs \<longleftrightarrow> cs = [] \<or> alnum (hd cs) \<and> list_all name_char cs"
  by (cases cs) (auto simp: name_chars_Suc name_char_def alnum_def is_lower_def is_upper_def is_digit_def)

lemma name_char_solid: "name_char c \<Longrightarrow> solid c"
  by (auto simp: name_char_def solid_def is_lower_def is_upper_def is_digit_def is_space_def)

lemma builtin_names_solid: "n \<in> set builtin_names \<Longrightarrow> TrimSpace n = n"
  by (rule TrimSpace_solid) (auto simp: builtin_names_def solid_def is_space_def)

lemma ValidateName_builtin: "ValidateName n = None \<Longrightarrow> \<not> builtInSet n"
  using builtin_names_solid [of n] by (auto simp: ValidateName_def builtInSet_def Let_def split: if_splits)

text \<open>The rows the role service writes.\<close>

definition role_names_ok :: "custom_role list \<Rightarrow> bool" where
  "role_names_ok rows \<longleftrightarrow>
     distinct (map r_Name rows) \<and> (\<forall>r\<in>set rows. \<not> builtInSet (r_Name r))"

lemma role_row_simps [simp]:
  "r_TenantID (role_row i t n de ps) = t" "r_Name (role_row i t n de ps) = n"
  "r_Permissions (role_row i t n de ps) = grants_json ps" "r_IsBuiltin (role_row i t n de ps) = False"
  "DeletedAt (role_row i t n de ps) = None"
  by (simp_all add: role_row_def)

lemma role_defaults [simp]: "custom_role_defaults r = r"
  by (simp add: custom_role_defaults_def)

lemma names_save_row:
  assumes "r_Name r = n" "\<forall>x\<in>set rows. live x \<longrightarrow> ID x = ID r \<longrightarrow> r_Name x = n"
  shows "map r_Name (save_row now r rows) = map r_Name rows"
  using assms by (induction rows) (auto simp: save_row_def)

lemma names_del_rows [simp]: "map r_Name (del_rows now p rows) = map r_Name rows"
  by (induction rows) (auto simp: del_rows_def)

definition roles_inv :: "('d \<Rightarrow> database) \<Rightarrow> 'd \<Rightarrow> bool" where
  "roles_inv view d \<longleftrightarrow> role_names_ok (db_custom_roles (view d)) \<and> ids_ok (db_custom_roles (view d))"

context gorm_db
begin

lemma role_Create_ok:
  assumes "rb_gorm S = G" "role_Create S now newid t n de ps d = (Inr row, d')"
  shows "ValidateName n = None" "ps \<noteq> []" "check_perms ps = None"
    "row = stamp now (role_row newid t n de ps)"
    "\<forall>x\<in>set (db_custom_roles (view d)). \<not> custom_role_clash x row"
    "view d' = (view d)\<lparr>db_custom_roles := db_custom_roles (view d) @ [row]\<rparr>"
  using assms custom_role.create_ok
  by (auto simp: role_Create_def split: option.splits if_splits sum.splits prod.splits)

lemma role_Create_fail:
  assumes "rb_gorm S = G" "role_Create S now newid t n de ps d = (Inl e, d')"
  shows "view d' = view d"
  using assms custom_role.create_fail
  by (auto simp: role_Create_def split: option.splits if_splits sum.splits prod.splits)

lemma role_Get_mem:
  assumes "rb_gorm S = G" "role_Get S t n d = Inr row"
  shows "row \<in> set (db_custom_roles (view d))" "live row" "r_TenantID row = t" "r_Name row = n"
  using assms custom_role.first_mem [of "is_role t n" d row]
  by (auto simp: role_Get_def is_role_def split: sum.splits if_splits)

lemma role_Update_cases:
  assumes "rb_gorm S = G" "role_Update S now t n de ps d = (res, d')"
  shows "view d' = view d \<or>
    (\<exists>row. res = None \<and> role_Get S t n d = Inr row \<and>
       view d' = (view d)\<lparr>db_custom_roles := save_row now
         (row\<lparr>r_Permissions := grants_json ps, r_Description := de\<rparr>) (db_custom_roles (view d))\<rparr>)"
proof (cases "role_Get S t n d")
  case (Inr row)
  note mem = role_Get_mem [OF assms(1) Inr]
  let ?row = "row\<lparr>r_Permissions := grants_json ps, r_Description := de\<rparr>"
  have "first_row (\<lambda>x. ID x = ID ?row) (db_custom_roles (view d)) \<noteq> None"
    using mem by (auto simp: first_row_None)
  then show ?thesis
    using assms Inr custom_role.save_ok [of now ?row d d'] custom_role.save_fail [of now ?row d _ d']
    by (cases res) (auto simp: role_Update_def split: if_splits)
qed (use assms in \<open>auto simp: role_Update_def\<close>)

lemma role_Delete_cases:
  assumes "rb_gorm S = G" "role_Delete S now t n d = (res, d')"
  shows "view d' = view d \<or>
    (\<exists>row. res = None \<and> role_Get S t n d = Inr row \<and>
       view d' = (view d)\<lparr>db_custom_roles := del_rows now (\<lambda>r. ID r = ID row) (db_custom_roles (view d))\<rparr>)"
  using assms custom_role.delete_ok custom_role.delete_fail
  by (fastforce simp: role_Delete_def split: sum.splits if_splits prod.splits)

lemma roles_inv_Create:
  assumes "rb_gorm S = G" "role_Create S now newid t n de ps d = (res, d')" "roles_inv view d"
  shows "roles_inv view d'"
proof (cases res)
  case (Inl e)
  then show ?thesis using assms role_Create_fail by (simp add: roles_inv_def)
next
  case (Inr row)
  note ok = role_Create_ok [OF assms(1) assms(2) [unfolded Inr]]
  then have "\<not> builtInSet (r_Name row)" "r_Name row = n" using ValidateName_builtin by auto
  then show ?thesis
    using ok(5,6) assms(3)
    by (auto simp: roles_inv_def role_names_ok_def ids_ok_def custom_role_clash_def)
qed

lemma roles_inv_Update:
  assumes "rb_gorm S = G" "role_Update S now t n de ps d = (res, d')" "roles_inv view d"
  shows "roles_inv view d'"
  using role_Update_cases [OF assms(1,2)]
proof
  assume "\<exists>row. res = None \<and> role_Get S t n d = Inr row \<and>
       view d' = (view d)\<lparr>db_custom_roles := save_row now
         (row\<lparr>r_Permissions := grants_json ps, r_Description := de\<rparr>) (db_custom_roles (view d))\<rparr>"
  then obtain row where row: "role_Get S t n d = Inr row"
    and v: "view d' = (view d)\<lparr>db_custom_roles := save_row now
         (row\<lparr>r_Permissions := grants_json ps, r_Description := de\<rparr>) (db_custom_roles (view d))\<rparr>" by blast
  let ?row = "row\<lparr>r_Permissions := grants_json ps, r_Description := de\<rparr>"
  have "\<forall>x\<in>set (db_custom_roles (view d)). ID x = ID row \<longrightarrow> x = row"
    using ids_ok_unique [of "db_custom_roles (view d)" row] role_Get_mem [OF assms(1) row] assms(3)
    by (auto simp: roles_inv_def)
  then have names: "map r_Name (save_row now ?row (db_custom_roles (view d))) = map r_Name (db_custom_roles (view d))"
    by (intro names_save_row [of _ "r_Name row"]) auto
  then have "set (map r_Name (save_row now ?row (db_custom_roles (view d)))) =
      set (map r_Name (db_custom_roles (view d)))" by simp
  then have "\<forall>x\<in>set (save_row now ?row (db_custom_roles (view d))). \<not> builtInSet (r_Name x)"
    using assms(3) unfolding roles_inv_def role_names_ok_def by (metis (no_types, lifting) image_iff set_map)
  then show ?thesis
    using assms(3) names by (simp add: v roles_inv_def role_names_ok_def)
qed (use assms(3) in \<open>simp add: roles_inv_def\<close>)

lemma roles_inv_Delete:
  assumes "rb_gorm S = G" "role_Delete S now t n d = (res, d')" "roles_inv view d"
  shows "roles_inv view d'"
  using role_Delete_cases [OF assms(1,2)] assms(3)
  by (auto simp: roles_inv_def role_names_ok_def) (auto simp: del_rows_def)

end

text \<open>One operation on the roles of the database, by any tenant, ending in whatever result.\<close>

inductive role_step :: "'d rbac \<Rightarrow> 'd \<Rightarrow> 'd \<Rightarrow> bool" for S :: "'d rbac" where
  create: "role_Create S now newid t n de ps d = (res, d') \<Longrightarrow> role_step S d d'"
| update: "role_Update S now t n de ps d = (res', d') \<Longrightarrow> role_step S d d'"
| delete: "role_Delete S now t n d = (res', d') \<Longrightarrow> role_step S d d'"

lemma roles_inv_step:
  assumes "gorm_db (rb_gorm S) view" "role_step S d d'" "roles_inv view d"
  shows "roles_inv view d'"
  using assms(2)
proof cases
  case create
  then show ?thesis by (rule gorm_db.roles_inv_Create [OF assms(1) refl _ assms(3)])
next
  case update
  then show ?thesis by (rule gorm_db.roles_inv_Update [OF assms(1) refl _ assms(3)])
next
  case delete
  then show ?thesis by (rule gorm_db.roles_inv_Delete [OF assms(1) refl _ assms(3)])
qed


definition demo_rbac :: "database rbac" where
  "demo_rbac = \<lparr>rb_gorm = mem_gorm, rb_Unmarshal = (\<lambda>s.
     if s = grants_json [mk_grant ''dns'' [''read'']] then Inr [mk_grant ''dns'' [''read'']]
     else Inl (ErrNew ''unexpected end of JSON input''))\<rparr>"

lemma demo_rbac_simps [simp]:
  "rb_gorm demo_rbac = mem_gorm"
  "rb_Unmarshal demo_rbac (grants_json [mk_grant ''dns'' [''read'']]) = Inr [mk_grant ''dns'' [''read'']]"
  by (simp_all add: demo_rbac_def)

lemma demo_ValidateName: "ValidateName ''dns-ops'' = None"
  by code_simp

definition demo_role_db :: database where
  "demo_role_db = snd (role_Create demo_rbac 1 ''01R'' ''01T'' ''dns-ops'' [] [mk_grant ''dns'' [''read'']] empty_database)"

lemma demo_role_Create:
  "role_Create demo_rbac 1 ''01R'' ''01T'' ''dns-ops'' [] [mk_grant ''dns'' [''read'']] empty_database =
   (Inr (stamp 1 (role_row ''01R'' ''01T'' ''dns-ops'' [] [mk_grant ''dns'' [''read'']])), demo_role_db)"
proof -
  have "check_perms [mk_grant ''dns'' [''read'']] = None" by code_simp
  then show ?thesis
    unfolding demo_role_db_def
    by (simp add: role_Create_def demo_ValidateName mem_gorm_def mem_table_def empty_database_def Let_def
        del: check_perms.simps)
qed

lemma empty_roles_inv [simp]: "roles_inv (\<lambda>d. d) empty_database"
  by (simp add: roles_inv_def role_names_ok_def ids_ok_def empty_database_def)


subsection \<open>What a custom role grants\<close>

context gorm_db_up
begin

lemma role_Get_up:
  assumes "rb_gorm S = G" "role_names_ok (db_custom_roles (view d))"
    and "row \<in> set (db_custom_roles (view d))" "live row" "r_TenantID row = t" "r_Name row = n"
  shows "role_Get S t n d = Inr row"
proof -
  have "first_row (is_role t n) (db_custom_roles (view d)) = Some row"
    using assms(2-6) by (intro first_row_unique) (auto simp: is_role_def role_names_ok_def distinct_map inj_on_def)
  then show ?thesis
    using custom_role.first_up [of "is_role t n" d] assms(1) by (simp add: role_Get_def)
qed

lemma role_Get_none:
  assumes "rb_gorm S = G" "\<forall>r\<in>set (db_custom_roles (view d)). live r \<longrightarrow> r_Name r \<noteq> n"
  shows "role_Get S t n d = Inl ErrRoleNotFound"
proof -
  have "first_row (is_role t n) (db_custom_roles (view d)) = None"
    using assms(2) by (auto simp: first_row_None is_role_def)
  then show ?thesis
    using custom_role.first_up [of "is_role t n" d] assms(1) by (simp add: role_Get_def)
qed

lemma HasPermissionFor_row:
  assumes "rb_gorm S = G" "roles_inv view d" "rb_Unmarshal S (grants_json ps) = Inr ps"
    and "row \<in> set (db_custom_roles (view d))" "live row" "r_TenantID row = t" "r_Name row = n"
    and "r_Permissions row = grants_json ps" "n \<noteq> []"
  shows "HasPermissionFor S t n r a d = granted ps r a"
proof -
  have "role_Get S t n d = Inr row"
    using role_Get_up [OF assms(1) _ assms(4-7)] assms(2) by (simp add: roles_inv_def)
  moreover have "\<not> builtInSet n"
    using assms(2,4,7) by (auto simp: roles_inv_def role_names_ok_def)
  ultimately show ?thesis
    using assms(3,8,9) by (simp add: HasPermissionFor_def LookupWithTenant_def ParsePermissions_def grants_json_def)
qed

lemma Create_grants:
  assumes "rb_gorm S = G" "roles_inv view d" "rb_Unmarshal S (grants_json ps) = Inr ps"
    and "role_Create S now newid t n de ps d = (Inr row, d')"
  shows "HasPermissionFor S t n r a d' = granted ps r a"
proof -
  note ok = role_Create_ok [OF assms(1,4)]
  have "n \<noteq> []" using ok(1) by (auto simp: ValidateName_def Let_def TrimSpace_def split: if_splits)
  then show ?thesis
    using HasPermissionFor_row [OF assms(1) roles_inv_Create [OF assms(1,4,2)] assms(3), of row t n] ok
    by (simp add: live_def)
qed

lemma Update_grants:
  assumes "rb_gorm S = G" "roles_inv view d" "rb_Unmarshal S (grants_json ps) = Inr ps" "n \<noteq> []"
    and "role_Update S now t n de ps d = (None, d')"
  shows "HasPermissionFor S t n r a d' = granted ps r a"
proof -
  obtain row where row: "role_Get S t n d = Inr row"
    using assms(5) by (auto simp: role_Update_def split: sum.splits)
  note mem = role_Get_mem [OF assms(1) row]
  let ?row = "row\<lparr>r_Permissions := grants_json ps, r_Description := de\<rparr>"
  have "first_row (\<lambda>x. ID x = ID ?row) (db_custom_roles (view d)) \<noteq> None"
    using mem by (auto simp: first_row_None)
  moreover have "tSave (CustomRoles G) now ?row d = (None, d')"
    using assms(1,5) row by (simp add: role_Update_def split: if_splits)
  ultimately have v: "view d' = (view d)\<lparr>db_custom_roles := save_row now ?row (db_custom_roles (view d))\<rparr>"
    by (intro custom_role.save_ok)
  then have "?row\<lparr>UpdatedAt := now\<rparr> \<in> set (db_custom_roles (view d'))"
    using mem(1,2) by (auto simp: save_row_def)
  then show ?thesis
    using HasPermissionFor_row [OF assms(1) roles_inv_Update [OF assms(1,5,2)] assms(3)] mem assms(4)
    by (simp add: live_def)
qed

lemma Delete_revokes:
  assumes "rb_gorm S = G" "roles_inv view d" "role_Delete S now t n d = (None, d')"
  shows "\<not> HasPermissionFor S t n r a d'"
proof -
  obtain row where row: "role_Get S t n d = Inr row"
    using assms(3) by (auto simp: role_Delete_def split: sum.splits)
  note mem = role_Get_mem [OF assms(1) row]
  obtain k where "tDelete (CustomRoles G) now (\<lambda>r. ID r = ID row) d = (Inr k, d')"
    using assms(1,3) row by (auto simp: role_Delete_def split: sum.splits if_splits prod.splits)
  then have v: "db_custom_roles (view d') = del_rows now (\<lambda>r. ID r = ID row) (db_custom_roles (view d))"
    using custom_role.delete_ok by simp
  have "x = row" if "x \<in> set (db_custom_roles (view d))" "r_Name x = n" for x
    using that mem(1,4) assms(2) by (auto simp: roles_inv_def role_names_ok_def distinct_map inj_on_def)
  then have "\<forall>r\<in>set (db_custom_roles (view d')). live r \<longrightarrow> r_Name r \<noteq> n"
    by (auto simp: v del_rows_def live_def)
  then have "role_Get S t n d' = Inl ErrRoleNotFound" by (rule role_Get_none [OF assms(1)])
  moreover have "\<not> builtInSet n"
    using mem(1,4) assms(2) by (auto simp: roles_inv_def role_names_ok_def)
  ultimately show ?thesis by (simp add: HasPermissionFor_def LookupWithTenant_def)
qed

end

text \<open>
  C26: What a custom role grants over its life. After it was created or updated, callers of the tenant
  with that role may do exactly what its permission list grants; after it was deleted, nothing.
\<close>

theorem custom_role_lifecycle:
  assumes "gorm_db_up G view" "rb_gorm S = G" "roles_inv view d"
    and "rb_Unmarshal S (grants_json ps) = Inr ps" "n \<noteq> []"
  shows "(role_Create S now newid t n de ps d = (Inr row, d') \<longrightarrow>
            HasPermissionFor S t n r a d' = granted ps r a) \<and>
    (role_Update S now t n de ps d = (None, d') \<longrightarrow> HasPermissionFor S t n r a d' = granted ps r a) \<and>
    (role_Delete S now t n d = (None, d') \<longrightarrow> \<not> HasPermissionFor S t n r a d')"
proof (intro conjI impI)
  show "HasPermissionFor S t n r a d' = granted ps r a"
    if "role_Create S now newid t n de ps d = (Inr row, d')"
    using that by (rule gorm_db_up.Create_grants [OF assms(1-4)])
  show "HasPermissionFor S t n r a d' = granted ps r a" if "role_Update S now t n de ps d = (None, d')"
    using that by (rule gorm_db_up.Update_grants [OF assms(1-5)])
  show "\<not> HasPermissionFor S t n r a d'" if "role_Delete S now t n d = (None, d')"
    using that by (rule gorm_db_up.Delete_revokes [OF assms(1-3)])
qed

theorem custom_role_lifecycle_witness:
  "HasPermissionFor demo_rbac ''01T'' ''dns-ops'' ''dns'' ''read'' demo_role_db \<and>
   \<not> HasPermissionFor demo_rbac ''01T'' ''dns-ops'' ''dns'' ''write'' demo_role_db"
proof -
  have "HasPermissionFor demo_rbac ''01T'' ''dns-ops'' r a demo_role_db =
      granted [mk_grant ''dns'' [''read'']] r a" for r a
    using custom_role_lifecycle [OF mem_gorm_db_up demo_rbac_simps(1) empty_roles_inv demo_rbac_simps(2),
        of "''dns-ops''", THEN conjunct1, rule_format, OF _ demo_role_Create] by simp
  then show ?thesis by (simp add: granted_def mk_grant_def matchR_def)
qed

subsection \<open>Assigning\<close>

lemma isBuiltin_builtInSet: "isBuiltin r = builtInSet r"
  by (simp add: isBuiltin_def builtInSet_def)

lemma auditCustomRole_frame [simp]:
  "auditCustomRole None rq cl act n ok det w = w"
  by (simp add: auditCustomRole_def record_event_def audit_ignore_def split: option.splits)

definition deps_ok :: "'d gorm \<Rightarrow> 'd rbac_deps \<Rightarrow> bool" where
  "deps_ok G D \<longleftrightarrow> rd_DB D = G \<and> rb_gorm (rd_Service D) = G \<and> (\<forall>A. rd_Audit D = Some A \<longrightarrow> au_gorm A = G)"

lemma auditCustomRole_view:
  assumes "gorm_db G view" "\<forall>A. a = Some A \<longrightarrow> au_gorm A = G"
  shows "db_users (view (wdb (auditCustomRole a rq cl act n ok det w))) = db_users (view (wdb w))"
proof (cases cl)
  case (Some c)
  obtain ev where "auditCustomRole a rq cl act n ok det w = audit_ignore a (rq_now rq) (rq_audit rq) ev w"
    using that by (simp add: auditCustomRole_def record_event_def Some)
  show ?thesis
    unfolding \<open>auditCustomRole a rq cl act n ok det w = _\<close>
    by (subst audit_ignore_view [OF assms]) simp
qed (simp add: auditCustomRole_def)

context gorm_db
begin

lemma AssignRole_ok:
  assumes "AssignRole G now uid role d = (None, d')"
  shows "role \<noteq> []" "view d' = (view d)\<lparr>db_users :=
    upd_rows now (\<lambda>u. ID u = uid) (\<lambda>u. u\<lparr>u_Role := role\<rparr>) (db_users (view d))\<rparr>"
  using assms user.updates_ok
  by (auto simp: AssignRole_def Let_def split: if_splits sum.splits prod.splits)

lemma AssignRoleHandler_ok:
  assumes "deps_ok G D" "AssignRoleHandler D rq uid body w = (Reply 200 b, w')"
  shows "\<exists>cl role. rq_claims rq = Some cl \<and> body = Some role \<and> b = (uid, role) \<and>
    (\<forall>u\<in>set (db_users (view (wdb w))). ids_ok (db_users (view (wdb w))) \<longrightarrow> ID u = uid \<longrightarrow> u_TenantID u = cl_TenantID cl) \<and>
    (builtInSet role \<or> (\<exists>r\<in>set (db_custom_roles (view (wdb w))). live r \<and> r_TenantID r = cl_TenantID cl \<and> r_Name r = role)) \<and>
    db_users (view (wdb w')) =
      upd_rows (rq_now rq) (\<lambda>u. ID u = uid) (\<lambda>u. u\<lparr>u_Role := role\<rparr>) (db_users (view (wdb w)))"
proof -
  have D: "rd_DB D = G" "rb_gorm (rd_Service D) = G" "\<forall>A. rd_Audit D = Some A \<longrightarrow> au_gorm A = G"
    using assms(1) by (auto simp: deps_ok_def)
  obtain cl role rows where c: "rq_claims rq = Some cl" "body = Some role"
    and scan: "tScan (Users G) (\<lambda>u. ID u = uid) (wdb w) = Inr rows"
    and t: "(case rows of [] \<Rightarrow> [] | u # _ \<Rightarrow> u_TenantID u) = cl_TenantID cl"
    and br: "isBuiltin role \<or> (\<exists>row. role_Get (rd_Service D) (cl_TenantID cl) role (wdb w) = Inr row)"
    and run: "do_assign D rq cl uid role w = (Reply 200 b, w')"
    using assms(2) D(1)
    by (auto simp: AssignRoleHandler_def Let_def split: option.splits sum.splits if_splits)
  obtain d where as: "AssignRole G (rq_now rq) uid role (wdb w) = (None, d)" and b: "b = (uid, role)"
    and w': "w' = auditCustomRole (rd_Audit D) rq (Some cl) ''assign'' (role @ '' to '' @ uid) True [] (w\<lparr>wdb := d\<rparr>)"
    using run D(1) by (cases "AssignRole G (rq_now rq) uid role (wdb w)") (auto simp: do_assign_def split: option.splits)
  have users: "db_users (view (wdb w')) =
      upd_rows (rq_now rq) (\<lambda>u. ID u = uid) (\<lambda>u. u\<lparr>u_Role := role\<rparr>) (db_users (view (wdb w)))"
    using AssignRole_ok(2) [OF as] auditCustomRole_view [OF gorm_db_axioms D(3)] by (simp add: w')
  have "u_TenantID u = cl_TenantID cl"
    if "u \<in> set (db_users (view (wdb w)))" "ID u = uid" "ids_ok (db_users (view (wdb w)))" for u
  proof -
    have "u \<in> set rows" using user.scan_mem [OF scan, of u] that by simp
    then obtain x xs where rows: "rows = x # xs" by (cases rows) auto
    then have "x \<in> set (db_users (view (wdb w)))" "ID x = ID u"
      using user.scan_mem [OF scan, of x] that by simp_all
    then have "x = u" using ids_ok_unique [OF that(3,1)] by simp
    then show ?thesis using t rows by simp
  qed
  moreover have "builtInSet role \<or>
      (\<exists>r\<in>set (db_custom_roles (view (wdb w))). live r \<and> r_TenantID r = cl_TenantID cl \<and> r_Name r = role)"
    using br role_Get_mem [OF D(2)] unfolding isBuiltin_builtInSet by metis
  ultimately show ?thesis using c b users by blast
qed

end

text \<open>
  C11: When assigning a role succeeds, the target is a user of the caller's own tenant, the role is a
  built-in one or a live custom role of that tenant, and the only change to the users is the role of
  that one user.
\<close>

theorem AssignRoleHandler_safe:
  assumes "gorm_db G view" "deps_ok G D" "ids_ok (db_users (view (wdb w)))"
    and "AssignRoleHandler D rq uid body w = (Reply 200 b, w')"
  shows "\<exists>cl role. rq_claims rq = Some cl \<and> body = Some role \<and> b = (uid, role) \<and>
    (\<forall>u\<in>set (db_users (view (wdb w))). ID u = uid \<longrightarrow> u_TenantID u = cl_TenantID cl) \<and>
    (builtInSet role \<or> (\<exists>r\<in>set (db_custom_roles (view (wdb w))). live r \<and> r_TenantID r = cl_TenantID cl \<and> r_Name r = role)) \<and>
    db_users (view (wdb w')) =
      upd_rows (rq_now rq) (\<lambda>u. ID u = uid) (\<lambda>u. u\<lparr>u_Role := role\<rparr>) (db_users (view (wdb w)))"
  using gorm_db.AssignRoleHandler_ok [OF assms(1,2,4)] assms(3) by blast

definition demo_user :: user where
  "demo_user = \<lparr>ID = ''01U'', CreatedAt = 0, UpdatedAt = 0, DeletedAt = None, u_Email = ''dev@example.com'',
     u_PasswordHash = ''h'', u_Role = ''account_dev'', u_TenantID = ''01T'', u_AccountID = [],
     u_TOTPSecret = [], u_TOTPEnabled = False, u_FailedLogins = 0, u_LockedUntil = None,
     u_LastLoginAt = None, u_LastLoginIP = [], u_Status = ''active''\<rparr>"

definition demo_claims :: "string \<Rightarrow> claims" where
  "demo_claims role = \<lparr>cl_UserID = ''01U'', cl_Email = ''dev@example.com'', cl_Role = role,
     cl_TenantID = ''01T'', cl_AccountID = [], cl_SessionID = ''s1'', cl_Iss = ''orvixpanel'',
     cl_Sub = ''01U'', cl_Exp = 900, cl_Iat = 0\<rparr>"

definition demo_rbac_deps :: "database rbac_deps" where
  "demo_rbac_deps = \<lparr>rd_Service = demo_rbac, rd_DB = mem_gorm, rd_Audit = None\<rparr>"

definition user_world :: "user \<Rightarrow> database world" where
  "user_world u = \<lparr>wdb = empty_database\<lparr>db_users := [u]\<rparr>, wcache = []\<rparr>"

text \<open>A caller of any role can make himself root admin, when the request reaches the handler.\<close>

lemma AssignRole_self:
  "AssignRoleHandler demo_rbac_deps (demo_request\<lparr>rq_claims := Some (demo_claims role)\<rparr>) ''01U''
     (Some ''root_admin'') (user_world demo_user) =
   (Reply 200 (''01U'', ''root_admin''),
    user_world (demo_user\<lparr>u_Role := ''root_admin'', UpdatedAt := rq_now demo_request\<rparr>))"
  by (simp add: AssignRoleHandler_def do_assign_def AssignRole_def demo_rbac_deps_def demo_claims_def
      user_world_def mem_gorm_def mem_table_def demo_user_def isBuiltin_def builtInSet_def
      builtin_names_def upd_rows_def live_def auditCustomRole_def record_event_def audit_ignore_def Let_def)

theorem AssignRoleHandler_safe_witness:
  "u_TenantID demo_user = cl_TenantID (demo_claims ''account_dev'') \<and>
   db_users (wdb (user_world (demo_user\<lparr>u_Role := ''root_admin'', UpdatedAt := rq_now demo_request\<rparr>))) =
     upd_rows (rq_now demo_request) (\<lambda>u. ID u = ''01U'') (\<lambda>u. u\<lparr>u_Role := ''root_admin''\<rparr>) (db_users (wdb (user_world demo_user)))"
proof -
  have "deps_ok mem_gorm demo_rbac_deps" "ids_ok (db_users (wdb (user_world demo_user)))"
    by (simp_all add: deps_ok_def demo_rbac_deps_def ids_ok_def user_world_def)
  from AssignRoleHandler_safe [OF mem_gorm_db this AssignRole_self [of "''account_dev''"]]
  show ?thesis
    by (auto simp: demo_request_def user_world_def demo_user_def)
qed

end
