(* ===== verification/Auth.thy ===== *)
theory Auth
  imports Request
begin

text \<open>
  Passwords, sessions and tokens: internal/auth/jwt.go with its endpoints in internal/api/v1/auth.go.

  Parameters of the service: bcrypt (\<open>bcrypt_gen\<close>, \<open>bcrypt_ok\<close>), SHA-256, and the JWT library:
  \<open>jwt_sign\<close> signs claims with HS256 and a secret; \<open>jwt_parse\<close> checks, at a time, a token against
  the secret, the method HS256, the issuer and a leeway of 30 s, and returns the claims with the
  library's \<open>Valid\<close> flag. The clock is read once per operation.
\<close>

definition ErrInvalidCredentials :: go_error where
  [go_errors]: "ErrInvalidCredentials = ErrNew ''invalid credentials''"

definition ErrUserNotFound :: go_error where
  [go_errors]: "ErrUserNotFound = ErrNew ''user not found''"

definition ErrUserSuspended :: go_error where
  [go_errors]: "ErrUserSuspended = ErrNew ''user suspended''"

definition ErrUserLocked :: go_error where
  [go_errors]: "ErrUserLocked = ErrNew ''user locked''"

definition ErrInvalidToken :: go_error where
  [go_errors]: "ErrInvalidToken = ErrNew ''invalid token''"

definition ErrExpiredToken :: go_error where
  [go_errors]: "ErrExpiredToken = ErrNew ''expired token''"

definition ErrSessionRevoked :: go_error where
  [go_errors]: "ErrSessionRevoked = ErrNew ''session revoked''"

definition ErrWeakPassword :: go_error where
  [go_errors]: "ErrWeakPassword = ErrNew ''password too weak''"

text \<open>The JWT library's error for an expired token.\<close>

definition jwt_ErrTokenExpired :: go_error where
  [go_errors]: "jwt_ErrTokenExpired = ErrNew ''token is expired''"

record token_pair =
  tp_AccessToken :: string
  tp_RefreshToken :: string
  tp_ExpiresAt :: int

record 'd auth =
  as_gorm :: "'d gorm"
  as_secret :: string
  as_issuer :: string
  as_accessTTL :: int
  as_refreshTTL :: int
  as_bcryptCost :: int
  bcrypt_gen :: "int \<Rightarrow> string \<Rightarrow> go_error + string"
  bcrypt_ok :: "string \<Rightarrow> string \<Rightarrow> bool"
  as_sum256 :: "string \<Rightarrow> string"
  jwt_sign :: "string \<Rightarrow> claims \<Rightarrow> go_error + string"
  jwt_parse :: "int \<Rightarrow> string \<Rightarrow> string \<Rightarrow> string \<Rightarrow> go_error + claims \<times> bool"

text \<open>\<open>New\<close>, on the fields of the configuration it reads; \<open>s0\<close> carries the parameters.\<close>

definition auth_New :: "'d auth \<Rightarrow> string \<Rightarrow> int \<Rightarrow> int \<Rightarrow> int \<Rightarrow> go_error + 'd auth" where
  "auth_New s0 secretKey bcryptCost accessTTL refreshTTL =
     (if length secretKey < 32
      then Inl (ErrNew (''server.secret_key must be at least 32 chars; got '' @ string_of_nat (length secretKey)))
      else
        let cost = (if bcryptCost \<le> 0 then 12 else bcryptCost)
        in Inr (s0\<lparr>as_secret := secretKey, as_issuer := ''orvixpanel'', as_accessTTL := accessTTL,
                  as_refreshTTL := refreshTTL, as_bcryptCost := cost\<rparr>))"

subsection \<open>Passwords\<close>

definition is_letter :: "char \<Rightarrow> bool" where
  "is_letter c \<longleftrightarrow> is_lower c \<or> is_upper c"

text \<open>The loop over the runes: the two flags. A byte above 127 is part of a rune of neither kind.\<close>

fun scan_password :: "bool \<Rightarrow> bool \<Rightarrow> string \<Rightarrow> bool \<times> bool" where
  "scan_password l d [] = (l, d)"
| "scan_password l d (c # cs) =
     (if is_letter c then scan_password True d cs
      else if is_digit c then scan_password l True cs
      else scan_password l d cs)"

definition ValidatePassword :: "string \<Rightarrow> go_error option" where
  "ValidatePassword p =
     (if length p < 10 then Some (Errorf [] ErrWeakPassword '': must be at least 10 characters'')
      else (case scan_password False False p of
         (hasLetter, hasDigit) \<Rightarrow>
           if \<not> hasLetter \<or> \<not> hasDigit
           then Some (Errorf [] ErrWeakPassword '': must contain both letters and digits'')
           else None))"

definition HashPassword :: "'d auth \<Rightarrow> string \<Rightarrow> go_error + string" where
  "HashPassword s plain =
     (case ValidatePassword plain of
        Some e \<Rightarrow> Inl e
      | None \<Rightarrow>
          (case bcrypt_gen s (as_bcryptCost s) plain of
             Inl e \<Rightarrow> Inl (Errorf ''bcrypt: '' e [])
           | Inr h \<Rightarrow> Inr h))"

definition VerifyPassword :: "'d auth \<Rightarrow> string \<Rightarrow> string \<Rightarrow> bool" where
  "VerifyPassword s hash plain = bcrypt_ok s hash plain"

subsection \<open>Issuing tokens\<close>

text \<open>\<open>rand\<close> is what \<open>rand.Read\<close> of 32 bytes gave.\<close>

definition newRefreshToken :: "go_error + string \<Rightarrow> go_error + string" where
  "newRefreshToken rand = (case rand of Inl e \<Rightarrow> Inl e | Inr b \<Rightarrow> Inr (RawURLEncode b))"

definition hashRefresh :: "'d auth \<Rightarrow> string \<Rightarrow> string" where
  "hashRefresh s token = hex_encode (as_sum256 s token)"

definition token_claims :: "'d auth \<Rightarrow> int \<Rightarrow> user \<Rightarrow> string \<Rightarrow> claims" where
  "token_claims s now u sessionID =
     \<lparr>cl_UserID = ID u, cl_Email = u_Email u, cl_Role = u_Role u, cl_TenantID = u_TenantID u,
      cl_AccountID = u_AccountID u, cl_SessionID = sessionID, cl_Iss = as_issuer s, cl_Sub = ID u,
      cl_Exp = time_Add now (as_accessTTL s) div Second, cl_Iat = now div Second\<rparr>"

definition signAccessToken :: "'d auth \<Rightarrow> int \<Rightarrow> user \<Rightarrow> string \<Rightarrow> go_error + string \<times> int" where
  "signAccessToken s now u sessionID =
     (case jwt_sign s (as_secret s) (token_claims s now u sessionID) of
        Inl e \<Rightarrow> Inl (Errorf ''sign jwt: '' e [])
      | Inr signed \<Rightarrow> Inr (signed, time_Add now (as_accessTTL s) div Second))"

definition session_row :: "'d auth \<Rightarrow> int \<Rightarrow> string \<Rightarrow> user \<Rightarrow> string \<Rightarrow> string \<Rightarrow> string \<Rightarrow> string \<Rightarrow> user_session" where
  "session_row s now newid u sessionID refresh ip userAgent =
     \<lparr>ID = newid, CreatedAt = zero_time, UpdatedAt = zero_time, DeletedAt = None,
      s_UserID = ID u, s_SessionID = sessionID, s_RefreshHash = hashRefresh s refresh,
      s_UserAgent = userAgent, s_IP = ip, s_ExpiresAt = time_Add now (as_refreshTTL s),
      s_RevokedAt = None, s_RevokeReason = []\<rparr>"

text \<open>The values drawn for a new session: its UUID, its row's ULID and the random bytes.\<close>

record fresh =
  fr_uuid :: string
  fr_id :: string
  fr_rand :: "go_error + string"

definition issueTokens :: "'d auth \<Rightarrow> int \<Rightarrow> fresh \<Rightarrow> user \<Rightarrow> string \<Rightarrow> string \<Rightarrow> 'd \<Rightarrow>
    (go_error + token_pair) \<times> 'd" where
  "issueTokens s now f u ip userAgent d =
     (case newRefreshToken (fr_rand f) of
        Inl e \<Rightarrow> (Inl e, d)
      | Inr refresh \<Rightarrow>
          (case tCreate (Sessions (as_gorm s)) now
                  (session_row s now (fr_id f) u (fr_uuid f) refresh ip userAgent) d of
             (Inl e, d1) \<Rightarrow> (Inl (Errorf ''create session: '' e []), d1)
           | (Inr _, d1) \<Rightarrow>
               (case signAccessToken s now u (fr_uuid f) of
                  Inl e \<Rightarrow> (Inl e, d1)
                | Inr (access, exp) \<Rightarrow>
                    (Inr \<lparr>tp_AccessToken = access, tp_RefreshToken = refresh, tp_ExpiresAt = exp\<rparr>, d1))))"

subsection \<open>Login\<close>

definition max_failed :: int where "max_failed = 5"

definition lock_duration :: int where "lock_duration = 15 * Minute"

definition after_failure :: "int \<Rightarrow> user \<Rightarrow> user" where
  "after_failure now u =
     (let u = u\<lparr>u_FailedLogins := u_FailedLogins u + 1\<rparr>
      in if u_FailedLogins u \<ge> max_failed then u\<lparr>u_LockedUntil := Some (time_Add now lock_duration)\<rparr> else u)"

definition after_success :: "int \<Rightarrow> string \<Rightarrow> user \<Rightarrow> user" where
  "after_success now ip u =
     u\<lparr>u_FailedLogins := 0, u_LockedUntil := None, u_LastLoginAt := Some now, u_LastLoginIP := ip\<rparr>"

definition user_locked :: "int \<Rightarrow> user \<Rightarrow> bool" where
  "user_locked now u = (case u_LockedUntil u of None \<Rightarrow> False | Some t \<Rightarrow> now < t)"

definition Login :: "'d auth \<Rightarrow> int \<Rightarrow> fresh \<Rightarrow> string \<Rightarrow> string \<Rightarrow> string \<Rightarrow> 'd \<Rightarrow>
    (go_error + token_pair \<times> user) \<times> 'd" where
  "Login s now f email0 password ip d =
     (let email = ToLower (TrimSpace email0)
      in case tFirst (Users (as_gorm s)) (\<lambda>u. u_Email u = email) d of
           Inl e \<Rightarrow> (if errors_Is e ErrRecordNotFound then Inl ErrInvalidCredentials
                     else Inl (Errorf ''lookup user: '' e []), d)
         | Inr u \<Rightarrow>
             if u_Status u \<noteq> ''active'' then (Inl ErrUserSuspended, d)
             else if user_locked now u then (Inl ErrUserLocked, d)
             else if \<not> VerifyPassword s (u_PasswordHash u) password then
               (Inl ErrInvalidCredentials, snd (tSave (Users (as_gorm s)) now (after_failure now u) d))
             else
               let u1 = after_success now ip u;
                   d1 = snd (tSave (Users (as_gorm s)) now u1 d)
               in (case issueTokens s now f u1 ip [] d1 of
                     (Inl e, d2) \<Rightarrow> (Inl e, d2)
                   | (Inr pair, d2) \<Rightarrow> (Inr (pair, u1), d2)))"

subsection \<open>Refresh, logout, verification\<close>

definition Refresh :: "'d auth \<Rightarrow> int \<Rightarrow> fresh \<Rightarrow> string \<Rightarrow> string \<Rightarrow> 'd \<Rightarrow> (go_error + token_pair) \<times> 'd" where
  "Refresh s now f refreshToken ip d =
     (if refreshToken = [] then (Inl ErrInvalidToken, d)
      else
        let hash = hashRefresh s refreshToken
        in case tFirst (Sessions (as_gorm s)) (\<lambda>x. s_RefreshHash x = hash) d of
             Inl e \<Rightarrow> (Inl ErrInvalidToken, d)
           | Inr session \<Rightarrow>
               if \<not> session_IsActive now session then (Inl ErrSessionRevoked, d)
               else (case tFirst (Users (as_gorm s)) (\<lambda>u. ID u = s_UserID session) d of
                  Inl e \<Rightarrow> (Inl ErrUserNotFound, d)
                | Inr u \<Rightarrow>
                    if u_Status u \<noteq> ''active'' then (Inl ErrUserSuspended, d)
                    else (case tSave (Sessions (as_gorm s)) now
                                 (session\<lparr>s_RevokedAt := Some now, s_RevokeReason := ''rotated''\<rparr>) d of
                       (Some e, d1) \<Rightarrow> (Inl (Errorf ''revoke old session: '' e []), d1)
                     | (None, d1) \<Rightarrow> issueTokens s now f u ip [] d1)))"

definition Logout :: "'d auth \<Rightarrow> int \<Rightarrow> claims option \<Rightarrow> 'd \<Rightarrow> go_error option \<times> 'd" where
  "Logout s now claims d =
     (case claims of
        None \<Rightarrow> (None, d)
      | Some cl \<Rightarrow>
          if cl_SessionID cl = [] then (None, d)
          else (case tUpdates (Sessions (as_gorm s)) now (\<lambda>x. s_SessionID x = cl_SessionID cl)
                       (\<lambda>x. x\<lparr>s_RevokedAt := Some now, s_RevokeReason := ''logout''\<rparr>) d of
                  (Inl e, d1) \<Rightarrow> (Some e, d1)
                | (Inr n, d1) \<Rightarrow> (None, d1)))"

definition Verify :: "'d auth \<Rightarrow> int \<Rightarrow> string \<Rightarrow> go_error + claims" where
  "Verify s now tokenStr =
     (case jwt_parse s now (as_secret s) (as_issuer s) tokenStr of
        Inl e \<Rightarrow> if errors_Is e jwt_ErrTokenExpired then Inl ErrExpiredToken else Inl ErrInvalidToken
      | Inr (claims, valid) \<Rightarrow> if \<not> valid then Inl ErrInvalidToken else Inr claims)"

definition VerifyAndCheckSession :: "'d auth \<Rightarrow> int \<Rightarrow> string \<Rightarrow> 'd \<Rightarrow> go_error + claims" where
  "VerifyAndCheckSession s now tokenStr d =
     (case Verify s now tokenStr of
        Inl e \<Rightarrow> Inl e
      | Inr claims \<Rightarrow>
          (case tFirst (Sessions (as_gorm s)) (\<lambda>x. s_SessionID x = cl_SessionID claims) d of
             Inl e \<Rightarrow> Inl ErrSessionRevoked
           | Inr session \<Rightarrow>
               if \<not> session_IsActive now session then Inl ErrSessionRevoked else Inr claims))"

subsection \<open>Endpoints\<close>

record login_request =
  lr_Email :: string
  lr_Password :: string

definition LoginHandler :: "'d auth \<Rightarrow> request \<Rightarrow> fresh \<Rightarrow> login_request option \<Rightarrow> 'd \<Rightarrow>
    (token_pair \<times> string \<times> string \<times> string) reply \<times> 'd" where
  "LoginHandler s rq f body d =
     (case body of
        None \<Rightarrow> (Fail 400 ''invalid_body'', d)
      | Some req \<Rightarrow>
          if lr_Email req = [] \<or> lr_Password req = [] then (Fail 400 ''missing_credentials'', d)
          else (case Login s (rq_now rq) f (lr_Email req) (lr_Password req) (rq_ip rq) d of
             (Inl e, d1) \<Rightarrow>
               (if errors_Is e ErrInvalidCredentials then Fail 401 ''invalid_credentials''
                else if errors_Is e ErrUserLocked then Fail 429 ''account_locked''
                else if errors_Is e ErrUserSuspended then Fail 403 ''account_suspended''
                else Fail 500 ''login_failed'', d1)
           | (Inr (pair, u), d1) \<Rightarrow> (Reply 200 (pair, ID u, u_Email u, u_Role u), d1)))"

definition RefreshHandler :: "'d auth \<Rightarrow> request \<Rightarrow> fresh \<Rightarrow> string option \<Rightarrow> 'd \<Rightarrow> token_pair reply \<times> 'd" where
  "RefreshHandler s rq f body d =
     (case body of
        None \<Rightarrow> (Fail 400 ''invalid_body'', d)
      | Some token \<Rightarrow>
          (case Refresh s (rq_now rq) f token (rq_ip rq) d of
             (Inl e, d1) \<Rightarrow> (Fail 401 ''invalid_refresh'', d1)
           | (Inr pair, d1) \<Rightarrow> (Reply 200 pair, d1)))"

definition LogoutHandler :: "'d auth \<Rightarrow> request \<Rightarrow> 'd \<Rightarrow> unit reply \<times> 'd" where
  "LogoutHandler s rq d =
     (case rq_claims rq of
        None \<Rightarrow> (ErrUnauthorized, d)
      | Some cl \<Rightarrow>
          (case Logout s (rq_now rq) (Some cl) d of
             (Some e, d1) \<Rightarrow> (Fail 500 ''logout_failed'', d1)
           | (None, d1) \<Rightarrow> (Reply 200 (), d1)))"

definition me_MeHandler :: "request \<Rightarrow> claims reply" where
  "me_MeHandler rq = (case rq_claims rq of None \<Rightarrow> ErrUnauthorized | Some cl \<Rightarrow> Reply 200 cl)"

end
