(* ===== verification/AuthProps.thy ===== *)
theory AuthProps
  imports Auth
begin

text \<open>
  What authentication promises: the password policy, the lock after five failed logins, what a login proves and issues, and that
  a refresh token works once.
\<close>

subsection \<open>Passwords\<close>

lemma scan_password_flags:
  "scan_password l d p = (l \<or> list_ex is_letter p, d \<or> (\<exists>c\<in>set p. is_digit c))"
proof (induction p arbitrary: l d)
  case (Cons c cs)
  have "is_letter c \<Longrightarrow> \<not> is_digit c"
    by (auto simp: is_letter_def is_digit_def is_lower_def is_upper_def)
  then show ?case by (auto simp: Cons.IH)
qed simp

text \<open>
  A password is accepted just when it has at least ten bytes, a letter and a digit; a rejected one
  is never hashed.
\<close>

theorem ValidatePassword_iff:
  "(ValidatePassword p = None \<longleftrightarrow>
      10 \<le> length p \<and> (\<exists>c\<in>set p. is_letter c) \<and> (\<exists>c\<in>set p. is_digit c)) \<and>
   (case ValidatePassword p of
      None \<Rightarrow> HashPassword s p = map_sum (\<lambda>e. Errorf ''bcrypt: '' e []) (\<lambda>h. h) (bcrypt_gen s (as_bcryptCost s) p)
    | Some e \<Rightarrow> errors_Is e ErrWeakPassword \<and> HashPassword s p = Inl e)"
  by (auto simp: ValidatePassword_def scan_password_flags HashPassword_def list_ex_iff split: if_splits sum.splits)

subsection \<open>Failed logins\<close>

text \<open>A live user of a table with distinct IDs and emails.\<close>

definition has_user :: "('d \<Rightarrow> database) \<Rightarrow> 'd \<Rightarrow> user \<Rightarrow> bool" where
  "has_user view d u \<longleftrightarrow>
     u \<in> set (db_users (view d)) \<and> live u \<and> ids_ok (db_users (view d)) \<and>
     distinct (map u_Email (db_users (view d)))"

lemma emails_save_row:
  assumes "ids_ok rows" "u \<in> set rows" "ID u' = ID u" "u_Email u' = u_Email u"
  shows "map u_Email (save_row now u' rows) = map u_Email rows"
proof -
  have "u_Email u' = u_Email x" if "x \<in> set rows" "ID x = ID u'" for x
    using ids_ok_unique [OF assms(1,2), of x] that assms(3,4) by simp
  then show ?thesis by (simp add: save_row_def)
qed

lemma after_failure_simps [simp]:
  "ID (after_failure now u) = ID u" "u_Email (after_failure now u) = u_Email u"
  "u_PasswordHash (after_failure now u) = u_PasswordHash u" "u_Status (after_failure now u) = u_Status u"
  "live (after_failure now u) = live u" "u_FailedLogins (after_failure now u) = u_FailedLogins u + 1"
  "u_LockedUntil (after_failure now u) =
     (if u_FailedLogins u + 1 \<ge> max_failed then Some (time_Add now lock_duration) else u_LockedUntil u)"
  by (simp_all add: after_failure_def Let_def live_def)

text \<open>The user after a failed login, as stored.\<close>

definition failed :: "int \<times> string \<Rightarrow> user \<Rightarrow> user" where
  "failed a u = (after_failure (fst a) u)\<lparr>UpdatedAt := fst a\<rparr>"

lemma failed_simps [simp]:
  "ID (failed a u) = ID u" "u_Email (failed a u) = u_Email u"
  "u_PasswordHash (failed a u) = u_PasswordHash u" "u_Status (failed a u) = u_Status u"
  "u_FailedLogins (failed a u) = u_FailedLogins u + 1"
  "u_LockedUntil (failed a u) =
     (if u_FailedLogins u + 1 \<ge> max_failed then Some (time_Add (fst a) lock_duration) else u_LockedUntil u)"
  by (simp_all add: failed_def)

context gorm_db_up
begin

lemma find_user:
  assumes "has_user view d u"
  shows "tFirst (Users G) (\<lambda>x. u_Email x = u_Email u) d = Inr u"
    and "tFirst (Users G) (\<lambda>x. ID x = ID u) d = Inr u"
proof -
  have "first_row (\<lambda>x. u_Email x = u_Email u) (db_users (view d)) = Some u"
    using assms by (intro first_row_unique) (auto simp: has_user_def distinct_map inj_on_def)
  moreover have "first_row (\<lambda>x. ID x = ID u) (db_users (view d)) = Some u"
    using assms by (intro first_row_unique) (auto simp: has_user_def ids_ok_def distinct_map inj_on_def)
  ultimately show "tFirst (Users G) (\<lambda>x. u_Email x = u_Email u) d = Inr u"
    and "tFirst (Users G) (\<lambda>x. ID x = ID u) d = Inr u"
    by (simp_all add: user.first_up)
qed

text \<open>Saving a changed copy of a user replaces his row.\<close>

lemma save_user:
  assumes "has_user view d u" "ID u' = ID u" "u_Email u' = u_Email u" "live u'"
  shows "\<exists>d'. tSave (Users G) now u' d = (None, d') \<and> has_user view d' (u'\<lparr>UpdatedAt := now\<rparr>) \<and>
    view d' = (view d)\<lparr>db_users := save_row now u' (db_users (view d))\<rparr>"
proof -
  have u: "u \<in> set (db_users (view d))" "live u" "ids_ok (db_users (view d))"
    "distinct (map u_Email (db_users (view d)))"
    using assms(1) by (auto simp: has_user_def)
  have "\<not> user_clash x u'" if "x \<in> set (db_users (view d))" "ID x \<noteq> ID u'" for x
  proof -
    have "u_Email x \<noteq> u_Email u"
      using that u(1,4) assms(2) by (auto simp: distinct_map inj_on_def)
    then show ?thesis using that assms(3) by (simp add: user_clash_def)
  qed
  then obtain d' where d': "tSave (Users G) now u' d = (None, d')"
    using user.save_up [of d u' now] by blast
  have "first_row (\<lambda>x. ID x = ID u') (db_users (view d)) \<noteq> None"
    using u assms(2) by (auto simp: first_row_None)
  then have v: "view d' = (view d)\<lparr>db_users := save_row now u' (db_users (view d))\<rparr>"
    using user.save_ok [OF d'] by blast
  have "u'\<lparr>UpdatedAt := now\<rparr> \<in> set (save_row now u' (db_users (view d)))"
    using u assms(2) by (auto simp: in_save_row)
  then have "has_user view d' (u'\<lparr>UpdatedAt := now\<rparr>)"
    using u assms(2-4) emails_save_row [OF u(3,1) assms(2,3)]
    by (simp add: has_user_def v live_def)
  with d' v show ?thesis by blast
qed

lemma Login_wrong:
  assumes "as_gorm s = G" "has_user view d u" "ToLower (TrimSpace email) = u_Email u"
    and "u_Status u = ''active''" "\<not> user_locked (fst a) u" "\<not> bcrypt_ok s (u_PasswordHash u) (snd a)"
  shows "\<exists>d'. Login s (fst a) f email (snd a) ip d = (Inl ErrInvalidCredentials, d') \<and>
    has_user view d' (failed a u)"
proof -
  obtain d' where "tSave (Users G) (fst a) (after_failure (fst a) u) d = (None, d')"
    "has_user view d' (failed a u)"
    using save_user [OF assms(2), of "after_failure (fst a) u" "fst a"] assms(2)
    by (auto simp: failed_def has_user_def)
  then show ?thesis
    using assms find_user(1) [OF assms(2)] by (simp add: Login_def Let_def VerifyPassword_def)
qed

lemma Login_locked:
  assumes "as_gorm s = G" "has_user view d u" "ToLower (TrimSpace email) = u_Email u"
    and "u_Status u = ''active''" "user_locked now u"
  shows "Login s now f email password ip d = (Inl ErrUserLocked, d)"
  using assms find_user(1) [OF assms(2)] by (simp add: Login_def Let_def)

end

text \<open>A run of attempts, each a time and a password.\<close>

fun attempts :: "'d auth \<Rightarrow> fresh \<Rightarrow> string \<Rightarrow> string \<Rightarrow> (int \<times> string) list \<Rightarrow> 'd \<Rightarrow> 'd" where
  "attempts s f email ip [] d = d"
| "attempts s f email ip (a # as) d =
     attempts s f email ip as (snd (Login s (fst a) f email (snd a) ip d))"

context gorm_db_up
begin

lemma attempts_failed:
  assumes "as_gorm s = G"
  shows "has_user view d u \<Longrightarrow> ToLower (TrimSpace email) = u_Email u \<Longrightarrow> u_Status u = ''active'' \<Longrightarrow>
    u_LockedUntil u = None \<Longrightarrow> u_FailedLogins u + int (length as) < max_failed + 1 \<Longrightarrow>
    \<forall>a\<in>set as. \<not> bcrypt_ok s (u_PasswordHash u) (snd a) \<Longrightarrow>
    has_user view (attempts s f email ip as d) (fold failed as u)"
proof (induction as arbitrary: d u)
  case (Cons a as)
  obtain d' where d': "Login s (fst a) f email (snd a) ip d = (Inl ErrInvalidCredentials, d')"
    "has_user view d' (failed a u)"
    using Login_wrong [OF assms Cons.prems(1-3), of a f ip] Cons.prems(4,6) by (auto simp: user_locked_def)
  show ?case
  proof (cases as)
    case Nil
    then show ?thesis using d' by simp
  next
    case (Cons b bs)
    then show ?thesis
      using Cons.IH [of d' "failed a u"] d' Cons.prems by simp
  qed
qed simp

end

lemma fold_failed:
  "ID (fold failed as u) = ID u \<and> u_Email (fold failed as u) = u_Email u \<and>
   u_PasswordHash (fold failed as u) = u_PasswordHash u \<and> u_Status (fold failed as u) = u_Status u \<and>
   u_FailedLogins (fold failed as u) = u_FailedLogins u + int (length as)"
  by (induction as arbitrary: u) auto

lemma fold_failed_lock:
  "as \<noteq> [] \<Longrightarrow> max_failed \<le> u_FailedLogins u + int (length as) \<Longrightarrow>
   u_LockedUntil (fold failed as u) = Some (time_Add (fst (last as)) lock_duration)"
  by (cases as rule: rev_cases) (auto simp: fold_failed)

text \<open>
  C9: Five failed logins lock an account. If a user has no failed login on record, then after five
  attempts with wrong passwords, at any times and from anywhere, every login until 15 minutes after the
  fifth is refused and changes nothing, with the right password too; and once that time is over a single
  wrong password locks the account for another 15 minutes, because the counter is not reset.
\<close>

theorem login_lockout:
  assumes "gorm_db_up G view" "as_gorm s = G" "has_user view d u"
    and "ToLower (TrimSpace email) = u_Email u" "u_Status u = ''active''"
    and "u_LockedUntil u = None" "u_FailedLogins u = 0" "length as = 5"
    and "\<forall>a\<in>set as. \<not> bcrypt_ok s (u_PasswordHash u) (snd a)"
    and "d5 = attempts s f email ip as d" "until = time_Add (fst (last as)) lock_duration"
  shows "(now < until \<longrightarrow> Login s now f' email password ip' d5 = (Inl ErrUserLocked, d5)) \<and>
    (until \<le> now \<longrightarrow> \<not> bcrypt_ok s (u_PasswordHash u) password \<longrightarrow>
       (\<exists>d6. Login s now f' email password ip' d5 = (Inl ErrInvalidCredentials, d6) \<and>
          (\<forall>later < time_Add now lock_duration. \<forall>p.
             Login s later f' email p ip' d6 = (Inl ErrUserLocked, d6))))"
proof -
  let ?u = "fold failed as u"
  have h: "has_user view d5 ?u"
    using gorm_db_up.attempts_failed [OF assms(1-6) _ assms(9)] assms(7,8,10) by (simp add: max_failed_def)
  note f = fold_failed [of as u]
  have l: "u_LockedUntil ?u = Some until"
    using fold_failed_lock [of as u] assms(7,8,11) by (simp add: max_failed_def) fastforce
  have e: "ToLower (TrimSpace email) = u_Email ?u" "u_Status ?u = ''active''" using f assms(4,5) by auto
  have "\<exists>d6. Login s now f' email password ip' d5 = (Inl ErrInvalidCredentials, d6) \<and>
      (\<forall>later < time_Add now lock_duration. \<forall>p. Login s later f' email p ip' d6 = (Inl ErrUserLocked, d6))"
    if "until \<le> now" "\<not> bcrypt_ok s (u_PasswordHash u) password"
  proof -
    let ?v = "failed (now, password) ?u"
    have nl: "\<not> user_locked (fst (now, password)) ?u" "\<not> bcrypt_ok s (u_PasswordHash ?u) (snd (now, password))"
      using that l f by (simp_all add: user_locked_def)
    obtain d6 where d6: "Login s now f' email password ip' d5 = (Inl ErrInvalidCredentials, d6)" "has_user view d6 ?v"
      using gorm_db_up.Login_wrong [OF assms(1,2) h e nl, of f' ip'] by auto
    have "u_LockedUntil ?v = Some (time_Add now lock_duration)"
      using f assms(7,8) by (simp add: max_failed_def)
    then have "Login s later f' email p ip' d6 = (Inl ErrUserLocked, d6)" if "later < time_Add now lock_duration" for later p
      using gorm_db_up.Login_locked [OF assms(1,2) d6(2), of email later] e that by (simp add: user_locked_def)
    with d6 show ?thesis by blast
  qed
  then show ?thesis
    using gorm_db_up.Login_locked [OF assms(1,2) h e] l by (simp add: user_locked_def)
qed

subsection \<open>Sessions\<close>

lemma session_defaults [simp]: "user_session_defaults r = r"
  by (simp add: user_session_defaults_def)

lemma session_row_simps [simp]:
  "ID (session_row s now i u sid r ip ua) = i" "DeletedAt (session_row s now i u sid r ip ua) = None"
  "s_SessionID (session_row s now i u sid r ip ua) = sid" "s_UserID (session_row s now i u sid r ip ua) = ID u"
  "s_RefreshHash (session_row s now i u sid r ip ua) = hashRefresh s r"
  "s_ExpiresAt (session_row s now i u sid r ip ua) = time_Add now (as_refreshTTL s)"
  "s_RevokedAt (session_row s now i u sid r ip ua) = None"
  by (simp_all add: session_row_def)

text \<open>A table of sessions as the code keeps it: IDs and session IDs are distinct.\<close>

definition sessions_ok :: "user_session list \<Rightarrow> bool" where
  "sessions_ok rows \<longleftrightarrow> ids_ok rows \<and> distinct (map s_SessionID rows)"

context gorm_db
begin

lemma issueTokens_ok:
  assumes "as_gorm s = G" "issueTokens s now f u ip ua d = (Inr pair, d')"
  shows "\<exists>row access. newRefreshToken (fr_rand f) = Inr (tp_RefreshToken pair) \<and>
    row = stamp now (session_row s now (fr_id f) u (fr_uuid f) (tp_RefreshToken pair) ip ua) \<and>
    (\<forall>x\<in>set (db_sessions (view d)). \<not> user_session_clash x row) \<and>
    view d' = (view d)\<lparr>db_sessions := db_sessions (view d) @ [row]\<rparr> \<and>
    jwt_sign s (as_secret s) (token_claims s now u (fr_uuid f)) = Inr (tp_AccessToken pair) \<and>
    tp_ExpiresAt pair = time_Add now (as_accessTTL s) div Second"
proof -
  obtain refresh where r: "newRefreshToken (fr_rand f) = Inr refresh"
    using assms(2) by (auto simp: issueTokens_def split: sum.splits)
  obtain x d1 where cr: "tCreate (Sessions G) now (session_row s now (fr_id f) u (fr_uuid f) refresh ip ua) d = (x, d1)"
    by fastforce
  then obtain row where x: "x = Inr row"
    using assms r by (auto simp: issueTokens_def split: sum.splits)
  obtain access where a: "jwt_sign s (as_secret s) (token_claims s now u (fr_uuid f)) = Inr access"
    using assms r cr x by (auto simp: issueTokens_def signAccessToken_def split: sum.splits)
  then have "pair = \<lparr>tp_AccessToken = access, tp_RefreshToken = refresh,
      tp_ExpiresAt = time_Add now (as_accessTTL s) div Second\<rparr>" "d' = d1"
    using assms r cr x by (auto simp: issueTokens_def signAccessToken_def)
  then show ?thesis
    using user_session.create_ok [OF cr [unfolded x]] r a by auto
qed

lemma Login_ok:
  assumes "as_gorm s = G" "Login s now f email password ip d = (Inr (pair, u'), d')"
  shows "\<exists>u d1. u \<in> set (db_users (view d)) \<and> live u \<and> u_Email u = ToLower (TrimSpace email) \<and>
    u_Status u = ''active'' \<and> \<not> user_locked now u \<and> bcrypt_ok s (u_PasswordHash u) password \<and>
    u' = after_success now ip u \<and> issueTokens s now f u' ip [] d1 = (Inr pair, d')"
proof -
  let ?email = "ToLower (TrimSpace email)"
  obtain u where u: "tFirst (Users G) (\<lambda>u. u_Email u = ?email) d = Inr u"
    using assms by (auto simp: Login_def Let_def split: sum.splits if_splits)
  have g: "u_Status u = ''active''" "\<not> user_locked now u" "bcrypt_ok s (u_PasswordHash u) password"
    using assms u by (auto simp: Login_def Let_def VerifyPassword_def split: if_splits)
  let ?d1 = "snd (tSave (Users G) now (after_success now ip u) d)"
  obtain x d2 where it: "issueTokens s now f (after_success now ip u) ip [] ?d1 = (x, d2)" by fastforce
  then have "x = Inr pair" "d' = d2" "u' = after_success now ip u"
    using assms u g by (auto simp: Login_def Let_def VerifyPassword_def split: sum.splits)
  then show ?thesis
    using user.first_mem [OF u] g it by blast
qed

end

subsection \<open>Refresh tokens\<close>

context gorm_db_up
begin

lemma Refresh_rotates:
  assumes "as_gorm s = G" "sessions_ok (db_sessions (view d))"
    and ref: "Refresh s now f tok ip d = (Inr pair, d')"
    and new: "hashRefresh s (tp_RefreshToken pair) \<noteq> hashRefresh s tok"
  shows "\<exists>x. tFirst (Sessions G) (\<lambda>x. s_RefreshHash x = hashRefresh s tok) d' = Inr x \<and> s_RevokedAt x = Some now"
proof -
  let ?p = "\<lambda>x. s_RefreshHash x = hashRefresh s tok"
  obtain x0 u where x0: "tFirst (Sessions G) ?p d = Inr x0" and u: "tFirst (Users G) (\<lambda>u. ID u = s_UserID x0) d = Inr u"
    using assms(1) ref by (auto simp: Refresh_def Let_def split: if_splits sum.splits)
  let ?x1 = "x0\<lparr>s_RevokedAt := Some now, s_RevokeReason := ''rotated''\<rparr>"
  obtain e d1 where sv: "tSave (Sessions G) now ?x1 d = (e, d1)" by fastforce
  have it: "e = None" "issueTokens s now f u ip [] d1 = (Inr pair, d')"
    using assms(1) ref x0 u sv by (auto simp: Refresh_def Let_def split: if_splits option.splits)
  note m = user_session.first_mem [OF x0]
  have "first_row (\<lambda>x. ID x = ID ?x1) (db_sessions (view d)) \<noteq> None"
    using m by (auto simp: first_row_None)
  then have v1: "db_sessions (view d1) = save_row now ?x1 (db_sessions (view d))"
    using user_session.save_ok [OF sv [unfolded it(1)]] by simp
  have ids: "ids_ok (db_sessions (view d))" using assms(2) by (simp add: sessions_ok_def)
  have first1: "first_row ?p (db_sessions (view d1)) = Some (?x1\<lparr>UpdatedAt := now\<rparr>)"
    using first_row_save [OF ids user_session.first_ok [OF x0], of ?x1 now] m(2,3) v1 by (simp add: live_def)
  obtain row where row: "row = stamp now (session_row s now (fr_id f) u (fr_uuid f) (tp_RefreshToken pair) ip [])"
    "db_sessions (view d') = db_sessions (view d1) @ [row]"
    using issueTokens_ok [OF assms(1) it(2)] by auto
  have "sel ?p (db_sessions (view d')) = sel ?p (db_sessions (view d1))"
    using row new by (simp add: sel_def)
  then have "first_row ?p (db_sessions (view d')) = Some (?x1\<lparr>UpdatedAt := now\<rparr>)"
    using first1 by (simp add: first_row_def)
  then show ?thesis by (simp add: user_session.first_up)
qed

end

text \<open>
  C10: A refresh token works once. After it was exchanged for a new pair, presenting it again is refused
  as revoked and changes nothing, at any time, as long as the new token does not have the same hash.
\<close>

theorem refresh_single_use:
  assumes "gorm_db_up G view" "as_gorm s = G" "sessions_ok (db_sessions (view d))"
    and "Refresh s now f tok ip d = (Inr pair, d')"
    and "hashRefresh s (tp_RefreshToken pair) \<noteq> hashRefresh s tok"
  shows "Refresh s later f' tok ip' d' = (Inl ErrSessionRevoked, d')"
proof -
  obtain x where "tFirst (Sessions G) (\<lambda>x. s_RefreshHash x = hashRefresh s tok) d' = Inr x" "s_RevokedAt x = Some now"
    using gorm_db_up.Refresh_rotates [OF assms] by blast
  moreover have "tok \<noteq> []" using assms(4) by (auto simp: Refresh_def)
  ultimately show ?thesis
    using assms(2) by (simp add: Refresh_def Let_def session_IsActive_def)
qed

subsection \<open>Concrete runs\<close>

definition run_user :: user where
  "run_user = \<lparr>ID = ''01U'', CreatedAt = 0, UpdatedAt = 0, DeletedAt = None, u_Email = ''a@b'',
     u_PasswordHash = ''correct horse 1'', u_Role = ''account_dev'', u_TenantID = ''01T'', u_AccountID = [],
     u_TOTPSecret = [], u_TOTPEnabled = False, u_FailedLogins = 0, u_LockedUntil = None,
     u_LastLoginAt = None, u_LastLoginIP = [], u_Status = ''active''\<rparr>"

definition run_db :: database where
  "run_db = empty_database\<lparr>db_users := [run_user]\<rparr>"

definition run_fresh :: fresh where
  "run_fresh = \<lparr>fr_uuid = ''s1'', fr_id = ''01S'', fr_rand = Inr ''0123456789abcdef0123456789abcdef''\<rparr>"

definition run_claims :: claims where
  "run_claims = \<lparr>cl_UserID = ''01U'', cl_Email = ''a@b'', cl_Role = ''account_dev'', cl_TenantID = ''01T'',
     cl_AccountID = [], cl_SessionID = ''s1'', cl_Iss = ''orvixpanel'', cl_Sub = ''01U'', cl_Exp = 900, cl_Iat = 0\<rparr>"

text \<open>Passwords are their own hash, and the only token is the one of \<open>run_claims\<close>.\<close>

definition run_auth :: "database auth" where
  "run_auth = \<lparr>as_gorm = mem_gorm, as_secret = replicate 32 (CHR ''k''), as_issuer = ''orvixpanel'',
     as_accessTTL = 900 * Second, as_refreshTTL = 86400 * Second, as_bcryptCost = 12,
     bcrypt_gen = (\<lambda>_ p. Inr p), bcrypt_ok = (\<lambda>h p. h = p), as_sum256 = (\<lambda>s. s),
     jwt_sign = (\<lambda>_ _. Inr ''token''), jwt_parse = (\<lambda>_ _ _ _. Inr (run_claims, True))\<rparr>"

lemma run_auth_simps [simp]:
  "as_gorm run_auth = mem_gorm" "bcrypt_ok run_auth h p = (h = p)"
  "jwt_parse run_auth n k i t = Inr (run_claims, True)" "jwt_sign run_auth k c = Inr ''token''"
  "as_refreshTTL run_auth = 86400 * Second" "as_accessTTL run_auth = 900 * Second"
  "as_issuer run_auth = ''orvixpanel''" "as_sum256 run_auth x = x"
  by (simp_all add: run_auth_def)

lemma run_user_simps [simp]:
  "ID run_user = ''01U''" "u_Email run_user = ''a@b''" "u_PasswordHash run_user = ''correct horse 1''"
  "u_Status run_user = ''active''" "u_LockedUntil run_user = None" "u_FailedLogins run_user = 0"
  "live run_user" "u_Role run_user = ''account_dev''" "u_TenantID run_user = ''01T''" "u_AccountID run_user = []"
  by (simp_all add: run_user_def live_def)

lemma run_has_user: "has_user (\<lambda>d. d) run_db run_user"
  by (simp add: has_user_def run_db_def ids_ok_def)

lemma run_email: "ToLower (TrimSpace '' A@b '') = ''a@b''"
  by code_simp

theorem login_lockout_witness:
  "Login run_auth 1 run_fresh '' A@b '' ''correct horse 1'' ''192.0.2.1''
     (attempts run_auth run_fresh '' A@b '' ''192.0.2.7'' (replicate 5 (0, ''guess'')) run_db) =
   (Inl ErrUserLocked, attempts run_auth run_fresh '' A@b '' ''192.0.2.7'' (replicate 5 (0, ''guess'')) run_db)"
proof -
  have "time_Add 0 lock_duration = 900 * Second"
    unfolding time_Add_def lock_duration_def Minute_def by (subst norm_time_sane) simp_all
  then show ?thesis
    using login_lockout [OF mem_gorm_db_up run_auth_simps(1) run_has_user, of "'' A@b ''" "replicate 5 (0, ''guess'')"]
      run_email by simp
qed

definition run_session :: user_session where
  "run_session = stamp 0 (session_row run_auth 0 ''01S'' run_user ''s1'' ''0123'' ''192.0.2.1'' [])"

definition session_db :: database where
  "session_db = empty_database\<lparr>db_users := [run_user], db_sessions := [run_session]\<rparr>"

lemma run_session_simps [simp]:
  "ID run_session = ''01S''" "live run_session" "s_SessionID run_session = ''s1''" "s_UserID run_session = ''01U''"
  "s_RefreshHash run_session = hashRefresh run_auth ''0123''" "s_RevokedAt run_session = None"
  "s_ExpiresAt run_session = 86400 * Second"
proof -
  have "time_Add 0 (86400 * Second) = 86400 * Second"
    unfolding time_Add_def by (subst norm_time_sane) simp_all
  then show "s_ExpiresAt run_session = 86400 * Second" by (simp add: run_session_def)
qed (simp_all add: run_session_def live_def)

theorem refresh_single_use_witness:
  "\<exists>pair d'. Refresh run_auth 1 (run_fresh\<lparr>fr_uuid := ''s2'', fr_id := ''02S''\<rparr>) ''0123'' [] session_db = (Inr pair, d') \<and>
    Refresh run_auth 2 run_fresh ''0123'' [] d' = (Inl ErrSessionRevoked, d')"
proof -
  let ?f = "run_fresh\<lparr>fr_uuid := ''s2'', fr_id := ''02S''\<rparr>"
  have "\<exists>pair d'. Refresh run_auth 1 ?f ''0123'' [] session_db = (Inr pair, d') \<and>
      tp_RefreshToken pair = RawURLEncode ''0123456789abcdef0123456789abcdef''"
    by (simp add: Refresh_def Let_def session_db_def mem_gorm_def mem_table_def first_row_def sel_def
        session_IsActive_def save_row_def issueTokens_def newRefreshToken_def run_fresh_def signAccessToken_def
        user_session_clash_def)
  then obtain pair d' where r: "Refresh run_auth 1 ?f ''0123'' [] session_db = (Inr pair, d')"
    "tp_RefreshToken pair = RawURLEncode ''0123456789abcdef0123456789abcdef''" by blast
  have "RawURLEncode ''0123456789abcdef0123456789abcdef'' \<noteq> ''0123''" by code_simp
  then have "hashRefresh run_auth (tp_RefreshToken pair) \<noteq> hashRefresh run_auth ''0123''"
    using r(2) by (simp add: hashRefresh_def)
  moreover have "sessions_ok (db_sessions session_db)"
    by (simp add: sessions_ok_def session_db_def ids_ok_def)
  ultimately show ?thesis
    using refresh_single_use [OF mem_gorm_db_up run_auth_simps(1) _ r(1)] r(1) by blast
qed

end
