(* ===== verification/SessionRefine.thy ===== *)
theory SessionRefine
  imports AuthProps
begin

text \<open>
  The session table as an abstract map: the operations of internal/auth/jwt.go update, at a session ID, a map from the IDs of
  the open sessions to their user, the hash of their refresh token and their end.
\<close>

subsection \<open>The abstraction\<close>

type_synonym open_sessions = "string \<rightharpoonup> string \<times> string \<times> int"

definition session_view :: "user_session \<Rightarrow> string \<times> string \<times> int" where
  "session_view x = (s_UserID x, s_RefreshHash x, s_ExpiresAt x)"

definition is_open :: "user_session \<Rightarrow> bool" where
  "is_open x \<longleftrightarrow> live x \<and> s_RevokedAt x = None"

definition open_sessions :: "user_session list \<Rightarrow> open_sessions" where
  "open_sessions rows = map_of (map (\<lambda>x. (s_SessionID x, session_view x)) (filter is_open rows))"

lemma open_sessions_Some:
  assumes "sessions_ok rows"
  shows "open_sessions rows sid = Some e \<longleftrightarrow>
    (\<exists>x\<in>set rows. is_open x \<and> s_SessionID x = sid \<and> session_view x = e)"
proof -
  have "distinct (map s_SessionID rows)" using assms by (simp add: sessions_ok_def)
  then have "distinct (map fst (map (\<lambda>x. (s_SessionID x, session_view x)) (filter is_open rows)))"
    by (simp add: comp_def distinct_map_filter)
  then show ?thesis by (auto simp: open_sessions_def image_iff)
qed

lemma open_sessions_simps [simp]:
  "open_sessions [] = Map.empty"
  "open_sessions (x # rows) =
     (if is_open x then (open_sessions rows)(s_SessionID x \<mapsto> session_view x) else open_sessions rows)"
  by (simp_all add: open_sessions_def)

text \<open>A new row opens its session, a revoked row ends it.\<close>

lemma open_sessions_append:
  assumes "is_open row" "\<forall>x\<in>set rows. s_SessionID x \<noteq> s_SessionID row"
  shows "open_sessions (rows @ [row]) = (open_sessions rows)(s_SessionID row \<mapsto> session_view row)"
    and "open_sessions rows (s_SessionID row) = None"
proof -
  show n: "open_sessions rows (s_SessionID row) = None"
    using assms(2) by (auto simp: open_sessions_def map_of_eq_None_iff is_open_def)
  show "open_sessions (rows @ [row]) = (open_sessions rows)(s_SessionID row \<mapsto> session_view row)"
  proof
    show "open_sessions (rows @ [row]) sid = ((open_sessions rows)(s_SessionID row \<mapsto> session_view row)) sid" for sid
      using n assms(1) by (auto simp: open_sessions_def map_add_def split: option.splits)
  qed
qed

lemma open_sessions_end:
  assumes "\<And>x. \<not> is_open (g x)"
  shows "open_sessions (map (\<lambda>x. if live x \<and> s_SessionID x = sid then g x else x) rows) = (open_sessions rows)(sid := None)"
proof (induction rows)
  case (Cons x rows)
  have "\<not> live x \<Longrightarrow> \<not> is_open x" by (simp add: is_open_def)
  then show ?case using Cons assms [of x] by (cases "live x \<and> s_SessionID x = sid") (auto simp: fun_upd_twist)
qed simp

lemma sessions_ok_append:
  "sessions_ok rows \<Longrightarrow> \<forall>x\<in>set rows. \<not> user_session_clash x row \<Longrightarrow> sessions_ok (rows @ [row])"
  by (auto simp: sessions_ok_def ids_ok_def user_session_clash_def)

lemma sessions_ok_unique:
  "sessions_ok rows \<Longrightarrow> x \<in> set rows \<Longrightarrow> y \<in> set rows \<Longrightarrow> ID x = ID y \<longleftrightarrow> s_SessionID x = s_SessionID y"
  by (auto simp: sessions_ok_def ids_ok_def distinct_map inj_on_def)

lemma sessions_ok_map:
  assumes "sessions_ok rows" "\<And>x. x \<in> set rows \<Longrightarrow> ID (g x) = ID x \<and> s_SessionID (g x) = s_SessionID x"
  shows "sessions_ok (map g rows)"
proof -
  have "map ID (map g rows) = map ID rows" "map s_SessionID (map g rows) = map s_SessionID rows"
    using assms(2) by simp_all
  then show ?thesis using assms(1) by (simp only: sessions_ok_def ids_ok_def)
qed

lemma rotated_row:
  assumes "sessions_ok rows" "x \<in> set rows" "ID y = ID x" "s_SessionID y = s_SessionID x" "s_RevokedAt y \<noteq> None"
  shows "sessions_ok (save_row now y rows)" "open_sessions (save_row now y rows) = (open_sessions rows)(s_SessionID x := None)"
proof -
  have "save_row now y rows = map (\<lambda>z. if live z \<and> s_SessionID z = s_SessionID x then y\<lparr>UpdatedAt := now\<rparr> else z) rows"
    using sessions_ok_unique [OF assms(1) _ assms(2)] assms(3) by (auto simp: save_row_def)
  moreover have "\<not> is_open (y\<lparr>UpdatedAt := now\<rparr>)" using assms(5) by (simp add: is_open_def)
  ultimately show "open_sessions (save_row now y rows) = (open_sessions rows)(s_SessionID x := None)"
    using open_sessions_end [of "\<lambda>_. y\<lparr>UpdatedAt := now\<rparr>"] by simp
  show "sessions_ok (save_row now y rows)"
    unfolding save_row_def using sessions_ok_unique [OF assms(1) _ assms(2)] assms(3,4)
    by (intro sessions_ok_map [OF assms(1)]) (simp, metis)
qed

lemma map_sum_Inr: "Inr y = map_sum f g r \<longleftrightarrow> (\<exists>x. r = Inr x \<and> y = g x)"
  by (cases r) auto

subsection \<open>The operations\<close>

context gorm_db
begin

lemma issueTokens_opens:
  assumes "as_gorm s = G" "issueTokens s now f u ip ua d = (res, d')" "sessions_ok (db_sessions (view d))"
  shows "sessions_ok (db_sessions (view d'))"
    and "sid \<noteq> fr_uuid f \<Longrightarrow> open_sessions (db_sessions (view d')) sid = open_sessions (db_sessions (view d)) sid"
    and "res = Inr pair \<Longrightarrow>
      open_sessions (db_sessions (view d)) (fr_uuid f) = None \<and>
      open_sessions (db_sessions (view d')) = (open_sessions (db_sessions (view d)))
        (fr_uuid f \<mapsto> (ID u, hashRefresh s (tp_RefreshToken pair), time_Add now (as_refreshTTL s)))"
proof -
  let ?ss = "db_sessions (view d)"
  have row: "db_sessions (view d') = ?ss \<and> (\<forall>pair. res \<noteq> Inr pair) \<or>
      (\<exists>row. db_sessions (view d') = ?ss @ [row] \<and> (\<forall>x\<in>set ?ss. \<not> user_session_clash x row) \<and> is_open row \<and>
         s_SessionID row = fr_uuid f \<and> (\<forall>pair. res = Inr pair \<longrightarrow>
           session_view row = (ID u, hashRefresh s (tp_RefreshToken pair), time_Add now (as_refreshTTL s))))"
  proof (cases "newRefreshToken (fr_rand f)")
    case (Inl e)
    then show ?thesis using assms(2) by (auto simp: issueTokens_def)
  next
    case (Inr refresh)
    obtain x d1 where cr: "tCreate (Sessions G) now (session_row s now (fr_id f) u (fr_uuid f) refresh ip ua) d = (x, d1)" by fastforce
    show ?thesis
    proof (cases x)
      case (Inl e)
      then show ?thesis using assms(1,2) Inr cr user_session.create_fail [of now _ d e d1] by (auto simp: issueTokens_def \<open>newRefreshToken (fr_rand f) = Inr refresh\<close>)
    next
      case new: (Inr row)
      have "d' = d1" "\<forall>pair. res = Inr pair \<longrightarrow> tp_RefreshToken pair = refresh"
        using assms(1,2) cr new \<open>newRefreshToken (fr_rand f) = Inr refresh\<close> by (auto simp: issueTokens_def split: sum.splits)
      then show ?thesis
        using user_session.create_ok [OF cr [unfolded new]] by (auto simp: is_open_def live_def session_view_def)
    qed
  qed
  show "sessions_ok (db_sessions (view d'))" using row assms(3) sessions_ok_append by force
  show "sid \<noteq> fr_uuid f \<Longrightarrow> open_sessions (db_sessions (view d')) sid = open_sessions ?ss sid"
    using row open_sessions_append(1) [of _ ?ss] by (auto simp: user_session_clash_def image_iff)
  show "open_sessions ?ss (fr_uuid f) = None \<and> open_sessions (db_sessions (view d')) = (open_sessions ?ss)
        (fr_uuid f \<mapsto> (ID u, hashRefresh s (tp_RefreshToken pair), time_Add now (as_refreshTTL s)))" if "res = Inr pair"
    using row that open_sessions_append [of _ ?ss] by (fastforce simp: user_session_clash_def)
qed

lemma Login_sessions:
  assumes "as_gorm s = G" "Login s now f email password ip d = (res, d')"
  shows "(\<forall>x. res \<noteq> Inr x) \<and> db_sessions (view d') = db_sessions (view d) \<or>
    (\<exists>u d1 r. db_sessions (view d1) = db_sessions (view d) \<and> issueTokens s now f u ip [] d1 = (r, d') \<and>
       res = map_sum (\<lambda>e. e) (\<lambda>pair. (pair, u)) r)"
proof (cases "tFirst (Users G) (\<lambda>u. u_Email u = ToLower (TrimSpace email)) d")
  case (Inl e)
  then show ?thesis using assms by (auto simp: Login_def Let_def split: if_splits)
next
  case (Inr u)
  have save: "db_sessions (view (snd (tSave (Users G) now u' d))) = db_sessions (view d)" if "ID u' = ID u" for u'
  proof -
    obtain e d1 where sv: "tSave (Users G) now u' d = (e, d1)" by fastforce
    have "first_row (\<lambda>x. ID x = ID u') (db_users (view d)) \<noteq> None"
      using user.first_mem [OF Inr] that by (auto simp: first_row_None)
    then show ?thesis using sv user.save_ok [of now u' d d1] user.save_fail [of now u' d _ d1] by (cases e) auto
  qed
  have ids: "ID (after_failure now u) = ID u" "ID (after_success now ip u) = ID u" by (simp_all add: after_success_def)
  obtain r d2 where it: "issueTokens s now f (after_success now ip u) ip [] (snd (tSave (Users G) now (after_success now ip u) d)) = (r, d2)"
    by fastforce
  consider "(\<forall>x. res \<noteq> Inr x)" "d' = d \<or> d' = snd (tSave (Users G) now (after_failure now u) d)"
    | "res = map_sum (\<lambda>e. e) (\<lambda>pair. (pair, after_success now ip u)) r" "d' = d2"
    using assms Inr it by (auto simp: Login_def Let_def split: if_splits sum.splits)
  then show ?thesis
  proof cases
    case 1
    then show ?thesis using save [OF ids(1)] by auto
  next
    case 2
    then show ?thesis using save [OF ids(2)] it by blast
  qed
qed

lemma Login_opens:
  assumes "as_gorm s = G" "Login s now f email password ip d = (res, d')" "sessions_ok (db_sessions (view d))"
  shows "sessions_ok (db_sessions (view d'))"
    and "sid \<noteq> fr_uuid f \<Longrightarrow> open_sessions (db_sessions (view d')) sid = open_sessions (db_sessions (view d)) sid"
    and "res = Inr (pair, u) \<Longrightarrow>
      open_sessions (db_sessions (view d)) (fr_uuid f) = None \<and>
      open_sessions (db_sessions (view d')) = (open_sessions (db_sessions (view d)))
        (fr_uuid f \<mapsto> (ID u, hashRefresh s (tp_RefreshToken pair), time_Add now (as_refreshTTL s)))"
proof -
  note l = Login_sessions [OF assms(1,2)] and it = issueTokens_opens [OF assms(1)]
  show "sessions_ok (db_sessions (view d'))" using l it(1) assms(3) by (metis (no_types))
  show "open_sessions (db_sessions (view d')) sid = open_sessions (db_sessions (view d)) sid" if "sid \<noteq> fr_uuid f"
    using l it(2) assms(3) that by (metis (no_types))
  assume res: "res = Inr (pair, u)"
  then obtain d1 where "db_sessions (view d1) = db_sessions (view d)" "issueTokens s now f u ip [] d1 = (Inr pair, d')"
    using l by (auto simp: map_sum_Inr)
  then show "open_sessions (db_sessions (view d)) (fr_uuid f) = None \<and>
      open_sessions (db_sessions (view d')) = (open_sessions (db_sessions (view d)))
        (fr_uuid f \<mapsto> (ID u, hashRefresh s (tp_RefreshToken pair), time_Add now (as_refreshTTL s)))"
    using it(3) [of now f u ip "[]" d1 "Inr pair" d' pair] assms(3) by simp
qed

lemma Refresh_sessions:
  assumes "as_gorm s = G" "Refresh s now f tok ip d = (res, d')"
  shows "(\<forall>x. res \<noteq> Inr x) \<and> db_sessions (view d') = db_sessions (view d) \<or>
    (\<exists>x u d1. x \<in> set (db_sessions (view d)) \<and> is_open x \<and> s_RefreshHash x = hashRefresh s tok \<and> now < s_ExpiresAt x \<and>
       ID u = s_UserID x \<and> issueTokens s now f u ip [] d1 = (res, d') \<and>
       db_sessions (view d1) = save_row now (x\<lparr>s_RevokedAt := Some now, s_RevokeReason := ''rotated''\<rparr>) (db_sessions (view d)))"
proof (cases "\<exists>e. res = Inl e \<and> d' = d")
  case False
  then obtain x where x: "tFirst (Sessions G) (\<lambda>x. s_RefreshHash x = hashRefresh s tok) d = Inr x" "session_IsActive now x"
    using assms by (auto simp: Refresh_def Let_def split: if_splits sum.splits)
  with False obtain u where u: "tFirst (Users G) (\<lambda>u. ID u = s_UserID x) d = Inr u" "u_Status u = ''active''"
    using assms by (auto simp: Refresh_def Let_def split: if_splits sum.splits)
  let ?x1 = "x\<lparr>s_RevokedAt := Some now, s_RevokeReason := ''rotated''\<rparr>"
  obtain e d1 where sv: "tSave (Sessions G) now ?x1 d = (e, d1)" by fastforce
  note m = user_session.first_mem [OF x(1)]
  show ?thesis
  proof (cases e)
    case None
    have "first_row (\<lambda>z. ID z = ID ?x1) (db_sessions (view d)) \<noteq> None" using m by (auto simp: first_row_None)
    then have "db_sessions (view d1) = save_row now ?x1 (db_sessions (view d))"
      using user_session.save_ok [of now ?x1 d d1] sv None by simp
    moreover have "issueTokens s now f u ip [] d1 = (res, d')"
      using assms False x u sv None by (auto simp: Refresh_def Let_def split: if_splits)
    ultimately show ?thesis
      using m x(2) user.first_mem(3) [OF u(1)] by (auto simp: session_IsActive_def is_open_def split: if_splits)
  next
    case (Some err)
    then have "d' = d1" "\<forall>y. res \<noteq> Inr y" using assms False x u sv by (auto simp: Refresh_def Let_def split: if_splits)
    then show ?thesis using user_session.save_fail [of now ?x1 d err d1] sv Some by auto
  qed
qed auto

lemma Refresh_opens:
  assumes "as_gorm s = G" "Refresh s now f tok ip d = (res, d')" "sessions_ok (db_sessions (view d))"
  shows "sessions_ok (db_sessions (view d'))"
    and "sid \<noteq> fr_uuid f \<Longrightarrow> open_sessions (db_sessions (view d')) sid \<in> {open_sessions (db_sessions (view d)) sid, None}"
    and "res = Inr pair \<Longrightarrow>
      \<exists>old uid until. open_sessions (db_sessions (view d)) old = Some (uid, hashRefresh s tok, until) \<and> now < until \<and>
        open_sessions (db_sessions (view d')) = (open_sessions (db_sessions (view d)))
          (old := None, fr_uuid f \<mapsto> (uid, hashRefresh s (tp_RefreshToken pair), time_Add now (as_refreshTTL s)))"
proof -
  let ?ss = "db_sessions (view d)"
  note it = issueTokens_opens [OF assms(1)]
  have "sessions_ok (db_sessions (view d')) \<and>
    (sid \<noteq> fr_uuid f \<longrightarrow> open_sessions (db_sessions (view d')) sid \<in> {open_sessions ?ss sid, None}) \<and>
    (res = Inr pair \<longrightarrow>
      (\<exists>old uid until. open_sessions ?ss old = Some (uid, hashRefresh s tok, until) \<and> now < until \<and>
        open_sessions (db_sessions (view d')) = (open_sessions ?ss)
          (old := None, fr_uuid f \<mapsto> (uid, hashRefresh s (tp_RefreshToken pair), time_Add now (as_refreshTTL s)))))"
    using Refresh_sessions [OF assms(1,2)]
  proof (elim disjE exE conjE)
    fix x u d1
    assume x: "x \<in> set ?ss" "is_open x" "s_RefreshHash x = hashRefresh s tok" "now < s_ExpiresAt x" "ID u = s_UserID x"
      and i: "issueTokens s now f u ip [] d1 = (res, d')"
      and d1: "db_sessions (view d1) = save_row now (x\<lparr>s_RevokedAt := Some now, s_RevokeReason := ''rotated''\<rparr>) ?ss"
    have r: "sessions_ok (db_sessions (view d1))"
        "open_sessions (db_sessions (view d1)) = (open_sessions ?ss)(s_SessionID x := None)"
      unfolding d1 by (rule rotated_row [OF assms(3) x(1)]; simp)+
    have "open_sessions ?ss (s_SessionID x) = Some (ID u, hashRefresh s tok, s_ExpiresAt x)"
      using open_sessions_Some [OF assms(3)] x by (auto simp: session_view_def)
    then show ?thesis
      using it [OF i r(1)] r(2) x(4) by fastforce
  qed (use assms(3) in auto)
  then show "sessions_ok (db_sessions (view d'))"
    "sid \<noteq> fr_uuid f \<Longrightarrow> open_sessions (db_sessions (view d')) sid \<in> {open_sessions (db_sessions (view d)) sid, None}"
    "res = Inr pair \<Longrightarrow>
      \<exists>old uid until. open_sessions (db_sessions (view d)) old = Some (uid, hashRefresh s tok, until) \<and> now < until \<and>
        open_sessions (db_sessions (view d')) = (open_sessions (db_sessions (view d)))
          (old := None, fr_uuid f \<mapsto> (uid, hashRefresh s (tp_RefreshToken pair), time_Add now (as_refreshTTL s)))"
    by blast+
qed

lemma Logout_closes:
  assumes "as_gorm s = G" "Logout s now (Some cl) d = (res, d')" "sessions_ok (db_sessions (view d))"
  shows "sessions_ok (db_sessions (view d'))"
    and "open_sessions (db_sessions (view d')) =
      (if res = None \<and> cl_SessionID cl \<noteq> [] then (open_sessions (db_sessions (view d)))(cl_SessionID cl := None)
       else open_sessions (db_sessions (view d)))"
proof -
  let ?g = "\<lambda>x. (x\<lparr>s_RevokedAt := Some now, s_RevokeReason := ''logout''\<rparr>)\<lparr>UpdatedAt := now\<rparr>"
  have "db_sessions (view d') =
      (if res = None \<and> cl_SessionID cl \<noteq> []
       then map (\<lambda>x. if live x \<and> s_SessionID x = cl_SessionID cl then ?g x else x) (db_sessions (view d))
       else db_sessions (view d))"
    using assms(1,2) user_session.updates_ok user_session.updates_fail
    by (fastforce simp: Logout_def upd_rows_def split: if_splits sum.splits prod.splits)
  moreover have "\<not> is_open (?g x)" for x by (simp add: is_open_def)
  ultimately show "sessions_ok (db_sessions (view d'))"
    and "open_sessions (db_sessions (view d')) =
      (if res = None \<and> cl_SessionID cl \<noteq> [] then (open_sessions (db_sessions (view d)))(cl_SessionID cl := None)
       else open_sessions (db_sessions (view d)))"
    using sessions_ok_map [OF assms(3), of "\<lambda>x. if live x \<and> s_SessionID x = cl_SessionID cl then ?g x else x"]
      open_sessions_end [of ?g "cl_SessionID cl" "db_sessions (view d)"] assms(3) by simp_all
qed

end

context gorm_db_up
begin

lemma VerifyAndCheckSession_open:
  assumes "as_gorm s = G" "sessions_ok (db_sessions (view d))"
  shows "VerifyAndCheckSession s now tok d = Inr cl \<longleftrightarrow> Verify s now tok = Inr cl \<and>
    (\<exists>uid h until. open_sessions (db_sessions (view d)) (cl_SessionID cl) = Some (uid, h, until) \<and> now < until)"
proof -
  let ?p = "\<lambda>x. s_SessionID x = cl_SessionID cl"
  have "(\<exists>x. first_row ?p (db_sessions (view d)) = Some x \<and> session_IsActive now x) \<longleftrightarrow>
      (\<exists>x\<in>set (db_sessions (view d)). is_open x \<and> ?p x \<and> now < s_ExpiresAt x)" (is "?l \<longleftrightarrow> ?r")
  proof
    assume ?l
    then show ?r by (auto simp: session_IsActive_def is_open_def dest: first_row_Some split: if_splits)
  next
    assume ?r
    then obtain x where x: "x \<in> set (db_sessions (view d))" "is_open x" "?p x" "now < s_ExpiresAt x" by blast
    moreover have "first_row ?p (db_sessions (view d)) = Some x"
      using x assms(2) by (intro first_row_unique) (auto simp: is_open_def sessions_ok_def distinct_map inj_on_def)
    ultimately show ?l by (auto simp: session_IsActive_def is_open_def)
  qed
  moreover have "VerifyAndCheckSession s now tok d = Inr cl \<longleftrightarrow> Verify s now tok = Inr cl \<and>
      (\<exists>x. first_row ?p (db_sessions (view d)) = Some x \<and> session_IsActive now x)"
    using assms(1) by (auto simp: VerifyAndCheckSession_def user_session.first_up split: sum.splits option.splits)
  ultimately show ?thesis by (simp add: open_sessions_Some [OF assms(2)] session_view_def) blast
qed

end

subsection \<open>The refinement\<close>

abbreviation sessions_in :: "('d \<Rightarrow> database) \<Rightarrow> 'd \<Rightarrow> open_sessions" where
  "sessions_in view d \<equiv> open_sessions (db_sessions (view d))"

text \<open>
  C8: The session table refines a map from the IDs of the open sessions to their user, the hash of their refresh token and
  their end. A login adds the new session, a refresh replaces the session its token belongs to, which has not ended, by a new one of the
  same user, a logout removes the session of its claims, and a token is accepted just when it verifies and its session is in the map
  and has not ended. A call that fails leaves every session but the one it was about to open as it was, or ends it. The table stays
  well formed, so this holds of any sequence of calls.
\<close>

theorem sessions_refine_map:
  assumes "gorm_db_up G view" "as_gorm s = G" "sessions_ok (db_sessions (view d))"
  shows "(Login s now f email password ip d = (res, d1) \<longrightarrow>
      sessions_ok (db_sessions (view d1)) \<and> (\<forall>sid. sid \<noteq> fr_uuid f \<longrightarrow> sessions_in view d1 sid = sessions_in view d sid) \<and>
      (\<forall>pair u. res = Inr (pair, u) \<longrightarrow> sessions_in view d (fr_uuid f) = None \<and>
         sessions_in view d1 = (sessions_in view d)
           (fr_uuid f \<mapsto> (ID u, hashRefresh s (tp_RefreshToken pair), time_Add now (as_refreshTTL s))))) \<and>
    (Refresh s now f tok ip d = (ref, d2) \<longrightarrow>
      sessions_ok (db_sessions (view d2)) \<and>
      (\<forall>sid. sid \<noteq> fr_uuid f \<longrightarrow> sessions_in view d2 sid \<in> {sessions_in view d sid, None}) \<and>
      (\<forall>pair. ref = Inr pair \<longrightarrow> (\<exists>old uid until.
         sessions_in view d old = Some (uid, hashRefresh s tok, until) \<and> now < until \<and>
         sessions_in view d2 = (sessions_in view d)
           (old := None, fr_uuid f \<mapsto> (uid, hashRefresh s (tp_RefreshToken pair), time_Add now (as_refreshTTL s)))))) \<and>
    (Logout s now (Some out) d = (e, d3) \<longrightarrow>
      sessions_ok (db_sessions (view d3)) \<and>
      sessions_in view d3 = (if e = None \<and> cl_SessionID out \<noteq> [] then (sessions_in view d)(cl_SessionID out := None)
                             else sessions_in view d)) \<and>
    (VerifyAndCheckSession s now access d = Inr cl \<longleftrightarrow>
      Verify s now access = Inr cl \<and> (\<exists>uid h until. sessions_in view d (cl_SessionID cl) = Some (uid, h, until) \<and> now < until))"
proof -
  note db = gorm_db_up.axioms(1) [OF assms(1)]
  note calls = gorm_db.Login_opens [OF db assms(2) _ assms(3)] gorm_db.Refresh_opens [OF db assms(2) _ assms(3)]
    gorm_db.Logout_closes [OF db assms(2) _ assms(3)]
  show ?thesis
    using calls(1-3) [of now f email password ip res d1] calls(4-6) [of now f tok ip ref d2] calls(7,8) [of now out e d3]
      gorm_db_up.VerifyAndCheckSession_open [OF assms, of now access cl]
    by (intro conjI impI allI) (simp_all only: , (blast | metis)+)
qed

theorem sessions_refine_map_witness:
  "\<exists>pair d'. Refresh run_auth 1 (run_fresh\<lparr>fr_uuid := ''s2'', fr_id := ''02S''\<rparr>) ''0123'' [] session_db = (Inr pair, d') \<and>
    sessions_in (\<lambda>d. d) session_db = [''s1'' \<mapsto> (''01U'', hashRefresh run_auth ''0123'', 86400 * Second)] \<and>
    sessions_in (\<lambda>d. d) d' =
      [''s2'' \<mapsto> (''01U'', hashRefresh run_auth (tp_RefreshToken pair), time_Add 1 (86400 * Second))]"
proof -
  let ?f = "run_fresh\<lparr>fr_uuid := ''s2'', fr_id := ''02S''\<rparr>"
  have "\<exists>pair d'. Refresh run_auth 1 ?f ''0123'' [] session_db = (Inr pair, d')"
    by (simp add: Refresh_def Let_def session_db_def mem_gorm_def mem_table_def first_row_def sel_def
        session_IsActive_def save_row_def issueTokens_def newRefreshToken_def run_fresh_def signAccessToken_def
        user_session_clash_def)
  then obtain pair d' where r: "Refresh run_auth 1 ?f ''0123'' [] session_db = (Inr pair, d')" by blast
  have ss: "sessions_in (\<lambda>d. d) session_db = [''s1'' \<mapsto> (''01U'', hashRefresh run_auth ''0123'', 86400 * Second)]"
    by (simp add: session_db_def is_open_def session_view_def)
  have ok: "sessions_ok (db_sessions session_db)" by (simp add: sessions_ok_def session_db_def ids_ok_def)
  obtain old uid until where "sessions_in (\<lambda>d. d) session_db old = Some (uid, hashRefresh run_auth ''0123'', until)"
    "sessions_in (\<lambda>d. d) d' = (sessions_in (\<lambda>d. d) session_db)
       (old := None, fr_uuid ?f \<mapsto> (uid, hashRefresh run_auth (tp_RefreshToken pair), time_Add 1 (as_refreshTTL run_auth)))"
    using sessions_refine_map [OF mem_gorm_db_up run_auth_simps(1) ok, THEN conjunct2, THEN conjunct1] r by blast
  then show ?thesis using r ss by (auto split: if_splits)
qed

end
