(* ===== verification/ApiKey.thy ===== *)
theory ApiKey
  imports Auth
begin

text \<open>
  Long-lived API keys: internal/auth/apikey.go and the endpoints of apikey_handlers.go. A key is
  \<open>orx_live_\<close>, a public prefix of 8 and a secret of 32 Crockford base-32 characters; the database
  holds the SHA-256 of the whole key.
\<close>

definition ErrAPIKeyNotFound :: go_error where
  [go_errors]: "ErrAPIKeyNotFound = ErrNew ''api key not found''"

definition ErrAPIKeyRevoked :: go_error where
  [go_errors]: "ErrAPIKeyRevoked = ErrNew ''api key revoked''"

definition ErrAPIKeyExpired :: go_error where
  [go_errors]: "ErrAPIKeyExpired = ErrNew ''api key expired''"

definition ErrAPIKeyMalformed :: go_error where
  [go_errors]: "ErrAPIKeyMalformed = ErrNew ''api key malformed''"

definition KeyPrefix :: string where "KeyPrefix = ''orx_live_''"

subsection \<open>Base 32\<close>

definition crockford :: string where
  "crockford = ''0123456789ABCDEFGHJKMNPQRSTVWXYZ''"

definition byte_bits :: "char \<Rightarrow> nat list" where
  "byte_bits c = map (\<lambda>i. ch c div 2 ^ i mod 2) [7, 6, 5, 4, 3, 2, 1, 0]"

definition quintet :: "nat list \<Rightarrow> nat" where
  "quintet bs = foldl (\<lambda>n b. 2 * n + b) 0 (take 5 (bs @ replicate 5 0))"

fun quintets :: "nat list \<Rightarrow> nat list" where
  "quintets [] = []"
| "quintets (a # b # c # d # e # bs) = quintet [a, b, c, d, e] # quintets bs"
| "quintets bs = [quintet bs]"

definition base32 :: "string \<Rightarrow> string" where
  "base32 s = map (\<lambda>q. crockford ! q) (quintets (concat (map byte_bits s)))"

text \<open>\<open>rand\<close> is the result of \<open>rand.Read\<close> on a buffer of \<open>nBytes\<close>.\<close>

definition randomBase32 :: "nat \<Rightarrow> go_error + string \<Rightarrow> go_error + string" where
  "randomBase32 nChars rand =
     (let nBytes = (nChars * 5 + 7) div 8
      in case rand of
           Inl e \<Rightarrow> Inl e
         | Inr b \<Rightarrow>
             let extraBits = nBytes * 8 - nChars * 5;
                 b = (if extraBits > 0
                      then b[length b - 1 := char_of (ch (b ! (length b - 1)) mod 2 ^ (8 - extraBits))] else b);
                 s = base32 b
             in if length s < nChars
                then Inl (ErrNew (''base32 too short: '' @ string_of_nat (length s) @ '' for '' @ string_of_nat nChars))
                else Inr (take nChars s))"

subsection \<open>The service\<close>

record 'd key_service =
  ks_gorm :: "'d gorm"
  ks_sum256 :: "string \<Rightarrow> string"

definition hashKey :: "'d key_service \<Rightarrow> string \<Rightarrow> string" where
  "hashKey s full = hex_encode (ks_sum256 s full)"

definition generateKey :: "'d key_service \<Rightarrow> go_error + string \<Rightarrow> go_error + string \<Rightarrow>
    go_error + string \<times> string \<times> string \<times> string" where
  "generateKey s rand1 rand2 =
     (case randomBase32 8 rand1 of
        Inl e \<Rightarrow> Inl e
      | Inr p \<Rightarrow>
          (case randomBase32 32 rand2 of
             Inl e \<Rightarrow> Inl e
           | Inr sec \<Rightarrow>
               let full = KeyPrefix @ p @ ''_'' @ sec
               in Inr (p, sec, full, hashKey s full)))"

record create_key_request =
  ck_Name :: string
  ck_Role :: string
  ck_Scopes :: "string list"
  ck_ExpiresAt :: "int option"

record create_key_response =
  kr_ID :: string
  kr_Name :: string
  kr_Prefix :: string
  kr_Secret :: string
  kr_Role :: string
  kr_Scopes :: "string list"
  kr_ExpiresAt :: "int option"
  kr_CreatedAt :: int

definition key_row :: "string \<Rightarrow> string \<Rightarrow> string \<Rightarrow> string \<Rightarrow> string \<Rightarrow> create_key_request \<Rightarrow> api_key" where
  "key_row newid tenantID createdByID hash prefix req =
     BeforeCreate newid
       \<lparr>ID = [], CreatedAt = zero_time, UpdatedAt = zero_time, DeletedAt = None, k_TenantID = tenantID,
        k_CreatedByID = createdByID, k_Name = ck_Name req, k_KeyHash = hash, k_Prefix = prefix,
        k_Role = ck_Role req, k_Scopes = Join (ck_Scopes req) '','', k_ExpiresAt = ck_ExpiresAt req,
        k_LastUsedAt = None, k_LastUsedIP = [], k_RevokedAt = None, k_RevokeReason = []\<rparr>"

definition key_Create :: "'d key_service \<Rightarrow> int \<Rightarrow> string \<Rightarrow> go_error + string \<Rightarrow> go_error + string \<Rightarrow> string \<Rightarrow>
    string \<Rightarrow> create_key_request \<Rightarrow> 'd \<Rightarrow> (go_error + create_key_response) \<times> 'd" where
  "key_Create s now newid rand1 rand2 tenantID createdByID req d =
     (if ck_Name req = [] then (Inl (ErrNew ''name is required''), d)
      else if ck_Role req = [] then (Inl (ErrNew ''role is required''), d)
      else (case generateKey s rand1 rand2 of
         Inl e \<Rightarrow> (Inl e, d)
       | Inr (prefix, _, full, hash) \<Rightarrow>
           (case tCreate (APIKeys (ks_gorm s)) now (key_row newid tenantID createdByID hash prefix req) d of
              (Inl e, d') \<Rightarrow> (Inl (Errorf ''create api key: '' e []), d')
            | (Inr row, d') \<Rightarrow>
                (Inr \<lparr>kr_ID = ID row, kr_Name = k_Name row, kr_Prefix = prefix, kr_Secret = full,
                      kr_Role = k_Role row, kr_Scopes = ck_Scopes req, kr_ExpiresAt = ck_ExpiresAt req,
                      kr_CreatedAt = CreatedAt row\<rparr>, d'))))"

definition key_List :: "'d key_service \<Rightarrow> string \<Rightarrow> 'd \<Rightarrow> go_error + api_key list" where
  "key_List s tenantID d =
     tFind (APIKeys (ks_gorm s)) (\<lambda>k. k_TenantID k = tenantID) (\<lambda>a b. CreatedAt b \<le> CreatedAt a) d"

definition key_Revoke :: "'d key_service \<Rightarrow> int \<Rightarrow> string \<Rightarrow> string \<Rightarrow> string \<Rightarrow> 'd \<Rightarrow> go_error option \<times> 'd" where
  "key_Revoke s now tenantID keyID reason d =
     (case tUpdates (APIKeys (ks_gorm s)) now (\<lambda>k. k_TenantID k = tenantID \<and> ID k = keyID)
             (\<lambda>k. k\<lparr>k_RevokedAt := Some now, k_RevokeReason := reason\<rparr>) d of
        (Inl e, d') \<Rightarrow> (Some e, d')
      | (Inr n, d') \<Rightarrow> if n = 0 then (Some ErrAPIKeyNotFound, d') else (None, d'))"

definition key_Verify :: "'d key_service \<Rightarrow> int \<Rightarrow> string \<Rightarrow> string \<Rightarrow> 'd \<Rightarrow> (go_error + api_key) \<times> 'd" where
  "key_Verify s now presented ip d =
     (if \<not> HasPrefix presented KeyPrefix then (Inl ErrAPIKeyMalformed, d)
      else
        let parts = SplitN2 (TrimPrefix presented KeyPrefix) CHR ''_''
        in if length parts \<noteq> 2 then (Inl ErrAPIKeyMalformed, d)
           else
             let prefix = parts ! 0; hash = hashKey s presented
             in (case tFirst (APIKeys (ks_gorm s)) (\<lambda>k. k_KeyHash k = hash \<and> k_Prefix k = prefix) d of
                   Inl e \<Rightarrow> (if errors_Is e ErrRecordNotFound then Inl ErrAPIKeyNotFound else Inl e, d)
                 | Inr row \<Rightarrow>
                     if \<not> api_key_IsActive now row then
                       (if k_RevokedAt row \<noteq> None then (Inl ErrAPIKeyRevoked, d) else (Inl ErrAPIKeyExpired, d))
                     else
                       (Inr (row\<lparr>k_LastUsedAt := Some now, k_LastUsedIP := ip\<rparr>),
                        snd (tUpdates (APIKeys (ks_gorm s)) now (\<lambda>k. ID k = ID row)
                               (\<lambda>k. k\<lparr>k_LastUsedAt := Some now, k_LastUsedIP := ip\<rparr>) d))))"

definition key_Count :: "'d key_service \<Rightarrow> string \<Rightarrow> 'd \<Rightarrow> go_error + nat" where
  "key_Count s tenantID d =
     tCount (APIKeys (ks_gorm s)) (\<lambda>k. k_TenantID k = tenantID \<and> k_RevokedAt k = None) d"

definition ClaimsForKey :: "api_key \<Rightarrow> claims" where
  "ClaimsForKey k =
     \<lparr>cl_UserID = ''apikey:'' @ ID k, cl_Email = ''apikey:'' @ k_Prefix k @ ''@'' @ k_TenantID k,
      cl_Role = k_Role k, cl_TenantID = k_TenantID k, cl_AccountID = k_CreatedByID k,
      cl_SessionID = ''apikey:'' @ ID k, cl_Iss = [], cl_Sub = [], cl_Exp = 0, cl_Iat = 0\<rparr>"

definition isKeyString :: "string \<Rightarrow> bool" where
  "isKeyString s = HasPrefix s KeyPrefix"

subsection \<open>Endpoints\<close>

record 'd key_deps =
  kd_Keys :: "'d key_service"
  kd_Audit :: "'d auditor option"

definition CreateAPIKeyHandler :: "'d key_deps \<Rightarrow> request \<Rightarrow> go_error + string \<Rightarrow> go_error + string \<Rightarrow>
    create_key_request option \<Rightarrow> 'd world \<Rightarrow> create_key_response reply \<times> 'd world" where
  "CreateAPIKeyHandler D rq rand1 rand2 body w =
     (case rq_claims rq of
        None \<Rightarrow> (ErrUnauthorized, w)
      | Some cl \<Rightarrow>
          (case body of
             None \<Rightarrow> (Fail 400 ''invalid_body'', w)
           | Some req \<Rightarrow>
               (case key_Create (kd_Keys D) (rq_now rq) (rq_id rq) rand1 rand2 (cl_TenantID cl) (cl_UserID cl)
                       req (wdb w) of
                  (Inl e, d) \<Rightarrow> (Fail 400 (''apikey_create_failed:'' @ err_text e), w\<lparr>wdb := d\<rparr>)
                | (Inr resp, d) \<Rightarrow>
                    (Reply 201 resp,
                     record_event (kd_Audit D) rq
                       (empty_event\<lparr>Action := ''apikey.create'', ResourceType := ''apikey'',
                          ResourceID := kr_ID resp, ResourceName := kr_Name resp, Result := ''success'',
                          UserID := cl_UserID cl, UserEmail := cl_Email cl, UserRole := cl_Role cl,
                          ActorIP := rq_ip rq\<rparr>) (w\<lparr>wdb := d\<rparr>)))))"

text \<open>What the list endpoint returns of a key: every column but the hash and the tenant.\<close>

record key_view =
  kv_id :: string
  kv_name :: string
  kv_prefix :: string
  kv_role :: string
  kv_scopes :: string
  kv_expires_at :: "int option"
  kv_last_used_at :: "int option"
  kv_last_used_ip :: string
  kv_revoked_at :: "int option"
  kv_revoke_reason :: string
  kv_created_at :: int
  kv_created_by_id :: string

definition view_key :: "api_key \<Rightarrow> key_view" where
  "view_key r =
     \<lparr>kv_id = ID r, kv_name = k_Name r, kv_prefix = k_Prefix r, kv_role = k_Role r, kv_scopes = k_Scopes r,
      kv_expires_at = k_ExpiresAt r, kv_last_used_at = k_LastUsedAt r, kv_last_used_ip = k_LastUsedIP r,
      kv_revoked_at = k_RevokedAt r, kv_revoke_reason = k_RevokeReason r, kv_created_at = CreatedAt r,
      kv_created_by_id = k_CreatedByID r\<rparr>"

definition ListAPIKeyHandler :: "'d key_deps \<Rightarrow> request \<Rightarrow> 'd world \<Rightarrow> key_view list reply" where
  "ListAPIKeyHandler D rq w =
     (case rq_claims rq of
        None \<Rightarrow> ErrUnauthorized
      | Some cl \<Rightarrow>
          (case key_List (kd_Keys D) (cl_TenantID cl) (wdb w) of
             Inl e \<Rightarrow> Fail 500 ''apikey_list_failed''
           | Inr rows \<Rightarrow> Reply 200 (map view_key rows)))"

definition RevokeAPIKeyHandler :: "'d key_deps \<Rightarrow> request \<Rightarrow> string \<Rightarrow> 'd world \<Rightarrow> unit reply \<times> 'd world" where
  "RevokeAPIKeyHandler D rq keyID w =
     (case rq_claims rq of
        None \<Rightarrow> (ErrUnauthorized, w)
      | Some cl \<Rightarrow>
          (case key_Revoke (kd_Keys D) (rq_now rq) (cl_TenantID cl) keyID ''revoked_by_admin'' (wdb w) of
             (Some e, d) \<Rightarrow>
               (if errors_Is e ErrAPIKeyNotFound then Fail 404 ''apikey_not_found''
                else Fail 500 ''apikey_revoke_failed'', w\<lparr>wdb := d\<rparr>)
           | (None, d) \<Rightarrow>
               (Reply 204 (),
                record_event (kd_Audit D) rq
                  (empty_event\<lparr>Action := ''apikey.revoke'', ResourceType := ''apikey'', ResourceID := keyID,
                     Result := ''success'', UserID := cl_UserID cl, UserEmail := cl_Email cl,
                     ActorIP := rq_ip rq\<rparr>) (w\<lparr>wdb := d\<rparr>))))"

end
