(* ===== verification/ApiKeyProps.thy ===== *)
theory ApiKeyProps
  imports ApiKey
begin

text \<open>
  What an API key promises from its creation to its revocation, and that a tenant handles only its own
  keys.
\<close>

subsection \<open>The text of a key\<close>

lemma length_quintets: "length (quintets bs) = (length bs + 4) div 5"
  by (induction bs rule: quintets.induct) auto

lemma byte_bits_bit: "b \<in> set (byte_bits c) \<Longrightarrow> b < 2"
  by (auto simp: byte_bits_def)

lemma quintet_bits: "\<forall>b\<in>set bs. b < 2 \<Longrightarrow> quintet bs < 32"
proof -
  assume bits: "\<forall>b\<in>set bs. b < 2"
  have step: "foldl (\<lambda>n b. 2 * n + b) n xs < (n + 1) * 2 ^ length xs" if "\<forall>b\<in>set xs. b < 2" for xs and n :: nat
    using that
  proof (induction xs arbitrary: n)
    case (Cons x xs)
    then have "foldl (\<lambda>n b. 2 * n + b) (2 * n + x) xs < (2 * n + x + 1) * 2 ^ length xs" by simp
    also have "\<dots> \<le> (n + 1) * 2 * 2 ^ length xs"
      using Cons.prems by (intro mult_right_mono) auto
    finally show ?case by simp
  qed simp
  have "\<forall>b\<in>set (take 5 (bs @ replicate 5 0)). b < 2"
    using bits by (auto dest!: in_set_takeD)
  then show ?thesis
    using step [of "take 5 (bs @ replicate 5 0)" 0] unfolding quintet_def by (simp del: take_append)
qed

lemma quintets_bits: "\<forall>b\<in>set bs. b < 2 \<Longrightarrow> q \<in> set (quintets bs) \<Longrightarrow> q < 32"
  by (induction bs rule: quintets.induct) (auto intro: quintet_bits)

lemma length_crockford: "length crockford = 32"
  by code_simp

lemma base32_alphabet: "c \<in> set (base32 s) \<Longrightarrow> c \<in> set crockford"
proof -
  assume "c \<in> set (base32 s)"
  then obtain q where "q \<in> set (quintets (concat (map byte_bits s)))" "c = crockford ! q"
    by (auto simp: base32_def)
  moreover have "\<forall>b\<in>set (concat (map byte_bits s)). b < 2"
    using byte_bits_bit by auto
  ultimately show ?thesis
    using quintets_bits length_crockford by (metis nth_mem)
qed

lemma randomBase32_ok:
  assumes "randomBase32 n r = Inr s"
  shows "length s = n" "set s \<subseteq> set crockford"
  using assms base32_alphabet
  by (auto simp: randomBase32_def Let_def split: sum.splits if_splits dest: in_set_takeD)

lemma crockford_no_sep: "CHR ''_'' \<notin> set crockford"
  by code_simp

lemma generateKey_ok:
  assumes "generateKey s r1 r2 = Inr (prefix, sec, full, hash)"
  shows "full = KeyPrefix @ prefix @ ''_'' @ sec" "hash = hashKey s full"
    "length prefix = 8" "length sec = 32" "CHR ''_'' \<notin> set prefix"
proof -
  have "randomBase32 8 r1 = Inr prefix" "randomBase32 32 r2 = Inr sec"
    using assms by (auto simp: generateKey_def Let_def split: sum.splits)
  from randomBase32_ok [OF this(1)] randomBase32_ok [OF this(2)]
  show "length prefix = 8" "length sec = 32" "CHR ''_'' \<notin> set prefix"
    using crockford_no_sep by auto
qed (use assms in \<open>auto simp: generateKey_def Let_def split: sum.splits\<close>)

lemma KeyPrefix_split:
  assumes "CHR ''_'' \<notin> set prefix"
  shows "HasPrefix (KeyPrefix @ prefix @ ''_'' @ sec) KeyPrefix"
    "SplitN2 (TrimPrefix (KeyPrefix @ prefix @ ''_'' @ sec) KeyPrefix) CHR ''_'' = [prefix, sec]"
  using assms by (auto simp: SplitN2_append)

subsection \<open>The life of a key\<close>

text \<open>The row of a key is the only one of its hash.\<close>

definition stored_key :: "'d key_service \<Rightarrow> ('d \<Rightarrow> database) \<Rightarrow> 'd \<Rightarrow> string \<Rightarrow> string \<Rightarrow> api_key \<Rightarrow> bool" where
  "stored_key s view d prefix full k \<longleftrightarrow>
     k \<in> set (db_api_keys (view d)) \<and> live k \<and> k_KeyHash k = hashKey s full \<and> k_Prefix k = prefix \<and>
     (\<forall>x\<in>set (db_api_keys (view d)). k_KeyHash x = hashKey s full \<longrightarrow> x = k) \<and>
     (\<forall>x\<in>set (db_api_keys (view d)). ID x = ID k \<longrightarrow> x = k)"

context gorm_db_up
begin

lemma key_Create_stored:
  assumes "ks_gorm s = G" "key_Create s now newid r1 r2 t u req d = (Inr resp, d')"
  shows "\<exists>k sec. stored_key s view d' (kr_Prefix resp) (kr_Secret resp) k \<and> ID k = kr_ID resp \<and>
    kr_Secret resp = KeyPrefix @ kr_Prefix resp @ ''_'' @ sec \<and> length sec = 32 \<and>
    length (kr_Prefix resp) = 8 \<and> CHR ''_'' \<notin> set (kr_Prefix resp) \<and>
    k_TenantID k = t \<and> k_Role k = ck_Role req \<and> k_CreatedByID k = u \<and> k_ExpiresAt k = ck_ExpiresAt req \<and>
    k_RevokedAt k = None"
proof -
  obtain prefix sec full hash where g: "generateKey s r1 r2 = Inr (prefix, sec, full, hash)"
    using assms(2) by (auto simp: key_Create_def split: if_splits sum.splits)
  let ?row = "key_row newid t u hash prefix req"
  obtain k where c: "tCreate (APIKeys G) now ?row d = (Inr k, d')"
    and resp: "kr_ID resp = ID k" "kr_Prefix resp = prefix" "kr_Secret resp = full"
    using assms g by (auto simp: key_Create_def split: if_splits sum.splits prod.splits)
  note o = api_key.create_ok [OF c]
  have k: "k = stamp now ?row" using o by (simp add: api_key_defaults_def)
  have fields: "live k" "k_KeyHash k = hash" "k_Prefix k = prefix" "k_TenantID k = t" "k_Role k = ck_Role req"
    "k_CreatedByID k = u" "k_ExpiresAt k = ck_ExpiresAt req" "k_RevokedAt k = None"
    by (simp_all add: k key_row_def live_def)
  have rows: "db_api_keys (view d') = db_api_keys (view d) @ [k]" and nc: "\<forall>x\<in>set (db_api_keys (view d)). \<not> api_key_clash x k"
    using o by (simp, blast)
  have "stored_key s view d' prefix full k"
    using rows nc fields generateKey_ok(2) [OF g] by (auto simp: stored_key_def api_key_clash_def)
  then show ?thesis
    using fields resp generateKey_ok [OF g] by auto
qed

text \<open>What a presented key answers, by the state of its row.\<close>

lemma key_Verify_stored:
  assumes "ks_gorm s = G" "stored_key s view d prefix (KeyPrefix @ prefix @ ''_'' @ sec) k" "CHR ''_'' \<notin> set prefix"
  shows "fst (key_Verify s now (KeyPrefix @ prefix @ ''_'' @ sec) ip d) =
    (if k_RevokedAt k \<noteq> None then Inl ErrAPIKeyRevoked
     else if \<not> api_key_IsActive now k then Inl ErrAPIKeyExpired
     else Inr (k\<lparr>k_LastUsedAt := Some now, k_LastUsedIP := ip\<rparr>))"
proof -
  let ?full = "KeyPrefix @ prefix @ ''_'' @ sec"
  have "first_row (\<lambda>x. k_KeyHash x = hashKey s ?full \<and> k_Prefix x = prefix) (db_api_keys (view d)) = Some k"
    using assms(2) by (intro first_row_unique) (auto simp: stored_key_def)
  then have "tFirst (APIKeys G) (\<lambda>x. k_KeyHash x = hashKey s ?full \<and> k_Prefix x = prefix) d = Inr k"
    by (simp add: api_key.first_up)
  then show ?thesis
    using KeyPrefix_split [OF assms(3), of sec] assms(1)
    by (simp add: key_Verify_def Let_def api_key_IsActive_def)
qed

lemma key_Revoke_own:
  assumes "ks_gorm s = G" "stored_key s view d prefix full k"
  shows "\<exists>d'. key_Revoke s now (k_TenantID k) (ID k) reason d = (None, d') \<and>
    stored_key s view d' prefix full (k\<lparr>k_RevokedAt := Some now, k_RevokeReason := reason, UpdatedAt := now\<rparr>)"
proof -
  let ?p = "\<lambda>x. k_TenantID x = k_TenantID k \<and> ID x = ID k"
  let ?f = "\<lambda>x::api_key. x\<lparr>k_RevokedAt := Some now, k_RevokeReason := reason\<rparr>"
  obtain n d' where up: "tUpdates (APIKeys G) now ?p ?f d = (Inr n, d')"
    using api_key.updates_up by blast
  note o = api_key.updates_ok [OF up]
  have k: "k \<in> set (db_api_keys (view d))" "live k" "k_KeyHash k = hashKey s full" "k_Prefix k = prefix"
    "\<And>x. x \<in> set (db_api_keys (view d)) \<Longrightarrow> k_KeyHash x = hashKey s full \<Longrightarrow> x = k"
    "\<And>x. x \<in> set (db_api_keys (view d)) \<Longrightarrow> ID x = ID k \<Longrightarrow> x = k"
    using assms(2) unfolding stored_key_def by blast+
  have "k \<in> set (sel ?p (db_api_keys (view d)))" using k(1,2) by simp
  then have "sel ?p (db_api_keys (view d)) \<noteq> []" by (metis empty_iff list.set(1))
  then have "n \<noteq> 0" using o by auto
  moreover have "stored_key s view d' prefix full ((?f k)\<lparr>UpdatedAt := now\<rparr>)"
  proof -
    have rows: "db_api_keys (view d') =
        map (\<lambda>x. if live x \<and> ?p x then (?f x)\<lparr>UpdatedAt := now\<rparr> else x) (db_api_keys (view d))"
      using o by (simp add: upd_rows_def)
    have hit: "live x \<and> ?p x \<longleftrightarrow> x = k" if "x \<in> set (db_api_keys (view d))" for x
      using k(2) k(6) [OF that] by auto
    have mem: "x = (?f k)\<lparr>UpdatedAt := now\<rparr> \<or> (x \<in> set (db_api_keys (view d)) \<and> x \<noteq> k)"
      if x: "x \<in> set (db_api_keys (view d'))" for x
    proof -
      obtain y where y: "y \<in> set (db_api_keys (view d))"
        "x = (if live y \<and> ?p y then (?f y)\<lparr>UpdatedAt := now\<rparr> else y)"
        using x rows by auto
      then show ?thesis using hit [OF y(1)] by metis
    qed
    have new: "(?f k)\<lparr>UpdatedAt := now\<rparr> \<in> set (db_api_keys (view d'))"
      using rows k(1) hit [OF k(1)] by (auto simp: image_iff intro!: bexI [of _ k])
    have fields: "live ((?f k)\<lparr>UpdatedAt := now\<rparr>)" "k_KeyHash ((?f k)\<lparr>UpdatedAt := now\<rparr>) = hashKey s full"
      "k_Prefix ((?f k)\<lparr>UpdatedAt := now\<rparr>) = prefix" "ID ((?f k)\<lparr>UpdatedAt := now\<rparr>) = ID k"
      using k(2-4) by (simp_all add: live_def)
    have "\<forall>x\<in>set (db_api_keys (view d')). k_KeyHash x = hashKey s full \<longrightarrow> x = (?f k)\<lparr>UpdatedAt := now\<rparr>"
      using mem k(5) by blast
    moreover have "\<forall>x\<in>set (db_api_keys (view d')). ID x = ID ((?f k)\<lparr>UpdatedAt := now\<rparr>) \<longrightarrow>
        x = (?f k)\<lparr>UpdatedAt := now\<rparr>"
      unfolding fields(4) using mem k(6) by blast
    ultimately show ?thesis
      using new fields(1-3) unfolding stored_key_def by blast
  qed
  ultimately show ?thesis
    using up assms(1) by (simp add: key_Revoke_def)
qed

lemma key_Revoke_other:
  assumes "ks_gorm s = G" "stored_key s view d prefix full k" "t \<noteq> k_TenantID k"
  shows "\<exists>d'. key_Revoke s now t (ID k) reason d = (Some ErrAPIKeyNotFound, d') \<and> view d' = view d"
proof -
  let ?p = "\<lambda>x. k_TenantID x = t \<and> ID x = ID k"
  let ?f = "\<lambda>x::api_key. x\<lparr>k_RevokedAt := Some now, k_RevokeReason := reason\<rparr>"
  obtain n d' where up: "tUpdates (APIKeys G) now ?p ?f d = (Inr n, d')"
    using api_key.updates_up by blast
  note o = api_key.updates_ok [OF up]
  have none: "\<not> ?p x" if "x \<in> set (db_api_keys (view d))" for x
    using assms(2,3) that by (auto simp: stored_key_def)
  then have "n = 0" "upd_rows now ?p ?f (db_api_keys (view d)) = db_api_keys (view d)"
    using o by (auto simp: sel_def upd_rows_def filter_empty_conv intro!: map_idI)
  then show ?thesis
    using up o assms(1) by (simp add: key_Revoke_def)
qed

end

text \<open>
  C27: A created key is \<open>orx_live_\<close>, a public prefix of 8 characters and a secret of 32, and while it is
  neither expired nor revoked it verifies to a row of the creator's tenant with the requested role. Another
  tenant's request to revoke it is "not found" and changes nothing; after the tenant's own, it never
  verifies again.
\<close>

theorem api_key_lifecycle:
  assumes "gorm_db_up G view" "ks_gorm s = G"
    and "key_Create s now newid r1 r2 t u req d = (Inr resp, d1)"
  shows "(\<exists>sec. kr_Secret resp = KeyPrefix @ kr_Prefix resp @ ''_'' @ sec \<and> length sec = 32 \<and>
      length (kr_Prefix resp) = 8) \<and>
    (case ck_ExpiresAt req of None \<Rightarrow> True | Some e \<Rightarrow> later \<le> e) =
      (\<exists>k. fst (key_Verify s later (kr_Secret resp) ip d1) = Inr k \<and> cl_TenantID (ClaimsForKey k) = t \<and>
         cl_Role (ClaimsForKey k) = ck_Role req \<and> cl_AccountID (ClaimsForKey k) = u) \<and>
    (t' \<noteq> t \<longrightarrow> (\<exists>d2. key_Revoke s now' t' (kr_ID resp) reason d1 = (Some ErrAPIKeyNotFound, d2) \<and> view d2 = view d1)) \<and>
    (\<exists>d2. key_Revoke s now' t (kr_ID resp) reason d1 = (None, d2) \<and>
       fst (key_Verify s later (kr_Secret resp) ip d2) = Inl ErrAPIKeyRevoked)"
proof -
  obtain k sec where st: "stored_key s view d1 (kr_Prefix resp) (kr_Secret resp) k" "ID k = kr_ID resp"
    and sec: "kr_Secret resp = KeyPrefix @ kr_Prefix resp @ ''_'' @ sec" "length sec = 32"
      "length (kr_Prefix resp) = 8" "CHR ''_'' \<notin> set (kr_Prefix resp)"
    and k: "k_TenantID k = t" "k_Role k = ck_Role req" "k_CreatedByID k = u" "k_ExpiresAt k = ck_ExpiresAt req"
      "k_RevokedAt k = None"
    using gorm_db_up.key_Create_stored [OF assms] by blast
  obtain d2 where d2: "key_Revoke s now' t (kr_ID resp) reason d1 = (None, d2)"
    "stored_key s view d2 (kr_Prefix resp) (kr_Secret resp)
       (k\<lparr>k_RevokedAt := Some now', k_RevokeReason := reason, UpdatedAt := now'\<rparr>)"
    using gorm_db_up.key_Revoke_own [OF assms(1,2) st(1)] st(2) k(1) by metis
  have rev: "fst (key_Verify s later (kr_Secret resp) ip d2) = Inl ErrAPIKeyRevoked"
    using gorm_db_up.key_Verify_stored [OF assms(1,2) d2(2) [unfolded sec(1)] sec(4)] sec(1) by simp
  have oth: "\<exists>d2. key_Revoke s now' t' (kr_ID resp) reason d1 = (Some ErrAPIKeyNotFound, d2) \<and> view d2 = view d1"
    if "t' \<noteq> t"
    using gorm_db_up.key_Revoke_other [OF assms(1,2) st(1)] st(2) k(1) that by metis
  have ver: "fst (key_Verify s later (kr_Secret resp) ip d1) =
      (if \<not> api_key_IsActive later k then Inl ErrAPIKeyExpired
       else Inr (k\<lparr>k_LastUsedAt := Some later, k_LastUsedIP := ip\<rparr>))"
    using gorm_db_up.key_Verify_stored [OF assms(1,2) st(1) [unfolded sec(1)] sec(4)] sec(1) k(5) by simp
  have "(case ck_ExpiresAt req of None \<Rightarrow> True | Some e \<Rightarrow> later \<le> e) = api_key_IsActive later k"
    using k(4,5) by (auto simp: api_key_IsActive_def split: option.splits)
  then have "(case ck_ExpiresAt req of None \<Rightarrow> True | Some e \<Rightarrow> later \<le> e) =
      (\<exists>k. fst (key_Verify s later (kr_Secret resp) ip d1) = Inr k \<and> cl_TenantID (ClaimsForKey k) = t \<and>
         cl_Role (ClaimsForKey k) = ck_Role req \<and> cl_AccountID (ClaimsForKey k) = u)"
    using ver k by (simp add: ClaimsForKey_def)
  then show ?thesis
    using sec d2(1) rev oth by blast
qed

subsection \<open>A concrete run\<close>

definition run_keys :: "database key_service" where
  "run_keys = \<lparr>ks_gorm = mem_gorm, ks_sum256 = (\<lambda>s. s)\<rparr>"

definition run_key_request :: create_key_request where
  "run_key_request = \<lparr>ck_Name = ''ci'', ck_Role = ''account_dev'', ck_Scopes = [''domain.read''], ck_ExpiresAt = Some 1000\<rparr>"

lemma run_create_for:
  "\<exists>resp d1. key_Create run_keys 0 ''01K'' (Inr ''abcde'') (Inr ''abcdefghijklmnopqrst'') ''01T'' ''01U''
     (run_key_request\<lparr>ck_ExpiresAt := e\<rparr>) empty_database = (Inr resp, d1)"
proof -
  have "\<exists>p. generateKey run_keys (Inr ''abcde'') (Inr ''abcdefghijklmnopqrst'') = Inr p"
    by (simp add: generateKey_def randomBase32_def Let_def base32_def length_quintets byte_bits_def)
  then show ?thesis
    by (auto simp: key_Create_def run_key_request_def run_keys_def mem_gorm_def mem_table_def empty_database_def Let_def)
qed

theorem api_key_lifecycle_witness:
  "\<exists>resp d1 d2. key_Create run_keys 0 ''01K'' (Inr ''abcde'') (Inr ''abcdefghijklmnopqrst'') ''01T'' ''01U''
     run_key_request empty_database = (Inr resp, d1) \<and>
   (\<exists>k. fst (key_Verify run_keys 1000 (kr_Secret resp) [] d1) = Inr k) \<and>
   key_Revoke run_keys 5 ''02T'' (kr_ID resp) [] d1 = (Some ErrAPIKeyNotFound, d2)"
proof -
  have g: "ks_gorm run_keys = mem_gorm" by (simp add: run_keys_def)
  obtain resp d1 where c: "key_Create run_keys 0 ''01K'' (Inr ''abcde'') (Inr ''abcdefghijklmnopqrst'') ''01T'' ''01U''
     run_key_request empty_database = (Inr resp, d1)" using run_create_for [of "Some 1000"] by (auto simp: run_key_request_def)
  show ?thesis
    using api_key_lifecycle [OF mem_gorm_db_up g c, of 1000 "[]" "''02T''" 5 "[]"] c
    by (auto simp: run_key_request_def)
qed

end
