(* ===== verification/Middleware.thy ===== *)
theory Middleware
  imports Complex_Main ApiKey Rbac License
begin

text \<open>
  The middleware of internal/api/middleware and the order in which internal/api/server.go chains it.

  A handler maps the Fiber context (\<open>http\<close>) and the server's state to a reply, the context with
  the locals and response headers it set, and the new state; a middleware maps the handler after it to a
  handler. A handler that panics answers \<open>Panic\<close>, which the middleware pass on as the unwinding does, up to
  \<open>recoverMiddleware\<close>. Fiber's routing is not part of the repository: which route a request matched is given, and
  \<open>hc_route\<close> is the name \<open>c.Route()\<close> answers. The access log is left out.
\<close>

subsection \<open>The rate limiter\<close>

text \<open>Tokens are \<open>float64\<close> in the code; here they are rationals, so nothing is rounded.\<close>

record bucket =
  bk_tokens :: rat
  bk_last :: int

record limiter =
  rl_buckets :: "string \<Rightarrow> bucket option"
  rl_rps :: rat
  rl_burst :: rat
  rl_cleanup :: int

definition NewRateLimiter :: "rat \<Rightarrow> rat \<Rightarrow> limiter" where
  "NewRateLimiter rps burst =
     \<lparr>rl_buckets = (\<lambda>_. None), rl_rps = rps, rl_burst = burst, rl_cleanup = 5 * Minute\<rparr>"

definition minF :: "rat \<Rightarrow> rat \<Rightarrow> rat" where
  "minF a b = (if a < b then a else b)"

text \<open>\<open>Duration.Seconds\<close>.\<close>

definition Seconds :: "int \<Rightarrow> rat" where
  "Seconds d = of_int d / of_int Second"

definition allow :: "int \<Rightarrow> string \<Rightarrow> limiter \<Rightarrow> bool \<times> limiter" where
  "allow now key r =
     (let b = (case rl_buckets r key of None \<Rightarrow> \<lparr>bk_tokens = rl_burst r, bk_last = now\<rparr> | Some b \<Rightarrow> b);
          elapsed = Seconds (time_Sub now (bk_last b));
          tokens = minF (rl_burst r) (bk_tokens b + elapsed * rl_rps r);
          store = (\<lambda>t. r\<lparr>rl_buckets := (rl_buckets r)(key \<mapsto> \<lparr>bk_tokens = t, bk_last = now\<rparr>)\<rparr>)
      in if tokens < 1 then (False, store tokens) else (True, store (tokens - 1)))"

subsection \<open>Contexts and handlers\<close>

record 'd server =
  sv_world :: "'d world"
  sv_limiter :: limiter

text \<open>
  \<open>hc_rq\<close> has the caller's address, the clock, the fresh values and the claims local; \<open>hc_end\<close> is
  the clock after the handler, \<open>hc_audit\<close> the ULID of the middleware's own audit row.
\<close>

record http =
  hc_method :: string
  hc_path :: string
  hc_Get :: "string \<Rightarrow> string"
  hc_Query :: "string \<Rightarrow> string"
  hc_route :: string
  hc_rq :: request
  hc_uuid :: string
  hc_end :: int
  hc_audit :: string
  hc_request_id :: string
  hc_apikey :: "api_key option"
  hc_Set :: "(string \<times> string) list"

type_synonym ('d, 'z, 'b) handler =
  "http \<Rightarrow> ('d, 'z) server_scheme \<Rightarrow> 'b reply \<times> http \<times> ('d, 'z) server_scheme"

definition hc_claims :: "http \<Rightarrow> claims option" where
  "hc_claims c = rq_claims (hc_rq c)"

definition set_claims :: "claims \<Rightarrow> http \<Rightarrow> http" where
  "set_claims cl c = c\<lparr>hc_rq := (hc_rq c)\<lparr>rq_claims := Some cl\<rparr>\<rparr>"

definition set_header :: "string \<Rightarrow> string \<Rightarrow> http \<Rightarrow> http" where
  "set_header k v c = c\<lparr>hc_Set := hc_Set c @ [(k, v)]\<rparr>"

subsection \<open>Around every request\<close>

definition RequestIDMiddleware :: "('d, 'z, 'b) handler \<Rightarrow> ('d, 'z, 'b) handler" where
  "RequestIDMiddleware nxt c s =
     (let rid = (if hc_Get c ''X-Request-ID'' = [] then hc_uuid c else hc_Get c ''X-Request-ID'')
      in nxt (set_header ''X-Request-ID'' rid (c\<lparr>hc_request_id := rid\<rparr>)) s)"

definition RateLimitMiddleware :: "('d, 'z, 'b) handler \<Rightarrow> ('d, 'z, 'b) handler" where
  "RateLimitMiddleware nxt c s =
     (let key = rq_ip (hc_rq c);
          key = (case hc_claims c of None \<Rightarrow> key | Some cl \<Rightarrow> key @ ''|'' @ cl_UserID cl)
      in case allow (rq_now (hc_rq c)) key (sv_limiter s) of
           (False, l) \<Rightarrow> (Fail 429 ''rate_limited'', c, s\<lparr>sv_limiter := l\<rparr>)
         | (True, l) \<Rightarrow> nxt c (s\<lparr>sv_limiter := l\<rparr>))"

definition recoverMiddleware :: "('d, 'z, 'b) handler \<Rightarrow> ('d, 'z, 'b) handler" where
  "recoverMiddleware nxt c s =
     (case nxt c s of
        (Panic, c', s') \<Rightarrow> (Fail 500 ''internal_panic'', c', s')
      | r \<Rightarrow> r)"

definition securityHeadersMiddleware :: "('d, 'z, 'b) handler \<Rightarrow> ('d, 'z, 'b) handler" where
  "securityHeadersMiddleware nxt c s =
     nxt (set_header ''Referrer-Policy'' ''strict-origin-when-cross-origin''
       (set_header ''X-Frame-Options'' ''DENY'' (set_header ''X-Content-Type-Options'' ''nosniff'' c))) s"

definition unaudited :: "string list" where
  "unaudited = [''/healthz'', ''/readyz'', ''/api/v1/public/theme'']"

text \<open>
  The event of a finished request; every error a handler returns is a Fiber error. A panic unwinds through
  \<open>AuditMiddleware\<close>, which has no \<open>defer\<close>, so no event is built for it.
\<close>

definition request_event :: "http \<Rightarrow> 'b reply \<Rightarrow> event" where
  "request_event c res =
     (let ev = empty_event\<lparr>Action := hc_method c @ '' '' @ hc_path c, Result := ''success'',
                 DurationMS := time_Sub (hc_end c) (rq_now (hc_rq c)) sdiv 1000000, ActorIP := rq_ip (hc_rq c)\<rparr>;
          ev = (case hc_claims c of
                  None \<Rightarrow> ev
                | Some cl \<Rightarrow> ev\<lparr>UserID := cl_UserID cl, UserEmail := cl_Email cl, UserRole := cl_Role cl,
                                SessionID := cl_SessionID cl\<rparr>)
      in case res of
           Reply _ _ \<Rightarrow> ev
         | Panic \<Rightarrow> ev
         | Fail code msg \<Rightarrow>
             ev\<lparr>Result := (if code = 401 \<or> code = 403 then ''denied'' else ''failure''),
                Detail := string_of_nat code @ '' '' @ msg\<rparr>)"

definition AuditMiddleware :: "'d auditor \<Rightarrow> ('d, 'z, 'b) handler \<Rightarrow> ('d, 'z, 'b) handler" where
  "AuditMiddleware A nxt c0 s0 =
     (case nxt c0 s0 of (res, c, s) \<Rightarrow>
        if res = Panic \<or> hc_path c \<in> set unaudited then (res, c, s)
        else (res, c, s\<lparr>sv_world := snd (Record A (hc_end c) (hc_audit c) (request_event c res) (sv_world s))\<rparr>))"

subsection \<open>Read-only mode\<close>

definition ro_exempt :: "string list" where
  "ro_exempt = [''/healthz'', ''/readyz'', ''/auth/login'', ''/auth/refresh'',
     ''/api/v1/admin/license/renewal-info'', ''/api/v1/admin/license'']"

definition writeMethods :: "string list" where
  "writeMethods = [''POST'', ''PUT'', ''PATCH'', ''DELETE'']"

definition ReadOnlyEnforcer :: "license_state \<Rightarrow> ('d, 'z, 'b) handler \<Rightarrow> ('d, 'z, 'b) handler" where
  "ReadOnlyEnforcer L nxt c s =
     (let mode = CurrentMode L
      in if mode = ModeActive then nxt c s
         else if hc_method c \<notin> set writeMethods then nxt c s
         else if hc_path c \<in> set ro_exempt then nxt c s
         else if mode = ModeLocked then
           (Fail 423 ''license_expired_panel_locked'', set_header ''X-Orvix-License-Mode'' (mode_text mode) c, s)
         else nxt (set_header ''X-Orvix-License-Warning'' ''license_in_grace_period_renew_soon''
                (set_header ''X-Orvix-License-Mode'' (mode_text mode) c)) s)"

subsection \<open>Authentication\<close>

definition bearer :: string where "bearer = ''Bearer ''"

definition presented_key :: "http \<Rightarrow> string" where
  "presented_key c =
     (let key = hc_Get c ''X-Orvix-Api-Key''
      in if key = [] then
           (let h = hc_Get c ''Authorization''
            in if HasPrefix h bearer then
                 (let tok = TrimSpace (drop (length bearer) h)
                  in if HasPrefix tok KeyPrefix then tok else key)
               else key)
         else key)"

definition APIKeyMiddleware :: "'d key_service \<Rightarrow> ('d, 'z, 'b) handler \<Rightarrow> ('d, 'z, 'b) handler" where
  "APIKeyMiddleware svc nxt c s =
     (let key = presented_key c
      in if key = [] then nxt c s
         else (case key_Verify svc (rq_now (hc_rq c)) key (rq_ip (hc_rq c)) (wdb (sv_world s)) of
            (Inl e, d) \<Rightarrow>
              (if errors_Is e ErrAPIKeyRevoked then Fail 401 ''apikey_revoked''
               else if errors_Is e ErrAPIKeyExpired then Fail 401 ''apikey_expired''
               else Fail 401 ''apikey_invalid'', c, s\<lparr>sv_world := (sv_world s)\<lparr>wdb := d\<rparr>\<rparr>)
          | (Inr row, d) \<Rightarrow>
              nxt ((set_claims (ClaimsForKey row) c)\<lparr>hc_apikey := Some row\<rparr>)
                (s\<lparr>sv_world := (sv_world s)\<lparr>wdb := d\<rparr>\<rparr>)))"

definition presented_token :: "http \<Rightarrow> string" where
  "presented_token c =
     (let header = (if hc_Get c ''Authorization'' = [] then hc_Query c ''access_token''
                    else hc_Get c ''Authorization'')
      in if HasPrefix header bearer then TrimSpace (drop (length bearer) header) else header)"

definition AuthMiddleware :: "'d auth \<Rightarrow> ('d, 'z, 'b) handler \<Rightarrow> ('d, 'z, 'b) handler" where
  "AuthMiddleware svc nxt c s =
     (let token = presented_token c
      in if token = [] then (Fail 401 ''missing_bearer_token'', c, s)
         else (case VerifyAndCheckSession svc (rq_now (hc_rq c)) token (wdb (sv_world s)) of
            Inl e \<Rightarrow>
              (if errors_Is e ErrExpiredToken then Fail 401 ''token_expired''
               else if errors_Is e ErrSessionRevoked then Fail 403 ''session_revoked''
               else Fail 401 ''invalid_token'', c, s)
          | Inr cl \<Rightarrow> nxt (set_claims cl c) s))"

definition TenantMiddleware :: "license_state \<Rightarrow> ('d, 'z, 'b) handler \<Rightarrow> ('d, 'z, 'b) handler" where
  "TenantMiddleware L nxt c s =
     (case hc_claims c of
        None \<Rightarrow> (ErrUnauthorized, c, s)
      | Some cl \<Rightarrow>
          if cl_TenantID cl = [] then (Fail 403 ''tenant_missing'', c, s)
          else if License.Get L \<noteq> None \<and> hc_route c \<noteq> [] \<and> \<not> HasFeature (License.Get L) (hc_route c)
          then (Fail 403 ''feature_not_licensed'', c, s)
          else nxt c s)"

text \<open>\<open>RequirePermission\<close> as a middleware.\<close>

definition PermissionMiddleware :: "'d rbac option \<Rightarrow> string \<times> string \<Rightarrow> ('d, 'z, 'b) handler \<Rightarrow> ('d, 'z, 'b) handler" where
  "PermissionMiddleware svc p nxt c s =
     (case RequirePermission svc (fst p) (snd p) (hc_claims c) (wdb (sv_world s)) of
        Some r \<Rightarrow> (r, c, s)
      | None \<Rightarrow> nxt c s)"

subsection \<open>The chains of the server\<close>

record 'd api_deps =
  ad_Auth :: "'d auth"
  ad_Audit :: "'d auditor"
  ad_RBAC :: "'d rbac"
  ad_APIKeys :: "'d key_service"

text \<open>Every request of the app.\<close>

definition app_chain :: "'d api_deps \<Rightarrow> ('d, 'z, 'b) handler \<Rightarrow> ('d, 'z, 'b) handler" where
  "app_chain D h =
     RequestIDMiddleware (RateLimitMiddleware (recoverMiddleware (securityHeadersMiddleware (AuditMiddleware (ad_Audit D) h))))"

text \<open>Every request under \<open>/api/v1\<close>, with the guards of its route.\<close>

definition guard_chain :: "'d rbac option \<Rightarrow> (string \<times> string) list \<Rightarrow> ('d, 'z, 'b) handler \<Rightarrow> ('d, 'z, 'b) handler" where
  "guard_chain svc guards h = foldr (PermissionMiddleware svc) guards h"

definition v1_chain :: "'d api_deps \<Rightarrow> license_state \<Rightarrow> (string \<times> string) list \<Rightarrow>
    ('d, 'z, 'b) handler \<Rightarrow> ('d, 'z, 'b) handler" where
  "v1_chain D L guards h =
     ReadOnlyEnforcer L (APIKeyMiddleware (ad_APIKeys D) (AuthMiddleware (ad_Auth D)
       (TenantMiddleware L (guard_chain (Some (ad_RBAC D)) guards h))))"

definition init_limiter :: limiter where
  "init_limiter = NewRateLimiter (100 / 60) 30"

subsection \<open>The routes\<close>

record route =
  rt_method :: string
  rt_pattern :: string
  rt_name :: string
  rt_guards :: "(string \<times> string) list"

definition mk_route :: "(string \<times> string) list \<Rightarrow> string \<times> string \<times> string \<Rightarrow> route" where
  "mk_route guards r = \<lparr>rt_method = fst r, rt_pattern = fst (snd r), rt_name = snd (snd r), rt_guards = guards\<rparr>"

text \<open>The routes of \<open>registerV1\<close> in their order, below \<open>/api/v1\<close>.\<close>

definition open_routes :: "route list" where
  "open_routes = map (mk_route [])
     [(''GET'', ''/me'', ''auth.me''), (''GET'', ''/me/quotas'', ''''),
      (''GET'', ''/vault/secrets'', ''vault.read''), (''POST'', ''/vault/secrets'', ''vault.write''),
      (''GET'', ''/vault/secrets/:name'', ''vault.read''), (''GET'', ''/vault/secrets/:name/value'', ''vault.read''),
      (''DELETE'', ''/vault/secrets/:name'', ''vault.write'')]"

definition admin_routes :: "route list" where
  "admin_routes = map (mk_route [(''admin'', ''read'')])
     [(''GET'', ''/admin/system'', ''admin.system''), (''GET'', ''/admin/license'', ''admin.license.read''),
      (''GET'', ''/admin/license/renewal-info'', ''admin.license.read''),
      (''PUT'', ''/admin/license'', ''admin.license.write''), (''GET'', ''/admin/audit-log'', ''admin.audit.read''),
      (''POST'', ''/admin/audit-log/verify'', ''admin.audit.verify''),
      (''POST'', ''/admin/audit-log/search'', ''admin.audit.read''),
      (''POST'', ''/admin/audit-log/export'', ''admin.audit.export''),
      (''GET'', ''/admin/roles'', ''rbac.custom''), (''POST'', ''/admin/roles'', ''rbac.custom''),
      (''PUT'', ''/admin/roles/:name'', ''rbac.custom''), (''DELETE'', ''/admin/roles/:name'', ''rbac.custom''),
      (''POST'', ''/admin/users/:id/role'', ''rbac.custom''),
      (''GET'', ''/admin/api-keys'', ''apikey.read''), (''POST'', ''/admin/api-keys'', ''apikey.write''),
      (''DELETE'', ''/admin/api-keys/:id'', ''apikey.write'')]"

definition quota_routes :: "route list" where
  "quota_routes = map (mk_route [(''admin'', ''read''), (''admin'', ''*'')])
     [(''GET'', ''/admin/tenants/:id/quotas'', ''quota.tenant''), (''PUT'', ''/admin/tenants/:id/quotas'', ''quota.tenant'')]"

definition hosting_routes :: "route list" where
  "hosting_routes = map (mk_route [])
     [(''POST'', ''/accounts'', ''account.create''), (''GET'', ''/accounts'', ''account.read''),
      (''GET'', ''/accounts/:id'', ''account.read''), (''DELETE'', ''/accounts/:id'', ''account.delete''),
      (''POST'', ''/accounts/:id/suspend'', ''account.update''), (''POST'', ''/accounts/:id/unsuspend'', ''account.update''),
      (''GET'', ''/accounts/:id/usage'', ''account.read''),
      (''POST'', ''/accounts/:id/domains'', ''domain.create''), (''GET'', ''/accounts/:id/domains'', ''domain.read''),
      (''DELETE'', ''/accounts/:id/domains/:domain'', ''domain.delete''),
      (''GET'', ''/accounts/:id/deployments'', ''deployment.read'')]"

definition dns_routes :: "route list" where
  "dns_routes = map (mk_route [])
     [(''GET'', ''/dns/zones'', ''dns.zone.read''), (''POST'', ''/dns/zones'', ''dns.zone.write''),
      (''GET'', ''/dns/zones/:id'', ''dns.zone.read''), (''PUT'', ''/dns/zones/:id'', ''dns.zone.write''),
      (''DELETE'', ''/dns/zones/:id'', ''dns.zone.delete''), (''GET'', ''/dns/zones/:id/records'', ''dns.record.read''),
      (''POST'', ''/dns/zones/:id/records'', ''dns.record.write''),
      (''PUT'', ''/dns/zones/:id/records/:recordId'', ''dns.record.write''),
      (''DELETE'', ''/dns/zones/:id/records/:recordId'', ''dns.record.delete''),
      (''GET'', ''/dns/templates'', ''dns.template.read''), (''POST'', ''/dns/templates'', ''dns.template.write''),
      (''POST'', ''/dns/templates/:id/apply'', ''dns.template.apply''), (''POST'', ''/dns/validate'', ''dns.validate''),
      (''GET'', ''/dns/lookup/:domain'', ''dns.lookup'')]"

definition v1_routes :: "route list" where
  "v1_routes = open_routes @ admin_routes @ quota_routes @ hosting_routes @ dns_routes"

end
