(* ===== verification/LimiterProps.thy ===== *)
theory LimiterProps
  imports Middleware
begin

text \<open>
  The token bucket of internal/api/middleware/ratelimit.go: how many requests of one client pass in
  any window, and when a client that waits is served again.
\<close>

lemma Seconds_add: "Seconds a + Seconds b = Seconds (a + b)"
  by (simp add: Seconds_def add_divide_distrib)

lemma Seconds_mono: "a \<le> b \<Longrightarrow> Seconds a \<le> Seconds b"
  by (simp add: Seconds_def divide_right_mono)

lemma Seconds_nonneg: "0 \<le> a \<Longrightarrow> 0 \<le> Seconds a"
  by (simp add: Seconds_def)

lemma time_Sub_bounds: "u \<le> t \<Longrightarrow> 0 \<le> time_Sub t u" "u \<le> t \<Longrightarrow> time_Sub t u \<le> t - u"
  by (auto simp: time_Sub_def)

lemma minF_min: "minF a b = min a b"
  by (simp add: minF_def min_def)

text \<open>The limiter over a sequence of requests, each a time and a key.\<close>

fun serve_calls :: "limiter \<Rightarrow> (int \<times> string) list \<Rightarrow> bool list \<times> limiter" where
  "serve_calls l [] = ([], l)"
| "serve_calls l ((t, k) # cs) =
     (let r = allow t k l; rest = serve_calls (snd r) cs in (fst r # fst rest, snd rest))"

definition allowed :: "string \<Rightarrow> limiter \<Rightarrow> (int \<times> string) list \<Rightarrow> nat" where
  "allowed k l cs = length (filter (\<lambda>(c, ok). snd c = k \<and> ok) (zip cs (fst (serve_calls l cs))))"

lemma allowed_Nil [simp]: "allowed k l [] = 0"
  by (simp add: allowed_def)

lemma allowed_Cons: "allowed k l ((t, k') # cs) =
    (if k' = k \<and> fst (allow t k' l) then 1 else 0) + allowed k (snd (allow t k' l)) cs"
  by (auto simp: allowed_def Let_def)

lemma serve_calls_append:
  "snd (serve_calls l (xs @ ys)) = snd (serve_calls (snd (serve_calls l xs)) ys)"
  by (induction l xs rule: serve_calls.induct) (auto simp: Let_def)

text \<open>Every bucket holds at least zero and at most a full burst, and was last used before \<open>now\<close>.\<close>

definition limiter_ok :: "int \<Rightarrow> limiter \<Rightarrow> bool" where
  "limiter_ok now l \<longleftrightarrow> (\<forall>k b. rl_buckets l k = Some b \<longrightarrow>
     0 \<le> bk_tokens b \<and> bk_tokens b \<le> rl_burst l \<and> bk_last b \<le> now)"

lemma allow_params [simp]: "rl_rps (snd (allow t k l)) = rl_rps l" "rl_burst (snd (allow t k l)) = rl_burst l"
  by (simp_all add: allow_def Let_def)

text \<open>The tokens a key would have at a time.\<close>

definition tokens_at :: "int \<Rightarrow> string \<Rightarrow> limiter \<Rightarrow> rat" where
  "tokens_at t k l = (case rl_buckets l k of None \<Rightarrow> rl_burst l
     | Some b \<Rightarrow> min (rl_burst l) (bk_tokens b + Seconds (time_Sub t (bk_last b)) * rl_rps l))"

lemma allow_tokens:
  assumes "limiter_ok t l" "0 < rl_rps l" "1 \<le> rl_burst l"
  shows "0 \<le> tokens_at t k l" "tokens_at t k l \<le> rl_burst l" "fst (allow t k l) \<longleftrightarrow> 1 \<le> tokens_at t k l"
    and "rl_buckets (snd (allow t k l)) =
      (rl_buckets l)(k \<mapsto> \<lparr>bk_tokens = tokens_at t k l - (if fst (allow t k l) then 1 else 0), bk_last = t\<rparr>)"
proof -
  have self: "min (rl_burst l) (rl_burst l + Seconds (time_Sub t t) * rl_rps l) = rl_burst l"
    by (simp add: time_Sub_def Seconds_def)
  show "0 \<le> tokens_at t k l" "tokens_at t k l \<le> rl_burst l"
    using assms Seconds_nonneg [OF time_Sub_bounds(1)]
    by (auto simp: tokens_at_def limiter_ok_def split: option.splits)
  show "fst (allow t k l) \<longleftrightarrow> 1 \<le> tokens_at t k l"
    using self by (auto simp: allow_def Let_def minF_min tokens_at_def split: option.splits)
  show "rl_buckets (snd (allow t k l)) =
      (rl_buckets l)(k \<mapsto> \<lparr>bk_tokens = tokens_at t k l - (if fst (allow t k l) then 1 else 0), bk_last = t\<rparr>)"
    using self by (auto simp: allow_def Let_def minF_min tokens_at_def split: option.splits)
qed

lemma allow_ok:
  assumes "limiter_ok t l" "0 < rl_rps l" "1 \<le> rl_burst l" "t \<le> t'"
  shows "limiter_ok t' (snd (allow t k l))"
  using allow_tokens [OF assms(1-3), of k] assms by (fastforce simp: limiter_ok_def split: if_splits)

text \<open>Waiting adds at most the rate; a request takes one token.\<close>

lemma tokens_wait:
  assumes "limiter_ok t l" "0 < rl_rps l" "t \<le> t'"
  shows "tokens_at t' k l \<le> rl_burst l"
    and "rl_buckets l k = Some b \<Longrightarrow> tokens_at t' k l \<le> bk_tokens b + rl_rps l * Seconds (t' - bk_last b)"
proof -
  show "tokens_at t' k l \<le> rl_burst l" by (auto simp: tokens_at_def split: option.splits)
  assume b: "rl_buckets l k = Some b"
  then have "Seconds (time_Sub t' (bk_last b)) \<le> Seconds (t' - bk_last b)"
    using assms by (intro Seconds_mono time_Sub_bounds) (fastforce simp: limiter_ok_def)
  then have "Seconds (time_Sub t' (bk_last b)) * rl_rps l \<le> rl_rps l * Seconds (t' - bk_last b)"
    using assms(2) by (simp add: mult.commute)
  then show "tokens_at t' k l \<le> bk_tokens b + rl_rps l * Seconds (t' - bk_last b)"
    using b by (simp add: tokens_at_def)
qed

lemma allowed_bound:
  assumes "limiter_ok t0 l" "0 < rl_rps l" "1 \<le> rl_burst l"
    and "sorted (map fst cs)" "\<forall>c\<in>set cs. t0 \<le> fst c \<and> fst c \<le> t1"
    and "rl_buckets l k = Some b" "bk_last b \<le> t0" "t0 \<le> t1"
  shows "of_nat (allowed k l cs) \<le> bk_tokens b + rl_rps l * Seconds (t1 - bk_last b)"
  using assms
proof (induction cs arbitrary: l b t0)
  case Nil
  then have "0 \<le> bk_tokens b" "0 \<le> Seconds (t1 - bk_last b)"
    by (force simp: limiter_ok_def intro!: Seconds_nonneg)+
  then show ?case using Nil.prems(2) by simp
next
  case (Cons c cs)
  obtain t k' where c: "c = (t, k')" by (cases c)
  have t: "t0 \<le> t" "t \<le> t1" using Cons.prems(5) c by auto
  let ?l = "snd (allow t k' l)"
  have okt: "limiter_ok t l" using Cons.prems(1) t by (fastforce simp: limiter_ok_def)
  have ok': "limiter_ok t ?l" using allow_ok [OF okt Cons.prems(2,3)] by simp
  note a = allow_tokens [OF okt Cons.prems(2,3), of k']
  have rest: "sorted (map fst cs)" "\<forall>c\<in>set cs. t \<le> fst c \<and> fst c \<le> t1"
    using Cons.prems(4,5) c by auto
  show ?case
  proof (cases "k' = k")
    case False
    then have "rl_buckets ?l k = Some b" using a(4) Cons.prems(6) by simp
    then have "of_nat (allowed k ?l cs) \<le> bk_tokens b + rl_rps ?l * Seconds (t1 - bk_last b)"
      using Cons.prems t by (intro Cons.IH [OF ok' _ _ rest]) auto
    then show ?thesis using False by (simp add: c allowed_Cons)
  next
    case True
    let ?used = "if fst (allow t k l) then 1 else 0 :: rat"
    let ?b = "\<lparr>bk_tokens = tokens_at t k l - ?used, bk_last = t\<rparr>"
    have "rl_buckets ?l k = Some ?b" using a(4) True by simp
    then have "of_nat (allowed k ?l cs) \<le> bk_tokens ?b + rl_rps ?l * Seconds (t1 - bk_last ?b)"
      using Cons.prems(2,3) t by (intro Cons.IH [OF ok' _ _ rest]) auto
    then have "of_nat (allowed k l (c # cs)) \<le> tokens_at t k l + rl_rps l * Seconds (t1 - t)"
      using True by (auto simp: c allowed_Cons)
    also have "\<dots> \<le> bk_tokens b + rl_rps l * Seconds (t - bk_last b) + rl_rps l * Seconds (t1 - t)"
      using tokens_wait(2) [OF okt Cons.prems(2) order_refl Cons.prems(6)] by simp
    also have "\<dots> = bk_tokens b + rl_rps l * (Seconds (t - bk_last b) + Seconds (t1 - t))"
      by (simp add: distrib_left)
    finally show ?thesis by (simp add: Seconds_add)
  qed
qed

text \<open>The same from any state: the first request of the window finds at most a full bucket.\<close>

lemma allowed_window:
  assumes "limiter_ok t0 l" "0 < rl_rps l" "1 \<le> rl_burst l"
    and "sorted (map fst cs)" "\<forall>c\<in>set cs. t0 \<le> fst c \<and> fst c \<le> t1" "t0 \<le> t1"
  shows "of_nat (allowed k l cs) \<le> rl_burst l + rl_rps l * Seconds (t1 - t0)"
  using assms
proof (induction cs arbitrary: l t0)
  case Nil
  then show ?case using Seconds_nonneg [of "t1 - t0"] by simp
next
  case (Cons c cs)
  obtain t k' where c: "c = (t, k')" by (cases c)
  have t: "t0 \<le> t" "t \<le> t1" using Cons.prems(5) c by auto
  let ?l = "snd (allow t k' l)"
  have okt: "limiter_ok t l" using Cons.prems(1) t by (fastforce simp: limiter_ok_def)
  have ok': "limiter_ok t ?l" using allow_ok [OF okt Cons.prems(2,3)] by simp
  note a = allow_tokens [OF okt Cons.prems(2,3), of k']
  have rest: "sorted (map fst cs)" "\<forall>c\<in>set cs. t \<le> fst c \<and> fst c \<le> t1"
    using Cons.prems(4,5) c by auto
  have later: "rl_rps l * Seconds (t1 - t) \<le> rl_rps l * Seconds (t1 - t0)"
    using Cons.prems(2) t by (simp add: Seconds_mono)
  show ?case
  proof (cases "k' = k")
    case False
    then have "of_nat (allowed k ?l cs) \<le> rl_burst l + rl_rps l * Seconds (t1 - t)"
      using Cons.IH [OF ok' _ _ rest t(2)] Cons.prems(2,3) by simp
    then show ?thesis using False later by (simp add: c allowed_Cons)
  next
    case True
    let ?used = "if fst (allow t k l) then 1 else 0 :: rat"
    let ?b = "\<lparr>bk_tokens = tokens_at t k l - ?used, bk_last = t\<rparr>"
    have "rl_buckets ?l k = Some ?b" using a(4) True by simp
    then have "of_nat (allowed k ?l cs) \<le> bk_tokens ?b + rl_rps ?l * Seconds (t1 - bk_last ?b)"
      using Cons.prems(2,3) t by (intro allowed_bound [OF ok' _ _ rest]) auto
    then have "of_nat (allowed k l (c # cs)) \<le> tokens_at t k l + rl_rps l * Seconds (t1 - t)"
      using True by (auto simp: c allowed_Cons)
    then show ?thesis using a(2) True later by simp
  qed
qed

lemma serve_calls_ok:
  assumes "limiter_ok t0 l" "0 < rl_rps l" "1 \<le> rl_burst l"
    and "sorted (map fst cs)" "\<forall>c\<in>set cs. t0 \<le> fst c \<and> fst c \<le> t1" "t0 \<le> t1"
  shows "limiter_ok t1 (snd (serve_calls l cs)) \<and> rl_rps (snd (serve_calls l cs)) = rl_rps l \<and>
    rl_burst (snd (serve_calls l cs)) = rl_burst l"
  using assms
proof (induction cs arbitrary: l t0)
  case Nil
  then show ?case by (fastforce simp: limiter_ok_def)
next
  case (Cons c cs)
  obtain t k' where c: "c = (t, k')" by (cases c)
  have "limiter_ok t l" using Cons.prems c by (fastforce simp: limiter_ok_def)
  then have "limiter_ok t (snd (allow t k' l))" using allow_ok Cons.prems(2,3) by blast
  then show ?case
    using Cons.IH [of t "snd (allow t k' l)"] Cons.prems c by (simp add: Let_def)
qed

lemma NewRateLimiter_ok [simp]:
  "limiter_ok t (NewRateLimiter rps burst)" "rl_rps (NewRateLimiter rps burst) = rps"
  "rl_burst (NewRateLimiter rps burst) = burst"
  by (simp_all add: NewRateLimiter_def limiter_ok_def)

text \<open>
  C28: However requests of all clients interleave, in any window of time one client gets at most a burst
  and the rate times the length of the window through: 130 in a minute with the server's settings.
  And the limiter never starves a client: once it has waited for one token since its last request, it
  is served.
\<close>

theorem rate_limit_window:
  assumes "0 < rps" "1 \<le> burst" "sorted (map fst (before @ calls))"
    and "\<forall>c\<in>set before. fst c \<le> t0" "\<forall>c\<in>set calls. t0 \<le> fst c \<and> fst c \<le> t1" "t0 \<le> t1"
    and "l = snd (serve_calls (NewRateLimiter rps burst) before)"
  shows "of_nat (allowed k l calls) \<le> burst + rps * Seconds (t1 - t0) \<and>
    (t1 \<le> t \<longrightarrow> (\<forall>b. rl_buckets (snd (serve_calls l calls)) k = Some b \<longrightarrow> 1 \<le> rps * Seconds (time_Sub t (bk_last b))) \<longrightarrow>
       fst (allow t k (snd (serve_calls l calls))))"
proof (intro conjI impI)
  have "\<exists>m. \<forall>c\<in>set before. m \<le> fst c \<and> fst c \<le> t0"
    using assms(4) by (intro exI [of _ "Min (insert t0 (fst ` set before))"]) auto
  then obtain m where "\<forall>c\<in>set before. m \<le> fst c \<and> fst c \<le> t0" "m \<le> t0"
    by (metis order_refl nle_le order_trans)
  then have l: "limiter_ok t0 l" "rl_rps l = rps" "rl_burst l = burst"
    using serve_calls_ok [of m "NewRateLimiter rps burst" before t0] assms by (auto simp: sorted_append)
  have "sorted (map fst calls)" using assms(3) by (simp add: sorted_append)
  then show "of_nat (allowed k l calls) \<le> burst + rps * Seconds (t1 - t0)"
    using allowed_window [OF l(1)] l assms by metis
  let ?l = "snd (serve_calls l calls)"
  have l': "limiter_ok t1 ?l" "rl_rps ?l = rps" "rl_burst ?l = burst"
    using serve_calls_ok [OF l(1) _ _ \<open>sorted (map fst calls)\<close> assms(5,6)] l assms(1,2) by metis+
  assume "t1 \<le> t"
    and wait: "\<forall>b. rl_buckets ?l k = Some b \<longrightarrow> 1 \<le> rps * Seconds (time_Sub t (bk_last b))"
  then have ok: "limiter_ok t ?l" using l'(1) by (fastforce simp: limiter_ok_def)
  have "1 \<le> tokens_at t k ?l"
  proof (cases "rl_buckets ?l k")
    case (Some b)
    then have "0 \<le> bk_tokens b" "1 \<le> rps * Seconds (time_Sub t (bk_last b))"
      using l'(1) wait by (auto simp: limiter_ok_def)
    then show ?thesis
      using Some l' assms(2) by (simp add: tokens_at_def mult.commute)
  qed (use l' assms in \<open>simp add: tokens_at_def\<close>)
  then show "fst (allow t k ?l)"
    using allow_tokens(3) [OF ok] l' assms by simp
qed

theorem rate_limit_window_witness:
  "of_nat (allowed ''192.0.2.1'' init_limiter (replicate 200 (0, ''192.0.2.1''))) \<le> (30 :: rat) + 100 / 60 * Seconds (60 * Second)"
  using rate_limit_window [of "100 / 60" 30 "[]" "replicate 200 (0, ''192.0.2.1'')" 0 "60 * Second" init_limiter "''192.0.2.1''"]
  by (simp add: init_limiter_def)

end
