(* ===== verification/MiddlewareProps.thy ===== *)
theory MiddlewareProps
  imports Middleware RbacProps ApiKeyProps AuthProps
begin

text \<open>
  What stands between a request and a handler: who is let through, what read-only mode refuses, how
  many requests the limiter allows, and what the audit middleware writes.
\<close>

subsection \<open>Who reaches a handler\<close>

lemma set_claims_simps [simp]:
  "hc_claims (set_claims cl c) = Some cl" "hc_method (set_claims cl c) = hc_method c"
  "hc_path (set_claims cl c) = hc_path c" "hc_Get (set_claims cl c) = hc_Get c"
  "hc_Query (set_claims cl c) = hc_Query c" "rq_now (hc_rq (set_claims cl c)) = rq_now (hc_rq c)"
  "rq_ip (hc_rq (set_claims cl c)) = rq_ip (hc_rq c)" "hc_Set (set_claims cl c) = hc_Set c"
  by (simp_all add: set_claims_def hc_claims_def)

lemma set_header_simps [simp]:
  "hc_claims (set_header k v c) = hc_claims c" "hc_method (set_header k v c) = hc_method c"
  "hc_path (set_header k v c) = hc_path c" "hc_Get (set_header k v c) = hc_Get c"
  "hc_Query (set_header k v c) = hc_Query c" "hc_rq (set_header k v c) = hc_rq c"
  "hc_Set (set_header k v c) = hc_Set c @ [(k, v)]"
  by (simp_all add: set_header_def hc_claims_def)

lemma presented_simps [simp]:
  "presented_key (set_claims cl c) = presented_key c" "presented_token (set_claims cl c) = presented_token c"
  "presented_key (set_header k v c) = presented_key c" "presented_token (set_header k v c) = presented_token c"
  "presented_token (c\<lparr>hc_apikey := a\<rparr>) = presented_token c"
  by (simp_all add: presented_key_def presented_token_def Let_def)

lemma hc_claims_apikey [simp]: "hc_claims (c\<lparr>hc_apikey := a\<rparr>) = hc_claims c"
  by (simp add: hc_claims_def)

text \<open>
  A middleware passes a request on, with a changed context and state, or refuses it; which of the two
  does not depend on the handler behind it.
\<close>

definition passes :: "(('d, 'z, 'b) handler \<Rightarrow> ('d, 'z, 'b) handler) \<Rightarrow> http \<Rightarrow> ('d, 'z) server_scheme \<Rightarrow> http \<Rightarrow> ('d, 'z) server_scheme \<Rightarrow> bool" where
  "passes m c s c' s' \<longleftrightarrow> (\<forall>h. m h c s = h c' s')"

definition refuses :: "(('d, 'z, 'b) handler \<Rightarrow> ('d, 'z, 'b) handler) \<Rightarrow> http \<Rightarrow> ('d, 'z) server_scheme \<Rightarrow> nat \<Rightarrow> ('d, 'z) server_scheme \<Rightarrow> bool" where
  "refuses m c s code s' \<longleftrightarrow> (\<exists>msg c'. \<forall>h. m h c s = (Fail code msg, c', s'))"

lemma passes_comp: "passes m c s c1 s1 \<Longrightarrow> passes m' c1 s1 c2 s2 \<Longrightarrow> passes (\<lambda>h. m (m' h)) c s c2 s2"
  by (simp add: passes_def)

lemma refuses_comp: "passes m c s c1 s1 \<Longrightarrow> refuses m' c1 s1 n s2 \<Longrightarrow> refuses (\<lambda>h. m (m' h)) c s n s2"
  by (simp add: passes_def refuses_def)

lemma refuses_first: "refuses m c s n s1 \<Longrightarrow> refuses (\<lambda>h. m (m' h)) c s n s1"
  unfolding refuses_def by blast

definition ro_blocked :: "license_state \<Rightarrow> http \<Rightarrow> bool" where
  "ro_blocked L c \<longleftrightarrow> CurrentMode L = ModeLocked \<and> hc_method c \<in> set writeMethods \<and> hc_path c \<notin> set ro_exempt"

definition warned :: "license_state \<Rightarrow> http \<Rightarrow> http" where
  "warned L c = (if CurrentMode L = ModeGrace \<and> hc_method c \<in> set writeMethods \<and> hc_path c \<notin> set ro_exempt
     then set_header ''X-Orvix-License-Warning'' ''license_in_grace_period_renew_soon''
            (set_header ''X-Orvix-License-Mode'' ''grace'' c) else c)"

lemma warned_simps [simp]:
  "hc_rq (warned L c) = hc_rq c" "presented_key (warned L c) = presented_key c"
  "presented_token (warned L c) = presented_token c" "hc_claims (warned L c) = hc_claims c"
  by (simp_all add: warned_def)

lemma ReadOnly_cases:
  "if ro_blocked L c then refuses (ReadOnlyEnforcer L :: ('a, 'z, 'b) handler \<Rightarrow> _) c s 423 s
   else passes (ReadOnlyEnforcer L :: ('a, 'z, 'b) handler \<Rightarrow> _) c s (warned L c) s"
  by (cases "CurrentMode L") (auto simp: ro_blocked_def warned_def passes_def refuses_def ReadOnlyEnforcer_def)

definition with_db :: "('d, 'z) server_scheme \<Rightarrow> 'd \<Rightarrow> ('d, 'z) server_scheme" where
  "with_db s d = s\<lparr>sv_world := (sv_world s)\<lparr>wdb := d\<rparr>\<rparr>"

lemma with_db_simps [simp]:
  "wdb (sv_world (with_db s d)) = d" "wcache (sv_world (with_db s d)) = wcache (sv_world s)"
  "sv_limiter (with_db s d) = sv_limiter s" "with_db s (wdb (sv_world s)) = s"
  by (simp_all add: with_db_def)

text \<open>The state after the key check, and the context it leaves.\<close>

definition after_key :: "'d key_service \<Rightarrow> http \<Rightarrow> ('d, 'z) server_scheme \<Rightarrow> ('d, 'z) server_scheme" where
  "after_key svc c s =
     (if presented_key c = [] then s
      else with_db s (snd (key_Verify svc (rq_now (hc_rq c)) (presented_key c) (rq_ip (hc_rq c)) (wdb (sv_world s)))))"

lemma APIKey_cases:
  fixes svc :: "'a key_service"
  shows "(\<exists>c'. passes (APIKeyMiddleware svc :: ('a, 'z, 'b) handler \<Rightarrow> _) c s c' (after_key svc c s) \<and> presented_token c' = presented_token c \<and>
       rq_now (hc_rq c') = rq_now (hc_rq c)) \<or>
   refuses (APIKeyMiddleware svc :: ('a, 'z, 'b) handler \<Rightarrow> _) c s 401 (after_key svc c s)"
proof (cases "presented_key c = []")
  case True
  then show ?thesis by (auto simp: passes_def APIKeyMiddleware_def after_key_def)
next
  case False
  obtain x d where v: "key_Verify svc (rq_now (hc_rq c)) (presented_key c) (rq_ip (hc_rq c)) (wdb (sv_world s)) = (x, d)"
    by fastforce
  show ?thesis
  proof (cases x)
    case (Inl e)
    then show ?thesis
      using v False by (simp add: refuses_def APIKeyMiddleware_def after_key_def with_db_def Let_def)
  next
    case (Inr row)
    let ?c = "(set_claims (ClaimsForKey row) c)\<lparr>hc_apikey := Some row\<rparr>"
    have "passes (APIKeyMiddleware svc) c s ?c (after_key svc c s)"
      using v False Inr by (simp add: passes_def APIKeyMiddleware_def after_key_def with_db_def Let_def)
    moreover have "presented_token ?c = presented_token c" "rq_now (hc_rq ?c) = rq_now (hc_rq c)"
      by simp_all
    ultimately show ?thesis by blast
  qed
qed


lemma AuthMiddleware_cases:
  fixes svc :: "'a auth"
  shows "(\<exists>cl. passes (AuthMiddleware svc :: ('a, 'z, 'b) handler \<Rightarrow> _) c s (set_claims cl c) s \<and> presented_token c \<noteq> [] \<and>
       VerifyAndCheckSession svc (rq_now (hc_rq c)) (presented_token c) (wdb (sv_world s)) = Inr cl) \<or>
   (\<exists>code\<in>{401, 403}. refuses (AuthMiddleware svc :: ('a, 'z, 'b) handler \<Rightarrow> _) c s code s) \<and>
     (\<forall>cl. presented_token c = [] \<or>
       VerifyAndCheckSession svc (rq_now (hc_rq c)) (presented_token c) (wdb (sv_world s)) \<noteq> Inr cl)"
proof (cases "presented_token c = []")
  case True
  then show ?thesis by (auto simp: refuses_def AuthMiddleware_def)
next
  case False
  then show ?thesis
    by (cases "VerifyAndCheckSession svc (rq_now (hc_rq c)) (presented_token c) (wdb (sv_world s))")
      (auto simp: refuses_def passes_def AuthMiddleware_def Let_def)
qed

lemma TenantMiddleware_cases:
  "hc_claims c = Some cl \<Longrightarrow>
   (passes (TenantMiddleware L :: ('a, 'z, 'b) handler \<Rightarrow> _) c s c s \<and> cl_TenantID cl \<noteq> []) \<or>
   refuses (TenantMiddleware L :: ('a, 'z, 'b) handler \<Rightarrow> _) c s 403 s"
  by (cases "cl_TenantID cl = []"; cases "License.Get L \<noteq> None \<and> hc_route c \<noteq> [] \<and> \<not> HasFeature (License.Get L) (hc_route c)")
    (simp_all add: refuses_def passes_def TenantMiddleware_def)

definition guards_ok :: "'d rbac \<Rightarrow> claims \<Rightarrow> 'd \<Rightarrow> (string \<times> string) list \<Rightarrow> bool" where
  "guards_ok S cl d guards =
     list_all (\<lambda>p. HasPermissionFor S (cl_TenantID cl) (cl_Role cl) (fst p) (snd p) d) guards"

lemma guard_chain_eq:
  assumes "hc_claims c = Some cl"
  shows "guard_chain (Some S) guards h c s =
    (if guards_ok S cl (wdb (sv_world s)) guards then h c s else (Fail 403 ''permission_denied'', c, s))"
proof (induction guards)
  case (Cons p guards)
  have "guard_chain (Some S) (p # guards) h c s = PermissionMiddleware (Some S) p (guard_chain (Some S) guards h) c s"
    by (simp add: guard_chain_def)
  then show ?case
    using assms Cons.IH by (simp add: PermissionMiddleware_def RequirePermission_eq guards_ok_def)
qed (simp add: guard_chain_def guards_ok_def)

lemma guard_chain_cases:
  assumes "hc_claims c = Some cl"
  shows "(passes (guard_chain (Some S) guards :: ('a, 'z, 'b) handler \<Rightarrow> _) c s c s \<and>
      guards_ok S cl (wdb (sv_world s)) guards) \<or>
    refuses (guard_chain (Some S) guards :: ('a, 'z, 'b) handler \<Rightarrow> _) c s 403 s"
  by (cases "guards_ok S cl (wdb (sv_world s)) guards")
    (simp_all add: passes_def refuses_def guard_chain_eq [OF assms])

text \<open>The middleware after the key check.\<close>

definition auth_chain :: "'d api_deps \<Rightarrow> license_state \<Rightarrow> (string \<times> string) list \<Rightarrow> ('d, 'z, 'b) handler \<Rightarrow> ('d, 'z, 'b) handler" where
  "auth_chain D L guards h = AuthMiddleware (ad_Auth D) (TenantMiddleware L (guard_chain (Some (ad_RBAC D)) guards h))"

lemma auth_chain_cases:
  fixes D :: "'a api_deps"
  shows "(\<exists>cl. passes (auth_chain D L guards :: ('a, 'z, 'b) handler \<Rightarrow> _) c s (set_claims cl c) s \<and> cl_TenantID cl \<noteq> [] \<and> presented_token c \<noteq> [] \<and>
      VerifyAndCheckSession (ad_Auth D) (rq_now (hc_rq c)) (presented_token c) (wdb (sv_world s)) = Inr cl \<and>
      guards_ok (ad_RBAC D) cl (wdb (sv_world s)) guards) \<or>
   (\<exists>code\<in>{401, 403}. refuses (auth_chain D L guards :: ('a, 'z, 'b) handler \<Rightarrow> _) c s code s)"
proof -
  have eq: "(auth_chain D L guards :: ('a, 'z, 'b) handler \<Rightarrow> _) =
      (\<lambda>h. AuthMiddleware (ad_Auth D) ((\<lambda>h. TenantMiddleware L (guard_chain (Some (ad_RBAC D)) guards h)) h))"
    by (simp add: auth_chain_def fun_eq_iff)
  consider cl where "passes (AuthMiddleware (ad_Auth D) :: ('a, 'z, 'b) handler \<Rightarrow> _) c s (set_claims cl c) s"
      "presented_token c \<noteq> []"
      "VerifyAndCheckSession (ad_Auth D) (rq_now (hc_rq c)) (presented_token c) (wdb (sv_world s)) = Inr cl"
    | code where "refuses (AuthMiddleware (ad_Auth D) :: ('a, 'z, 'b) handler \<Rightarrow> _) c s code s" "code \<in> {401, 403}"
    using AuthMiddleware_cases [of "ad_Auth D" c s, where 'b = 'b] by blast
  then show ?thesis
  proof cases
    case 1
    let ?c = "set_claims cl c"
    have "hc_claims ?c = Some cl" by simp
    note t = TenantMiddleware_cases [OF this, of L s] and g = guard_chain_cases [OF this, of "ad_RBAC D" guards s]
    consider "refuses (TenantMiddleware L :: ('a, 'z, 'b) handler \<Rightarrow> _) ?c s 403 s"
      | "passes (TenantMiddleware L :: ('a, 'z, 'b) handler \<Rightarrow> _) ?c s ?c s" "cl_TenantID cl \<noteq> []"
      using t by blast
    then show ?thesis
    proof cases
      case ten: 1
      show ?thesis
        unfolding eq
        by (rule disjI2, rule bexI [of _ 403], rule refuses_comp [OF 1(1) refuses_first [OF ten]]) simp
    next
      case ten: 2
      from g show ?thesis
      proof
        assume "passes (guard_chain (Some (ad_RBAC D)) guards :: ('a, 'z, 'b) handler \<Rightarrow> _) ?c s ?c s \<and>
          guards_ok (ad_RBAC D) cl (wdb (sv_world s)) guards"
        then show ?thesis
          unfolding eq using passes_comp [OF 1(1) passes_comp [OF ten(1)]] ten(2) 1(2,3) by (intro disjI1 exI [of _ cl]) simp
      next
        assume "refuses (guard_chain (Some (ad_RBAC D)) guards :: ('a, 'z, 'b) handler \<Rightarrow> _) ?c s 403 s"
        from refuses_comp [OF 1(1) refuses_comp [OF ten(1) this]] show ?thesis
          unfolding eq by (intro disjI2 bexI [of _ 403]) simp_all
      qed
    qed
  next
    case 2
    show ?thesis
      unfolding eq by (rule disjI2, rule bexI [of _ code], rule refuses_first [OF 2(1)]) (rule 2(2))
  qed
qed

lemma v1_chain_eq: "v1_chain D L guards = (\<lambda>h. ReadOnlyEnforcer L ((\<lambda>h. APIKeyMiddleware (ad_APIKeys D) (auth_chain D L guards h)) h))"
  by (simp add: v1_chain_def auth_chain_def fun_eq_iff)

lemma v1_chain_cases:
  fixes c :: http and s :: "('d, 'z) server_scheme"
  assumes "s' = after_key (ad_APIKeys D) (warned L c) s"
  obtains (handler) c' cl where "passes (v1_chain D L guards :: ('d, 'z, 'b) handler \<Rightarrow> _) c s c' s'"
      "hc_claims c' = Some cl" "cl_TenantID cl \<noteq> []" "presented_token c \<noteq> []"
      "VerifyAndCheckSession (ad_Auth D) (rq_now (hc_rq c)) (presented_token c) (wdb (sv_world s')) = Inr cl"
      "guards_ok (ad_RBAC D) cl (wdb (sv_world s')) guards" "\<not> ro_blocked L c"
    | (blocked) "refuses (v1_chain D L guards :: ('d, 'z, 'b) handler \<Rightarrow> _) c s 423 s" "ro_blocked L c"
    | (denied) code where "refuses (v1_chain D L guards :: ('d, 'z, 'b) handler \<Rightarrow> _) c s code s'" "code \<in> {401, 403}"
        "\<not> ro_blocked L c"
proof (cases "ro_blocked L c")
  case True
  then have "refuses (ReadOnlyEnforcer L :: ('d, 'z, 'b) handler \<Rightarrow> _) c s 423 s" using ReadOnly_cases [of L c s] by simp
  then show ?thesis
    using refuses_first blocked True unfolding v1_chain_eq by blast
next
  case False
  then have p: "passes (ReadOnlyEnforcer L :: ('d, 'z, 'b) handler \<Rightarrow> _) c s (warned L c) s"
    using ReadOnly_cases [of L c s] by simp
  from APIKey_cases [of "ad_APIKeys D" "warned L c" s, where 'b = 'b] show ?thesis
  proof
    assume r: "refuses (APIKeyMiddleware (ad_APIKeys D) :: ('d, 'z, 'b) handler \<Rightarrow> _) (warned L c) s 401
      (after_key (ad_APIKeys D) (warned L c) s)"
    show ?thesis
      using denied [of 401] refuses_comp [OF p refuses_first [OF r, of "auth_chain D L guards"]] False
      unfolding v1_chain_eq assms by simp
  next
    assume "\<exists>c'. passes (APIKeyMiddleware (ad_APIKeys D) :: ('d, 'z, 'b) handler \<Rightarrow> _) (warned L c) s c'
        (after_key (ad_APIKeys D) (warned L c) s) \<and>
      presented_token c' = presented_token (warned L c) \<and> rq_now (hc_rq c') = rq_now (hc_rq (warned L c))"
    then obtain c1 where k: "passes (APIKeyMiddleware (ad_APIKeys D) :: ('d, 'z, 'b) handler \<Rightarrow> _) (warned L c) s c1 s'"
      and c1: "presented_token c1 = presented_token c" "rq_now (hc_rq c1) = rq_now (hc_rq c)"
      using assms by auto
    from auth_chain_cases [of D L guards c1 s', where 'b = 'b] show ?thesis
    proof
      assume "\<exists>cl. passes (auth_chain D L guards :: ('d, 'z, 'b) handler \<Rightarrow> _) c1 s' (set_claims cl c1) s' \<and>
        cl_TenantID cl \<noteq> [] \<and> presented_token c1 \<noteq> [] \<and>
        VerifyAndCheckSession (ad_Auth D) (rq_now (hc_rq c1)) (presented_token c1) (wdb (sv_world s')) = Inr cl \<and>
        guards_ok (ad_RBAC D) cl (wdb (sv_world s')) guards"
      then obtain cl where cl: "passes (auth_chain D L guards :: ('d, 'z, 'b) handler \<Rightarrow> _) c1 s' (set_claims cl c1) s'"
        "cl_TenantID cl \<noteq> []" "presented_token c \<noteq> []"
        "VerifyAndCheckSession (ad_Auth D) (rq_now (hc_rq c)) (presented_token c) (wdb (sv_world s')) = Inr cl"
        "guards_ok (ad_RBAC D) cl (wdb (sv_world s')) guards"
        using c1 by auto
      show ?thesis
        using handler [of "set_claims cl c1" cl] passes_comp [OF p passes_comp [OF k cl(1)]] cl(2-5) False
        unfolding v1_chain_eq by simp
    next
      assume "\<exists>code\<in>{401, 403}. refuses (auth_chain D L guards :: ('d, 'z, 'b) handler \<Rightarrow> _) c1 s' code s'"
      then obtain code where code: "code \<in> {401, 403}" "refuses (auth_chain D L guards :: ('d, 'z, 'b) handler \<Rightarrow> _) c1 s' code s'"
        by blast
      show ?thesis
        using denied [of code] refuses_comp [OF p refuses_comp [OF k code(2)]] code(1) False
        unfolding v1_chain_eq by simp
    qed
  qed
qed

context gorm_db
begin

lemma key_Verify_frame:
  assumes "ks_gorm svc = G"
  shows "\<exists>keys. view (snd (key_Verify svc now key ip d)) = (view d)\<lparr>db_api_keys := keys\<rparr>"
proof -
  have same: "\<exists>keys. view d = (view d)\<lparr>db_api_keys := keys\<rparr>" by (rule exI [of _ "db_api_keys (view d)"]) simp
  have upd: "\<exists>keys. view (snd (tUpdates (APIKeys G) now p f d)) = (view d)\<lparr>db_api_keys := keys\<rparr>" for p f
  proof -
    obtain x d' where u: "tUpdates (APIKeys G) now p f d = (x, d')" by fastforce
    then show ?thesis
      using api_key.updates_ok [of now p f d _ d'] api_key.updates_fail [of now p f d _ d'] same
      by (cases x) (fastforce, metis snd_conv)
  qed
  show ?thesis
    using assms same upd by (simp add: key_Verify_def Let_def split: sum.splits)
qed

lemma after_key_frame:
  assumes "ks_gorm svc = G"
  shows "\<exists>keys. view (wdb (sv_world (after_key svc c s))) = (view (wdb (sv_world s)))\<lparr>db_api_keys := keys\<rparr>"
    and "wcache (sv_world (after_key svc c s)) = wcache (sv_world s)"
    and "sv_limiter (after_key svc c s) = sv_limiter s"
proof -
  have "\<exists>keys. view d = (view d)\<lparr>db_api_keys := keys\<rparr>" for d
    by (rule exI [of _ "db_api_keys (view d)"]) simp
  then show "\<exists>keys. view (wdb (sv_world (after_key svc c s))) = (view (wdb (sv_world s)))\<lparr>db_api_keys := keys\<rparr>"
    using key_Verify_frame [OF assms] by (simp add: after_key_def)
qed (simp_all add: after_key_def)

end


end
