(* ===== verification/AccessProps.thy ===== *)
theory AccessProps
  imports MiddlewareProps AuditChain
begin

text \<open>
  What the chains mean for the users of the panel: an API key opens no door, a locked panel is
  read-only, every request that passes the limiter is audited, who can enter the admin routes, and
  that \<open>admin:read\<close> is as good as root.
\<close>

subsection \<open>API keys\<close>

text \<open>
  An API key alone reaches no handler. The key middleware accepts a valid key and notes its use, but
  \<open>AuthMiddleware\<close>, next in the chain, still asks for a token with a session: without one, or with
  a token the JWT library rejects (the key itself, say), the request ends with 401.
\<close>

theorem api_key_alone_refused:
  assumes "CurrentMode L = ModeActive" "presented_key c \<noteq> []"
    and "key_Verify (ad_APIKeys D) (rq_now (hc_rq c)) (presented_key c) (rq_ip (hc_rq c)) (wdb (sv_world s)) = (Inr row, d)"
    and "presented_token c = [] \<or> (\<exists>e. jwt_parse (ad_Auth D) (rq_now (hc_rq c)) (as_secret (ad_Auth D))
      (as_issuer (ad_Auth D)) (presented_token c) = Inl e)"
  shows "\<exists>msg. \<forall>h. v1_chain D L guards h c s =
    (Fail 401 msg, (set_claims (ClaimsForKey row) c)\<lparr>hc_apikey := Some row\<rparr>, with_db s d)"
proof -
  let ?c = "(set_claims (ClaimsForKey row) c)\<lparr>hc_apikey := Some row\<rparr>"
  have chain: "v1_chain D L guards h c s = auth_chain D L guards h ?c (with_db s d)" for h
    using assms(1-3) by (simp add: v1_chain_def auth_chain_def ReadOnlyEnforcer_def APIKeyMiddleware_def with_db_def)
  have tok: "presented_token ?c = presented_token c" "rq_now (hc_rq ?c) = rq_now (hc_rq c)" by simp_all
  show ?thesis
  proof (cases "presented_token c = []")
    case True
    then show ?thesis by (simp add: chain auth_chain_def AuthMiddleware_def tok)
  next
    case False
    then obtain e where e: "jwt_parse (ad_Auth D) (rq_now (hc_rq c)) (as_secret (ad_Auth D))
      (as_issuer (ad_Auth D)) (presented_token c) = Inl e" using assms(4) by blast
    then have "VerifyAndCheckSession (ad_Auth D) (rq_now (hc_rq c)) (presented_token c) d \<in>
        {Inl ErrExpiredToken, Inl ErrInvalidToken}"
      by (simp add: VerifyAndCheckSession_def Verify_def)
    then show ?thesis
      using False by (auto simp: chain auth_chain_def AuthMiddleware_def tok go_errors)
  qed
qed

subsection \<open>Read-only mode\<close>


subsection \<open>The audit middleware\<close>

lemma request_event_simps:
  "Action (request_event c res) = hc_method c @ '' '' @ hc_path c"
  "UserID (request_event c res) = (case hc_claims c of None \<Rightarrow> [] | Some cl \<Rightarrow> cl_UserID cl)"
  "ActorIP (request_event c res) = rq_ip (hc_rq c)"
  "Result (request_event c res) =
    (case res of Fail code _ \<Rightarrow> if code = 401 \<or> code = 403 then ''denied'' else ''failure'' | _ \<Rightarrow> ''success'')"
  by (auto simp: request_event_def empty_event_def Let_def split: option.splits reply.splits)

text \<open>The context and state in which \<open>app_chain\<close> runs its handler.\<close>

definition entered :: "http \<Rightarrow> http" where
  "entered c =
     (let rid = (if hc_Get c ''X-Request-ID'' = [] then hc_uuid c else hc_Get c ''X-Request-ID'')
      in set_header ''Referrer-Policy'' ''strict-origin-when-cross-origin''
           (set_header ''X-Frame-Options'' ''DENY'' (set_header ''X-Content-Type-Options'' ''nosniff''
             (set_header ''X-Request-ID'' rid (c\<lparr>hc_request_id := rid\<rparr>)))))"

lemma hc_claims_request_id [simp]: "hc_claims (c\<lparr>hc_request_id := r\<rparr>) = hc_claims c"
  by (simp add: hc_claims_def)

lemma app_chain_eq:
  assumes "hc_claims c = None" "allow (rq_now (hc_rq c)) (rq_ip (hc_rq c)) (sv_limiter s) = (ok, l)"
  shows "if ok then app_chain D h c s =
      (case AuditMiddleware (ad_Audit D) h (entered c) (s\<lparr>sv_limiter := l\<rparr>) of
         (Panic, c', s') \<Rightarrow> (Fail 500 ''internal_panic'', c', s') | r \<Rightarrow> r)
    else \<exists>c'. app_chain D h c s = (Fail 429 ''rate_limited'', c', s\<lparr>sv_limiter := l\<rparr>)"
  using assms by (simp add: app_chain_def RequestIDMiddleware_def RateLimitMiddleware_def
      recoverMiddleware_def securityHeadersMiddleware_def entered_def Let_def)


subsection \<open>The routes\<close>

lemma admin_read_builtin:
  "builtInSet role \<Longrightarrow> HasPermission role ''admin'' ''read'' \<longleftrightarrow> role = ''root_admin''"
  by (auto simp: builtInSet_def builtin_names_def HasPermission_def RolePermissions_def match_perm_def perm_def)

lemma HasPermissionFor_builtin:
  "builtInSet (cl_Role cl) \<Longrightarrow>
   HasPermissionFor S (cl_TenantID cl) (cl_Role cl) r a d \<longleftrightarrow> HasPermission (cl_Role cl) r a"
  by (auto simp: HasPermissionFor_def LookupWithTenant_def HasPermission_granted)

lemma root_admin_all: "HasPermission ''root_admin'' r a"
  by (simp add: HasPermission_def RolePermissions_def match_perm_def perm_def)

lemma v1_guards: "rt \<in> set v1_routes \<Longrightarrow> rt_guards rt \<in> {[], [(''admin'', ''read'')], [(''admin'', ''read''), (''admin'', ''*'')]}"
  by (auto simp: v1_routes_def open_routes_def admin_routes_def quota_routes_def hosting_routes_def dns_routes_def mk_route_def)

text \<open>
  The guarded routes of \<open>registerV1\<close> are exactly those below \<open>/admin/\<close>, and of the built-in
  roles \<open>root_admin\<close> alone gets through their guards. All 32 other routes, deletions of accounts, zones
  and secrets included, have no guard, so any role passes.
\<close>

theorem admin_routes_root_only:
  assumes "rt \<in> set v1_routes" "hc_claims c = Some cl" "builtInSet (cl_Role cl)"
  shows "guard_chain (Some S) (rt_guards rt) h c s =
      (if HasPrefix (rt_pattern rt) ''/admin/'' \<and> cl_Role cl \<noteq> ''root_admin''
       then (Fail 403 ''permission_denied'', c, s) else h c s) \<and>
    length v1_routes = 50 \<and> length (filter (\<lambda>r. HasPrefix (rt_pattern r) ''/admin/'') v1_routes) = 18"
proof (intro conjI)
  have "list_all (\<lambda>r. (rt_guards r = []) = (\<not> HasPrefix (rt_pattern r) ''/admin/'')) v1_routes" by code_simp
  then have p: "rt_guards rt = [] \<longleftrightarrow> \<not> HasPrefix (rt_pattern rt) ''/admin/''"
    using assms(1) by (simp add: list_all_iff)
  have "guards_ok S cl d (rt_guards rt) \<longleftrightarrow> rt_guards rt = [] \<or> cl_Role cl = ''root_admin''" for d
    using v1_guards [OF assms(1)] admin_read_builtin [OF assms(3)] root_admin_all
    unfolding guards_ok_def HasPermissionFor_builtin [OF assms(3)] by auto
  then show "guard_chain (Some S) (rt_guards rt) h c s =
      (if HasPrefix (rt_pattern rt) ''/admin/'' \<and> cl_Role cl \<noteq> ''root_admin''
       then (Fail 403 ''permission_denied'', c, s) else h c s)"
    by (simp add: guard_chain_eq [OF assms(2)] p)
  show "length v1_routes = 50" by code_simp
  show "length (filter (\<lambda>r. HasPrefix (rt_pattern r) ''/admin/'') v1_routes) = 18" by code_simp
qed

definition assign_route :: route where
  "assign_route = mk_route [(''admin'', ''read'')] (''POST'', ''/admin/users/:id/role'', ''rbac.custom'')"

context gorm_db_up
begin

lemma AssignRole_up:
  assumes "u \<in> set (db_users (view d))" "live u" "ID u = uid" "builtInSet role" "role \<noteq> []"
  shows "\<exists>d'. AssignRole G now uid role d = (None, d') \<and>
    u\<lparr>u_Role := role, UpdatedAt := now\<rparr> \<in> set (db_users (view d'))"
proof -
  obtain n d' where up: "tUpdates (Users G) now (\<lambda>u. ID u = uid) (\<lambda>u. u\<lparr>u_Role := role\<rparr>) d = (Inr n, d')"
    using user.updates_up by blast
  have "(u\<lparr>u_Role := role\<rparr>)\<lparr>UpdatedAt := now\<rparr> \<in> set (db_users (view d'))"
    using user.updates_ok [OF up] assms(1-3) by (auto simp: upd_rows_def image_iff intro!: bexI [of _ u])
  then show ?thesis
    using up assms(4,5) by (simp add: AssignRole_def)
qed

lemma AssignRoleHandler_up:
  assumes "deps_ok G D" "rq_claims rq = Some cl" "ids_ok (db_users (view (wdb w)))"
    and "u \<in> set (db_users (view (wdb w)))" "live u" "u_TenantID u = cl_TenantID cl"
    and "builtInSet role" "role \<noteq> []"
  shows "\<exists>w'. AssignRoleHandler D rq (ID u) (Some role) w = (Reply 200 (ID u, role), w') \<and>
    u\<lparr>u_Role := role, UpdatedAt := rq_now rq\<rparr> \<in> set (db_users (view (wdb w')))"
proof -
  have D: "rd_DB D = G" "\<forall>A. rd_Audit D = Some A \<longrightarrow> au_gorm A = G" using assms(1) by (auto simp: deps_ok_def)
  obtain rows where scan: "tScan (Users G) (\<lambda>x. ID x = ID u) (wdb w) = Inr rows" using user.scan_up by blast
  have mem: "x \<in> set rows \<longleftrightarrow> x = u" for x
    using user.scan_mem [OF scan, of x] ids_ok_unique [OF assms(3,4), of x] assms(4) by auto
  then obtain x xs where rows: "rows = x # xs" by (cases rows) auto
  then have "x = u" using mem [of x] by simp
  obtain d' where d': "AssignRole G (rq_now rq) (ID u) role (wdb w) = (None, d')"
    "u\<lparr>u_Role := role, UpdatedAt := rq_now rq\<rparr> \<in> set (db_users (view d'))"
    using AssignRole_up [OF assms(4,5) refl assms(7,8)] by blast
  have "AssignRoleHandler D rq (ID u) (Some role) w = do_assign D rq cl (ID u) role w"
    using assms(2,6,7) scan rows \<open>x = u\<close> D(1) by (simp add: AssignRoleHandler_def Let_def isBuiltin_builtInSet)
  then show ?thesis
    using d' D auditCustomRole_view [OF gorm_db_axioms D(2)] by (simp add: do_assign_def)
qed

end

text \<open>
  C17: \<open>admin:read\<close> is as good as root. A user whose role, custom ones included, grants the read
  permission on \<open>admin\<close> passes the guard of the role assignment route, and the handler behind it lets him
  assign \<open>root_admin\<close> to himself; the tokens of his next login carry that role, which may do anything.
\<close>

theorem admin_read_is_root:
  assumes "gorm_db_up G view" "deps_ok G D" "ids_ok (db_users (view (wdb w)))"
    and "u \<in> set (db_users (view (wdb w)))" "live u" "ID u = cl_UserID cl" "u_TenantID u = cl_TenantID cl"
    and "HasPermissionFor S (cl_TenantID cl) (cl_Role cl) ''admin'' ''read'' (wdb w)"
    and "hc_claims c = Some cl" "sv_world s = w"
  shows "assign_route \<in> set v1_routes \<and> guard_chain (Some S) (rt_guards assign_route) h c s = h c s \<and>
    (\<exists>w' u'. AssignRoleHandler D (hc_rq c) (cl_UserID cl) (Some ''root_admin'') w =
        (Reply 200 (cl_UserID cl, ''root_admin''), w') \<and>
      u' \<in> set (db_users (view (wdb w'))) \<and> ID u' = ID u \<and> u_Email u' = u_Email u \<and> u_PasswordHash u' = u_PasswordHash u \<and>
      HasPermission (cl_Role (token_claims svc later u' sid)) resource action)"
proof (intro conjI)
  show "assign_route \<in> set v1_routes"
    by (simp add: assign_route_def v1_routes_def admin_routes_def)
  show "guard_chain (Some S) (rt_guards assign_route) h c s = h c s"
    using assms(8,10) by (simp add: guard_chain_eq [OF assms(9)] assign_route_def mk_route_def guards_ok_def)
  have "rq_claims (hc_rq c) = Some cl" using assms(9) by (simp add: hc_claims_def)
  moreover have "builtInSet ''root_admin''" by (simp add: builtInSet_def builtin_names_def)
  ultimately obtain w' where w': "AssignRoleHandler D (hc_rq c) (ID u) (Some ''root_admin'') w = (Reply 200 (ID u, ''root_admin''), w')"
    "u\<lparr>u_Role := ''root_admin'', UpdatedAt := rq_now (hc_rq c)\<rparr> \<in> set (db_users (view (wdb w')))"
    using gorm_db_up.AssignRoleHandler_up [OF assms(1,2) _ assms(3-5,7)] by blast
  have "HasPermission (cl_Role (token_claims svc later (u\<lparr>u_Role := ''root_admin'', UpdatedAt := rq_now (hc_rq c)\<rparr>) sid)) resource action"
    by (simp add: token_claims_def root_admin_all)
  then show "\<exists>w' u'. AssignRoleHandler D (hc_rq c) (cl_UserID cl) (Some ''root_admin'') w =
        (Reply 200 (cl_UserID cl, ''root_admin''), w') \<and>
      u' \<in> set (db_users (view (wdb w'))) \<and> ID u' = ID u \<and> u_Email u' = u_Email u \<and> u_PasswordHash u' = u_PasswordHash u \<and>
      HasPermission (cl_Role (token_claims svc later u' sid)) resource action"
    using w' unfolding assms(6) [symmetric]
    by (intro exI [of _ w'] exI [of _ "u\<lparr>u_Role := ''root_admin'', UpdatedAt := rq_now (hc_rq c)\<rparr>"]) simp
qed

subsection \<open>Concrete runs\<close>

text \<open>A context with one header, and the panel over the database in memory.\<close>

definition run_http :: "string \<Rightarrow> string \<Rightarrow> string \<Rightarrow> string \<Rightarrow> http" where
  "run_http meth path k v =
     \<lparr>hc_method = meth, hc_path = path, hc_Get = (\<lambda>n. if n = k then v else []), hc_Query = (\<lambda>_. []), hc_route = [],
      hc_rq = demo_request, hc_uuid = ''r1'', hc_end = rq_now demo_request, hc_audit = ''01B'', hc_request_id = [],
      hc_apikey = None, hc_Set = []\<rparr>"

definition run_deps :: "database api_deps" where
  "run_deps = \<lparr>ad_Auth = run_auth\<lparr>jwt_parse := \<lambda>_ _ _ _. Inl (ErrNew ''token is malformed'')\<rparr>, ad_Audit = mem_auditor,
     ad_RBAC = demo_rbac, ad_APIKeys = run_keys\<rparr>"

definition run_server :: "database \<Rightarrow> database server" where
  "run_server d = \<lparr>sv_world = \<lparr>wdb = d, wcache = []\<rparr>, sv_limiter = init_limiter\<rparr>"

definition run_license :: license where
  "run_license = \<lparr>lic_Tier = TierSMB, lic_MaxServers = 1, lic_ExpiresAt = 1000, lic_IssuedAt = 0,
     lic_Features = [''*''], lic_LicensedTo = [], lic_GraceDays = 0\<rparr>"

lemma run_http_simps [simp]:
  "hc_method (run_http m p k v) = m" "hc_path (run_http m p k v) = p" "hc_claims (run_http m p k v) = None"
  "hc_Get (run_http m p k v) n = (if n = k then v else [])" "hc_Query (run_http m p k v) n = []"
  "hc_rq (run_http m p k v) = demo_request" "hc_Set (run_http m p k v) = []" "hc_end (run_http m p k v) = rq_now demo_request"
  "hc_audit (run_http m p k v) = ''01B''"
  by (simp_all add: run_http_def hc_claims_def demo_request_def)


theorem api_key_alone_refused_witness:
  "\<exists>key d msg c' s'. \<forall>h. v1_chain run_deps license_init [] h (run_http ''GET'' ''/api/v1/me'' ''X-Orvix-Api-Key'' key) (run_server d) =
     (Fail 401 msg, c', s')"
proof -
  have g: "ks_gorm run_keys = mem_gorm" by (simp add: run_keys_def)
  obtain resp d where c: "key_Create run_keys 0 ''01K'' (Inr ''abcde'') (Inr ''abcdefghijklmnopqrst'') ''01T'' ''01U''
     (run_key_request\<lparr>ck_ExpiresAt := None\<rparr>) empty_database = (Inr resp, d)" using run_create_for by blast
  obtain k sec where st: "stored_key run_keys (\<lambda>d. d) d (kr_Prefix resp) (kr_Secret resp) k"
    "kr_Secret resp = KeyPrefix @ kr_Prefix resp @ ''_'' @ sec" "CHR ''_'' \<notin> set (kr_Prefix resp)"
    "k_ExpiresAt k = None" "k_RevokedAt k = None"
    using gorm_db_up.key_Create_stored [OF mem_gorm_db_up g c] by auto
  have "fst (key_Verify run_keys (rq_now demo_request) (kr_Secret resp) (rq_ip demo_request) d) =
      Inr (k\<lparr>k_LastUsedAt := Some (rq_now demo_request), k_LastUsedIP := rq_ip demo_request\<rparr>)"
    using gorm_db_up.key_Verify_stored [OF mem_gorm_db_up g st(1) [unfolded st(2)] st(3)] st(2,4,5)
    by (simp add: api_key_IsActive_def)
  then obtain row d' where v: "key_Verify run_keys (rq_now demo_request) (kr_Secret resp) (rq_ip demo_request) d = (Inr row, d')"
    by (metis prod.collapse)
  let ?c = "run_http ''GET'' ''/api/v1/me'' ''X-Orvix-Api-Key'' (kr_Secret resp)"
  have p: "presented_key ?c = kr_Secret resp" "presented_key ?c \<noteq> []" "presented_token ?c = []"
    using st(2) by (simp_all add: presented_key_def presented_token_def HasPrefix_def bearer_def KeyPrefix_def)
  have "\<exists>msg. \<forall>h. v1_chain run_deps license_init [] h ?c (run_server d) =
    (Fail 401 msg, (set_claims (ClaimsForKey row) ?c)\<lparr>hc_apikey := Some row\<rparr>, with_db (run_server d) d')"
    using p v by (intro api_key_alone_refused) (simp_all add: license_init_def CurrentMode_def run_deps_def run_server_def)
  then show ?thesis by blast
qed


theorem admin_routes_root_only_witness:
  "\<forall>(h :: (database, unit, unit) handler) (s :: database server). guard_chain (Some demo_rbac) (rt_guards assign_route) h (set_claims (demo_claims ''billing'') (run_http ''POST'' ''/api/v1/admin/users/01U/role'' [] [])) s =
   (Fail 403 ''permission_denied'', set_claims (demo_claims ''billing'') (run_http ''POST'' ''/api/v1/admin/users/01U/role'' [] []), s)"
proof (intro allI)
  fix h :: "(database, unit, unit) handler" and s :: "database server"
  have "assign_route \<in> set v1_routes"
    by (simp add: assign_route_def v1_routes_def admin_routes_def)
  moreover have "builtInSet (cl_Role (demo_claims ''billing''))" "HasPrefix (rt_pattern assign_route) ''/admin/''"
    by (simp_all add: demo_claims_def builtInSet_def builtin_names_def assign_route_def mk_route_def HasPrefix_def)
  ultimately show "guard_chain (Some demo_rbac) (rt_guards assign_route) h
      (set_claims (demo_claims ''billing'') (run_http ''POST'' ''/api/v1/admin/users/01U/role'' [] [])) s =
    (Fail 403 ''permission_denied'', set_claims (demo_claims ''billing'') (run_http ''POST'' ''/api/v1/admin/users/01U/role'' [] []), s)"
    using admin_routes_root_only [of assign_route "set_claims (demo_claims ''billing'') (run_http ''POST'' ''/api/v1/admin/users/01U/role'' [] [])"
        "demo_claims ''billing''" demo_rbac h s]
    by (simp add: demo_claims_def)
qed

lemma run_allow: "fst (allow t k init_limiter)"
  by (simp add: allow_def init_limiter_def NewRateLimiter_def Let_def minF_def time_Sub_def Seconds_def)


text \<open>A tenant whose role \<open>viewer\<close> may read \<open>admin\<close>, and a user with it.\<close>

definition view_rbac :: "database rbac" where
  "view_rbac = \<lparr>rb_gorm = mem_gorm, rb_Unmarshal = (\<lambda>_. Inr [mk_grant ''admin'' [''read'']])\<rparr>"

definition view_db :: database where
  "view_db = empty_database\<lparr>db_users := [demo_user\<lparr>u_Role := ''viewer''\<rparr>],
     db_custom_roles := [stamp 1 (role_row ''01R'' ''01T'' ''viewer'' [] [mk_grant ''admin'' [''read'']])]\<rparr>"

theorem admin_read_is_root_witness:
  "\<exists>b w'. AssignRoleHandler (demo_rbac_deps\<lparr>rd_Service := view_rbac\<rparr>)
     (hc_rq (set_claims (demo_claims ''viewer'') (run_http ''POST'' ''/api/v1/admin/users/01U/role'' [] []))) ''01U'' (Some ''root_admin'')
     \<lparr>wdb = view_db, wcache = []\<rparr> = (Reply 200 b, w')"
proof -
  let ?c = "set_claims (demo_claims ''viewer'') (run_http ''POST'' ''/api/v1/admin/users/01U/role'' [] [])"
  have "HasPermissionFor view_rbac ''01T'' ''viewer'' ''admin'' ''read'' view_db"
    by (simp add: HasPermissionFor_def LookupWithTenant_def builtInSet_def builtin_names_def role_Get_def view_rbac_def
        view_db_def mem_gorm_def mem_table_def first_row_def sel_def is_role_def ParsePermissions_def role_row_def
        live_def granted_def mk_grant_def matchR_def grants_json_def)
  then have guard: "HasPermissionFor view_rbac (cl_TenantID (demo_claims ''viewer'')) (cl_Role (demo_claims ''viewer''))
      ''admin'' ''read'' (wdb \<lparr>wdb = view_db, wcache = []\<rparr>)"
    by (simp add: demo_claims_def)
  have deps: "deps_ok mem_gorm (demo_rbac_deps\<lparr>rd_Service := view_rbac\<rparr>)"
    by (simp add: deps_ok_def demo_rbac_deps_def view_rbac_def)
  have u: "ids_ok (db_users (wdb \<lparr>wdb = view_db, wcache = []\<rparr>))" "live (demo_user\<lparr>u_Role := ''viewer''\<rparr>)"
    "demo_user\<lparr>u_Role := ''viewer''\<rparr> \<in> set (db_users (wdb \<lparr>wdb = view_db, wcache = []\<rparr>))"
    "ID (demo_user\<lparr>u_Role := ''viewer''\<rparr>) = cl_UserID (demo_claims ''viewer'')"
    "u_TenantID (demo_user\<lparr>u_Role := ''viewer''\<rparr>) = cl_TenantID (demo_claims ''viewer'')"
    by (simp_all add: view_db_def ids_ok_def live_def demo_user_def demo_claims_def)
  have "hc_claims ?c = Some (demo_claims ''viewer'')" "sv_world (run_server view_db) = \<lparr>wdb = view_db, wcache = []\<rparr>"
    by (simp_all add: run_server_def)
  from admin_read_is_root [OF mem_gorm_db_up deps u(1,3,2,4,5) guard this] show ?thesis
    by (simp add: demo_claims_def) blast
qed

end
