(* ===== verification/Quota.thy ===== *)
theory Quota
  imports Request GoTime
begin

text \<open>
  Per-tenant limits: internal/quota/quota.go and its endpoints in internal/quota/handlers.go.
\<close>

definition ResourceAccount :: string where "ResourceAccount = ''account''"
definition ResourceUser :: string where "ResourceUser = ''user''"
definition ResourceDomain :: string where "ResourceDomain = ''domain''"
definition ResourceAPIKey :: string where "ResourceAPIKey = ''apikey''"
definition ResourceCustomRole :: string where "ResourceCustomRole = ''custom_role''"
definition ResourceSecret :: string where "ResourceSecret = ''secret''"

lemmas resource_defs = ResourceAccount_def ResourceUser_def ResourceDomain_def ResourceAPIKey_def
  ResourceCustomRole_def ResourceSecret_def

definition ErrQuotaExceeded :: go_error where
  [go_errors]: "ErrQuotaExceeded = ErrNew ''quota exceeded''"

definition ErrTenantNotFound :: go_error where
  [go_errors]: "ErrTenantNotFound = ErrNew ''tenant not found''"

definition quota_row :: "string \<Rightarrow> int \<Rightarrow> int \<Rightarrow> int \<Rightarrow> int \<Rightarrow> int \<Rightarrow> int \<Rightarrow> int \<Rightarrow> int \<Rightarrow> tenant_quota" where
  "quota_row tenantID accs usrs doms stor band keys roles secs =
     \<lparr>ID = [], CreatedAt = zero_time, UpdatedAt = zero_time, DeletedAt = None, q_TenantID = tenantID,
      q_MaxAccounts = accs, q_MaxUsers = usrs, q_MaxDomains = doms, q_MaxStorageMB = stor, q_MaxBandwidthGB = band,
      q_MaxAPIKeys = keys, q_MaxCustomRoles = roles, q_MaxSecrets = secs\<rparr>"

definition tierDefaults :: "string \<Rightarrow> tenant_quota option" where
  "tierDefaults tier =
     (if tier = ''smb'' then Some (quota_row [] 50 100 100 102400 1024 10 5 50)
      else if tier = ''isp'' then Some (quota_row [] 500 2000 2000 1048576 10240 50 20 200)
      else if tier = ''enterprise'' then Some (quota_row [] 5000 20000 20000 10485760 102400 200 100 1000)
      else if tier = ''whitelabel'' then Some (quota_row [] 99999 99999 99999 104857600 1024000 1000 500 5000)
      else None)"

text \<open>The eight limits of one quota copied into another.\<close>

definition copy_limits :: "tenant_quota \<Rightarrow> tenant_quota \<Rightarrow> tenant_quota" where
  "copy_limits src dst =
     dst\<lparr>q_MaxAccounts := q_MaxAccounts src, q_MaxUsers := q_MaxUsers src, q_MaxDomains := q_MaxDomains src,
         q_MaxStorageMB := q_MaxStorageMB src, q_MaxBandwidthGB := q_MaxBandwidthGB src,
         q_MaxAPIKeys := q_MaxAPIKeys src, q_MaxCustomRoles := q_MaxCustomRoles src, q_MaxSecrets := q_MaxSecrets src\<rparr>"

text \<open>The service is its database.\<close>

definition quota_Get :: "'d gorm \<Rightarrow> int \<Rightarrow> string \<Rightarrow> string \<Rightarrow> string \<Rightarrow> 'd \<Rightarrow> (go_error + tenant_quota) \<times> 'd" where
  "quota_Get G now newid tenantID tier d =
     (if tenantID = [] then (Inl ErrTenantNotFound, d)
      else (case tFirst (TenantQuotas G) (\<lambda>q. q_TenantID q = tenantID) d of
         Inr q \<Rightarrow> (Inr q, d)
       | Inl err \<Rightarrow>
           if \<not> errors_Is err ErrRecordNotFound then (Inl (Errorf ''get quota: '' err []), d)
           else
             let dflt = (case tierDefaults tier of Some q \<Rightarrow> q | None \<Rightarrow> the (tierDefaults ''smb''));
                 q = copy_limits dflt (quota_row tenantID 0 0 0 0 0 0 0 0)
             in (case tCreate (TenantQuotas G) now (BeforeCreate newid q) d of
                   (Inl e, d') \<Rightarrow> (Inl (Errorf ''auto-create quota: '' e []), d')
                 | (Inr q', d') \<Rightarrow> (Inr q', d'))))"

text \<open>The second result is the argument as the call leaves it: GORM fills in a created row.\<close>

definition quota_Put :: "'d gorm \<Rightarrow> int \<Rightarrow> string \<Rightarrow> tenant_quota \<Rightarrow> 'd \<Rightarrow> go_error option \<times> tenant_quota \<times> 'd" where
  "quota_Put G now newid q d =
     (if q_TenantID q = [] then (Some ErrTenantNotFound, q, d)
      else (case tFirst (TenantQuotas G) (\<lambda>x. q_TenantID x = q_TenantID q) d of
         Inl err \<Rightarrow>
           if errors_Is err ErrRecordNotFound then
             (case tCreate (TenantQuotas G) now (BeforeCreate newid q) d of
                (Inl e, d') \<Rightarrow> (Some e, q, d') | (Inr q', d') \<Rightarrow> (None, q', d'))
           else (Some err, q, d)
       | Inr existing \<Rightarrow>
           (case tSave (TenantQuotas G) now (copy_limits q existing) d of (e, d') \<Rightarrow> (e, q, d'))))"

text \<open>The tail of each case of \<open>Check\<close>: count, then compare with the limit.\<close>

definition check_count :: "go_error + nat \<Rightarrow> int \<Rightarrow> string \<Rightarrow> bool \<times> string \<times> go_error option" where
  "check_count current limit code =
     (case current of
        Inl e \<Rightarrow> (False, ''quota_count_failed'', Some e)
      | Inr n \<Rightarrow> if int n \<ge> limit then (False, code, None) else (True, [], None))"

definition quota_Check :: "'d gorm \<Rightarrow> int \<Rightarrow> string \<Rightarrow> string \<Rightarrow> string \<Rightarrow> 'd \<Rightarrow>
    (bool \<times> string \<times> go_error option) \<times> 'd" where
  "quota_Check G now newid tenantID res d =
     (case quota_Get G now newid tenantID ''smb'' d of
        (Inl e, d') \<Rightarrow> ((False, ''quota_lookup_failed'', Some e), d')
      | (Inr q, d') \<Rightarrow>
          (if res = ResourceAccount then
             check_count (tCount (Accounts G) (\<lambda>x. ac_TenantID x = tenantID) d') (q_MaxAccounts q) ''quota_accounts_exceeded''
           else if res = ResourceUser then
             check_count (tCount (Users G) (\<lambda>x. u_TenantID x = tenantID) d') (q_MaxUsers q) ''quota_users_exceeded''
           else if res = ResourceAPIKey then
             check_count (tCount (APIKeys G) (\<lambda>x. k_TenantID x = tenantID) d') (q_MaxAPIKeys q) ''quota_apikeys_exceeded''
           else if res = ResourceCustomRole then
             check_count (tCount (CustomRoles G) (\<lambda>x. r_TenantID x = tenantID) d') (q_MaxCustomRoles q)
               ''quota_custom_roles_exceeded''
           else if res = ResourceSecret then
             check_count (tCount (Secrets G) (\<lambda>x. sec_TenantID x = tenantID) d') (q_MaxSecrets q) ''quota_secrets_exceeded''
           else (True, [], None), d'))"

subsection \<open>Endpoints\<close>

definition quota_GetHandler :: "'d gorm \<Rightarrow> request \<Rightarrow> string \<Rightarrow> 'd \<Rightarrow> tenant_quota reply \<times> 'd" where
  "quota_GetHandler G rq tenantID d =
     (case quota_Get G (rq_now rq) (rq_id rq) tenantID ''smb'' d of
        (Inl e, d') \<Rightarrow> (Fail 500 ''quota_get_failed'', d')
      | (Inr q, d') \<Rightarrow> (Reply 200 q, d'))"

definition quota_PutHandler :: "'d gorm \<Rightarrow> request \<Rightarrow> string \<Rightarrow> tenant_quota option \<Rightarrow> 'd \<Rightarrow> tenant_quota reply \<times> 'd" where
  "quota_PutHandler G rq tenantID body d =
     (case body of
        None \<Rightarrow> (Fail 400 ''invalid_body'', d)
      | Some q \<Rightarrow>
          (case quota_Put G (rq_now rq) (rq_id rq) (q\<lparr>q_TenantID := tenantID\<rparr>) d of
             (Some e, _, d') \<Rightarrow> (Fail 500 ''quota_put_failed'', d')
           | (None, q', d') \<Rightarrow> (Reply 200 q', d')))"

definition quota_MeHandler :: "'d gorm \<Rightarrow> request \<Rightarrow> 'd \<Rightarrow> tenant_quota reply \<times> 'd" where
  "quota_MeHandler G rq d =
     (case rq_claims rq of
        None \<Rightarrow> (ErrUnauthorized, d)
      | Some cl \<Rightarrow>
          (case quota_Get G (rq_now rq) (rq_id rq) (cl_TenantID cl) ''smb'' d of
             (Inl e, d') \<Rightarrow> (Fail 500 ''quota_get_failed'', d')
           | (Inr q, d') \<Rightarrow> (Reply 200 q, d')))"

end
