(* ===== verification/Vault.thy ===== *)
theory Vault
  imports Quota Crypto
begin

text \<open>
  The encrypted secrets of a tenant: internal/vault/vault.go and its endpoints in
  internal/vault/handlers.go. A row holds \<open>base64(nonce || sealed)\<close>; the plaintext is nowhere
  in the database. The nonce a write draws is an argument.
\<close>

definition ErrSecretNotFound :: go_error where
  [go_errors]: "ErrSecretNotFound = ErrNew ''secret not found''"

definition ErrSecretExists :: go_error where
  [go_errors]: "ErrSecretExists = ErrNew ''secret already exists''"

definition ErrSecretTooLarge :: go_error where
  [go_errors]: "ErrSecretTooLarge = ErrNew ''secret too large (max 64KB)''"

definition ErrEmptyName :: go_error where
  [go_errors]: "ErrEmptyName = ErrNew ''secret name cannot be empty''"

definition maxSecretBytes :: nat where "maxSecretBytes = 64 * 1024"

record 'd vault =
  va_gorm :: "'d gorm"
  va_gcm :: gcm

definition vault_New :: "(string \<Rightarrow> go_error + gcm) \<Rightarrow> 'd gorm \<Rightarrow> string \<Rightarrow> go_error + 'd vault" where
  "vault_New aes G masterKey =
     (case new_gcm aes masterKey of Inl e \<Rightarrow> Inl e | Inr g \<Rightarrow> Inr \<lparr>va_gorm = G, va_gcm = g\<rparr>)"

record secret_meta =
  sm_ID :: string
  sm_TenantID :: string
  sm_Name :: string
  sm_Version :: int
  sm_CreatedAt :: int
  sm_CreatedBy :: string
  sm_RotatedAt :: "int option"
  sm_RotatedBy :: "string option"

definition metaOf :: "secret \<Rightarrow> secret_meta" where
  "metaOf r = \<lparr>sm_ID = ID r, sm_TenantID = sec_TenantID r, sm_Name = sec_Name r, sm_Version = sec_Version r,
     sm_CreatedAt = CreatedAt r, sm_CreatedBy = sec_CreatedByID r, sm_RotatedAt = sec_RotatedAt r,
     sm_RotatedBy = sec_RotatedByID r\<rparr>"

subsection \<open>Encryption\<close>

definition vault_encrypt :: "'d vault \<Rightarrow> go_error + string \<Rightarrow> string \<Rightarrow> go_error + string" where
  "vault_encrypt v nonce plain =
     (case nonce of
        Inl e \<Rightarrow> Inl (Errorf ''nonce: '' e [])
      | Inr n \<Rightarrow> Inr (RawURLEncode (n @ Seal (va_gcm v) n plain)))"

definition vault_decrypt :: "'d vault \<Rightarrow> string \<Rightarrow> go_error + string" where
  "vault_decrypt v blob =
     (case RawURLDecode blob of
        Inl e \<Rightarrow> Inl (Errorf ''decode: '' e [])
      | Inr raw \<Rightarrow> open_blob (va_gcm v) raw)"

subsection \<open>Operations\<close>

definition is_secret :: "string \<Rightarrow> string \<Rightarrow> secret \<Rightarrow> bool" where
  "is_secret tenantID name r \<longleftrightarrow> sec_TenantID r = tenantID \<and> sec_Name r = name"

definition rotated :: "int \<Rightarrow> string \<Rightarrow> string \<Rightarrow> secret \<Rightarrow> secret" where
  "rotated now ct actorID r =
     r\<lparr>sec_Ciphertext := ct, sec_Version := wrap64 (sec_Version r + 1), sec_RotatedAt := Some now,
       sec_RotatedByID := Some actorID\<rparr>"

definition secret_row :: "string \<Rightarrow> string \<Rightarrow> string \<Rightarrow> string \<Rightarrow> string \<Rightarrow> secret" where
  "secret_row newid tenantID name ct actorID =
     BeforeCreate newid
       \<lparr>ID = [], CreatedAt = zero_time, UpdatedAt = zero_time, DeletedAt = None, sec_TenantID = tenantID,
        sec_Name = name, sec_Ciphertext = ct, sec_Version = 1, sec_CreatedByID = actorID, sec_RotatedAt = None,
        sec_RotatedByID = None\<rparr>"

definition vault_Put :: "'d vault \<Rightarrow> int \<Rightarrow> string \<Rightarrow> go_error + string \<Rightarrow> string \<Rightarrow> string \<Rightarrow> string \<Rightarrow> string \<Rightarrow> 'd \<Rightarrow>
    (go_error + secret_meta) \<times> 'd" where
  "vault_Put v now newid nonce tenantID name plaintext actorID d =
     (if name = [] then (Inl ErrEmptyName, d)
      else if length plaintext > maxSecretBytes then (Inl ErrSecretTooLarge, d)
      else (case vault_encrypt v nonce plaintext of
         Inl e \<Rightarrow> (Inl (Errorf ''encrypt: '' e []), d)
       | Inr ct \<Rightarrow>
           (case tFirst (Secrets (va_gorm v)) (is_secret tenantID name) d of
              Inr existing \<Rightarrow>
                let row = rotated now ct actorID existing
                in (case tSave (Secrets (va_gorm v)) now row d of
                      (Some e, d') \<Rightarrow> (Inl (Errorf ''update secret: '' e []), d')
                    | (None, d') \<Rightarrow> (Inr (metaOf row), d'))
            | Inl err \<Rightarrow>
                if \<not> errors_Is err ErrRecordNotFound then (Inl (Errorf ''lookup secret: '' err []), d)
                else (case tCreate (Secrets (va_gorm v)) now (secret_row newid tenantID name ct actorID) d of
                   (Inl e, d') \<Rightarrow> (Inl (Errorf ''create secret: '' e []), d')
                 | (Inr row, d') \<Rightarrow> (Inr (metaOf row), d')))))"

definition vault_lookup :: "'d vault \<Rightarrow> string \<Rightarrow> string \<Rightarrow> 'd \<Rightarrow> go_error + secret" where
  "vault_lookup v tenantID name d =
     (case tFirst (Secrets (va_gorm v)) (is_secret tenantID name) d of
        Inl e \<Rightarrow> if errors_Is e ErrRecordNotFound then Inl ErrSecretNotFound else Inl (Errorf ''lookup secret: '' e [])
      | Inr row \<Rightarrow> Inr row)"

definition vault_Get :: "'d vault \<Rightarrow> string \<Rightarrow> string \<Rightarrow> 'd \<Rightarrow> go_error + secret_meta" where
  "vault_Get v tenantID name d =
     (case vault_lookup v tenantID name d of Inl e \<Rightarrow> Inl e | Inr row \<Rightarrow> Inr (metaOf row))"

definition vault_Read :: "'d vault \<Rightarrow> string \<Rightarrow> string \<Rightarrow> 'd \<Rightarrow> go_error + string \<times> secret_meta" where
  "vault_Read v tenantID name d =
     (case vault_lookup v tenantID name d of
        Inl e \<Rightarrow> Inl e
      | Inr row \<Rightarrow>
          (case vault_decrypt v (sec_Ciphertext row) of
             Inl e \<Rightarrow> Inl (Errorf ''decrypt: '' e [])
           | Inr plain \<Rightarrow> Inr (plain, metaOf row)))"

definition vault_List :: "'d vault \<Rightarrow> string \<Rightarrow> 'd \<Rightarrow> go_error + secret_meta list" where
  "vault_List v tenantID d =
     (case tFind (Secrets (va_gorm v)) (\<lambda>r. sec_TenantID r = tenantID) (\<lambda>a b. sec_Name a \<le> sec_Name b) d of
        Inl e \<Rightarrow> Inl (Errorf ''list secrets: '' e [])
      | Inr rows \<Rightarrow> Inr (map metaOf rows))"

definition vault_Delete :: "'d vault \<Rightarrow> int \<Rightarrow> string \<Rightarrow> string \<Rightarrow> 'd \<Rightarrow> go_error option \<times> 'd" where
  "vault_Delete v now tenantID name d =
     (case tDelete (Secrets (va_gorm v)) now (is_secret tenantID name) d of
        (Inl e, d') \<Rightarrow> (Some (Errorf ''delete secret: '' e []), d')
      | (Inr n, d') \<Rightarrow> if n = 0 then (Some ErrSecretNotFound, d') else (None, d'))"

definition vault_Count :: "'d vault \<Rightarrow> string \<Rightarrow> 'd \<Rightarrow> go_error + nat" where
  "vault_Count v tenantID d = tCount (Secrets (va_gorm v)) (\<lambda>r. sec_TenantID r = tenantID) d"

subsection \<open>Endpoints\<close>

definition RecordAccess :: "'d auditor option \<Rightarrow> request \<Rightarrow> claims \<Rightarrow> string \<Rightarrow> string \<Rightarrow> bool \<Rightarrow> 'd world \<Rightarrow> 'd world" where
  "RecordAccess a rq cl action name success w =
     record_event a rq
       (empty_event\<lparr>Action := ''vault.'' @ action, ResourceType := ''secret'', ResourceName := name,
          Result := (if success then ''success'' else ''denied''), Detail := ''tenant='' @ cl_TenantID cl,
          UserID := cl_UserID cl, UserEmail := cl_Email cl, UserRole := cl_Role cl\<rparr>) w"

text \<open>The vault is nil when the panel has no master key; its methods then panic on their first access to the database.\<close>

record 'd vault_deps =
  vd_Vault :: "'d vault option"
  vd_Audit :: "'d auditor option"
  vd_Quota :: "'d gorm option"

record put_request =
  pr_Name :: string
  pr_Plaintext :: string

text \<open>The quota check of \<open>PutHandler\<close>, on creation only; \<open>qid\<close> is the ID a new quota row gets.\<close>

definition put_quota :: "'d vault_deps \<Rightarrow> 'd vault \<Rightarrow> request \<Rightarrow> string \<Rightarrow> claims \<Rightarrow> string \<Rightarrow> 'd \<Rightarrow> secret_meta reply option \<times> 'd" where
  "put_quota D v rq qid cl name d =
     (case (vault_Get v (cl_TenantID cl) name d, vd_Quota D) of
        (Inl _, Some Q) \<Rightarrow>
          (case quota_Check Q (rq_now rq) qid (cl_TenantID cl) ResourceSecret d of
             ((_, _, Some e), d') \<Rightarrow> (Some (Fail 500 ''quota_check_failed''), d')
           | ((ok, reason, None), d') \<Rightarrow> (if ok then None else Some (Fail 403 reason), d'))
      | _ \<Rightarrow> (None, d))"

definition vault_PutHandler :: "'d vault_deps \<Rightarrow> request \<Rightarrow> string \<Rightarrow> put_request option \<Rightarrow> 'd world \<Rightarrow>
    secret_meta reply \<times> 'd world" where
  "vault_PutHandler D rq qid body w =
     (case rq_claims rq of
        None \<Rightarrow> (ErrUnauthorized, w)
      | Some cl \<Rightarrow>
          (case body of
             None \<Rightarrow> (Fail 400 ''invalid_body'', w)
           | Some req \<Rightarrow>
               if pr_Name req = [] \<or> pr_Plaintext req = [] then (Fail 400 ''missing_name_or_value'', w)
               else (case vd_Vault D of None \<Rightarrow> (Panic, w) | Some v \<Rightarrow>
                 (case put_quota D v rq qid cl (pr_Name req) (wdb w) of
                  (Some r, d1) \<Rightarrow> (r, w\<lparr>wdb := d1\<rparr>)
                | (None, d1) \<Rightarrow>
                    (case vault_Put v (rq_now rq) (rq_id rq) (rq_nonce rq) (cl_TenantID cl) (pr_Name req)
                            (pr_Plaintext req) (cl_UserID cl) d1 of
                       (Inl e, d2) \<Rightarrow>
                         (if e = ErrSecretTooLarge then Fail 413 ''secret_too_large''
                          else Fail 500 ''vault_put_failed'', w\<lparr>wdb := d2\<rparr>)
                     | (Inr m, d2) \<Rightarrow>
                         (Reply 201 m, RecordAccess (vd_Audit D) rq cl ''write'' (pr_Name req) True (w\<lparr>wdb := d2\<rparr>)))))))"

definition vault_GetHandler :: "'d vault_deps \<Rightarrow> request \<Rightarrow> string \<Rightarrow> 'd world \<Rightarrow> secret_meta reply \<times> 'd world" where
  "vault_GetHandler D rq name w =
     (case rq_claims rq of
        None \<Rightarrow> (ErrUnauthorized, w)
      | Some cl \<Rightarrow>
          if name = [] then (Fail 400 ''missing_name'', w)
          else (case vd_Vault D of None \<Rightarrow> (Panic, w) | Some v \<Rightarrow>
            (case vault_Get v (cl_TenantID cl) name (wdb w) of
             Inl e \<Rightarrow>
               if e = ErrSecretNotFound
               then (Fail 404 ''secret_not_found'', RecordAccess (vd_Audit D) rq cl ''read'' name False w)
               else (Fail 500 ''vault_get_failed'', w)
           | Inr m \<Rightarrow> (Reply 200 m, RecordAccess (vd_Audit D) rq cl ''read'' name True w))))"

definition vault_ReadHandler :: "'d vault_deps \<Rightarrow> request \<Rightarrow> string \<Rightarrow> 'd world \<Rightarrow> (string \<times> string) reply \<times> 'd world" where
  "vault_ReadHandler D rq name w =
     (case rq_claims rq of
        None \<Rightarrow> (ErrUnauthorized, w)
      | Some cl \<Rightarrow>
          (case vd_Vault D of None \<Rightarrow> (Panic, w) | Some v \<Rightarrow>
          (case vault_Read v (cl_TenantID cl) name (wdb w) of
             Inl e \<Rightarrow>
               (if e = ErrSecretNotFound then Fail 404 ''secret_not_found'' else Fail 500 ''vault_read_failed'',
                RecordAccess (vd_Audit D) rq cl ''reveal'' name False w)
           | Inr (plain, m) \<Rightarrow>
               (Reply 200 (name, plain), RecordAccess (vd_Audit D) rq cl ''reveal'' name True w))))"

definition vault_ListHandler :: "'d vault_deps \<Rightarrow> request \<Rightarrow> 'd world \<Rightarrow> secret_meta list reply" where
  "vault_ListHandler D rq w =
     (case rq_claims rq of
        None \<Rightarrow> ErrUnauthorized
      | Some cl \<Rightarrow>
          (case vd_Vault D of None \<Rightarrow> Panic | Some v \<Rightarrow>
          (case vault_List v (cl_TenantID cl) (wdb w) of
             Inl e \<Rightarrow> Fail 500 ''vault_list_failed''
           | Inr items \<Rightarrow> Reply 200 items)))"

definition vault_DeleteHandler :: "'d vault_deps \<Rightarrow> request \<Rightarrow> string \<Rightarrow> 'd world \<Rightarrow> unit reply \<times> 'd world" where
  "vault_DeleteHandler D rq name w =
     (case rq_claims rq of
        None \<Rightarrow> (ErrUnauthorized, w)
      | Some cl \<Rightarrow>
          (case vd_Vault D of None \<Rightarrow> (Panic, w) | Some v \<Rightarrow>
          (case vault_Delete v (rq_now rq) (cl_TenantID cl) name (wdb w) of
             (Some e, d) \<Rightarrow>
               if e = ErrSecretNotFound
               then (Fail 404 ''secret_not_found'', RecordAccess (vd_Audit D) rq cl ''delete'' name False (w\<lparr>wdb := d\<rparr>))
               else (Fail 500 ''vault_delete_failed'', w\<lparr>wdb := d\<rparr>)
           | (None, d) \<Rightarrow> (Reply 204 (), RecordAccess (vd_Audit D) rq cl ''delete'' name True (w\<lparr>wdb := d\<rparr>)))))"

end
