(* ===== verification/VaultProps.thy ===== *)
theory VaultProps
  imports Vault
begin

text \<open>
  What the vault promises: it is a map from tenant and name to plaintext, rotation counts versions, a
  deleted name cannot be used again, and the quota on secrets holds.
\<close>

subsection \<open>The vault as a map\<close>

text \<open>The unique index covers deleted rows too; every live row can be decrypted.\<close>

definition secrets_ok :: "secret list \<Rightarrow> bool" where
  "secrets_ok rows \<longleftrightarrow> ids_ok rows \<and> distinct (map (\<lambda>r. (sec_TenantID r, sec_Name r)) rows)"

definition vault_ok :: "'d vault \<Rightarrow> secret list \<Rightarrow> bool" where
  "vault_ok v rows \<longleftrightarrow> secrets_ok rows \<and> (\<forall>r\<in>set rows. live r \<longrightarrow> (\<exists>p. vault_decrypt v (sec_Ciphertext r) = Inr p))"

definition plain_of :: "'d vault \<Rightarrow> secret \<Rightarrow> string option" where
  "plain_of v r = (case vault_decrypt v (sec_Ciphertext r) of Inl e \<Rightarrow> None | Inr p \<Rightarrow> Some p)"

definition vault_abs :: "'d vault \<Rightarrow> secret list \<Rightarrow> string \<times> string \<Rightarrow> string option" where
  "vault_abs v rows k = Option.bind (first_row (is_secret (fst k) (snd k)) rows) (plain_of v)"

lemma vault_decrypt_encrypt:
  "aead_ok (va_gcm v) \<Longrightarrow> length n = NonceSize \<Longrightarrow> vault_encrypt v (Inr n) p = Inr ct \<Longrightarrow> vault_decrypt v ct = Inr p"
  by (auto simp: vault_encrypt_def vault_decrypt_def RawURLDecode_Encode open_blob_seal)

lemma secrets_ok_unique:
  assumes "secrets_ok rows" "r \<in> set rows" "x \<in> set rows" "is_secret t n r" "is_secret t n x"
  shows "x = r"
  using assms by (auto simp: secrets_ok_def is_secret_def distinct_map inj_on_def)

lemma first_row_secret:
  assumes "secrets_ok rows"
  shows "first_row (is_secret t n) rows = Some r \<longleftrightarrow> r \<in> set rows \<and> live r \<and> is_secret t n r"
proof
  assume "r \<in> set rows \<and> live r \<and> is_secret t n r"
  then show "first_row (is_secret t n) rows = Some r"
    using secrets_ok_unique [OF assms] by (intro first_row_unique) blast+
qed (use first_row_Some in blast)

lemma vault_abs_Some:
  assumes "secrets_ok rows" "r \<in> set rows" "live r" "is_secret t n r"
  shows "vault_abs v rows (t, n) = plain_of v r"
proof -
  have "first_row (is_secret t n) rows = Some r" using assms by (simp add: first_row_secret)
  then show ?thesis by (simp add: vault_abs_def)
qed

lemma vault_abs_None: "(\<forall>r\<in>set rows. live r \<longrightarrow> \<not> is_secret t n r) \<Longrightarrow> vault_abs v rows (t, n) = None"
  by (simp add: vault_abs_def first_row_None [THEN iffD2])

lemma vault_ok_abs:
  "vault_ok v rows \<Longrightarrow> vault_abs v rows (t, n) = None \<longleftrightarrow> first_row (is_secret t n) rows = None"
proof (cases "first_row (is_secret t n) rows")
  case (Some r)
  assume "vault_ok v rows"
  then obtain p where "vault_decrypt v (sec_Ciphertext r) = Inr p"
    using first_row_Some [OF Some] by (auto simp: vault_ok_def)
  then show ?thesis by (simp add: vault_abs_def Some plain_of_def)
qed (simp add: vault_abs_def)

text \<open>The rows after each kind of write.\<close>

lemma secret_row_simps [simp]:
  "sec_TenantID (secret_row i t n ct a) = t" "sec_Name (secret_row i t n ct a) = n" "sec_Ciphertext (secret_row i t n ct a) = ct"
  "sec_Version (secret_row i t n ct a) = 1" "live (secret_row i t n ct a)" "DeletedAt (secret_row i t n ct a) = None"
  "sec_RotatedAt (secret_row i t n ct a) = None" "i \<noteq> [] \<Longrightarrow> ID (secret_row i t n ct a) = i"
  by (simp_all add: secret_row_def live_def BeforeCreate_def)

lemma rotated_simps [simp]:
  "ID (rotated now ct a r) = ID r" "sec_TenantID (rotated now ct a r) = sec_TenantID r" "sec_Name (rotated now ct a r) = sec_Name r"
  "sec_Ciphertext (rotated now ct a r) = ct" "live (rotated now ct a r) = live r"
  "sec_Version (rotated now ct a r) = wrap64 (sec_Version r + 1)" "sec_RotatedAt (rotated now ct a r) = Some now"
  by (simp_all add: rotated_def live_def)

lemma append_abs:
  assumes ok: "vault_ok v rows" and new: "\<forall>x\<in>set rows. \<not> secret_clash x r" and "live r"
    and pl: "vault_decrypt v (sec_Ciphertext r) = Inr p"
  shows "vault_ok v (rows @ [r])" "vault_abs v (rows @ [r]) = (vault_abs v rows)((sec_TenantID r, sec_Name r) \<mapsto> p)"
proof -
  have s: "secrets_ok (rows @ [r])"
    using ok new by (auto simp: vault_ok_def secrets_ok_def ids_ok_def secret_clash_def)
  then show "vault_ok v (rows @ [r])" using ok pl by (auto simp: vault_ok_def)
  show "vault_abs v (rows @ [r]) = (vault_abs v rows)((sec_TenantID r, sec_Name r) \<mapsto> p)"
  proof
    fix k :: "string \<times> string"
    obtain t n where k: "k = (t, n)" by (cases k)
    show "vault_abs v (rows @ [r]) k = ((vault_abs v rows)((sec_TenantID r, sec_Name r) \<mapsto> p)) k"
    proof (cases "is_secret t n r")
      case True
      then have "vault_abs v (rows @ [r]) (t, n) = plain_of v r"
        using vault_abs_Some [OF s _ \<open>live r\<close> True] by simp
      then show ?thesis using True pl k by (auto simp: plain_of_def is_secret_def)
    next
      case False
      then have "sel (is_secret t n) (rows @ [r]) = sel (is_secret t n) rows" by (simp add: sel_def)
      then have "vault_abs v (rows @ [r]) k = vault_abs v rows k" by (simp add: vault_abs_def first_row_def k del: sel_append)
      then show ?thesis using False k by (auto simp: is_secret_def)
    qed
  qed
qed

lemma save_abs:
  assumes ok: "vault_ok v rows" and r: "r \<in> set rows" "live r"
    and r': "ID r' = ID r" "live r'" "sec_TenantID r' = sec_TenantID r" "sec_Name r' = sec_Name r"
    and pl: "vault_decrypt v (sec_Ciphertext r') = Inr p"
  shows "vault_ok v (save_row now r' rows)"
    and "vault_abs v (save_row now r' rows) = (vault_abs v rows)((sec_TenantID r, sec_Name r) \<mapsto> p)"
proof -
  let ?rows = "save_row now r' rows"
  have ids: "ids_ok rows" and sok: "secrets_ok rows" using ok by (auto simp: vault_ok_def secrets_ok_def)
  have uniq: "x = r" if "x \<in> set rows" "ID x = ID r'" for x using ids_ok_unique [OF ids r(1)] that r'(1) by simp
  have "map (\<lambda>x. (sec_TenantID x, sec_Name x)) ?rows = map (\<lambda>x. (sec_TenantID x, sec_Name x)) rows"
    unfolding save_row_def map_map by (rule map_cong) (use uniq r' in \<open>fastforce+\<close>)
  then have s: "secrets_ok ?rows" using sok by (simp add: secrets_ok_def)
  have mem: "x \<in> set ?rows \<longleftrightarrow> x = r'\<lparr>UpdatedAt := now\<rparr> \<or> x \<in> set rows \<and> x \<noteq> r" for x
    unfolding in_save_row using r r'(1) uniq by metis
  have "\<exists>p. vault_decrypt v (sec_Ciphertext x) = Inr p" if "x \<in> set ?rows" "live x" for x
    using that ok pl unfolding mem vault_ok_def by auto
  with s show "vault_ok v ?rows" by (simp add: vault_ok_def)
  show "vault_abs v ?rows = (vault_abs v rows)((sec_TenantID r, sec_Name r) \<mapsto> p)"
  proof
    fix k :: "string \<times> string"
    obtain t n where k: "k = (t, n)" by (cases k)
    show "vault_abs v ?rows k = ((vault_abs v rows)((sec_TenantID r, sec_Name r) \<mapsto> p)) k"
    proof (cases "is_secret t n r")
      case True
      then have "is_secret t n (r'\<lparr>UpdatedAt := now\<rparr>)" "live (r'\<lparr>UpdatedAt := now\<rparr>)"
        using r' by (auto simp: is_secret_def live_def)
      then have "vault_abs v ?rows (t, n) = plain_of v (r'\<lparr>UpdatedAt := now\<rparr>)"
        using mem by (intro vault_abs_Some [OF s]) auto
      then show ?thesis using True pl k by (auto simp: plain_of_def is_secret_def)
    next
      case False
      have "first_row (is_secret t n) ?rows = Some x \<longleftrightarrow> first_row (is_secret t n) rows = Some x" for x
        using False mem r' unfolding first_row_secret [OF s] first_row_secret [OF sok] by (auto simp: is_secret_def)
      then have "first_row (is_secret t n) ?rows = first_row (is_secret t n) rows"
        by (metis option.exhaust)
      then show ?thesis using False k by (auto simp: vault_abs_def is_secret_def)
    qed
  qed
qed

lemma del_abs:
  assumes ok: "vault_ok v rows"
  shows "vault_ok v (del_rows now (is_secret t n) rows)"
    and "vault_abs v (del_rows now (is_secret t n) rows) = (vault_abs v rows)((t, n) := None)"
proof -
  have "map (\<lambda>x. (sec_TenantID x, sec_Name x)) (del_rows now (is_secret t n) rows) =
      map (\<lambda>x. (sec_TenantID x, sec_Name x)) rows" by (auto simp: del_rows_def)
  then have "secrets_ok (del_rows now (is_secret t n) rows)"
    using ok by (simp only: vault_ok_def secrets_ok_def ids_ok_del_rows)
  moreover have "r \<in> set rows" if "r \<in> set (del_rows now (is_secret t n) rows)" "live r" for r
    using that by (auto simp: del_rows_def live_def split: if_splits)
  ultimately show "vault_ok v (del_rows now (is_secret t n) rows)"
    using ok unfolding vault_ok_def by blast
  show "vault_abs v (del_rows now (is_secret t n) rows) = (vault_abs v rows)((t, n) := None)"
  proof
    fix k :: "string \<times> string"
    obtain t' n' where k: "k = (t', n')" by (cases k)
    have "first_row (is_secret t' n') (del_rows now (is_secret t n) rows) =
        (if (t', n') = (t, n) then None else first_row (is_secret t' n') rows)"
    proof (cases "(t', n') = (t, n)")
      case True
      then show ?thesis by (simp add: first_row_None)
    next
      case False
      then have "(\<lambda>r. is_secret t' n' r \<and> \<not> is_secret t n r) = is_secret t' n'" by (auto simp: is_secret_def)
      then show ?thesis unfolding if_not_P [OF False] by simp
    qed
    then show "vault_abs v (del_rows now (is_secret t n) rows) k = ((vault_abs v rows)((t, n) := None)) k"
      by (auto simp: vault_abs_def k)
  qed
qed

subsection \<open>The operations on the map\<close>

lemma vault_Put_early:
  assumes "n = [] \<or> length p > maxSecretBytes \<or> (\<exists>e. vault_encrypt v nonce p = Inl e)"
  shows "\<exists>e. vault_Put v now newid nonce t n p a d = (Inl e, d)"
  using assms by (cases "n = []"; cases "length p > maxSecretBytes") (auto simp: vault_Put_def)

context gorm_db
begin

text \<open>A write fails and leaves the rows, rotates the secret of the name, or adds a row.\<close>

lemma vault_Put_cases:
  assumes "va_gorm v = G" "vault_Put v now newid nonce t n p a d = (res, d')"
  obtains (failed) e where "res = Inl e" "view d' = view d"
    | (rotated) r ct where "vault_encrypt v nonce p = Inr ct" "tFirst (Secrets G) (is_secret t n) d = Inr r"
        "res = Inr (metaOf (rotated now ct a r))" "view d' = (view d)\<lparr>db_secrets := save_row now (rotated now ct a r) (db_secrets (view d))\<rparr>"
    | (created) row ct e where "vault_encrypt v nonce p = Inr ct" "tFirst (Secrets G) (is_secret t n) d = Inl e"
        "row = stamp now (secret_defaults (secret_row newid t n ct a))" "\<forall>x\<in>set (db_secrets (view d)). \<not> secret_clash x row"
        "res = Inr (metaOf row)" "view d' = (view d)\<lparr>db_secrets := db_secrets (view d) @ [row]\<rparr>"
proof (cases "n = [] \<or> length p > maxSecretBytes \<or> (\<exists>e. vault_encrypt v nonce p = Inl e)")
  case True
  then show ?thesis using vault_Put_early [of n p v nonce now newid t a d] assms(2) failed by auto
next
  case False
  then obtain ct where ct: "vault_encrypt v nonce p = Inr ct" by (cases "vault_encrypt v nonce p") auto
  show ?thesis
  proof (cases "tFirst (Secrets G) (is_secret t n) d")
    case (Inr r)
    let ?r = "rotated now ct a r"
    obtain x where sv: "tSave (Secrets G) now ?r d = (x, d')" "res = (case x of Some e \<Rightarrow> Inl (Errorf ''update secret: '' e []) | None \<Rightarrow> Inr (metaOf ?r))"
      using assms False ct Inr by (auto simp: vault_Put_def Let_def split: option.splits prod.splits)
    have "first_row (\<lambda>x. ID x = ID ?r) (db_secrets (view d)) \<noteq> None"
      using secret.first_mem [OF Inr] by (auto simp: first_row_None)
    then show ?thesis
      using sv secret.save_ok [of now ?r d d'] secret.save_fail [of now ?r d _ d'] failed rotated [OF ct Inr] by (cases x) auto
  next
    case (Inl e)
    let ?r = "secret_row newid t n ct a"
    show ?thesis
    proof (cases "errors_Is e ErrRecordNotFound")
      case True
      then obtain x where cr: "tCreate (Secrets G) now ?r d = (x, d')" "res = (case x of Inl e \<Rightarrow> Inl (Errorf ''create secret: '' e []) | Inr row \<Rightarrow> Inr (metaOf row))"
        using assms False ct Inl by (auto simp: vault_Put_def split: sum.splits prod.splits)
      then show ?thesis
        using secret.create_ok [of now ?r d _ d'] secret.create_fail [of now ?r d _ d'] failed created [OF ct Inl]
        by (cases x) auto
    qed (use assms False ct Inl failed in \<open>auto simp: vault_Put_def\<close>)
  qed
qed

lemma vault_Put_abs:
  assumes "va_gorm v = G" "aead_ok (va_gcm v)" "length nc = NonceSize" "vault_ok v (db_secrets (view d))"
    and "vault_Put v now newid (Inr nc) t n p a d = (res, d')"
  shows "vault_ok v (db_secrets (view d')) \<and> vault_abs v (db_secrets (view d')) =
    (case res of Inl e \<Rightarrow> vault_abs v (db_secrets (view d)) | Inr m \<Rightarrow> (vault_abs v (db_secrets (view d)))((t, n) \<mapsto> p))"
  using assms(1,5)
proof (cases rule: vault_Put_cases)
  case (rotated r ct)
  note r = secret.first_mem [OF rotated(2)]
  show ?thesis
    using save_abs [OF assms(4) r(1,2), of "rotated now ct a r" p now] r(2,3) vault_decrypt_encrypt [OF assms(2,3) rotated(1)] rotated(3,4)
    by (simp add: is_secret_def)
next
  case (created row ct e)
  have row: "live row" "sec_TenantID row = t" "sec_Name row = n" "sec_Ciphertext row = ct"
    using created(3) by (simp_all add: secret_defaults_def live_def)
  show ?thesis
    using append_abs [OF assms(4) created(4) row(1), of p] row vault_decrypt_encrypt [OF assms(2,3) created(1)] created(5,6) by simp
qed (use assms(4) in simp)

lemma vault_Delete_abs:
  assumes "va_gorm v = G" "vault_ok v (db_secrets (view d))" "vault_Delete v now t n d = (res, d')"
  shows "vault_ok v (db_secrets (view d')) \<and>
    (res = None \<longrightarrow> vault_abs v (db_secrets (view d)) (t, n) \<noteq> None \<and>
       vault_abs v (db_secrets (view d')) = (vault_abs v (db_secrets (view d)))((t, n) := None)) \<and>
    (res \<noteq> None \<longrightarrow> vault_abs v (db_secrets (view d')) = vault_abs v (db_secrets (view d)))"
proof -
  obtain x d1 where del: "tDelete (Secrets G) now (is_secret t n) d = (x, d1)" by fastforce
  show ?thesis
  proof (cases x)
    case (Inl e)
    then show ?thesis using secret.delete_fail del assms by (auto simp: vault_Delete_def)
  next
    case (Inr k)
    note o = secret.delete_ok [OF del [unfolded Inr]]
    have rows: "db_secrets (view d') = del_rows now (is_secret t n) (db_secrets (view d))"
      "res = (if k = 0 then Some ErrSecretNotFound else None)"
      using o assms(1,3) del Inr by (auto simp: vault_Delete_def split: if_splits)
    show ?thesis
    proof (cases "k = 0")
      case True
      then have "sel (is_secret t n) (db_secrets (view d)) = []" using o by simp
      then have "vault_abs v (db_secrets (view d)) (t, n) = None"
        by (intro vault_abs_None) (auto simp: sel_def filter_empty_conv)
      then show ?thesis using del_abs [OF assms(2), of now t n] rows True by (simp add: fun_upd_idem)
    next
      case False
      then have "sel (is_secret t n) (db_secrets (view d)) \<noteq> []" using o by auto
      then obtain r where "r \<in> set (db_secrets (view d))" "live r" "is_secret t n r" by (auto simp: sel_def filter_empty_conv)
      then have "vault_abs v (db_secrets (view d)) (t, n) \<noteq> None"
        using vault_ok_abs [OF assms(2)] by (auto simp: first_row_None)
      then show ?thesis using del_abs [OF assms(2), of now t n] rows False by simp
    qed
  qed
qed

end

context gorm_db_up
begin

lemma vault_Read_abs:
  assumes "va_gorm v = G" "vault_ok v (db_secrets (view d))"
  shows "case vault_abs v (db_secrets (view d)) (t, n) of
      None \<Rightarrow> vault_Read v t n d = Inl ErrSecretNotFound
    | Some p \<Rightarrow> \<exists>r\<in>set (db_secrets (view d)). live r \<and> is_secret t n r \<and> vault_Read v t n d = Inr (p, metaOf r)"
proof (cases "first_row (is_secret t n) (db_secrets (view d))")
  case None
  then show ?thesis
    using assms(1) by (simp add: vault_abs_def vault_Read_def vault_lookup_def secret.first_up)
next
  case (Some r)
  note r = first_row_Some [OF Some]
  then obtain p where "vault_decrypt v (sec_Ciphertext r) = Inr p" using assms(2) by (auto simp: vault_ok_def)
  then show ?thesis
    using assms(1) Some r by (auto simp: vault_abs_def plain_of_def vault_Read_def vault_lookup_def secret.first_up)
qed

end

text \<open>
  C7: The vault is a map. Seen as a function from tenant and name to plaintext, \<open>Put\<close> is an update
  at one point, \<open>Delete\<close> removes one point and succeeds only if there was one, \<open>Read\<close> is
  application, and a failed call changes nothing; so no operation touches another tenant's or another
  name's secret. The map is read back through the stored ciphertexts.
\<close>

theorem vault_refines_map:
  assumes "gorm_db_up G view" "va_gorm v = G" "aead_ok (va_gcm v)" "length nc = NonceSize"
    and "vault_ok v (db_secrets (view d))" "at = (\<lambda>d. vault_abs v (db_secrets (view d)))"
    and "vault_Put v now newid (Inr nc) t n p a d = (put, d1)" "vault_Delete v now t n d = (del, d2)"
  shows "vault_ok v (db_secrets (view d1)) \<and> vault_ok v (db_secrets (view d2)) \<and>
    at d1 = (case put of Inl e \<Rightarrow> at d | Inr m \<Rightarrow> (at d)((t, n) \<mapsto> p)) \<and>
    at d2 = (case del of Some e \<Rightarrow> at d | None \<Rightarrow> (at d)((t, n) := None)) \<and>
    (del = None \<longrightarrow> at d (t, n) \<noteq> None) \<and>
    map_sum (\<lambda>e. e) fst (vault_Read v t n d) = (case at d (t, n) of None \<Rightarrow> Inl ErrSecretNotFound | Some q \<Rightarrow> Inr q)"
proof -
  have db: "gorm_db G view" using assms(1) by (rule gorm_db_up.axioms(1))
  note put = gorm_db.vault_Put_abs [OF db assms(2-5,7)] and del = gorm_db.vault_Delete_abs [OF db assms(2,5,8)]
  have "map_sum (\<lambda>e. e) fst (vault_Read v t n d) = (case at d (t, n) of None \<Rightarrow> Inl ErrSecretNotFound | Some q \<Rightarrow> Inr q)"
    using gorm_db_up.vault_Read_abs [OF assms(1,2,5), of t n] assms(6) by (auto split: option.splits)
  then show ?thesis
    using put del assms(6) by (cases del) auto
qed

context gorm_db_up
begin

lemma vault_Put_first:
  assumes "va_gorm v = G" "secrets_ok (db_secrets (view d))" "n \<noteq> []" "length p \<le> maxSecretBytes" "newid \<noteq> []"
    and "\<forall>r\<in>set (db_secrets (view d)). ID r \<noteq> newid" "vault_Put v now newid (Inr nc) t n p a d = (res, d')"
    and "\<forall>r\<in>set (db_secrets (view d)). \<not> is_secret t n r"
  shows "\<exists>m. res = Inr m \<and> sm_Version m = 1 \<and> sm_RotatedAt m = None"
proof -
  obtain ct where ct: "vault_encrypt v (Inr nc) p = Inr ct" by (simp add: vault_encrypt_def)
  have miss: "tFirst (Secrets G) (is_secret t n) d = Inl ErrRecordNotFound"
    using assms(8) by (simp add: secret.first_up first_row_None [THEN iffD2])
  have "\<not> secret_clash x (stamp now (secret_defaults (secret_row newid t n ct a)))" if "x \<in> set (db_secrets (view d))" for x
    using that assms(5,6,8) by (auto simp: secret_clash_def is_secret_def secret_defaults_def)
  then obtain row d1 where cr: "tCreate (Secrets G) now (secret_row newid t n ct a) d = (Inr row, d1)"
    using secret.create_up by blast
  then have "sec_Version row = 1" "sec_RotatedAt row = None"
    using secret.create_ok [OF cr] by (simp_all add: secret_defaults_def)
  then show ?thesis
    using assms(1,3,4,7) ct miss cr by (auto simp: vault_Put_def metaOf_def)
qed

lemma vault_Put_deleted:
  assumes "va_gorm v = G" "secrets_ok (db_secrets (view d))" "n \<noteq> []" "length p \<le> maxSecretBytes" "newid \<noteq> []"
    and "\<forall>r\<in>set (db_secrets (view d)). ID r \<noteq> newid" "vault_Put v now newid (Inr nc) t n p a d = (res, d')"
    and "r \<in> set (db_secrets (view d))" "is_secret t n r" "\<not> live r"
  shows "(\<exists>e. res = Inl e) \<and> view d' = view d"
proof -
  obtain ct where ct: "vault_encrypt v (Inr nc) p = Inr ct" by (simp add: vault_encrypt_def)
  have "first_row (is_secret t n) (db_secrets (view d)) = None"
    using secrets_ok_unique [OF assms(2,8) _ assms(9)] assms(10) by (auto simp: first_row_None)
  then have miss: "tFirst (Secrets G) (is_secret t n) d = Inl ErrRecordNotFound"
    by (simp add: secret.first_up)
  obtain x d1 where cr: "tCreate (Secrets G) now (secret_row newid t n ct a) d = (x, d1)" by fastforce
  have clash: "secret_clash r (stamp now (secret_defaults (secret_row newid t n ct a)))"
    using assms(9) by (simp add: secret_clash_def is_secret_def secret_defaults_def)
  have "\<exists>e. x = Inl e"
  proof (cases x)
    case (Inr row)
    then show ?thesis using secret.create_ok [OF cr [unfolded Inr]] clash assms(8) by blast
  qed simp
  then obtain e where e: "x = Inl e" by blast
  then have "view d1 = view d" using secret.create_fail cr by blast
  then show ?thesis
    using assms(1,3,4,7) ct miss cr e by (auto simp: vault_Put_def)
qed

lemma vault_Put_version:
  assumes "va_gorm v = G" "secrets_ok (db_secrets (view d))" "n \<noteq> []" "length p \<le> maxSecretBytes" "newid \<noteq> []"
    and "\<forall>r\<in>set (db_secrets (view d)). ID r \<noteq> newid" "vault_Put v now newid (Inr nc) t n p a d = (res, d')"
    and "r \<in> set (db_secrets (view d))" "is_secret t n r" "live r"
  shows "\<exists>m. res = Inr m \<and> sm_ID m = ID r \<and> sm_Version m = wrap64 (sec_Version r + 1) \<and>
    sm_RotatedAt m = Some now \<and> sm_RotatedBy m = Some a"
proof -
  obtain ct where ct: "vault_encrypt v (Inr nc) p = Inr ct" by (simp add: vault_encrypt_def)
  have hit: "tFirst (Secrets G) (is_secret t n) d = Inr r"
    using assms(2,8-10) by (simp add: secret.first_up first_row_secret [THEN iffD2])
  have "\<not> secret_clash x (rotated now ct a r)" if x: "x \<in> set (db_secrets (view d))" "ID x \<noteq> ID (rotated now ct a r)" for x
  proof -
    have "\<not> is_secret t n x"
      using secrets_ok_unique [OF assms(2,8) x(1) assms(9)] x(2) by auto
    then show ?thesis using assms(9) x(2) by (auto simp: secret_clash_def is_secret_def)
  qed
  then obtain d1 where "tSave (Secrets G) now (rotated now ct a r) d = (None, d1)"
    using secret.save_up [of d "rotated now ct a r" now] by blast
  then show ?thesis
    using assms(1,3,4,7) ct hit by (auto simp: vault_Put_def Let_def metaOf_def rotated_def)
qed

end

text \<open>
  Versions count the writes of a name. The first \<open>Put\<close> of a name stores version 1, every later
  one stores the next version with the time and the user of the rotation; a name that was deleted can
  never be written again, because the unique index still holds the deleted row.
\<close>

theorem vault_versions:
  assumes "gorm_db_up G view" "va_gorm v = G" "secrets_ok (db_secrets (view d))"
    and "n \<noteq> []" "length p \<le> maxSecretBytes" "newid \<noteq> []" "\<forall>r\<in>set (db_secrets (view d)). ID r \<noteq> newid"
    and "vault_Put v now newid (Inr nc) t n p a d = (res, d')"
  shows "((\<forall>r\<in>set (db_secrets (view d)). \<not> is_secret t n r) \<longrightarrow>
        (\<exists>m. res = Inr m \<and> sm_Version m = 1 \<and> sm_RotatedAt m = None)) \<and>
    (\<forall>r\<in>set (db_secrets (view d)). is_secret t n r \<longrightarrow> live r \<longrightarrow>
        (\<exists>m. res = Inr m \<and> sm_ID m = ID r \<and> sm_Version m = wrap64 (sec_Version r + 1) \<and>
           sm_RotatedAt m = Some now \<and> sm_RotatedBy m = Some a)) \<and>
    (\<forall>r\<in>set (db_secrets (view d)). is_secret t n r \<longrightarrow> \<not> live r \<longrightarrow> (\<exists>e. res = Inl e) \<and> view d' = view d)"
  using gorm_db_up.vault_Put_version [OF assms] gorm_db_up.vault_Put_deleted [OF assms] gorm_db_up.vault_Put_first [OF assms]
  by blast

subsection \<open>The quota on secrets\<close>

definition count_secrets :: "string \<Rightarrow> database \<Rightarrow> nat" where
  "count_secrets t db = length (sel (\<lambda>r. sec_TenantID r = t) (db_secrets db))"

lemma length_sel_save_row:
  assumes "ids_ok rows" "r \<in> set rows" "live r" "ID r' = ID r" "live r'" "\<And>u. q (r'\<lparr>UpdatedAt := u\<rparr>) = q r"
  shows "length (sel q (save_row now r' rows)) = length (sel q rows)"
proof -
  have "live (if live x \<and> ID x = ID r' then r'\<lparr>UpdatedAt := now\<rparr> else x) \<and>
      q (if live x \<and> ID x = ID r' then r'\<lparr>UpdatedAt := now\<rparr> else x) \<longleftrightarrow> live x \<and> q x" if "x \<in> set rows" for x
    using ids_ok_unique [OF assms(1,2) that] assms(3-6) by (auto simp: live_def)
  then show ?thesis
    by (simp add: sel_def save_row_def filter_map o_def cong: filter_cong)
qed

context gorm_db
begin

lemma quota_Get_row:
  assumes "quota_Get G now newid t tier d = (Inr q, d')"
  shows "q \<in> set (db_quotas (view d'))" "live q" "q_TenantID q = t" "\<exists>qs. view d' = (view d)\<lparr>db_quotas := qs\<rparr>"
proof -
  let ?P = "\<lambda>q. q_TenantID q = t"
  have "q \<in> set (db_quotas (view d')) \<and> live q \<and> q_TenantID q = t \<and> (\<exists>qs. view d' = (view d)\<lparr>db_quotas := qs\<rparr>)"
  proof (cases "tFirst (TenantQuotas G) ?P d")
    case (Inr r)
    then have "q = r" "d' = d" using assms by (auto simp: quota_Get_def split: if_splits)
    then show ?thesis
      using tenant_quota.first_mem [OF Inr] by (auto intro: exI [of _ "db_quotas (view d)"])
  next
    case (Inl e)
    then obtain row where row: "tCreate (TenantQuotas G) now (BeforeCreate newid row) d = (Inr q, d')" "q_TenantID row = t" "live row"
      using assms by (auto simp: quota_Get_def Let_def copy_limits_def quota_row_def live_def split: if_splits sum.splits prod.splits)
    from tenant_quota.create_ok [OF row(1)] have "q = stamp now (BeforeCreate newid row)"
      "view d' = (view d)\<lparr>db_quotas := db_quotas (view d) @ [q]\<rparr>"
      by (simp_all add: tenant_quota_defaults_def)
    then show ?thesis using row(2,3) by (auto simp: live_def)
  qed
  then show "q \<in> set (db_quotas (view d'))" "live q" "q_TenantID q = t" "\<exists>qs. view d' = (view d)\<lparr>db_quotas := qs\<rparr>" by auto
qed

lemma quota_Get_frame: "\<exists>qs. view (snd (quota_Get G now newid t tier d)) = (view d)\<lparr>db_quotas := qs\<rparr>"
proof -
  obtain x d' where g: "quota_Get G now newid t tier d = (x, d')" by fastforce
  have same: "\<exists>qs. view d = (view d)\<lparr>db_quotas := qs\<rparr>" by (rule exI [of _ "db_quotas (view d)"]) simp
  show ?thesis
  proof (cases x)
    case (Inr q)
    then show ?thesis using quota_Get_row(4) g by simp
  next
    case (Inl e)
    have "view d' = view d"
      using g Inl tenant_quota.create_fail by (auto simp: quota_Get_def Let_def split: if_splits sum.splits prod.splits)
    then show ?thesis using g same by simp
  qed
qed

lemma quota_Check_secret:
  assumes "quota_Check G now newid t ResourceSecret d = ((ok, why, err), d')"
  shows "db_secrets (view d') = db_secrets (view d)"
    and "ok \<Longrightarrow> \<exists>q\<in>set (db_quotas (view d')). live q \<and> q_TenantID q = t \<and> int (count_secrets t (view d')) < q_MaxSecrets q"
proof -
  obtain x d1 where g: "quota_Get G now newid t ''smb'' d = (x, d1)" by fastforce
  have d1: "d' = d1" using assms g by (auto simp: quota_Check_def split: sum.splits)
  show "db_secrets (view d') = db_secrets (view d)"
    using quota_Get_frame [of now newid t "''smb''" d] g d1 by auto
  assume ok
  then obtain q where q: "x = Inr q" using assms g by (cases x) (auto simp: quota_Check_def)
  then obtain n where n: "tCount (Secrets G) (\<lambda>x. sec_TenantID x = t) d1 = Inr n" "int n < q_MaxSecrets q"
    using assms g \<open>ok\<close> by (auto simp: quota_Check_def resource_defs check_count_def split: sum.splits if_splits)
  show "\<exists>q\<in>set (db_quotas (view d')). live q \<and> q_TenantID q = t \<and> int (count_secrets t (view d')) < q_MaxSecrets q"
    using quota_Get_row(1-3) [OF g [unfolded q]] secret.count_ok [OF n(1)] n(2) d1
    by (auto simp: count_secrets_def)
qed

lemma vault_Put_count:
  assumes "va_gorm v = G" "ids_ok (db_secrets (view d))" "vault_Put v now newid nonce t n p a d = (res, d')"
  shows "db_quotas (view d') = db_quotas (view d)"
    and "res = Inl e \<Longrightarrow> view d' = view d"
    and "res = Inr m \<Longrightarrow> count_secrets t (view d') = count_secrets t (view d) +
      (case vault_Get v t n d of Inr _ \<Rightarrow> 0 | Inl _ \<Rightarrow> 1)"
proof -
  have "db_quotas (view d') = db_quotas (view d) \<and> (\<forall>e. res = Inl e \<longrightarrow> view d' = view d) \<and>
    (\<forall>m. res = Inr m \<longrightarrow> count_secrets t (view d') = count_secrets t (view d) + (case vault_Get v t n d of Inr _ \<Rightarrow> 0 | Inl _ \<Rightarrow> 1))"
    using assms(1,3)
  proof (cases rule: vault_Put_cases)
    case (rotated r ct)
    note r = secret.first_mem [OF rotated(2)]
    have "length (sel (\<lambda>r. sec_TenantID r = t) (save_row now (rotated now ct a r) (db_secrets (view d)))) =
        length (sel (\<lambda>r. sec_TenantID r = t) (db_secrets (view d)))"
      using r by (intro length_sel_save_row [OF assms(2) r(1,2)]) simp_all
    then show ?thesis using rotated assms(1) by (simp add: count_secrets_def vault_Get_def vault_lookup_def)
  next
    case (created row ct e)
    have "live row" "sec_TenantID row = t" using created(3) by (simp_all add: secret_defaults_def live_def)
    then show ?thesis using created assms(1) by (simp add: count_secrets_def sel_def vault_Get_def vault_lookup_def)
  qed simp
  then show "db_quotas (view d') = db_quotas (view d)" "res = Inl e \<Longrightarrow> view d' = view d"
    "res = Inr m \<Longrightarrow> count_secrets t (view d') = count_secrets t (view d) +
      (case vault_Get v t n d of Inr _ \<Rightarrow> 0 | Inl _ \<Rightarrow> 1)" by blast+
qed

end

context gorm_db
begin

lemma put_quota_cases:
  assumes "vd_Quota D = Some G" "put_quota D v rq qid cl n d = (x, d1)"
  shows "db_secrets (view d1) = db_secrets (view d)"
    and "x = None \<Longrightarrow> (\<exists>m. vault_Get v (cl_TenantID cl) n d = Inr m \<and> d1 = d) \<or>
      (\<exists>q\<in>set (db_quotas (view d1)). live q \<and> q_TenantID q = cl_TenantID cl \<and>
         int (count_secrets (cl_TenantID cl) (view d1)) < q_MaxSecrets q)"
    and "x = Some r \<Longrightarrow> \<exists>code why. r = Fail code why"
proof -
  show "db_secrets (view d1) = db_secrets (view d)"
    using assms quota_Check_secret(1) by (fastforce simp: put_quota_def split: sum.splits prod.splits option.splits)
  show "x = None \<Longrightarrow> (\<exists>m. vault_Get v (cl_TenantID cl) n d = Inr m \<and> d1 = d) \<or>
      (\<exists>q\<in>set (db_quotas (view d1)). live q \<and> q_TenantID q = cl_TenantID cl \<and>
         int (count_secrets (cl_TenantID cl) (view d1)) < q_MaxSecrets q)"
    using assms quota_Check_secret(2)
    by (fastforce simp: put_quota_def split: sum.splits prod.splits option.splits if_splits)
  show "x = Some r \<Longrightarrow> \<exists>code why. r = Fail code why"
    using assms by (auto simp: put_quota_def split: sum.splits prod.splits option.splits if_splits)
qed

text \<open>A write ends before the row is stored, or stores it and records the access.\<close>

lemma vault_PutHandler_cases:
  assumes "\<forall>v. vd_Vault D = Some v \<longrightarrow> va_gorm v = G" "vd_Quota D = Some G"
    and "ids_ok (db_secrets (view (wdb w)))" "rq_claims rq = Some cl" "vault_PutHandler D rq qid body w = (res, w')"
  obtains (refused) "\<not> is_Reply res" "db_secrets (view (wdb w')) = db_secrets (view (wdb w))"
    | (written) v n p d1 m d2 where "vd_Vault D = Some v" "put_quota D v rq qid cl n (wdb w) = (None, d1)"
      "vault_Put v (rq_now rq) (rq_id rq) (rq_nonce rq) (cl_TenantID cl) n p (cl_UserID cl) d1 = (Inr m, d2)"
      "res = Reply 201 m" "w' = RecordAccess (vd_Audit D) rq cl ''write'' n True (w\<lparr>wdb := d2\<rparr>)"
proof (cases "\<exists>req v. body = Some req \<and> pr_Name req \<noteq> [] \<and> pr_Plaintext req \<noteq> [] \<and> vd_Vault D = Some v")
  case False
  then show thesis
    using assms(4,5) by (intro refused) (auto simp: vault_PutHandler_def split: option.splits if_splits)
next
  case True
  then obtain req v where req: "body = Some req" "pr_Name req \<noteq> []" "pr_Plaintext req \<noteq> []" "vd_Vault D = Some v" by blast
  obtain x d1 where pq: "put_quota D v rq qid cl (pr_Name req) (wdb w) = (x, d1)" by fastforce
  note q = put_quota_cases [OF assms(2) pq]
  obtain y d2 where put: "vault_Put v (rq_now rq) (rq_id rq) (rq_nonce rq) (cl_TenantID cl) (pr_Name req)
      (pr_Plaintext req) (cl_UserID cl) d1 = (y, d2)" by fastforce
  have ids: "ids_ok (db_secrets (view d1))" using assms(3) q(1) by simp
  have "va_gorm v = G" using assms(1) req(4) by blast
  note c = vault_Put_count [OF this ids put]
  consider r where "x = Some r" | e where "x = None" "y = Inl e" | m where "x = None" "y = Inr m" by (cases x; cases y) auto
  then show thesis
  proof cases
    case 1
    then have "res = r" "wdb w' = d1" using assms(4,5) req pq by (auto simp: vault_PutHandler_def)
    then show thesis using q(1,3) 1 by (intro refused) auto
  next
    case 2
    then have "\<not> is_Reply res" "wdb w' = d2" using assms(4,5) req pq put by (auto simp: vault_PutHandler_def split: if_splits)
    then show thesis using c(2) 2 q(1) by (intro refused) auto
  next
    case 3
    then show thesis using assms(4,5) req pq put by (intro written) (auto simp: vault_PutHandler_def)
  qed
qed

end

text \<open>
  C30: A tenant cannot exceed its quota of secrets through the API. When the write endpoint answers 201,
  it either replaced an existing secret, and the number of the tenant's secrets is the same, or it added
  one and the number is within the tenant's stored quota. Any other answer leaves all secrets as they were.
\<close>

theorem vault_quota_kept:
  assumes "gorm_db G view" "\<forall>v. vd_Vault D = Some v \<longrightarrow> va_gorm v = G" "vd_Quota D = Some G"
    and "\<forall>A. vd_Audit D = Some A \<longrightarrow> au_gorm A = G"
    and "ids_ok (db_secrets (view (wdb w)))" "rq_claims rq = Some cl" "t = cl_TenantID cl"
    and "vault_PutHandler D rq qid body w = (res, w')"
  shows "case res of
      Reply code m \<Rightarrow> code = 201 \<and>
        (count_secrets t (view (wdb w')) = count_secrets t (view (wdb w)) \<or>
         count_secrets t (view (wdb w')) = count_secrets t (view (wdb w)) + 1 \<and>
         (\<exists>q\<in>set (db_quotas (view (wdb w'))). live q \<and> q_TenantID q = t \<and>
            int (count_secrets t (view (wdb w'))) \<le> q_MaxSecrets q))
    | _ \<Rightarrow> db_secrets (view (wdb w')) = db_secrets (view (wdb w))"
proof (rule gorm_db.vault_PutHandler_cases [OF assms(1,2,3,5,6,8)])
  assume "\<not> is_Reply res" "db_secrets (view (wdb w')) = db_secrets (view (wdb w))"
  then show ?thesis by (cases res) simp_all
next
  fix v n p d1 m d2
  assume w: "vd_Vault D = Some v" "put_quota D v rq qid cl n (wdb w) = (None, d1)"
    "vault_Put v (rq_now rq) (rq_id rq) (rq_nonce rq) (cl_TenantID cl) n p (cl_UserID cl) d1 = (Inr m, d2)"
    "res = Reply 201 m" "w' = RecordAccess (vd_Audit D) rq cl ''write'' n True (w\<lparr>wdb := d2\<rparr>)"
  note q = gorm_db.put_quota_cases [OF assms(1,3) w(2)]
  have v: "va_gorm v = G" and ids: "ids_ok (db_secrets (view d1))" using assms(2,5) w(1) q(1) by simp_all
  note c = gorm_db.vault_Put_count [OF assms(1) v ids w(3)]
  have "count_secrets t (view (wdb w')) = count_secrets t (view d2)" "db_quotas (view (wdb w')) = db_quotas (view d2)"
    unfolding w(5) RecordAccess_def count_secrets_def by (subst record_event_view [OF assms(1,4)], simp)+
  moreover have "count_secrets t (view d1) = count_secrets t (view (wdb w))" using q(1) by (simp add: count_secrets_def)
  ultimately show ?thesis
    using c(1,3) q(2) w(4) unfolding assms(7) by (auto split: sum.splits)
qed

subsection \<open>Concrete runs\<close>

definition demo_vault :: "database vault" where
  "demo_vault = \<lparr>va_gorm = mem_gorm, va_gcm = demo_gcm\<rparr>"

definition demo_vault_deps :: "database vault_deps" where
  "demo_vault_deps = \<lparr>vd_Vault = Some demo_vault, vd_Audit = None, vd_Quota = Some mem_gorm\<rparr>"

lemma demo_vault_simps [simp]: "va_gorm demo_vault = mem_gorm" "va_gcm demo_vault = demo_gcm"
  by (simp_all add: demo_vault_def)

lemma demo_put:
  "\<exists>m d'. vault_Put demo_vault 1 ''01S'' (Inr demo_nonce) ''01T'' ''db-password'' ''s3cret'' ''01U'' empty_database = (Inr m, d')"
  by (simp add: vault_Put_def maxSecretBytes_def vault_encrypt_def mem_gorm_def mem_table_def empty_database_def Let_def)

theorem vault_refines_map_witness:
  "\<exists>(d1 :: database) (d2 :: database). vault_abs demo_vault (db_secrets d1) (''01T'', ''db-password'') = Some ''s3cret'' \<and>
     vault_abs demo_vault (db_secrets d2) (''01T'', ''db-password'') = None"
proof -
  obtain m d1 where put: "vault_Put demo_vault 1 ''01S'' (Inr demo_nonce) ''01T'' ''db-password'' ''s3cret'' ''01U'' empty_database = (Inr m, d1)"
    using demo_put by blast
  obtain e d2 where del: "vault_Delete demo_vault 1 ''01T'' ''db-password'' empty_database = (e, d2)" by fastforce
  have ok: "vault_ok demo_vault (db_secrets empty_database)" and none: "vault_abs demo_vault (db_secrets empty_database) k = None" for k
    by (simp_all add: empty_database_def vault_ok_def secrets_ok_def ids_ok_def vault_abs_def)
  have "vault_abs demo_vault (db_secrets d1) (''01T'', ''db-password'') = Some ''s3cret''"
    "vault_abs demo_vault (db_secrets d2) (''01T'', ''db-password'') = None"
    using vault_refines_map [OF mem_gorm_db_up demo_vault_simps(1) _ length_demo_nonce ok refl put del]
    by (auto simp: demo_gcm_ok none split: option.splits)
  then show ?thesis by blast
qed

theorem vault_versions_witness:
  "\<exists>m d'. vault_Put demo_vault 1 ''01S'' (Inr demo_nonce) ''01T'' ''db-password'' ''s3cret'' ''01U'' empty_database = (Inr m, d') \<and>
     sm_Version m = 1"
proof -
  obtain res d' where put: "vault_Put demo_vault 1 ''01S'' (Inr demo_nonce) ''01T'' ''db-password'' ''s3cret'' ''01U'' empty_database = (res, d')"
    by fastforce
  show ?thesis
    using vault_versions [OF mem_gorm_db_up demo_vault_simps(1) _ _ _ _ _ put] put
    by (auto simp: empty_database_def secrets_ok_def ids_ok_def maxSecretBytes_def)
qed

theorem vault_quota_kept_witness:
  "\<exists>code m w'. vault_PutHandler demo_vault_deps
     (demo_request\<lparr>rq_claims := Some \<lparr>cl_UserID = ''01U'', cl_Email = [], cl_Role = ''billing'', cl_TenantID = ''01T'',
        cl_AccountID = [], cl_SessionID = [], cl_Iss = [], cl_Sub = [], cl_Exp = 0, cl_Iat = 0\<rparr>\<rparr>) ''01Q''
     (Some \<lparr>pr_Name = ''db-password'', pr_Plaintext = ''s3cret''\<rparr>) \<lparr>wdb = empty_database, wcache = []\<rparr> = (Reply code m, w') \<and> code = 201"
proof -
  let ?cl = "\<lparr>cl_UserID = ''01U'', cl_Email = [], cl_Role = ''billing'', cl_TenantID = ''01T'',
        cl_AccountID = [], cl_SessionID = [], cl_Iss = [], cl_Sub = [], cl_Exp = 0, cl_Iat = 0\<rparr>"
  let ?rq = "demo_request\<lparr>rq_claims := Some ?cl\<rparr>"
    and ?body = "Some \<lparr>pr_Name = ''db-password'', pr_Plaintext = ''s3cret''\<rparr>" and ?w = "\<lparr>wdb = empty_database, wcache = []\<rparr>"
  have d: "\<forall>v. vd_Vault demo_vault_deps = Some v \<longrightarrow> va_gorm v = mem_gorm" "vd_Quota demo_vault_deps = Some mem_gorm"
    "\<forall>A. vd_Audit demo_vault_deps = Some A \<longrightarrow> au_gorm A = mem_gorm" "ids_ok (db_secrets (wdb ?w))"
    by (simp_all add: demo_vault_deps_def demo_vault_def ids_ok_def empty_database_def)
  have rq: "rq_claims ?rq = Some ?cl" by simp
  have "\<exists>m w'. vault_PutHandler demo_vault_deps ?rq ''01Q'' ?body ?w = (Reply 201 m, w')"
    by (simp add: vault_PutHandler_def put_quota_def demo_vault_deps_def vault_Get_def vault_lookup_def quota_Check_def
        quota_Get_def tierDefaults_def copy_limits_def quota_row_def vault_Put_def maxSecretBytes_def vault_encrypt_def
        mem_gorm_def mem_table_def empty_database_def demo_vault_def demo_request_def resource_defs check_count_def
        sel_def Let_def)
  then obtain m w' where run: "vault_PutHandler demo_vault_deps ?rq ''01Q'' ?body ?w = (Reply 201 m, w')" by blast
  show ?thesis
    using vault_quota_kept [OF mem_gorm_db d rq refl run] run by simp
qed

end
