(* ===== verification/GoPath.thy ===== *)
theory GoPath
  imports Prelude
begin

text \<open>The functions of Go's \<open>path\<close> and \<open>path/filepath\<close> (on Linux) the hosting layer uses.\<close>

text \<open>The elements of a path, cleaned: \<open>.\<close> and empty elements dropped, \<open>..\<close> applied.\<close>

fun clean_parts :: "bool \<Rightarrow> string list \<Rightarrow> string list \<Rightarrow> string list" where
  "clean_parts rooted stack [] = rev stack"
| "clean_parts rooted stack (p # ps) =
     (if p = [] \<or> p = ''.'' then clean_parts rooted stack ps
      else if p = ''..'' then
        (if stack \<noteq> [] \<and> hd stack \<noteq> ''..'' then clean_parts rooted (tl stack) ps
         else if rooted then clean_parts rooted stack ps else clean_parts rooted (p # stack) ps)
      else clean_parts rooted (p # stack) ps)"

definition is_rooted :: "string \<Rightarrow> bool" where
  "is_rooted p \<longleftrightarrow> HasPrefix p ''/''"

definition path_parts :: "string \<Rightarrow> string list" where
  "path_parts p = clean_parts (is_rooted p) [] (Split p (CHR ''/''))"

definition Clean :: "string \<Rightarrow> string" where
  "Clean p =
     (if p = [] then ''.''
      else let q = (if is_rooted p then ''/'' else []) @ Join (path_parts p) ''/'' in if q = [] then ''.'' else q)"

definition path_Join :: "string list \<Rightarrow> string" where
  "path_Join es =
     (case dropWhile (\<lambda>e. e = []) es of [] \<Rightarrow> [] | fs \<Rightarrow> Clean (Join fs ''/''))"

text \<open>\<open>filepath.Rel\<close> on the elements of the two paths.\<close>

fun strip_common :: "string list \<Rightarrow> string list \<Rightarrow> string list \<times> string list" where
  "strip_common (b # bs) (t # ts) = (if b = t then strip_common bs ts else (b # bs, t # ts))"
| "strip_common bs ts = (bs, ts)"

definition path_Rel :: "string \<Rightarrow> string \<Rightarrow> go_error + string" where
  "path_Rel base targ =
     (if Clean base = Clean targ then Inr ''.''
      else if is_rooted base \<noteq> is_rooted targ
      then Inl (ErrNew (''Rel: can'' @ [CHR 0x27] @ ''t make '' @ targ @ '' relative to '' @ base))
      else (case strip_common (path_parts base) (path_parts targ) of
          ([], ts) \<Rightarrow> Inr (Join ts ''/'')
        | (b # bs, ts) \<Rightarrow>
            if b = ''..'' then Inl (ErrNew (''Rel: can'' @ [CHR 0x27] @ ''t make '' @ targ @ '' relative to '' @ base))
            else Inr (Join (map (\<lambda>x. ''..'') (b # bs) @ ts) ''/'')))"

text \<open>\<open>filepath.Base\<close>: the last element.\<close>

definition strip_slashes :: "string \<Rightarrow> string" where
  "strip_slashes p = rev (dropWhile (\<lambda>c. c = CHR ''/'') (rev p))"

definition path_Base :: "string \<Rightarrow> string" where
  "path_Base p =
     (if p = [] then ''.''
      else let q = strip_slashes p in
        if q = [] then ''/'' else last (Split q (CHR ''/'')))"

subsection \<open>Names that are one element\<close>

definition plain :: "string \<Rightarrow> bool" where
  "plain p \<longleftrightarrow> p \<noteq> [] \<and> p \<noteq> ''.'' \<and> p \<noteq> ''..'' \<and> CHR ''/'' \<notin> set p"

lemma clean_parts_plain:
  "list_all plain ps \<Longrightarrow> clean_parts rooted stack ps = rev stack @ ps"
  by (induction ps arbitrary: stack) (auto simp: plain_def)

text \<open>An absolute path with plain elements is clean, and joining plain names extends it.\<close>

definition abs_path :: "string list \<Rightarrow> string" where
  "abs_path ps = ''/'' @ Join ps ''/''"

lemma Split_abs: "ps \<noteq> [] \<Longrightarrow> list_all plain ps \<Longrightarrow> Split (abs_path ps) (CHR ''/'') = [] # ps"
  by (simp add: abs_path_def Split_Join list_all_iff plain_def)

lemma is_rooted_abs [simp]: "is_rooted (abs_path ps)"
  by (simp add: is_rooted_def abs_path_def HasPrefix_def)

lemma path_parts_abs: "list_all plain ps \<Longrightarrow> path_parts (abs_path ps) = ps"
proof (cases "ps = []")
  case True
  then show ?thesis by (simp add: path_parts_def abs_path_def is_rooted_def HasPrefix_def)
next
  case False
  assume "list_all plain ps"
  with False show ?thesis by (simp add: path_parts_def Split_abs clean_parts_plain)
qed

lemma Clean_abs: "list_all plain ps \<Longrightarrow> Clean (abs_path ps) = abs_path ps"
  using path_parts_abs [of ps] by (auto simp: Clean_def abs_path_def is_rooted_def HasPrefix_def Let_def)

lemma Join_append: "xs \<noteq> [] \<Longrightarrow> ys \<noteq> [] \<Longrightarrow> Join (xs @ ys) sep = Join xs sep @ sep @ Join ys sep"
proof (induction xs)
  case (Cons x xs)
  then show ?case by (cases "xs = []") (simp_all add: Join_Cons)
qed simp

lemma path_Join_abs:
  assumes "ps \<noteq> []" "list_all plain ps" "list_all plain qs"
  shows "path_Join (abs_path ps # qs) = abs_path (ps @ qs)"
proof -
  have "Join (abs_path ps # qs) ''/'' = abs_path (ps @ qs)"
    using assms by (cases "qs = []") (simp_all add: Join_Cons abs_path_def Join_append)
  moreover have "abs_path ps \<noteq> []" by (simp add: abs_path_def)
  ultimately show ?thesis
    using Clean_abs [of "ps @ qs"] assms by (simp add: path_Join_def)
qed

lemma abs_path_inject:
  "list_all plain ps \<Longrightarrow> list_all plain qs \<Longrightarrow> abs_path ps = abs_path qs \<longleftrightarrow> ps = qs"
  using path_parts_abs by metis

lemma strip_common_prefix: "strip_common ps (ps @ qs) = ([], qs)"
  by (induction ps) (cases qs, auto)

lemma path_Rel_below:
  assumes "list_all plain ps" "list_all plain qs" "qs \<noteq> []"
  shows "path_Rel (abs_path ps) (abs_path (ps @ qs)) = Inr (Join qs ''/'')"
proof -
  have "Clean (abs_path ps) \<noteq> Clean (abs_path (ps @ qs))"
    using assms by (simp add: Clean_abs abs_path_inject)
  then show ?thesis using assms by (simp add: path_Rel_def path_parts_abs strip_common_prefix)
qed

lemma strip_slashes_plain: "plain p \<Longrightarrow> strip_slashes (x @ p) = x @ p"
proof -
  assume "plain p"
  then have p: "p \<noteq> []" "CHR ''/'' \<notin> set p" by (auto simp: plain_def)
  then obtain c cs where r: "rev p = c # cs" by (cases "rev p") auto
  then have "c \<in> set p" by (metis list.set_intros(1) set_rev)
  then have "c \<noteq> CHR ''/''" using p(2) by blast
  then have "dropWhile (\<lambda>c. c = CHR ''/'') (rev (x @ p)) = rev (x @ p)" by (simp add: r)
  then show ?thesis by (simp only: strip_slashes_def rev_rev_ident)
qed

lemma path_Base_abs: "list_all plain ps \<Longrightarrow> plain p \<Longrightarrow> path_Base (abs_path (ps @ [p])) = p"
proof -
  assume p: "list_all plain ps" "plain p"
  have "abs_path (ps @ [p]) = (''/'' @ (if ps = [] then [] else Join ps ''/'' @ ''/'')) @ p"
    by (simp add: abs_path_def Join_append)
  then have "strip_slashes (abs_path (ps @ [p])) = abs_path (ps @ [p])" using p strip_slashes_plain by metis
  moreover have "Split (abs_path (ps @ [p])) (CHR ''/'') = [] # (ps @ [p])" using p by (intro Split_abs) simp_all
  ultimately show ?thesis by (simp add: path_Base_def abs_path_def)
qed

end
