(* ===== verification/HostingConf.thy ===== *)
theory HostingConf
  imports GoPath Encoding
begin

text \<open>
  The pure part of the hosting layer: the paths of internal/hosting/service.go, the nginx server block of
  internal/hosting/nginx.go and the PHP-FPM pool of internal/hosting/phpfpm.go. \<open>getenv\<close> is \<open>os.Getenv\<close>,
  \<open>stamp\<close> the text of the current time.
\<close>

definition ErrUnsupported :: go_error where
  [go_errors]: "ErrUnsupported = ErrNew ''hosting: operation not supported on this OS''"

definition ErrAccountExists :: go_error where
  [go_errors]: "ErrAccountExists = ErrNew ''account already exists''"

record paths =
  BaseDir :: string
  HomesDir :: string
  NginxDir :: string
  FpmDir :: string
  DocumentRoot :: string
  ReleasesRoot :: string
  CurrentLink :: string
  LogRoot :: string
  NginxBin :: string
  NginxTestCmd :: string
  NginxReloadCmd :: string
  FpmBin :: string
  FpmTestCmd :: string
  FpmReloadCmd :: string
  UseraddBin :: string
  UsermodBin :: string
  UserdelBin :: string
  GroupaddBin :: string
  SetquotaBin :: string
  DuBin :: string

definition DefaultPaths :: "(string \<Rightarrow> string) \<Rightarrow> paths" where
  "DefaultPaths getenv =
     (let p =
        \<lparr>BaseDir = ''/var/lib/orvixpanel'', HomesDir = ''/var/lib/orvixpanel/homes'', NginxDir = ''/etc/nginx/conf.d/orvix'',
         FpmDir = ''/etc/php/8.5/fpm/pool.d'', DocumentRoot = ''/var/www'', ReleasesRoot = ''/var/lib/orvixpanel/releases'',
         CurrentLink = ''/var/lib/orvixpanel/current'', LogRoot = ''/var/log/orvixpanel'', NginxBin = ''/usr/sbin/nginx'',
         NginxTestCmd = ''nginx -t'', NginxReloadCmd = ''systemctl reload nginx'', FpmBin = ''/usr/sbin/php-fpm8.5'',
         FpmTestCmd = ''php-fpm8.5 -t'', FpmReloadCmd = ''systemctl reload php8.5-fpm'', UseraddBin = ''/usr/sbin/useradd'',
         UsermodBin = ''/usr/sbin/usermod'', UserdelBin = ''/usr/sbin/userdel'', GroupaddBin = ''/usr/sbin/groupadd'',
         SetquotaBin = ''/usr/sbin/setquota'', DuBin = ''/usr/bin/du''\<rparr>;
          v = getenv ''ORVIX_FPM_VERSION''
      in if v = [] then p
         else p\<lparr>FpmDir := ''/etc/php/'' @ v @ ''/fpm/pool.d'', FpmBin := ''/usr/sbin/php-fpm'' @ v,
                FpmTestCmd := ''php-fpm'' @ v @ '' -t'', FpmReloadCmd := ''systemctl reload php'' @ v @ ''-fpm''\<rparr>)"

definition AccountHomesDir :: "paths \<Rightarrow> string" where
  "AccountHomesDir p = HomesDir p"

definition AccountHome :: "paths \<Rightarrow> string \<Rightarrow> string" where
  "AccountHome p username = path_Join [HomesDir p, username]"

definition AccountPublicHTML :: "paths \<Rightarrow> string \<Rightarrow> string" where
  "AccountPublicHTML p username = path_Join [AccountHome p username, ''public_html'']"

definition DomainDocumentRoot :: "paths \<Rightarrow> string \<Rightarrow> string \<Rightarrow> string" where
  "DomainDocumentRoot p username domain = path_Join [AccountPublicHTML p username, domain]"

definition NginxVHostPath :: "paths \<Rightarrow> string \<Rightarrow> string \<Rightarrow> string" where
  "NginxVHostPath p username domain = path_Join [NginxDir p, username @ ''-'' @ domain @ ''.conf'']"

definition FpmPoolPath :: "paths \<Rightarrow> string \<Rightarrow> string \<Rightarrow> string" where
  "FpmPoolPath p username domain = path_Join [FpmDir p, ''orvix-'' @ username @ ''-'' @ domain @ ''.conf'']"

definition ReleasesDir :: "paths \<Rightarrow> string \<Rightarrow> string \<Rightarrow> string" where
  "ReleasesDir p username domain = path_Join [ReleasesRoot p, username, domain]"

definition ReleaseDir :: "paths \<Rightarrow> string \<Rightarrow> string \<Rightarrow> string \<Rightarrow> string" where
  "ReleaseDir p username domain release = path_Join [ReleasesDir p username domain, release]"

definition DomainLogDir :: "paths \<Rightarrow> string \<Rightarrow> string \<Rightarrow> string" where
  "DomainLogDir p username domain = path_Join [LogRoot p, username, domain]"

subsection \<open>The nginx server block\<close>

record vhost_config =
  vh_Username :: string
  vh_Domain :: string
  vh_DocumentRoot :: string
  vh_Port :: int
  vh_HTTPRedirectHTTPS :: bool
  vh_OpenBasedir :: string
  vh_PHP :: bool
  vh_FpmSocket :: string
  vh_ExtraHeaders :: "string list"

definition dq :: "string \<Rightarrow> string" where
  "dq s = [CHR 0x22] @ s @ [CHR 0x22]"

definition println :: "string list \<Rightarrow> string" where
  "println ls = concat (map (\<lambda>l. l @ [CHR 0x0A]) ls)"

definition socket_path :: "string \<Rightarrow> string \<Rightarrow> string" where
  "socket_path username domain = ''/run/php/orvix-'' @ username @ ''-'' @ domain @ ''.sock''"

definition default_root :: "(string \<Rightarrow> string) \<Rightarrow> string \<Rightarrow> string \<Rightarrow> string" where
  "default_root getenv username domain =
     path_Join [AccountHome (DefaultPaths getenv) username, ''public_html'', domain]"

definition vhost_defaults :: "(string \<Rightarrow> string) \<Rightarrow> vhost_config \<Rightarrow> vhost_config" where
  "vhost_defaults getenv v0 =
     (let v1 = (if vh_Port v0 = 0 then v0\<lparr>vh_Port := 80\<rparr> else v0);
          v2 = (if vh_DocumentRoot v1 = [] then v1\<lparr>vh_DocumentRoot := default_root getenv (vh_Username v1) (vh_Domain v1)\<rparr> else v1);
          v3 = (if vh_OpenBasedir v2 = [] then v2\<lparr>vh_OpenBasedir := vh_DocumentRoot v2\<rparr> else v2)
      in if vh_FpmSocket v3 = [] then v3\<lparr>vh_FpmSocket := socket_path (vh_Username v3) (vh_Domain v3)\<rparr> else v3)"

definition vhost_head :: "string \<Rightarrow> vhost_config \<Rightarrow> string list" where
  "vhost_head stamp v =
     [''# OrvixPanel generated vhost'',
      ''# account='' @ vh_Username v @ '' domain='' @ vh_Domain v @ '' generated='' @ stamp,
      ''server {'',
      ''    listen '' @ string_of_int (vh_Port v) @ '';'',
      ''    listen [::]:'' @ string_of_int (vh_Port v) @ '';'',
      ''    server_name '' @ vh_Domain v @ '';'',
      ''    root '' @ vh_DocumentRoot v @ '';'',
      ''    index index.html index.php;'',
      ''    add_header X-Content-Type-Options '' @ dq ''nosniff'' @ '' always;'',
      ''    add_header X-Frame-Options '' @ dq ''SAMEORIGIN'' @ '' always;'',
      ''    add_header Referrer-Policy '' @ dq ''strict-origin-when-cross-origin'' @ '' always;''] @
     map (\<lambda>h. ''    add_header '' @ h @ '';'') (vh_ExtraHeaders v)"

definition vhost_php :: "vhost_config \<Rightarrow> string list" where
  "vhost_php v =
     (if vh_PHP v then
        [''    location ~ '' @ [CHR 0x5C] @ ''.php$ {'',
         ''        include snippets/fastcgi-php.conf;'',
         ''        fastcgi_pass unix:'' @ vh_FpmSocket v @ '';'',
         ''        fastcgi_param PHP_VALUE '' @ dq (''open_basedir='' @ vh_OpenBasedir v) @ '';'',
         ''    }'']
      else [])"

definition vhost_tail :: "vhost_config \<Rightarrow> string list" where
  "vhost_tail v =
     [''    location / {'',
      ''        try_files $uri $uri/ /index.html;'',
      ''    }'',
      ''    location ~ /'' @ [CHR 0x5C] @ ''. {'',
      ''        deny all;'',
      ''    }'',
      ''    access_log /var/log/nginx/'' @ vh_Username v @ ''-'' @ vh_Domain v @ ''.access.log;'',
      ''    error_log  /var/log/nginx/'' @ vh_Username v @ ''-'' @ vh_Domain v @ ''.error.log;'',
      ''}'']"

definition GenerateNginxConfig :: "(string \<Rightarrow> string) \<Rightarrow> string \<Rightarrow> vhost_config \<Rightarrow> go_error + string" where
  "GenerateNginxConfig getenv stamp v0 =
     (if vh_Username v0 = [] \<or> vh_Domain v0 = []
      then Inl (ErrNew ''VHostConfig: Username and Domain are required'')
      else
        let v = vhost_defaults getenv v0 in
        if vh_HTTPRedirectHTTPS v
        then Inr (println (vhost_head stamp v @ [''    return 301 https://$host$request_uri;'', ''}'']))
        else Inr (println (vhost_head stamp v @ vhost_php v @ vhost_tail v)))"

subsection \<open>The PHP-FPM pool\<close>

record fpm_config =
  fp_Username :: string
  fp_Domain :: string
  fp_UnixUser :: string
  fp_UnixGroup :: string
  fp_Listen :: string
  fp_PHPVersion :: string
  fp_PM :: string
  fp_MaxChildren :: int
  fp_StartServers :: int
  fp_MinSpareServers :: int
  fp_MaxSpareServers :: int
  fp_MaxRequests :: int
  fp_MemoryLimit :: string
  fp_OpenBasedir :: string
  fp_Chdir :: string

definition or_str :: "string \<Rightarrow> string \<Rightarrow> string" where
  "or_str s d = (if s = [] then d else s)"

definition or_int :: "int \<Rightarrow> int \<Rightarrow> int" where
  "or_int n d = (if n = 0 then d else n)"

definition fpm_defaults :: "(string \<Rightarrow> string) \<Rightarrow> fpm_config \<Rightarrow> fpm_config" where
  "fpm_defaults getenv c =
     c\<lparr>fp_UnixUser := or_str (fp_UnixUser c) (fp_Username c),
       fp_UnixGroup := or_str (fp_UnixGroup c) (fp_Username c),
       fp_Listen := or_str (fp_Listen c) (socket_path (fp_Username c) (fp_Domain c)),
       fp_PM := or_str (fp_PM c) ''ondemand'',
       fp_MaxChildren := or_int (fp_MaxChildren c) 5,
       fp_StartServers := or_int (fp_StartServers c) 2,
       fp_MinSpareServers := or_int (fp_MinSpareServers c) 1,
       fp_MaxSpareServers := or_int (fp_MaxSpareServers c) 3,
       fp_MaxRequests := or_int (fp_MaxRequests c) 500,
       fp_MemoryLimit := or_str (fp_MemoryLimit c) ''256M'',
       fp_OpenBasedir := or_str (fp_OpenBasedir c) (default_root getenv (fp_Username c) (fp_Domain c)),
       fp_Chdir := or_str (fp_Chdir c) ''/'',
       fp_PHPVersion := or_str (fp_PHPVersion c) ''8.5''\<rparr>"

definition fpm_lines :: "string \<Rightarrow> fpm_config \<Rightarrow> string list" where
  "fpm_lines stamp c =
     [''; OrvixPanel generated php-fpm pool'',
      ''; account='' @ fp_Username c @ '' domain='' @ fp_Domain c @ '' php='' @ fp_PHPVersion c @ '' generated='' @ stamp,
      ''['' @ ''orvix-'' @ fp_Username c @ ''-'' @ fp_Domain c @ '']'',
      ''user = '' @ fp_UnixUser c,
      ''group = '' @ fp_UnixGroup c,
      ''listen = '' @ fp_Listen c,
      ''listen.owner = www-data'',
      ''listen.group = www-data'',
      ''pm = '' @ fp_PM c,
      ''pm.max_children = '' @ string_of_int (fp_MaxChildren c)] @
     (if fp_PM c = ''dynamic''
      then [''pm.start_servers = '' @ string_of_int (fp_StartServers c),
            ''pm.min_spare_servers = '' @ string_of_int (fp_MinSpareServers c),
            ''pm.max_spare_servers = '' @ string_of_int (fp_MaxSpareServers c)]
      else []) @
     [''pm.max_requests = '' @ string_of_int (fp_MaxRequests c),
      ''chdir = '' @ fp_Chdir c,
      ''php_admin_value[memory_limit] = '' @ fp_MemoryLimit c,
      ''php_admin_value[open_basedir] = '' @ fp_OpenBasedir c,
      ''php_admin_value[upload_max_filesize] = 64M'',
      ''php_admin_value[post_max_size] = 64M'',
      ''php_admin_flag[expose_php] = off'',
      ''catch_workers_output = yes'',
      ''decorate_workers_output = no'']"

definition GenerateFPMPool :: "(string \<Rightarrow> string) \<Rightarrow> string \<Rightarrow> fpm_config \<Rightarrow> go_error + string" where
  "GenerateFPMPool getenv stamp c =
     (if fp_Username c = [] \<or> fp_Domain c = []
      then Inl (ErrNew ''FPMConfig: Username and Domain are required'')
      else Inr (println (fpm_lines stamp (fpm_defaults getenv c))))"

end
