(* ===== verification/Os.thy ===== *)
theory Os
  imports Prelude
begin

text \<open>
  The operating system as the hosting layer sees it: the calls of Go's \<open>os\<close>, \<open>os/user\<close> and \<open>os/exec\<close> packages,
  over an abstract state. Every call can fail; the locale \<open>os_fs\<close> states what the file calls document,
  over \<open>tree\<close>, which reads the node at a clean absolute path none of whose directories is a symbolic link.
\<close>

datatype node = Dir | File string | Link string

definition ErrNotExist :: go_error where
  "ErrNotExist = ErrNew ''file does not exist''"

definition IsNotExist :: "go_error \<Rightarrow> bool" where
  "IsNotExist e = errors_Is e ErrNotExist"

text \<open>\<open>user.Lookup\<close>: the UID as text, an \<open>UnknownUserError\<close>, or another error.\<close>

datatype lookup = Found string | UnknownUser string | LookupFailed go_error

primrec lookup_error :: "lookup \<Rightarrow> go_error option" where
  "lookup_error (Found uid) = None"
| "lookup_error (UnknownUser u) = Some (ErrNew (''user: unknown user '' @ u))"
| "lookup_error (LookupFailed e) = Some e"

record 'o os =
  Getenv :: "string \<Rightarrow> string"
  ReadFile :: "string \<Rightarrow> 'o \<Rightarrow> go_error + string"
  CombinedOutput :: "string list \<Rightarrow> 'o \<Rightarrow> (go_error option \<times> string) \<times> 'o"
  Output :: "string list \<Rightarrow> 'o \<Rightarrow> (go_error + string) \<times> 'o"
  LookupUser :: "string \<Rightarrow> 'o \<Rightarrow> lookup"
  Chmod :: "string \<Rightarrow> nat \<Rightarrow> 'o \<Rightarrow> go_error option \<times> 'o"
  MkdirAll :: "string \<Rightarrow> nat \<Rightarrow> 'o \<Rightarrow> go_error option \<times> 'o"
  WriteFile :: "string \<Rightarrow> string \<Rightarrow> nat \<Rightarrow> 'o \<Rightarrow> go_error option \<times> 'o"
  Remove :: "string \<Rightarrow> 'o \<Rightarrow> go_error option \<times> 'o"
  RemoveAll :: "string \<Rightarrow> 'o \<Rightarrow> go_error option \<times> 'o"
  Symlink :: "string \<Rightarrow> string \<Rightarrow> 'o \<Rightarrow> go_error option \<times> 'o"
  Rename :: "string \<Rightarrow> string \<Rightarrow> 'o \<Rightarrow> go_error option \<times> 'o"
  Lstat :: "string \<Rightarrow> 'o \<Rightarrow> go_error + node"
  Stat :: "string \<Rightarrow> 'o \<Rightarrow> go_error + node"
  Readlink :: "string \<Rightarrow> 'o \<Rightarrow> go_error + string"
  ReadDir :: "string \<Rightarrow> 'o \<Rightarrow> go_error + (string \<times> bool) list"
  ModTime :: "string \<Rightarrow> 'o \<Rightarrow> string"
  WalkSizes :: "string \<Rightarrow> 'o \<Rightarrow> (bool \<times> int) list"

text \<open>
  \<open>ModTime\<close> is the formatted modification time of a file, \<open>WalkSizes\<close> the entries \<open>filepath.Walk\<close> reaches:
  whether each is a regular file, and its size.
\<close>

locale os_fs =
  fixes X :: "'o os" and tree :: "'o \<Rightarrow> string \<Rightarrow> node option"
  assumes symlink_ok: "Symlink X old new s = (None, s') \<Longrightarrow>
      tree s new = None \<and> tree s' = (tree s)(new \<mapsto> Link old)"
    and symlink_fail: "Symlink X old new s = (Some e, s') \<Longrightarrow> tree s' = tree s"
    and rename_ok: "Rename X old new s = (None, s') \<Longrightarrow> tree s old = Some (Link l) \<Longrightarrow> old \<noteq> new \<Longrightarrow>
      tree s new \<noteq> Some Dir \<and> tree s' = (tree s)(new \<mapsto> Link l, old := None)"
    and rename_fail: "Rename X old new s = (Some e, s') \<Longrightarrow> tree s' = tree s"
    and remove_ok: "Remove X p s = (None, s') \<Longrightarrow> tree s' = (tree s)(p := None)"
    and remove_fail: "Remove X p s = (Some e, s') \<Longrightarrow> tree s' = tree s"
    and lstat_ok: "Lstat X p s = Inr n \<Longrightarrow> tree s p = Some n"
    and lstat_missing: "Lstat X p s = Inl e \<Longrightarrow> IsNotExist e \<Longrightarrow> tree s p = None"
    and readlink_ok: "Readlink X p s = Inr l \<Longrightarrow> tree s p = Some (Link l)"
    and write_ok: "WriteFile X p b m s = (None, s') \<Longrightarrow> tree s p \<noteq> Some (Link l) \<Longrightarrow> tree s' = (tree s)(p \<mapsto> File b)"
    and write_fail: "WriteFile X p b m s = (Some e, s') \<Longrightarrow> q \<noteq> p \<Longrightarrow> tree s' q = tree s q"
begin

lemma remove_other: "Remove X p s = (e, s') \<Longrightarrow> q \<noteq> p \<Longrightarrow> tree s' q = tree s q"
  using remove_ok [of p s s'] remove_fail [of p s _ s'] by (cases e) auto

lemma symlink_other: "Symlink X old new s = (e, s') \<Longrightarrow> q \<noteq> new \<Longrightarrow> tree s' q = tree s q"
  using symlink_ok [of old new s s'] symlink_fail [of old new s _ s'] by (cases e) auto

end

subsection \<open>A system in memory\<close>

text \<open>
  Files in a map, the users in a list; commands succeed and do nothing but \<open>useradd\<close> and \<open>userdel\<close>, told by the
  name of the program.
\<close>

record mem_os =
  m_files :: "string \<Rightarrow> node option"
  m_users :: "string list"

definition exists_error :: go_error where
  "exists_error = ErrNew ''file exists''"

definition mem_run :: "string list \<Rightarrow> mem_os \<Rightarrow> (go_error option \<times> string) \<times> mem_os" where
  "mem_run cmd s =
     (if HasSuffix (hd cmd) ''useradd'' then ((None, []), s\<lparr>m_users := last cmd # m_users s\<rparr>)
      else if HasSuffix (hd cmd) ''userdel'' then ((None, []), s\<lparr>m_users := removeAll (last cmd) (m_users s)\<rparr>)
      else ((None, []), s))"

definition mem_os_ops :: "mem_os os" where
  "mem_os_ops =
     \<lparr>Getenv = (\<lambda>k. []),
      ReadFile = (\<lambda>p s. case m_files s p of Some (File b) \<Rightarrow> Inr b | _ \<Rightarrow> Inl ErrNotExist),
      CombinedOutput = mem_run,
      Output = (\<lambda>cmd s. (Inr ''4096'', s)),
      LookupUser = (\<lambda>u s. if u \<in> set (m_users s) then Found ''1001'' else UnknownUser u),
      Chmod = (\<lambda>p m s. (None, s)),
      MkdirAll = (\<lambda>p m s. case m_files s p of None \<Rightarrow> (None, s\<lparr>m_files := (m_files s)(p \<mapsto> Dir)\<rparr>)
                          | Some Dir \<Rightarrow> (None, s) | Some x \<Rightarrow> (Some exists_error, s)),
      WriteFile = (\<lambda>p b m s. (None, s\<lparr>m_files := (m_files s)(p \<mapsto> File b)\<rparr>)),
      Remove = (\<lambda>p s. if m_files s p = None then (Some ErrNotExist, s) else (None, s\<lparr>m_files := (m_files s)(p := None)\<rparr>)),
      RemoveAll = (\<lambda>p s. (None, s\<lparr>m_files := (\<lambda>q. if q = p \<or> HasPrefix q (p @ ''/'') then None else m_files s q)\<rparr>)),
      Symlink = (\<lambda>old new s. if m_files s new \<noteq> None then (Some exists_error, s)
                             else (None, s\<lparr>m_files := (m_files s)(new \<mapsto> Link old)\<rparr>)),
      Rename = (\<lambda>old new s. if m_files s old = None then (Some ErrNotExist, s)
                            else if m_files s new = Some Dir then (Some exists_error, s)
                            else (None, s\<lparr>m_files := (m_files s)(new := m_files s old, old := None)\<rparr>)),
      Lstat = (\<lambda>p s. case m_files s p of None \<Rightarrow> Inl ErrNotExist | Some n \<Rightarrow> Inr n),
      Stat = (\<lambda>p s. case m_files s p of None \<Rightarrow> Inl ErrNotExist | Some n \<Rightarrow> Inr n),
      Readlink = (\<lambda>p s. case m_files s p of Some (Link l) \<Rightarrow> Inr l | _ \<Rightarrow> Inl ErrNotExist),
      ReadDir = (\<lambda>p s. Inr []),
      ModTime = (\<lambda>p s. ''2025-01-01T00:00:00Z''),
      WalkSizes = (\<lambda>p s. [])\<rparr>"

lemma mem_os_fs: "os_fs mem_os_ops m_files"
  by unfold_locales
    (auto simp: mem_os_ops_def split: if_splits option.splits node.splits)

interpretation mem_os: os_fs mem_os_ops m_files
  by (rule mem_os_fs)

end
