(* ===== verification/Regex.thy ===== *)
theory Regex
  imports Prelude
begin

text \<open>
  The part of Go's \<open>regexp\<close> the DNS validators use: character classes, concatenation,
  \<open>?\<close>, \<open>*\<close> and \<open>{0,n}\<close>, in an expression anchored at both ends. \<open>matches\<close> decides
  membership by derivatives; \<open>matches_lang\<close> shows that it decides the language of the expression.
\<close>

datatype rx =
    NoString
  | EmptyString
  | Class "(char \<times> char) list"
  | Alt rx rx
  | Cat rx rx
  | Star rx

definition in_class :: "(char \<times> char) list \<Rightarrow> char \<Rightarrow> bool" where
  "in_class rs c \<longleftrightarrow> list_ex (\<lambda>(a, b). ch a \<le> ch c \<and> ch c \<le> ch b) rs"

definition Optional :: "rx \<Rightarrow> rx" where
  "Optional r = Alt EmptyString r"

text \<open>\<open>r{0,n}\<close>.\<close>

primrec UpTo :: "nat \<Rightarrow> rx \<Rightarrow> rx" where
  "UpTo 0 r = EmptyString"
| "UpTo (Suc n) r = Alt EmptyString (Cat r (UpTo n r))"

subsection \<open>The language of an expression\<close>

inductive_set star :: "string set \<Rightarrow> string set" for A where
  star_Nil: "[] \<in> star A"
| star_step: "u \<in> A \<Longrightarrow> v \<in> star A \<Longrightarrow> u @ v \<in> star A"

primrec lang :: "rx \<Rightarrow> string set" where
  "lang NoString = {}"
| "lang EmptyString = {[]}"
| "lang (Class rs) = {[c] | c. in_class rs c}"
| "lang (Alt r s) = lang r \<union> lang s"
| "lang (Cat r s) = {u @ v | u v. u \<in> lang r \<and> v \<in> lang s}"
| "lang (Star r) = star (lang r)"

subsection \<open>Deciding it\<close>

primrec nullable :: "rx \<Rightarrow> bool" where
  "nullable NoString = False"
| "nullable EmptyString = True"
| "nullable (Class rs) = False"
| "nullable (Alt r s) = (nullable r \<or> nullable s)"
| "nullable (Cat r s) = (nullable r \<and> nullable s)"
| "nullable (Star r) = True"

text \<open>Constructors that drop empty alternatives, so that derivatives stay small.\<close>

fun mkAlt :: "rx \<Rightarrow> rx \<Rightarrow> rx" where
  "mkAlt NoString s = s"
| "mkAlt r NoString = r"
| "mkAlt r s = Alt r s"

fun mkCat :: "rx \<Rightarrow> rx \<Rightarrow> rx" where
  "mkCat NoString s = NoString"
| "mkCat EmptyString s = s"
| "mkCat r s = Cat r s"

primrec deriv :: "char \<Rightarrow> rx \<Rightarrow> rx" where
  "deriv c NoString = NoString"
| "deriv c EmptyString = NoString"
| "deriv c (Class rs) = (if in_class rs c then EmptyString else NoString)"
| "deriv c (Alt r s) = mkAlt (deriv c r) (deriv c s)"
| "deriv c (Cat r s) =
     (if nullable r then mkAlt (mkCat (deriv c r) s) (deriv c s) else mkCat (deriv c r) s)"
| "deriv c (Star r) = mkCat (deriv c r) (Star r)"

fun matches :: "rx \<Rightarrow> string \<Rightarrow> bool" where
  "matches r [] = nullable r"
| "matches r (c # cs) = matches (deriv c r) cs"

lemma lang_mkAlt [simp]: "lang (mkAlt r s) = lang r \<union> lang s"
  by (cases "(r, s)" rule: mkAlt.cases) auto

lemma lang_mkCat [simp]: "lang (mkCat r s) = lang (Cat r s)"
  by (cases "(r, s)" rule: mkCat.cases) auto

lemma nullable_lang: "nullable r \<longleftrightarrow> [] \<in> lang r"
  by (induction r) (auto intro: star_Nil)

lemma star_Cons: "c # w \<in> star A \<longleftrightarrow> (\<exists>u v. c # u \<in> A \<and> v \<in> star A \<and> w = u @ v)"
proof
  show "\<exists>u v. c # u \<in> A \<and> v \<in> star A \<and> w = u @ v" if "c # w \<in> star A"
    using that
  proof (induction "c # w" rule: star.induct)
    case (star_step u v)
    then show ?case by (cases u) auto
  qed
  show "c # w \<in> star A" if "\<exists>u v. c # u \<in> A \<and> v \<in> star A \<and> w = u @ v"
    using that star_step by (metis append_Cons)
qed

lemma Cons_cat:
  "(\<exists>u v. c # w = u @ v \<and> P u \<and> Q v) \<longleftrightarrow> (P [] \<and> Q (c # w)) \<or> (\<exists>u v. w = u @ v \<and> P (c # u) \<and> Q v)"
  by (auto simp: Cons_eq_append_conv)

lemma deriv_lang: "w \<in> lang (deriv c r) \<longleftrightarrow> c # w \<in> lang r"
proof (induction r arbitrary: w)
  case (Cat r s)
  have "c # w \<in> lang (Cat r s) \<longleftrightarrow> ([] \<in> lang r \<and> c # w \<in> lang s) \<or>
      (\<exists>u v. w = u @ v \<and> c # u \<in> lang r \<and> v \<in> lang s)"
    using Cons_cat [of c w "\<lambda>u. u \<in> lang r" "\<lambda>v. v \<in> lang s"] by simp
  then show ?case by (auto simp: nullable_lang Cat)
next
  case (Star r)
  then show ?case by (auto simp: star_Cons)
qed auto

theorem matches_lang: "matches r s \<longleftrightarrow> s \<in> lang r"
  by (induction s arbitrary: r) (auto simp: nullable_lang deriv_lang)

subsection \<open>Languages of the operators\<close>

lemma lang_Optional: "lang (Optional r) = insert [] (lang r)"
  by (simp add: Optional_def)

lemma lang_Cat_Class: "lang (Cat (Class rs) r) = {c # w | c w. in_class rs c \<and> w \<in> lang r}"
proof -
  have "w \<in> lang (Cat (Class rs) r) \<longleftrightarrow> (\<exists>c v. w = c # v \<and> in_class rs c \<and> v \<in> lang r)" for w
  proof
    assume "w \<in> lang (Cat (Class rs) r)"
    then show "\<exists>c v. w = c # v \<and> in_class rs c \<and> v \<in> lang r" by auto
  next
    assume "\<exists>c v. w = c # v \<and> in_class rs c \<and> v \<in> lang r"
    then obtain c v where "w = [c] @ v" "[c] \<in> lang (Class rs)" "v \<in> lang r" by auto
    then show "w \<in> lang (Cat (Class rs) r)" unfolding lang.simps(5) by blast
  qed
  then show ?thesis by blast
qed

lemma lang_UpTo_Class:
  "lang (UpTo n (Class rs)) = {s. length s \<le> n \<and> (\<forall>c\<in>set s. in_class rs c)}"
proof (induction n)
  case (Suc n)
  have "s \<in> lang (UpTo (Suc n) (Class rs)) \<longleftrightarrow> length s \<le> Suc n \<and> (\<forall>c\<in>set s. in_class rs c)" for s
    unfolding UpTo.simps lang.simps(4) lang_Cat_Class Suc by (cases s) auto
  then show ?case by blast
qed auto

text \<open>A \<open>c\<close>-separated list is the language of \<open>r (c r)*\<close>.\<close>

lemma lang_sep_list:
  assumes sep: "\<And>w. w \<in> lang r \<Longrightarrow> c \<notin> set w" and only: "\<And>x. in_class rs x \<longleftrightarrow> x = c"
  shows "s \<in> lang (Cat r (Star (Cat (Class rs) r))) \<longleftrightarrow> (\<forall>w\<in>set (Split s c). w \<in> lang r)"
proof
  have rest: "v \<in> star (lang (Cat (Class rs) r)) \<Longrightarrow> u \<in> lang r \<Longrightarrow> \<forall>w\<in>set (Split (u @ v) c). w \<in> lang r" for u v
  proof (induction v arbitrary: u rule: star.induct)
    case star_Nil
    then show ?case using sep [of u] by (simp add: Split_no_sep)
  next
    case (star_step x v)
    then obtain w where "x = c # w" "w \<in> lang r" using only by auto
    then show ?case using star_step sep [of u] by (auto simp: Split_append)
  qed
  show "\<forall>w\<in>set (Split s c). w \<in> lang r" if "s \<in> lang (Cat r (Star (Cat (Class rs) r)))"
    using that rest by auto
  have join: "ws \<noteq> [] \<Longrightarrow> \<forall>w\<in>set ws. w \<in> lang r \<Longrightarrow> \<exists>u v. Join ws [c] = u @ v \<and> u \<in> lang r \<and> v \<in> star (lang (Cat (Class rs) r))" for ws
  proof (induction ws)
    case (Cons w ws)
    show ?case
    proof (cases ws)
      case Nil
      then show ?thesis using Cons.prems by (auto intro: star_Nil)
    next
      case (Cons w' ws')
      then obtain u v where uv: "Join ws [c] = u @ v" "u \<in> lang r" "v \<in> star (lang (Cat (Class rs) r))"
        using Cons.IH Cons.prems by auto
      then have "c # u \<in> lang (Cat (Class rs) r)" using only by auto
      from star_step [OF this uv(3)] have "(c # u) @ v \<in> star (lang (Cat (Class rs) r))" .
      moreover have "Join (w # ws) [c] = w @ (c # u) @ v" using uv(1) Cons by (simp add: Join_Cons)
      ultimately show ?thesis using Cons.prems by (metis list.set_intros(1))
    qed
  qed simp
  show "s \<in> lang (Cat r (Star (Cat (Class rs) r)))" if "\<forall>w\<in>set (Split s c). w \<in> lang r"
    using join [OF Split_not_Nil that] by (auto simp: Join_Split)
qed

end
