(* ===== verification/Hosting.thy ===== *)
theory Hosting
  imports HostingConf Os Regex
begin

text \<open>
  The hosting service on Linux: accounts (internal/hosting/provision_linux.go), domains, configuration files and
  deployments (internal/hosting/deploy_linux.go). The state is that of the operating system.
\<close>

record 'o hosting =
  ho_Paths :: paths
  ho_os :: "'o os"

definition NewService :: "'o os \<Rightarrow> 'o hosting" where
  "NewService X = \<lparr>ho_Paths = DefaultPaths (Getenv X), ho_os = X\<rparr>"

definition NewServiceWithPaths :: "'o os \<Rightarrow> paths \<Rightarrow> 'o hosting" where
  "NewServiceWithPaths X p = \<lparr>ho_Paths = p, ho_os = X\<rparr>"

text \<open>\<open>CommandError\<close>: the command as \<open>%v\<close> prints it, the error and the trimmed output.\<close>

definition CommandError :: "string list \<Rightarrow> go_error \<Rightarrow> string \<Rightarrow> go_error" where
  "CommandError cmd err out =
     Errorf (''command ['' @ Join cmd '' '' @ ''] failed: '') err ([CHR 0x0A] @ ''output:'' @ [CHR 0x0A] @ TrimSpace out)"

definition ho_run :: "'o hosting \<Rightarrow> string list \<Rightarrow> 'o \<Rightarrow> go_error option \<times> 'o" where
  "ho_run S cmd s =
     (case CombinedOutput (ho_os S) cmd s of
        ((Some e, out), s') \<Rightarrow> (Some (CommandError cmd e out), s')
      | ((None, out), s') \<Rightarrow> (None, s'))"

definition runShell :: "'o hosting \<Rightarrow> string \<Rightarrow> 'o \<Rightarrow> go_error option \<times> 'o" where
  "runShell S cmdline s = ho_run S [''sh'', ''-c'', cmdline] s"

fun mkdirs :: "'o os \<Rightarrow> string list \<Rightarrow> 'o \<Rightarrow> go_error option \<times> 'o" where
  "mkdirs X [] s = (None, s)"
| "mkdirs X (d # ds) s =
     (case MkdirAll X d 493 s of
        (Some e, s') \<Rightarrow> (Some (Errorf (''mkdir '' @ d @ '': '') e []), s')
      | (None, s') \<Rightarrow> mkdirs X ds s')"

definition EnsureDirs :: "'o hosting \<Rightarrow> 'o \<Rightarrow> go_error option \<times> 'o" where
  "EnsureDirs S s =
     (let p = ho_Paths S in
      mkdirs (ho_os S) [BaseDir p, HomesDir p, NginxDir p, FpmDir p, DocumentRoot p, ReleasesRoot p, LogRoot p] s)"

subsection \<open>Numbers and pieces of command output\<close>

definition syntax_error :: "string \<Rightarrow> go_error" where
  "syntax_error s = ErrNew (''strconv.ParseInt: parsing '' @ go_quote s @ '': invalid syntax'')"

definition range_error :: "string \<Rightarrow> go_error" where
  "range_error s = ErrNew (''strconv.ParseInt: parsing '' @ go_quote s @ '': value out of range'')"

definition ParseInt64 :: "string \<Rightarrow> go_error + int" where
  "ParseInt64 s =
     (let neg = HasPrefix s ''-''; t = (if neg \<or> HasPrefix s ''+'' then tl s else s) in
      if t = [] \<or> \<not> list_all is_digit t then Inl (syntax_error s)
      else let n = int (nat_of_string 0 t); m = (if neg then - n else n) in
        if - (2 ^ 63) \<le> m \<and> m < 2 ^ 63 then Inr m else Inl (range_error s))"

text \<open>The first of \<open>strings.Fields\<close>, on ASCII text.\<close>

definition first_field :: "string \<Rightarrow> string" where
  "first_field s = takeWhile (\<lambda>c. \<not> is_space c) (dropWhile is_space s)"

definition Contains :: "string \<Rightarrow> string \<Rightarrow> bool" where
  "Contains s t = list_ex (\<lambda>i. HasPrefix (drop i s) t) [0..<Suc (length s)]"

subsection \<open>Accounts\<close>

definition validateUsername :: "string \<Rightarrow> go_error option" where
  "validateUsername u =
     (if length u = 0 \<or> length u > 32 then Some (ErrNew (''username '' @ go_quote u @ '': must be 1-32 chars''))
      else if \<not> is_lower (hd u)
      then Some (ErrNew (''username '' @ go_quote u @ '': must start with a lowercase letter''))
      else if \<not> list_all (\<lambda>r. is_lower r \<or> is_digit r \<or> r = CHR ''_'' \<or> r = CHR ''-'') u
      then Some (ErrNew (''username '' @ go_quote u @ '': only [a-z0-9_-] allowed''))
      else None)"

definition chown_R :: "string \<Rightarrow> string \<Rightarrow> string" where
  "chown_R username path = ''chown -R '' @ username @ '':'' @ username @ '' '' @ go_quote path"

definition chown_one :: "string \<Rightarrow> string \<Rightarrow> string" where
  "chown_one username path = ''chown '' @ username @ '':'' @ username @ '' '' @ go_quote path"

definition useradd_cmd :: "paths \<Rightarrow> string \<Rightarrow> string \<Rightarrow> string list" where
  "useradd_cmd p home username =
     [UseraddBin p, ''-m'', ''-d'', home, ''-s'', ''/bin/bash'', ''-g'', username, ''-c'', ''OrvixPanel account'', username]"

text \<open>\<open>strconv.Atoi\<close> with its error dropped.\<close>

definition atoi :: "string \<Rightarrow> int" where
  "atoi s = (case ParseInt64 s of Inr n \<Rightarrow> n | Inl e \<Rightarrow>
     if e = range_error s then (if HasPrefix s ''-'' then - (2 ^ 63) else 2 ^ 63 - 1) else 0)"

definition ho_CreateAccount :: "'o hosting \<Rightarrow> string \<Rightarrow> 'o \<Rightarrow> (go_error + int) \<times> 'o" where
  "ho_CreateAccount S username s0 =
     (let X = ho_os S; p = ho_Paths S; home = AccountHome p username; pub = AccountPublicHTML p username in
      case validateUsername username of Some e \<Rightarrow> (Inl e, s0) | None \<Rightarrow>
      (case LookupUser X username s0 of
         Found uid \<Rightarrow> (Inl (Errorf (''account '' @ go_quote username @ '': '') ErrAccountExists []), s0)
       | _ \<Rightarrow>
      (case ho_run S [GroupaddBin p, ''-f'', username] s0 of
         (Some e, s1) \<Rightarrow> (Inl (Errorf (''groupadd '' @ username @ '': '') e []), s1) | (None, s1) \<Rightarrow>
      (case ho_run S (useradd_cmd p home username) s1 of
         (Some e, s2) \<Rightarrow> (Inl (Errorf (''useradd '' @ username @ '': '') e []), s2) | (None, s2) \<Rightarrow>
      (case runShell S (chown_R username home) s2 of
         (Some e, s3) \<Rightarrow> (Inl (Errorf ''chown home: '' e []), s3) | (None, s3) \<Rightarrow>
      (case Chmod X home 489 s3 of
         (Some e, s4) \<Rightarrow> (Inl (Errorf ''chmod home 0751: '' e []), s4) | (None, s4) \<Rightarrow>
      (case MkdirAll X pub 493 s4 of
         (Some e, s5) \<Rightarrow> (Inl (Errorf ''mkdir public_html: '' e []), s5) | (None, s5) \<Rightarrow>
      (case runShell S (chown_one username pub) s5 of
         (Some e, s6) \<Rightarrow> (Inl (Errorf ''chown public_html: '' e []), s6) | (None, s6) \<Rightarrow>
      (case Chmod X pub 493 s6 of
         (Some e, s7) \<Rightarrow> (Inl (Errorf ''chmod public_html: '' e []), s7) | (None, s7) \<Rightarrow>
      (case LookupUser X username s7 of
         Found uid \<Rightarrow> (Inr (atoi uid), s7)
       | r \<Rightarrow> (Inl (Errorf ''lookup created user: '' (the (lookup_error r)) []), s7)))))))))))"

definition ho_SuspendAccount :: "'o hosting \<Rightarrow> string \<Rightarrow> 'o \<Rightarrow> go_error option \<times> 'o" where
  "ho_SuspendAccount S username s =
     (case validateUsername username of Some e \<Rightarrow> (Some e, s)
      | None \<Rightarrow> ho_run S [UsermodBin (ho_Paths S), ''-L'', username] s)"

definition ho_UnsuspendAccount :: "'o hosting \<Rightarrow> string \<Rightarrow> 'o \<Rightarrow> go_error option \<times> 'o" where
  "ho_UnsuspendAccount S username s =
     (case validateUsername username of Some e \<Rightarrow> (Some e, s)
      | None \<Rightarrow> ho_run S [UsermodBin (ho_Paths S), ''-U'', username] s)"

text \<open>The loop of five attempts, and the last one whose error counts.\<close>

fun userdel_loop :: "'o hosting \<Rightarrow> string list \<Rightarrow> nat \<Rightarrow> 'o \<Rightarrow> go_error option \<times> 'o" where
  "userdel_loop S cmd 0 s = ho_run S cmd s"
| "userdel_loop S cmd (Suc n) s =
     (case ho_run S cmd s of
        (None, s') \<Rightarrow> (None, s')
      | (Some e, s') \<Rightarrow> userdel_loop S cmd n s')"

definition ho_DeleteAccount :: "'o hosting \<Rightarrow> string \<Rightarrow> 'o \<Rightarrow> go_error option \<times> 'o" where
  "ho_DeleteAccount S username s =
     (case validateUsername username of Some e \<Rightarrow> (Some e, s) | None \<Rightarrow>
      (case LookupUser (ho_os S) username s of
         UnknownUser u \<Rightarrow> (None, s)
       | LookupFailed e \<Rightarrow> (Some e, s)
       | Found uid \<Rightarrow>
           userdel_loop S [UserdelBin (ho_Paths S), ''-r'', username] 5
             (snd (ho_run S [''pkill'', ''-9'', ''-u'', username] s))))"

subsection \<open>Usage\<close>

record disk_usage =
  du_Bytes :: int
  du_Inodes :: int
  du_DiskLimitMB :: int
  du_InodeLimit :: int

definition DiskUsed :: "'o hosting \<Rightarrow> string \<Rightarrow> 'o \<Rightarrow> (go_error + int) \<times> 'o" where
  "DiskUsed S path s =
     (case Output (ho_os S) [DuBin (ho_Paths S), ''-sb'', path] s of
        (Inl e, s') \<Rightarrow> (Inl (Errorf (''du '' @ path @ '': '') e []), s')
      | (Inr out, s') \<Rightarrow>
          (let f = first_field out in
           if f = [] then Inl (ErrNew (''du '' @ path @ '': empty output''))
           else (case ParseInt64 f of
               Inl e \<Rightarrow> Inl (Errorf (''du '' @ path @ '': parse '' @ go_quote f @ '': '') e [])
             | Inr n \<Rightarrow> Inr n), s'))"

definition InodeCount :: "'o hosting \<Rightarrow> string \<Rightarrow> 'o \<Rightarrow> (go_error + int) \<times> 'o" where
  "InodeCount S path s =
     (case Output (ho_os S) [''sh'', ''-c'', ''find '' @ go_quote path @ '' -xdev | wc -l''] s of
        (Inl e, s') \<Rightarrow> (Inl (Errorf (''find '' @ path @ '': '') e []), s')
      | (Inr out, s') \<Rightarrow>
          ((case ParseInt64 (TrimSpace out) of
              Inl e \<Rightarrow> Inl (Errorf ''parse inode count: '' e [])
            | Inr n \<Rightarrow> Inr n), s'))"

definition or_zero :: "go_error + int \<Rightarrow> int" where
  "or_zero r = (case r of Inl e \<Rightarrow> 0 | Inr n \<Rightarrow> n)"

definition PathInfo :: "'o hosting \<Rightarrow> string \<Rightarrow> 'o \<Rightarrow> (go_error + disk_usage) \<times> 'o" where
  "PathInfo S path s =
     (case DiskUsed S path s of
        (Inl e, s1) \<Rightarrow> (Inl e, s1)
      | (Inr bytes, s1) \<Rightarrow>
          (case InodeCount S path s1 of
             (r, s2) \<Rightarrow> (Inr \<lparr>du_Bytes = bytes, du_Inodes = or_zero r, du_DiskLimitMB = 0, du_InodeLimit = 0\<rparr>, s2)))"

subsection \<open>Domains\<close>

text \<open>\<open>[a-zA-Z0-9]([a-zA-Z0-9-]{0,61}[a-zA-Z0-9])?\<close>, twice or more with dots between.\<close>

definition host_class :: "(char \<times> char) list" where
  "host_class = [(CHR ''a'', CHR ''z''), (CHR ''A'', CHR ''Z''), (CHR ''0'', CHR ''9'')]"

definition host_label :: rx where
  "host_label =
     Cat (Class host_class) (Optional (Cat (UpTo 61 (Class (host_class @ [(CHR ''-'', CHR ''-'')]))) (Class host_class)))"

definition dot_label :: rx where
  "dot_label = Cat (Class [(CHR ''.'', CHR ''.'')]) host_label"

definition domainRegex :: rx where
  "domainRegex = Cat host_label (Cat dot_label (Star dot_label))"

definition isWSL :: "'o os \<Rightarrow> 'o \<Rightarrow> bool" where
  "isWSL X s =
     (case ReadFile X ''/proc/sys/kernel/osrelease'' s of
        Inl e \<Rightarrow> False
      | Inr out \<Rightarrow> Contains (ToLower out) ''microsoft'' \<or> Contains (ToLower out) ''wsl'')"

definition ValidateDomain :: "'o hosting \<Rightarrow> string \<Rightarrow> 'o \<Rightarrow> go_error option" where
  "ValidateDomain S name0 s =
     (let name = TrimSpace (ToLower name0) in
      if length name = 0 \<or> length name > 253 then Some (ErrNew (''domain '' @ go_quote name @ '': must be 1-253 chars''))
      else if \<not> matches domainRegex name then Some (ErrNew (''domain '' @ go_quote name @ '': invalid shape''))
      else if HasSuffix name ''.local'' \<and> Getenv (ho_os S) ''ORVIX_ALLOW_LOCAL_TLD'' \<noteq> ''1'' \<and> \<not> isWSL (ho_os S) s
      then Some (ErrNew (''domain '' @ go_quote name @ '': .local TLD requires ORVIX_ALLOW_LOCAL_TLD=1''))
      else None)"

text \<open>The two checks at the start of every domain operation.\<close>

definition check_names :: "'o hosting \<Rightarrow> string \<Rightarrow> string \<Rightarrow> 'o \<Rightarrow> go_error option" where
  "check_names S username domain s =
     (case validateUsername username of Some e \<Rightarrow> Some e | None \<Rightarrow> ValidateDomain S domain s)"

definition DomainOwnedBy :: "'o hosting \<Rightarrow> string \<Rightarrow> string \<Rightarrow> 'o \<Rightarrow> go_error + bool" where
  "DomainOwnedBy S username domain s =
     (case check_names S username domain s of Some e \<Rightarrow> Inl e | None \<Rightarrow>
      (case path_Rel (AccountHome (ho_Paths S) username) (DomainDocumentRoot (ho_Paths S) username domain) of
         Inl e \<Rightarrow> Inl e
       | Inr rel \<Rightarrow> Inr (\<not> (HasPrefix rel ''..'' \<or> rel = ''..''))))"

definition placeholder :: "string \<Rightarrow> string \<Rightarrow> string" where
  "placeholder username domain =
     println [''<!doctype html>'', ''<title>OrvixPanel</title>'', ''<h1>OrvixPanel placeholder</h1>'',
       ''<p>Account: '' @ username @ ''</p>'', ''<p>Domain: '' @ domain @ ''</p>'']"

definition bsn :: string where
  "bsn = [CHR 0x5C, CHR ''n'']"

definition infoPhp :: string where
  "infoPhp =
     println [''<?php'',
       ''echo '' @ dq (''OrvixPanel PHP-FPM alive'' @ bsn) @ '';'',
       ''echo '' @ dq ''PHP version: '' @ '' . PHP_VERSION . '' @ dq bsn @ '';'',
       ''echo '' @ dq ''User: '' @ '' . get_current_user() . '' @ dq bsn @ '';'',
       ''echo '' @ dq ''open_basedir: '' @ '' . ini_get('' @ [CHR 0x27] @ ''open_basedir'' @ [CHR 0x27] @ '') . '' @ dq bsn @ '';'']"

definition ho_CreateDomain :: "'o hosting \<Rightarrow> string \<Rightarrow> string \<Rightarrow> 'o \<Rightarrow> go_error option \<times> 'o" where
  "ho_CreateDomain S username domain s0 =
     (let X = ho_os S; docRoot = DomainDocumentRoot (ho_Paths S) username domain;
          idx = path_Join [docRoot, ''index.html'']; info = path_Join [docRoot, ''info.php''] in
      case check_names S username domain s0 of Some e \<Rightarrow> (Some e, s0) | None \<Rightarrow>
      (case DomainOwnedBy S username domain s0 of
         Inl e \<Rightarrow> (Some e, s0)
       | Inr owned \<Rightarrow>
      if \<not> owned then (Some (ErrNew (''domain '' @ go_quote domain @ '': path escapes account home'')), s0)
      else
      (case MkdirAll X docRoot 493 s0 of
         (Some e, s1) \<Rightarrow> (Some (Errorf ''mkdir doc root: '' e []), s1) | (None, s1) \<Rightarrow>
      (case runShell S (chown_R username docRoot) s1 of
         (Some e, s2) \<Rightarrow> (Some (Errorf ''chown doc root: '' e []), s2) | (None, s2) \<Rightarrow>
      (case WriteFile X idx (placeholder username domain) 420 s2 of
         (Some e, s3) \<Rightarrow> (Some (Errorf ''write index: '' e []), s3) | (None, s3) \<Rightarrow>
      (case runShell S (chown_one username idx) s3 of
         (Some e, s4) \<Rightarrow> (Some (Errorf ''chown index: '' e []), s4) | (None, s4) \<Rightarrow>
      (case WriteFile X info infoPhp 420 s4 of
         (Some e, s5) \<Rightarrow> (Some (Errorf ''write info.php: '' e []), s5) | (None, s5) \<Rightarrow>
      (case runShell S (chown_one username info) s5 of
         (Some e, s6) \<Rightarrow> (Some (Errorf ''chown info.php: '' e []), s6) | (None, s6) \<Rightarrow> (None, s6)))))))))"

definition RemoveVHostConfig :: "'o hosting \<Rightarrow> string \<Rightarrow> string \<Rightarrow> 'o \<Rightarrow> go_error option \<times> 'o" where
  "RemoveVHostConfig S username domain s = Remove (ho_os S) (NginxVHostPath (ho_Paths S) username domain) s"

definition RemoveFPMPool :: "'o hosting \<Rightarrow> string \<Rightarrow> string \<Rightarrow> 'o \<Rightarrow> go_error option \<times> 'o" where
  "RemoveFPMPool S username domain s = Remove (ho_os S) (FpmPoolPath (ho_Paths S) username domain) s"

definition DisablePool :: "'o hosting \<Rightarrow> string \<Rightarrow> string \<Rightarrow> 'o \<Rightarrow> go_error option \<times> 'o" where
  "DisablePool S username domain s = RemoveFPMPool S username domain s"

definition ho_DeleteDomain :: "'o hosting \<Rightarrow> string \<Rightarrow> string \<Rightarrow> 'o \<Rightarrow> go_error option \<times> 'o" where
  "ho_DeleteDomain S username domain s0 =
     (case check_names S username domain s0 of Some e \<Rightarrow> (Some e, s0) | None \<Rightarrow>
      (let s1 = snd (RemoveVHostConfig S username domain s0); s2 = snd (RemoveFPMPool S username domain s1) in
       case RemoveAll (ho_os S) (DomainDocumentRoot (ho_Paths S) username domain) s2 of
         (Some e, s3) \<Rightarrow> (Some (Errorf ''remove doc root: '' e []), s3)
       | (None, s3) \<Rightarrow> (None, s3)))"

definition WriteVHostConfig :: "'o hosting \<Rightarrow> string \<Rightarrow> string \<Rightarrow> string \<Rightarrow> 'o \<Rightarrow> go_error option \<times> 'o" where
  "WriteVHostConfig S username domain body s0 =
     (case check_names S username domain s0 of Some e \<Rightarrow> (Some e, s0) | None \<Rightarrow>
      (case MkdirAll (ho_os S) (NginxDir (ho_Paths S)) 493 s0 of
         (Some e, s1) \<Rightarrow> (Some e, s1) | (None, s1) \<Rightarrow>
      (case WriteFile (ho_os S) (NginxVHostPath (ho_Paths S) username domain) body 420 s1 of
         (Some e, s2) \<Rightarrow> (Some (Errorf ''write vhost: '' e []), s2) | (None, s2) \<Rightarrow> (None, s2))))"

definition WriteFPMPool :: "'o hosting \<Rightarrow> string \<Rightarrow> string \<Rightarrow> string \<Rightarrow> 'o \<Rightarrow> go_error option \<times> 'o" where
  "WriteFPMPool S username domain body s0 =
     (case check_names S username domain s0 of Some e \<Rightarrow> (Some e, s0) | None \<Rightarrow>
      (case MkdirAll (ho_os S) (FpmDir (ho_Paths S)) 493 s0 of
         (Some e, s1) \<Rightarrow> (Some e, s1) | (None, s1) \<Rightarrow>
      (case WriteFile (ho_os S) (FpmPoolPath (ho_Paths S) username domain) body 420 s1 of
         (Some e, s2) \<Rightarrow> (Some (Errorf ''write fpm pool: '' e []), s2) | (None, s2) \<Rightarrow> (None, s2))))"

definition TestNginx :: "'o hosting \<Rightarrow> 'o \<Rightarrow> go_error option \<times> 'o" where
  "TestNginx S s = runShell S (NginxTestCmd (ho_Paths S)) s"

definition ReloadNginx :: "'o hosting \<Rightarrow> 'o \<Rightarrow> go_error option \<times> 'o" where
  "ReloadNginx S s = runShell S (NginxReloadCmd (ho_Paths S)) s"

definition TestPHP :: "'o hosting \<Rightarrow> 'o \<Rightarrow> go_error option \<times> 'o" where
  "TestPHP S s = runShell S (FpmTestCmd (ho_Paths S)) s"

definition ReloadPHP :: "'o hosting \<Rightarrow> 'o \<Rightarrow> go_error option \<times> 'o" where
  "ReloadPHP S s = runShell S (FpmReloadCmd (ho_Paths S)) s"

subsection \<open>Deployments\<close>

definition nowMillisUTC :: "int \<Rightarrow> string" where
  "nowMillisUTC now = string_of_int (now div 1000000)"

definition CreateReleaseDir :: "'o hosting \<Rightarrow> int \<Rightarrow> string \<Rightarrow> string \<Rightarrow> 'o \<Rightarrow> (go_error + string) \<times> 'o" where
  "CreateReleaseDir S now username domain s0 =
     (case check_names S username domain s0 of Some e \<Rightarrow> (Inl e, s0) | None \<Rightarrow>
      (let ts = nowMillisUTC now; rel = ReleaseDir (ho_Paths S) username domain ts in
       case MkdirAll (ho_os S) rel 493 s0 of
         (Some e, s1) \<Rightarrow> (Inl (Errorf ''mkdir release: '' e []), s1) | (None, s1) \<Rightarrow>
      (case runShell S (chown_R username rel) s1 of
         (Some e, s2) \<Rightarrow> (Inl (Errorf ''chown release: '' e []), s2) | (None, s2) \<Rightarrow> (Inr ts, s2))))"

definition AtomicSwap :: "'o hosting \<Rightarrow> string \<Rightarrow> string \<Rightarrow> string \<Rightarrow> 'o \<Rightarrow> go_error option \<times> 'o" where
  "AtomicSwap S username domain newRelease s0 =
     (let X = ho_os S; src = ReleaseDir (ho_Paths S) username domain newRelease;
          dst = DomainDocumentRoot (ho_Paths S) username domain; tmp = dst @ ''.orvix-tmp'' in
      case check_names S username domain s0 of Some e \<Rightarrow> (Some e, s0) | None \<Rightarrow>
      (case Stat X src s0 of
         Inl e \<Rightarrow> (Some (Errorf (''release '' @ newRelease @ '': '') e []), s0)
       | Inr n \<Rightarrow>
      (case Lstat X dst s0 of
         Inl e \<Rightarrow> if IsNotExist e then Symlink X src dst s0 else (Some e, s0)
       | Inr n' \<Rightarrow>
           let s1 = snd (Remove X tmp s0) in
           (case Symlink X src tmp s1 of
              (Some e, s2) \<Rightarrow> (Some (Errorf ''temp symlink: '' e []), s2)
            | (None, s2) \<Rightarrow>
                (case Rename X tmp dst s2 of
                   (Some e, s3) \<Rightarrow> (Some (Errorf ''atomic rename: '' e []), snd (Remove X tmp s3))
                 | (None, s3) \<Rightarrow> (None, s3))))))"

definition CurrentRelease :: "'o hosting \<Rightarrow> string \<Rightarrow> string \<Rightarrow> 'o \<Rightarrow> go_error + string" where
  "CurrentRelease S username domain s =
     (let dst = DomainDocumentRoot (ho_Paths S) username domain in
      case Lstat (ho_os S) dst s of
        Inl e \<Rightarrow> Inl e
      | Inr (Link l) \<Rightarrow>
          (case Readlink (ho_os S) dst s of Inl e \<Rightarrow> Inl e | Inr target \<Rightarrow> Inr (path_Base target))
      | Inr _ \<Rightarrow> Inr [])"

definition ListReleases :: "'o hosting \<Rightarrow> string \<Rightarrow> string \<Rightarrow> 'o \<Rightarrow> go_error + string list" where
  "ListReleases S username domain s =
     (case check_names S username domain s of Some e \<Rightarrow> Inl e | None \<Rightarrow>
      (case ReadDir (ho_os S) (ReleasesDir (ho_Paths S) username domain) s of
         Inl e \<Rightarrow> if IsNotExist e then Inr [] else Inl e
       | Inr entries \<Rightarrow> Inr (rev (sort (map fst (filter snd entries))))))"

end
