(* ===== verification/HostingHandlers.thy ===== *)
theory HostingHandlers
  imports Hosting Request
begin

text \<open>
  The account, domain and deployment endpoints of internal/api/v1/accounts.go, domains.go and deployments.go. The state
  is the shared world and the operating system.
\<close>

type_synonym ('d, 'o) host_world = "'d world \<times> 'o"

record ('d, 'o) account_deps =
  ad_DB :: "'d gorm"
  ad_Hosting :: "'o hosting"
  ad_Audit :: "'d auditor option"

definition host_event :: "'d auditor option \<Rightarrow> request \<Rightarrow> event \<Rightarrow> ('d, 'o) host_world \<Rightarrow> ('d, 'o) host_world" where
  "host_event a rq ev w = (record_event a rq ev (fst w), snd w)"

definition account_event :: "('d, 'o) account_deps \<Rightarrow> request \<Rightarrow> claims \<Rightarrow> string \<Rightarrow> account \<Rightarrow> string \<Rightarrow>
    ('d, 'o) host_world \<Rightarrow> ('d, 'o) host_world" where
  "account_event D rq cl action row email w =
     host_event (ad_Audit D) rq
       (empty_event\<lparr>Action := action, ResourceType := ''account'', ResourceID := ID row, ResourceName := ac_Username row,
          Result := ''success'', UserID := cl_UserID cl, UserEmail := email, ActorIP := rq_ip rq\<rparr>) w"

subsection \<open>Accounts\<close>

record create_account_request =
  ca_Username :: string
  ca_Domain :: string
  ca_Plan :: string
  ca_DiskQuotaMB :: int
  ca_BandwidthGB :: int

definition account_row :: "string \<Rightarrow> claims \<Rightarrow> create_account_request \<Rightarrow> account" where
  "account_row newid cl req =
     BeforeCreate newid
       \<lparr>ID = newid, CreatedAt = zero_time, UpdatedAt = zero_time, DeletedAt = None,
        ac_Username = ToLower (TrimSpace (ca_Username req)), ac_Domain = ToLower (TrimSpace (ca_Domain req)),
        ac_TenantID = cl_TenantID cl, ac_Plan = or_str (ca_Plan req) ''basic'',
        ac_DiskQuotaMB = or_int (ca_DiskQuotaMB req) 10240, ac_BandwidthGB = or_int (ca_BandwidthGB req) 100,
        ac_BandwidthUsedGB = 0, ac_DiskUsedMB = 0, ac_Status = ''active''\<rparr>"

definition CreateAccountHandler :: "('d, 'o) account_deps \<Rightarrow> request \<Rightarrow> create_account_request option \<Rightarrow>
    ('d, 'o) host_world \<Rightarrow> account reply \<times> ('d, 'o) host_world" where
  "CreateAccountHandler D rq body w =
     (case rq_claims rq of None \<Rightarrow> (ErrUnauthorized, w) | Some cl \<Rightarrow>
      (case body of None \<Rightarrow> (Fail 400 ''invalid_body'', w) | Some req \<Rightarrow>
      (let username = ToLower (TrimSpace (ca_Username req)) in
       if username = [] then (Fail 400 ''missing_username'', w)
       else (case ho_CreateAccount (ad_Hosting D) username (snd w) of
          (Inl e, s) \<Rightarrow>
            (if errors_Is e ErrAccountExists then Fail 409 ''account_username_taken''
             else if errors_Is e ErrUnsupported then Fail 501 ''hosting_linux_only''
             else Fail 500 (''user_provision_failed:'' @ err_text e), (fst w, s))
        | (Inr uid, s) \<Rightarrow>
            (case tCreate (Accounts (ad_DB D)) (rq_now rq) (account_row (rq_id rq) cl req) (wdb (fst w)) of
               (Inl e, d) \<Rightarrow>
                 (Fail 500 (''account_create_failed:'' @ err_text e),
                  ((fst w)\<lparr>wdb := d\<rparr>, snd (ho_DeleteAccount (ad_Hosting D) username s)))
             | (Inr row, d) \<Rightarrow>
                 (Reply 201 row,
                  account_event D rq cl ''account.create'' row (cl_Email cl) ((fst w)\<lparr>wdb := d\<rparr>, s)))))))"

definition ListAccountsHandler :: "('d, 'o) account_deps \<Rightarrow> request \<Rightarrow> 'd \<Rightarrow> account list reply" where
  "ListAccountsHandler D rq d =
     (case rq_claims rq of None \<Rightarrow> ErrUnauthorized | Some cl \<Rightarrow>
      (case tFind (Accounts (ad_DB D)) (\<lambda>a. ac_TenantID a = cl_TenantID cl) (\<lambda>a b. CreatedAt b \<le> CreatedAt a) d of
         Inl e \<Rightarrow> Fail 500 ''account_list_failed''
       | Inr rows \<Rightarrow> Reply 200 rows))"

definition tenant_account :: "'d gorm \<Rightarrow> claims \<Rightarrow> string \<Rightarrow> 'd \<Rightarrow> go_error + account" where
  "tenant_account G cl aid d = tFirst (Accounts G) (\<lambda>a. ID a = aid \<and> ac_TenantID a = cl_TenantID cl) d"

definition GetAccountHandler :: "('d, 'o) account_deps \<Rightarrow> request \<Rightarrow> string \<Rightarrow> ('d, 'o) host_world \<Rightarrow>
    account reply \<times> ('d, 'o) host_world" where
  "GetAccountHandler D rq aid w =
     (case rq_claims rq of None \<Rightarrow> (ErrUnauthorized, w) | Some cl \<Rightarrow>
      (case tenant_account (ad_DB D) cl aid (wdb (fst w)) of
         Inl e \<Rightarrow>
           (if errors_Is e ErrRecordNotFound then Fail 404 ''account_not_found'' else Fail 500 ''account_get_failed'', w)
       | Inr row \<Rightarrow>
           (case DiskUsed (ad_Hosting D) (AccountHome (ho_Paths (ad_Hosting D)) (ac_Username row)) (snd w) of
              (r, s) \<Rightarrow> (Reply 200 (row\<lparr>ac_DiskUsedMB := (or_zero r sdiv 1024) sdiv 1024\<rparr>), (fst w, s)))))"

text \<open>Suspending and unsuspending differ in the command, the status and the names. \<open>Save\<close> sets the time of the update in the row, also when it fails.\<close>

definition SuspendAccountHandler :: "('d, 'o) account_deps \<Rightarrow> request \<Rightarrow> string \<Rightarrow> ('d, 'o) host_world \<Rightarrow>
    account reply \<times> ('d, 'o) host_world" where
  "SuspendAccountHandler D rq aid w =
     (case rq_claims rq of None \<Rightarrow> (ErrUnauthorized, w) | Some cl \<Rightarrow>
      (case tenant_account (ad_DB D) cl aid (wdb (fst w)) of
         Inl e \<Rightarrow> (Fail 404 ''account_not_found'', w)
       | Inr row0 \<Rightarrow>
           (case ho_SuspendAccount (ad_Hosting D) (ac_Username row0) (snd w) of
              (Some e, s) \<Rightarrow> (Fail 500 (''suspend_failed:'' @ err_text e), (fst w, s))
            | (None, s) \<Rightarrow>
                let row = row0\<lparr>ac_Status := ''suspended''\<rparr>;
                    d = snd (tSave (Accounts (ad_DB D)) (rq_now rq) row (wdb (fst w)))
                in (Reply 200 (row\<lparr>UpdatedAt := rq_now rq\<rparr>), account_event D rq cl ''account.suspend'' row [] ((fst w)\<lparr>wdb := d\<rparr>, s)))))"

definition UnsuspendAccountHandler :: "('d, 'o) account_deps \<Rightarrow> request \<Rightarrow> string \<Rightarrow> ('d, 'o) host_world \<Rightarrow>
    account reply \<times> ('d, 'o) host_world" where
  "UnsuspendAccountHandler D rq aid w =
     (case rq_claims rq of None \<Rightarrow> (ErrUnauthorized, w) | Some cl \<Rightarrow>
      (case tenant_account (ad_DB D) cl aid (wdb (fst w)) of
         Inl e \<Rightarrow> (Fail 404 ''account_not_found'', w)
       | Inr row0 \<Rightarrow>
           (case ho_UnsuspendAccount (ad_Hosting D) (ac_Username row0) (snd w) of
              (Some e, s) \<Rightarrow> (Fail 500 (''unsuspend_failed:'' @ err_text e), (fst w, s))
            | (None, s) \<Rightarrow>
                let row = row0\<lparr>ac_Status := ''active''\<rparr>;
                    d = snd (tSave (Accounts (ad_DB D)) (rq_now rq) row (wdb (fst w)))
                in (Reply 200 (row\<lparr>UpdatedAt := rq_now rq\<rparr>), account_event D rq cl ''account.unsuspend'' row [] ((fst w)\<lparr>wdb := d\<rparr>, s)))))"

text \<open>The row is removed, not marked: \<open>Unscoped().Delete\<close>.\<close>

definition DeleteAccountHandler :: "('d, 'o) account_deps \<Rightarrow> request \<Rightarrow> string \<Rightarrow> ('d, 'o) host_world \<Rightarrow>
    unit reply \<times> ('d, 'o) host_world" where
  "DeleteAccountHandler D rq aid w =
     (case rq_claims rq of None \<Rightarrow> (ErrUnauthorized, w) | Some cl \<Rightarrow>
      (case tenant_account (ad_DB D) cl aid (wdb (fst w)) of
         Inl e \<Rightarrow> (Fail 404 ''account_not_found'', w)
       | Inr row \<Rightarrow>
           (case ho_DeleteAccount (ad_Hosting D) (ac_Username row) (snd w) of
              (Some e, s) \<Rightarrow> (Fail 500 (''delete_failed:'' @ err_text e), (fst w, s))
            | (None, s) \<Rightarrow>
                let d = snd (tPurge (Accounts (ad_DB D)) (\<lambda>a. ID a = ID row) (wdb (fst w)))
                in (Reply 204 (), account_event D rq cl ''account.delete'' row [] ((fst w)\<lparr>wdb := d\<rparr>, s)))))"

record account_usage =
  us_account_id :: string
  us_username :: string
  us_disk_used_mb :: int
  us_disk_used_bytes :: int
  us_disk_quota_mb :: int
  us_inodes :: int
  us_bandwidth_gb :: int

definition AccountUsageHandler :: "('d, 'o) account_deps \<Rightarrow> request \<Rightarrow> string \<Rightarrow> ('d, 'o) host_world \<Rightarrow>
    account_usage reply \<times> ('d, 'o) host_world" where
  "AccountUsageHandler D rq aid w =
     (case rq_claims rq of None \<Rightarrow> (ErrUnauthorized, w) | Some cl \<Rightarrow>
      (case tenant_account (ad_DB D) cl aid (wdb (fst w)) of
         Inl e \<Rightarrow> (Fail 404 ''account_not_found'', w)
       | Inr row \<Rightarrow>
           (let home = AccountHome (ho_Paths (ad_Hosting D)) (ac_Username row) in
            case DiskUsed (ad_Hosting D) home (snd w) of (b, s1) \<Rightarrow>
            (case InodeCount (ad_Hosting D) home s1 of (i, s2) \<Rightarrow>
              (Reply 200 \<lparr>us_account_id = ID row, us_username = ac_Username row,
                 us_disk_used_mb = (or_zero b sdiv 1024) sdiv 1024, us_disk_used_bytes = or_zero b,
                 us_disk_quota_mb = ac_DiskQuotaMB row, us_inodes = or_zero i, us_bandwidth_gb = ac_BandwidthGB row\<rparr>,
               (fst w, s2))))))"

subsection \<open>Domains\<close>

text \<open>\<open>dm_fmt\<close> is \<open>time.Format\<close> with the layout of the view, \<open>dm_stamp\<close> the text of the current time.\<close>

record ('d, 'o) domain_deps =
  dm_DB :: "'d gorm"
  dm_Hosting :: "'o hosting"
  dm_Audit :: "'d auditor option"
  dm_fmt :: "int \<Rightarrow> string"
  dm_stamp :: "int \<Rightarrow> string"
  dm_uuid5 :: "string \<Rightarrow> string"

record domain_view =
  do_ID :: string
  do_AccountID :: string
  do_TenantID :: string
  do_Username :: string
  do_Name :: string
  do_DocumentRoot :: string
  do_Status :: string
  do_CreatedAt :: string

record create_domain_request =
  cd_Domain :: string
  cd_Port :: int

definition detectPHPVersion :: "'o os \<Rightarrow> string" where
  "detectPHPVersion X = (let v = TrimSpace (Getenv X ''ORVIX_FPM_VERSION'') in if v \<noteq> [] then v else ''8.5'')"

definition domain_vhost :: "'o hosting \<Rightarrow> string \<Rightarrow> string \<Rightarrow> int \<Rightarrow> vhost_config" where
  "domain_vhost S username domain port =
     \<lparr>vh_Username = username, vh_Domain = domain, vh_DocumentRoot = [], vh_Port = port, vh_HTTPRedirectHTTPS = False,
      vh_OpenBasedir = DomainDocumentRoot (ho_Paths S) username domain, vh_PHP = True, vh_FpmSocket = [], vh_ExtraHeaders = []\<rparr>"

definition domain_pool :: "'o hosting \<Rightarrow> string \<Rightarrow> string \<Rightarrow> fpm_config" where
  "domain_pool S username domain =
     \<lparr>fp_Username = username, fp_Domain = domain, fp_UnixUser = [], fp_UnixGroup = [], fp_Listen = [],
      fp_PHPVersion = detectPHPVersion (ho_os S), fp_PM = [], fp_MaxChildren = 0, fp_StartServers = 0, fp_MinSpareServers = 0,
      fp_MaxSpareServers = 0, fp_MaxRequests = 0, fp_MemoryLimit = [], fp_OpenBasedir = [], fp_Chdir = []\<rparr>"

text \<open>Steps 1 to 5 of the endpoint, on the operating system: \<open>None\<close> when every step succeeded.\<close>

definition fail_text :: "string \<Rightarrow> go_error \<Rightarrow> string" where
  "fail_text what e = what @ '':'' @ err_text e"

definition provision_domain :: "'o hosting \<Rightarrow> string \<Rightarrow> string \<Rightarrow> string \<Rightarrow> int \<Rightarrow> 'o \<Rightarrow> string option \<times> 'o" where
  "provision_domain S ts username domain port s0 =
     (case ho_CreateDomain S username domain s0 of
        (Some e, s1) \<Rightarrow> (Some (fail_text ''docroot_create_failed'' e), s1) | (None, s1) \<Rightarrow>
      (case GenerateNginxConfig (Getenv (ho_os S)) ts (domain_vhost S username domain port) of
        Inl e \<Rightarrow> (Some (fail_text ''vhost_generate_failed'' e), s1) | Inr vhost \<Rightarrow>
      (case WriteVHostConfig S username domain vhost s1 of
        (Some e, s2) \<Rightarrow> (Some (fail_text ''vhost_write_failed'' e), s2) | (None, s2) \<Rightarrow>
      (case GenerateFPMPool (Getenv (ho_os S)) ts (domain_pool S username domain) of
        Inl e \<Rightarrow> (Some (fail_text ''fpm_generate_failed'' e), s2) | Inr pool \<Rightarrow>
      (case WriteFPMPool S username domain pool s2 of
        (Some e, s3) \<Rightarrow> (Some (fail_text ''fpm_write_failed'' e), s3) | (None, s3) \<Rightarrow>
      (case TestNginx S s3 of
        (Some e, s4) \<Rightarrow> (Some (fail_text ''nginx_test_failed'' e), snd (RemoveVHostConfig S username domain s4))
      | (None, s4) \<Rightarrow>
      (case TestPHP S s4 of
        (Some e, s5) \<Rightarrow>
          (Some (fail_text ''fpm_test_failed'' e),
           snd (RemoveFPMPool S username domain (snd (RemoveVHostConfig S username domain s5))))
      | (None, s5) \<Rightarrow>
      (case ReloadNginx S s5 of
        (Some e, s6) \<Rightarrow> (Some (fail_text ''nginx_reload_failed'' e), s6) | (None, s6) \<Rightarrow>
      (case ReloadPHP S s6 of
        (Some e, s7) \<Rightarrow> (Some (fail_text ''fpm_reload_failed'' e), s7) | (None, s7) \<Rightarrow> (None, s7))))))))))"

definition CreateDomainHandler :: "('d, 'o) domain_deps \<Rightarrow> request \<Rightarrow> string \<Rightarrow> create_domain_request option \<Rightarrow>
    ('d, 'o) host_world \<Rightarrow> domain_view reply \<times> ('d, 'o) host_world" where
  "CreateDomainHandler D rq aid body w =
     (case rq_claims rq of None \<Rightarrow> (ErrUnauthorized, w) | Some cl \<Rightarrow>
      (case tenant_account (dm_DB D) cl aid (wdb (fst w)) of Inl e \<Rightarrow> (Fail 404 ''account_not_found'', w) | Inr acct \<Rightarrow>
      (case body of None \<Rightarrow> (Fail 400 ''invalid_body'', w) | Some req \<Rightarrow>
      (let domain = ToLower (TrimSpace (cd_Domain req)); port = or_int (cd_Port req) 80; S = dm_Hosting D in
       if domain = [] then (Fail 400 ''missing_domain'', w)
       else (case ValidateDomain S domain (snd w) of Some e \<Rightarrow> (Fail 400 (fail_text ''invalid_domain'' e), w) | None \<Rightarrow>
      (case provision_domain S (dm_stamp D (rq_now rq)) (ac_Username acct) domain port (snd w) of
         (Some why, s) \<Rightarrow> (Fail 500 why, (fst w, s))
       | (None, s) \<Rightarrow>
           let d = snd (tSave (Accounts (dm_DB D)) (rq_now rq) (acct\<lparr>ac_Domain := domain\<rparr>) (wdb (fst w))) in
           (Reply 201 \<lparr>do_ID = rq_id rq, do_AccountID = ID acct, do_TenantID = ac_TenantID acct, do_Username = ac_Username acct,
              do_Name = domain, do_DocumentRoot = DomainDocumentRoot (ho_Paths S) (ac_Username acct) domain,
              do_Status = ''active'', do_CreatedAt = dm_fmt D (CreatedAt acct)\<rparr>,
            host_event (dm_Audit D) rq
              (empty_event\<lparr>Action := ''domain.create'', ResourceType := ''domain'', ResourceID := domain, ResourceName := domain,
                 Result := ''success'', UserID := cl_UserID cl, ActorIP := rq_ip rq, Detail := ''account='' @ ac_Username acct\<rparr>)
              ((fst w)\<lparr>wdb := d\<rparr>, s))))))))"

definition DeleteDomainHandler :: "('d, 'o) domain_deps \<Rightarrow> request \<Rightarrow> string \<Rightarrow> string \<Rightarrow> ('d, 'o) host_world \<Rightarrow>
    unit reply \<times> ('d, 'o) host_world" where
  "DeleteDomainHandler D rq aid param w =
     (case rq_claims rq of None \<Rightarrow> (ErrUnauthorized, w) | Some cl \<Rightarrow>
      (let domain = ToLower param; S = dm_Hosting D in
      case tenant_account (dm_DB D) cl aid (wdb (fst w)) of Inl e \<Rightarrow> (Fail 404 ''account_not_found'', w) | Inr acct \<Rightarrow>
      (case ho_DeleteDomain S (ac_Username acct) domain (snd w) of
         (Some e, s) \<Rightarrow> (Fail 500 (fail_text ''domain_delete_failed'' e), (fst w, s))
       | (None, s) \<Rightarrow>
           (Reply 204 (),
            host_event (dm_Audit D) rq
              (empty_event\<lparr>Action := ''domain.delete'', ResourceType := ''domain'', ResourceID := domain, Result := ''success'',
                 UserID := cl_UserID cl, ActorIP := rq_ip rq\<rparr>)
              (fst w, snd (ReloadPHP S (snd (ReloadNginx S s))))))))"

definition ListDomainsHandler :: "('d, 'o) domain_deps \<Rightarrow> request \<Rightarrow> string \<Rightarrow> 'd \<Rightarrow> domain_view list reply" where
  "ListDomainsHandler D rq aid d =
     (case rq_claims rq of None \<Rightarrow> ErrUnauthorized | Some cl \<Rightarrow>
      (case tenant_account (dm_DB D) cl aid d of Inl e \<Rightarrow> Fail 404 ''account_not_found'' | Inr acct \<Rightarrow>
       if ac_Domain acct = [] then Reply 200 []
       else Reply 200 [\<lparr>do_ID = ID acct, do_AccountID = ID acct, do_TenantID = ac_TenantID acct, do_Username = ac_Username acct,
              do_Name = ac_Domain acct,
              do_DocumentRoot = DomainDocumentRoot (ho_Paths (dm_Hosting D)) (ac_Username acct) (ac_Domain acct),
              do_Status = ac_Status acct, do_CreatedAt = dm_fmt D (CreatedAt acct)\<rparr>]))"

subsection \<open>Deployments\<close>

record deployment_view =
  de_ID :: string
  de_AccountID :: string
  de_Username :: string
  de_Domain :: string
  de_Release :: string
  de_IsCurrent :: bool
  de_SizeBytes :: int
  de_ModifiedAt :: string

definition dirSize :: "'o os \<Rightarrow> string \<Rightarrow> 'o \<Rightarrow> int" where
  "dirSize X path s = foldl (\<lambda>n (regular, size). if regular then wrap64 (n + size) else n) 0 (WalkSizes X path s)"

text \<open>A failed \<open>Stat\<close> leaves a release out.\<close>

definition deployment :: "('d, 'o) domain_deps \<Rightarrow> account \<Rightarrow> string \<Rightarrow> string \<Rightarrow> 'o \<Rightarrow> string \<Rightarrow> deployment_view list" where
  "deployment D acct dmn current s rel =
     (let X = ho_os (dm_Hosting D); path = ReleaseDir (ho_Paths (dm_Hosting D)) (ac_Username acct) dmn rel in
      case Stat X path s of
        Inl e \<Rightarrow> []
      | Inr n \<Rightarrow>
          [\<lparr>de_ID = dm_uuid5 D (ID acct @ '':'' @ dmn @ '':'' @ rel), de_AccountID = ID acct, de_Username = ac_Username acct,
            de_Domain = dmn, de_Release = rel, de_IsCurrent = (rel = current), de_SizeBytes = dirSize X path s,
            de_ModifiedAt = ModTime X path s\<rparr>])"

definition domain_deployments :: "('d, 'o) domain_deps \<Rightarrow> account \<Rightarrow> 'o \<Rightarrow> string \<Rightarrow> deployment_view list" where
  "domain_deployments D acct s dmn =
     (let current = (case CurrentRelease (dm_Hosting D) (ac_Username acct) dmn s of Inl e \<Rightarrow> [] | Inr c \<Rightarrow> c);
          releases = (case ListReleases (dm_Hosting D) (ac_Username acct) dmn s of Inl e \<Rightarrow> [] | Inr rs \<Rightarrow> rs)
      in concat (map (deployment D acct dmn current s) releases))"

text \<open>\<open>sort.Slice\<close> on the times, newest first; equal times keep their order.\<close>

definition ListDeploymentsHandler :: "('d, 'o) domain_deps \<Rightarrow> request \<Rightarrow> string \<Rightarrow> ('d, 'o) host_world \<Rightarrow> deployment_view list reply" where
  "ListDeploymentsHandler D rq aid w =
     (case rq_claims rq of None \<Rightarrow> ErrUnauthorized | Some cl \<Rightarrow>
      (case tenant_account (dm_DB D) cl aid (wdb (fst w)) of
         Inl e \<Rightarrow> if errors_Is e ErrRecordNotFound then Fail 404 ''account_not_found'' else Fail 500 ''account_get_failed''
       | Inr acct \<Rightarrow>
           let names = (if ac_Domain acct \<noteq> [] then [ac_Domain acct] else []);
               out = concat (map (domain_deployments D acct (snd w)) names)
           in Reply 200 (sort_by (\<lambda>a b. de_ModifiedAt b \<le> de_ModifiedAt a) out)))"

end
