(* ===== verification/QuotaProps.thy ===== *)
theory QuotaProps
  imports Quota HostingHandlers AuthProps
begin

text \<open>
  Which limits hold: the check of a limit is exact, and the account endpoint does not make it. That the vault keeps its limit is shown in
  VaultProps.
\<close>

definition live_accounts :: "database \<Rightarrow> string \<Rightarrow> nat" where
  "live_accounts v tenant = length (sel (\<lambda>a. ac_TenantID a = tenant) (db_accounts v))"

context gorm_db_up
begin

lemma quota_Check_accounts:
  assumes "q \<in> set (db_quotas (view d))" "live q" "q_TenantID q = tenant" "tenant \<noteq> []"
    and "\<forall>x\<in>set (db_quotas (view d)). live x \<longrightarrow> q_TenantID x = tenant \<longrightarrow> x = q"
  shows "quota_Check G now newid tenant ResourceAccount d =
    (if q_MaxAccounts q \<le> int (live_accounts (view d) tenant) then (False, ''quota_accounts_exceeded'', None) else (True, [], None), d)"
proof -
  have "first_row (\<lambda>x. q_TenantID x = tenant) (db_quotas (view d)) = Some q" using assms(1-3,5) by (intro first_row_unique) blast+
  then have g: "quota_Get G now newid tenant ''smb'' d = (Inr q, d)" using assms(4) by (simp add: quota_Get_def tenant_quota.first_up)
  obtain n where n: "tCount (Accounts G) (\<lambda>x. ac_TenantID x = tenant) d = Inr n" using account.count_up by blast
  then have "n = live_accounts (view d) tenant" using account.count_ok [OF n] by (simp add: live_accounts_def)
  then show ?thesis using g n by (simp add: quota_Check_def check_count_def)
qed

text \<open>
  An account is created whatever the limit says. Where \<open>Check\<close> would refuse, the endpoint, which never calls it, creates the system user
  and the row and answers 201.
\<close>

lemma account_quota_not_enforced:
  assumes "ad_DB D = G" "rq_claims rq = Some cl" "ToLower (TrimSpace (ca_Username req)) \<noteq> []"
    and "ho_CreateAccount (ad_Hosting D) (ToLower (TrimSpace (ca_Username req))) os = (Inr uid, os')"
    and "\<forall>x\<in>set (db_accounts (view (wdb w))). \<not> account_clash x (stamp (rq_now rq) (account_defaults (account_row (rq_id rq) cl req)))"
    and "q \<in> set (db_quotas (view (wdb w)))" "live q" "q_TenantID q = cl_TenantID cl" "cl_TenantID cl \<noteq> []"
    and "\<forall>x\<in>set (db_quotas (view (wdb w))). live x \<longrightarrow> q_TenantID x = cl_TenantID cl \<longrightarrow> x = q"
    and "q_MaxAccounts q \<le> int (live_accounts (view (wdb w)) (cl_TenantID cl))"
  shows "quota_Check G now newid (cl_TenantID cl) ResourceAccount (wdb w) = ((False, ''quota_accounts_exceeded'', None), wdb w)"
    and "\<exists>row d w'. CreateAccountHandler D rq (Some req) (w, os) = (Reply 201 row, w', os') \<and>
      view d = (view (wdb w))\<lparr>db_accounts := db_accounts (view (wdb w)) @ [row]\<rparr> \<and>
      w' = record_event (account_deps.ad_Audit D) rq (empty_event\<lparr>Action := ''account.create'', ResourceType := ''account'', ResourceID := ID row,
        ResourceName := ac_Username row, Result := ''success'', UserID := cl_UserID cl, UserEmail := cl_Email cl, ActorIP := rq_ip rq\<rparr>) (w\<lparr>wdb := d\<rparr>)"
proof -
  show "quota_Check G now newid (cl_TenantID cl) ResourceAccount (wdb w) = ((False, ''quota_accounts_exceeded'', None), wdb w)"
    using quota_Check_accounts [OF assms(6-10)] assms(11) by simp
  obtain row d where c: "tCreate (Accounts G) (rq_now rq) (account_row (rq_id rq) cl req) (wdb w) = (Inr row, d)"
    using account.create_up [OF assms(5)] by blast
  have "view d = (view (wdb w))\<lparr>db_accounts := db_accounts (view (wdb w)) @ [row]\<rparr>" using account.create_ok [OF c] by simp
  then show "\<exists>row d w'. CreateAccountHandler D rq (Some req) (w, os) = (Reply 201 row, w', os') \<and>
      view d = (view (wdb w))\<lparr>db_accounts := db_accounts (view (wdb w)) @ [row]\<rparr> \<and>
      w' = record_event (account_deps.ad_Audit D) rq (empty_event\<lparr>Action := ''account.create'', ResourceType := ''account'', ResourceID := ID row,
        ResourceName := ac_Username row, Result := ''success'', UserID := cl_UserID cl, UserEmail := cl_Email cl, ActorIP := rq_ip rq\<rparr>) (w\<lparr>wdb := d\<rparr>)"
    using assms(1-4) c by (auto simp: CreateAccountHandler_def Let_def account_event_def host_event_def)
qed

end

end
