(* ===== verification/NetText.thy ===== *)
theory NetText
  imports Prelude
begin

text \<open>
  Two readers of Go's standard library the DNS validators call: \<open>fmt.Sscanf(s, "%d", &n)\<close> and
  \<open>net.ParseIP\<close>, the latter as far as whether it accepts.
\<close>

subsection \<open>Sscanf with a single decimal verb\<close>

text \<open>Leading white space is skipped, but a newline is an error.\<close>

fun SkipSpace :: "string \<Rightarrow> string option" where
  "SkipSpace [] = Some []"
| "SkipSpace [a] = (if ch a = 10 then None else if is_space a then Some [] else Some [a])"
| "SkipSpace [a, b] =
     (if ch a = 10 then None else if is_space a then SkipSpace [b] else if space2 a b then Some [] else Some [a, b])"
| "SkipSpace (a # b # c # ds) =
     (if ch a = 10 then None else if is_space a then SkipSpace (b # c # ds)
      else if space2 a b then SkipSpace (c # ds)
      else if space3 a b c then SkipSpace ds else Some (a # b # c # ds))"

text \<open>
  A sign, then the longest run of digits; what follows it is left unread. A value outside
  int64 is an error.
\<close>

definition digits_value :: "string \<Rightarrow> int option" where
  "digits_value s =
     (let ds = takeWhile is_digit s in if ds = [] then None else Some (int (nat_of_string 0 ds)))"

definition ScanInt :: "string \<Rightarrow> int option" where
  "ScanInt s =
     (case SkipSpace s of
        None \<Rightarrow> None
      | Some [] \<Rightarrow> None
      | Some (c # cs) \<Rightarrow>
          (case (if c = CHR ''-'' then map_option uminus (digits_value cs)
                 else if c = CHR ''+'' then digits_value cs else digits_value (c # cs)) of
             None \<Rightarrow> None
           | Some n \<Rightarrow> if - (2 ^ 63) \<le> n \<and> n < 2 ^ 63 then Some n else None))"

subsection \<open>IP addresses\<close>

text \<open>
  \<open>parseIPv4Fields\<close>: \<open>fs\<close> is the number of fields finished, \<open>dl\<close> and \<open>val\<close> the digits and the value
  of the current one.
\<close>

fun ip4_fields :: "nat \<Rightarrow> nat \<Rightarrow> nat \<Rightarrow> string \<Rightarrow> bool" where
  "ip4_fields fs dl val [] \<longleftrightarrow> fs = 3 \<and> 0 < dl"
| "ip4_fields fs dl val (c # cs) \<longleftrightarrow>
     (if is_digit c then
        \<not> (dl = 1 \<and> val = 0) \<and> 10 * val + (ch c - 48) \<le> 255 \<and> ip4_fields fs (Suc dl) (10 * val + (ch c - 48)) cs
      else c = CHR ''.'' \<and> 0 < dl \<and> fs < 3 \<and> ip4_fields (Suc fs) 0 0 cs)"

definition valid_ip4 :: "string \<Rightarrow> bool" where
  "valid_ip4 s = ip4_fields 0 0 0 s"

definition is_hex :: "char \<Rightarrow> bool" where
  "is_hex c \<longleftrightarrow> is_digit c \<or> 97 \<le> ch c \<and> ch c \<le> 102 \<or> 65 \<le> ch c \<and> ch c \<le> 70"

text \<open>
  The loop of \<open>parseIPv6\<close> after a leading \<open>::\<close>: \<open>i\<close> counts the bytes of the address read so far, \<open>el\<close>
  says whether an ellipsis was seen.
\<close>

definition ip6_end :: "nat \<Rightarrow> bool \<Rightarrow> bool" where
  "ip6_end i el \<longleftrightarrow> (if i < 16 then el else \<not> el)"

function ip6_loop :: "nat \<Rightarrow> bool \<Rightarrow> string \<Rightarrow> bool" where
  "ip6_loop i el s =
     (if 16 \<le> i then s = [] \<and> ip6_end i el
      else
        let g = takeWhile is_hex s; r = dropWhile is_hex s in
        if g = [] \<or> 4 < length g then False
        else (case r of
            [] \<Rightarrow> ip6_end (i + 2) el
          | c # cs \<Rightarrow>
              if c = CHR ''.'' then (el \<or> i = 12) \<and> i + 4 \<le> 16 \<and> valid_ip4 s \<and> ip6_end (i + 4) el
              else if c \<noteq> CHR '':'' then False
              else (case cs of
                  [] \<Rightarrow> False
                | c' # cs' \<Rightarrow>
                    if c' = CHR '':'' then
                      (if el then False else if cs' = [] then ip6_end (i + 2) True else ip6_loop (i + 2) True cs')
                    else ip6_loop (i + 2) el cs)))"
  by pat_completeness auto
termination
  by (relation "measure (\<lambda>(i, el, s). 16 - i)") auto

declare ip6_loop.simps [simp del]

definition valid_ip6 :: "string \<Rightarrow> bool" where
  "valid_ip6 s =
     (if HasPrefix s ''::'' then (let t = drop 2 s in if t = [] then True else ip6_loop 0 True t)
      else ip6_loop 0 False s)"

text \<open>
  \<open>net.ParseIP\<close> is not nil: the first of \<open>.\<close> and \<open>:\<close> (or \<open>%\<close>) decides the format, and an
  address with a zone is refused.
\<close>

definition ParseIP_ok :: "string \<Rightarrow> bool" where
  "ParseIP_ok s =
     (case dropWhile (\<lambda>c. c \<notin> {CHR ''.'', CHR '':'', CHR ''%''}) s of
        [] \<Rightarrow> False
      | c # cs \<Rightarrow>
          if c = CHR ''.'' then valid_ip4 s
          else if c = CHR '':'' then CHR ''%'' \<notin> set s \<and> valid_ip6 s
          else False)"

subsection \<open>Their inputs\<close>

definition dotted :: "nat \<Rightarrow> nat \<Rightarrow> nat \<Rightarrow> nat \<Rightarrow> string" where
  "dotted a b c d =
     string_of_nat a @ ''.'' @ string_of_nat b @ ''.'' @ string_of_nat c @ ''.'' @ string_of_nat d"

lemma digit_ch: "(d::nat) < 10 \<Longrightarrow> is_digit (char_of (48 + d))" "(d::nat) < 10 \<Longrightarrow> ch (char_of (48 + d)) - 48 = d"
  by (simp_all add: is_digit_def)

lemma char_zero: "char_of (48::nat) = CHR ''0''"
  by (rule of_char_eq_iff [where 'a = nat, THEN iffD1]) simp

lemma is_digit_cases: "is_digit c \<Longrightarrow> \<exists>d::nat. d < 10 \<and> c = char_of (48 + d)"
proof -
  assume "is_digit c"
  then have "ch c - 48 < 10" "c = char_of (48 + (ch c - 48))" by (auto simp: is_digit_def)
  then show ?thesis by blast
qed

lemma dot_not_digit [simp]: "\<not> is_digit (CHR ''.'')"
  by (simp add: is_digit_def)

lemma nat_of_string_ge: "acc \<le> nat_of_string acc ds"
proof (induction ds arbitrary: acc)
  case (Cons d ds)
  have "acc \<le> 10 * acc + (ch d - 48)" by simp
  also have "\<dots> \<le> nat_of_string (10 * acc + (ch d - 48)) ds" by (rule Cons.IH)
  finally show ?case by simp
qed simp

text \<open>One field: the digits of a number up to 255 without a leading zero.\<close>

definition octet :: "string \<Rightarrow> bool" where
  "octet ds \<longleftrightarrow> (\<exists>n\<le>255. ds = string_of_nat n)"

lemma string_of_nat_small: "n < 10 \<Longrightarrow> string_of_nat n = [char_of (48 + n)]"
  by (subst string_of_nat.simps) simp

lemma string_of_nat_step: "0 < n \<Longrightarrow> (d::nat) < 10 \<Longrightarrow> string_of_nat (10 * n + d) = string_of_nat n @ [char_of (48 + d)]"
  by (subst string_of_nat.simps) auto

lemma string_of_nat_of_string:
  "\<forall>c\<in>set ds. is_digit c \<Longrightarrow> 0 < n \<Longrightarrow> string_of_nat (nat_of_string n ds) = string_of_nat n @ ds"
proof (induction ds arbitrary: n)
  case (Cons c ds)
  obtain d :: nat where d: "d < 10" "c = char_of (48 + d)" using Cons.prems is_digit_cases by (metis list.set_intros(1))
  have "nat_of_string n (c # ds) = nat_of_string (10 * n + d) ds" using d digit_ch by simp
  then show ?case using Cons.IH [of "10 * n + d"] Cons.prems d string_of_nat_step by simp
qed simp

lemma digits_text:
  assumes "\<forall>c\<in>set ds. is_digit c" "ds \<noteq> []" "hd ds = CHR ''0'' \<Longrightarrow> tl ds = []"
  shows "ds = string_of_nat (nat_of_string 0 ds)"
proof -
  obtain c cs where ds: "ds = c # cs" using assms(2) by (cases ds) auto
  obtain d :: nat where d: "d < 10" "c = char_of (48 + d)" using assms(1) ds is_digit_cases by (metis list.set_intros(1))
  have v: "nat_of_string 0 ds = nat_of_string d cs" using ds d digit_ch by simp
  show ?thesis
  proof (cases "d = 0")
    case True
    then have "cs = []" using assms(3) ds d char_zero by auto
    with ds d True v show ?thesis by (simp add: string_of_nat_small)
  next
    case False
    then have "string_of_nat (nat_of_string d cs) = string_of_nat d @ cs"
      using string_of_nat_of_string assms(1) ds by simp
    then show ?thesis using v ds d by (simp add: string_of_nat_small)
  qed
qed

text \<open>Reading the rest of a field, and then the rest of the address.\<close>

lemma ip4_fields_digits:
  assumes "\<forall>c\<in>set ds. is_digit c" "0 < dl" "dl = 1 \<Longrightarrow> val = 0 \<Longrightarrow> ds = []" "val \<le> 255" "1 < dl \<Longrightarrow> 0 < val"
    and "\<forall>c cs. rest = c # cs \<longrightarrow> \<not> is_digit c"
  shows "ip4_fields fs dl val (ds @ rest) \<longleftrightarrow>
     nat_of_string val ds \<le> 255 \<and> ip4_fields fs (dl + length ds) (nat_of_string val ds) rest"
  using assms
proof (induction ds arbitrary: dl val)
  case (Cons c ds)
  let ?v = "10 * val + (ch c - 48)"
  have pos: "0 < val" using Cons.prems by (cases "dl = 1") auto
  have big: "nat_of_string ?v ds \<le> 255 \<Longrightarrow> ?v \<le> 255" using nat_of_string_ge le_trans by blast
  show ?case
  proof (cases "?v \<le> 255")
    case True
    with Cons.IH [of "Suc dl" ?v] Cons.prems pos show ?thesis by simp
  next
    case False
    with big Cons.prems show ?thesis by auto
  qed
qed simp

lemma string_of_nat_no_zero: "10 \<le> n \<Longrightarrow> \<exists>c cs. string_of_nat n = c # cs \<and> cs \<noteq> [] \<and> 0 < ch c - (48::nat)"
proof (induction n rule: string_of_nat.induct)
  case (1 n)
  have step: "string_of_nat n = string_of_nat (n div 10) @ [char_of (48 + n mod 10)]"
    using "1.prems" by (subst string_of_nat.simps) simp
  show ?case
  proof (cases "n div 10 < 10")
    case True
    then show ?thesis using step "1.prems" by (simp add: string_of_nat_small)
  next
    case False
    then show ?thesis using step "1.IH" "1.prems" by fastforce
  qed
qed

lemma ip4_field:
  "ip4_fields fs 0 0 s \<longleftrightarrow> (\<exists>ds rest. s = ds @ rest \<and> octet ds \<and>
     (rest = [] \<and> fs = 3 \<or> (\<exists>r. rest = CHR ''.'' # r \<and> fs < 3 \<and> ip4_fields (Suc fs) 0 0 r)))"
proof
  assume run: "ip4_fields fs 0 0 s"
  define ds rest where "ds = takeWhile is_digit s" and "rest = dropWhile is_digit s"
  have s: "s = ds @ rest" unfolding ds_def rest_def by (simp only: takeWhile_dropWhile_id)
  have digits: "\<forall>c\<in>set ds. is_digit c" unfolding ds_def by (meson set_takeWhileD)
  have stop: "\<forall>c cs. rest = c # cs \<longrightarrow> \<not> is_digit c"
    unfolding rest_def by (simp add: dropWhile_eq_Cons_conv)
  have "ds \<noteq> []" using run s stop by (cases rest) auto
  then obtain c cs where ds: "ds = c # cs" by (cases ds) auto
  let ?v = "ch c - 48"
  have next1: "ip4_fields fs 1 ?v (cs @ rest)" using run s ds digits by simp
  have zero: "?v = 0 \<Longrightarrow> cs = []" using next1 digits ds by (cases cs) auto
  have "nat_of_string ?v cs \<le> 255" "ip4_fields fs (1 + length cs) (nat_of_string ?v cs) rest"
    using ip4_fields_digits [of cs 1 ?v rest fs] next1 digits ds zero stop by (auto simp: is_digit_def)
  moreover have "ds = string_of_nat (nat_of_string 0 ds)"
    by (rule digits_text) (use digits ds zero in auto)
  moreover have "nat_of_string 0 ds = nat_of_string ?v cs" using ds by simp
  ultimately have "octet ds" "ip4_fields fs (1 + length cs) (nat_of_string ?v cs) rest" unfolding octet_def by metis+
  then show "\<exists>ds rest. s = ds @ rest \<and> octet ds \<and>
     (rest = [] \<and> fs = 3 \<or> (\<exists>r. rest = CHR ''.'' # r \<and> fs < 3 \<and> ip4_fields (Suc fs) 0 0 r))"
    using s stop by (cases rest) auto
next
  assume "\<exists>ds rest. s = ds @ rest \<and> octet ds \<and>
     (rest = [] \<and> fs = 3 \<or> (\<exists>r. rest = CHR ''.'' # r \<and> fs < 3 \<and> ip4_fields (Suc fs) 0 0 r))"
  then obtain n rest where s: "s = string_of_nat n @ rest" "n \<le> 255"
    and rest: "rest = [] \<and> fs = 3 \<or> (\<exists>r. rest = CHR ''.'' # r \<and> fs < 3 \<and> ip4_fields (Suc fs) 0 0 r)"
    by (auto simp: octet_def)
  obtain c cs where ds: "string_of_nat n = c # cs" by (cases "string_of_nat n") auto
  have digits: "\<forall>x\<in>set (c # cs). is_digit x" using string_of_nat_digits ds by metis
  have zero: "ch c - (48::nat) = 0 \<Longrightarrow> cs = []"
    using string_of_nat_no_zero [of n] string_of_nat_small [of n] ds by (cases "10 \<le> n") auto
  have val: "nat_of_string (ch c - 48) cs = n" using nat_of_string_of_nat [of n] ds by simp
  have "ip4_fields fs 1 (ch c - 48) (cs @ rest)"
    using ip4_fields_digits [of cs 1 "ch c - 48" rest fs] digits zero val s(2) rest by (auto simp: is_digit_def)
  then show "ip4_fields fs 0 0 s" using s ds digits by (auto simp: is_digit_def)
qed

theorem valid_ip4_iff: "valid_ip4 s \<longleftrightarrow> (\<exists>a b c d. a \<le> 255 \<and> b \<le> 255 \<and> c \<le> 255 \<and> d \<le> 255 \<and> s = dotted a b c d)"
proof
  assume "valid_ip4 s"
  then have "ip4_fields 0 0 0 s" by (simp add: valid_ip4_def)
  then obtain a r1 where 1: "a \<le> 255" "s = string_of_nat a @ ''.'' @ r1" "ip4_fields 1 0 0 r1"
    by (subst (asm) ip4_field) (auto simp: octet_def)
  then obtain b r2 where 2: "b \<le> 255" "r1 = string_of_nat b @ ''.'' @ r2" "ip4_fields 2 0 0 r2"
    by (subst (asm) (1) ip4_field) (auto simp: octet_def numeral_2_eq_2)
  then obtain c r3 where 3: "c \<le> 255" "r2 = string_of_nat c @ ''.'' @ r3" "ip4_fields 3 0 0 r3"
    by (subst (asm) (1) ip4_field) (auto simp: octet_def numeral_3_eq_3)
  then obtain d where 4: "d \<le> 255" "r3 = string_of_nat d"
    by (subst (asm) (1) ip4_field) (auto simp: octet_def)
  show "\<exists>a b c d. a \<le> 255 \<and> b \<le> 255 \<and> c \<le> 255 \<and> d \<le> 255 \<and> s = dotted a b c d"
    unfolding dotted_def using 1(1,2) 2(1,2) 3(1,2) 4 by blast
next
  assume "\<exists>a b c d. a \<le> 255 \<and> b \<le> 255 \<and> c \<le> 255 \<and> d \<le> 255 \<and> s = dotted a b c d"
  then obtain a b c d where s: "a \<le> 255" "b \<le> 255" "c \<le> 255" "d \<le> 255" "s = dotted a b c d" by blast
  have last: "n \<le> 255 \<Longrightarrow> ip4_fields 3 0 0 (string_of_nat n)" for n
    by (subst ip4_field) (auto simp: octet_def)
  have more: "n \<le> 255 \<Longrightarrow> fs < 3 \<Longrightarrow> ip4_fields (Suc fs) 0 0 r \<Longrightarrow> ip4_fields fs 0 0 (string_of_nat n @ CHR ''.'' # r)" for n fs r
    by (subst ip4_field) (fastforce simp: octet_def)
  show "valid_ip4 s"
    unfolding valid_ip4_def s(5) dotted_def
    using more [OF s(1), of 0] more [OF s(2), of 1] more [OF s(3), of 2] last [OF s(4)]
    by (simp add: numeral_2_eq_2 numeral_3_eq_3)
qed

end
