(* ===== verification/DnsValid.thy ===== *)
theory DnsValid
  imports Regex NetText
begin

text \<open>
  The validators of internal/dns/validator.go. Each returns \<open>None\<close> for Go's nil error. The
  regular expressions are \<^typ>\<open>rx\<close> terms.
\<close>

definition RecordTypeA :: string where "RecordTypeA = ''A''"
definition RecordTypeAAAA :: string where "RecordTypeAAAA = ''AAAA''"
definition RecordTypeCNAME :: string where "RecordTypeCNAME = ''CNAME''"
definition RecordTypeMX :: string where "RecordTypeMX = ''MX''"
definition RecordTypeTXT :: string where "RecordTypeTXT = ''TXT''"
definition RecordTypeNS :: string where "RecordTypeNS = ''NS''"
definition RecordTypeSRV :: string where "RecordTypeSRV = ''SRV''"
definition RecordTypeCAA :: string where "RecordTypeCAA = ''CAA''"

lemmas record_type_defs = RecordTypeA_def RecordTypeAAAA_def RecordTypeCNAME_def RecordTypeMX_def
  RecordTypeTXT_def RecordTypeNS_def RecordTypeSRV_def RecordTypeCAA_def

definition ValidRecordTypes :: "string list" where
  "ValidRecordTypes =
     [RecordTypeA, RecordTypeAAAA, RecordTypeCNAME, RecordTypeMX, RecordTypeTXT, RecordTypeNS, RecordTypeSRV,
      RecordTypeCAA]"

definition ErrEmptyDomain :: go_error where
  [go_errors]: "ErrEmptyDomain = ErrNew ''domain cannot be empty''"
definition ErrInvalidDomain :: go_error where
  [go_errors]: "ErrInvalidDomain = ErrNew ''invalid domain format''"
definition ErrInvalidRecordType :: go_error where
  [go_errors]: "ErrInvalidRecordType = ErrNew ''unsupported record type''"
definition ErrInvalidRecordName :: go_error where
  [go_errors]: "ErrInvalidRecordName = ErrNew ''invalid record name''"
definition ErrInvalidContent :: go_error where
  [go_errors]: "ErrInvalidContent = ErrNew ''invalid record content''"
definition ErrInvalidTTL :: go_error where
  [go_errors]: "ErrInvalidTTL = ErrNew ''ttl must be between 60 and 86400''"
definition ErrInvalidPriority :: go_error where
  [go_errors]: "ErrInvalidPriority = ErrNew ''priority must be between 0 and 65535''"

text \<open>\<open>[a-z0-9]([a-z0-9-]{0,61}[a-z0-9])?\<close>, and a dot-separated list of it.\<close>

definition alnum_class :: "(char \<times> char) list" where
  "alnum_class = [(CHR ''a'', CHR ''z''), (CHR ''0'', CHR ''9'')]"

definition ldh_class :: "(char \<times> char) list" where
  "ldh_class = [(CHR ''a'', CHR ''z''), (CHR ''0'', CHR ''9''), (CHR ''-'', CHR ''-'')]"

definition validLabel :: rx where
  "validLabel =
     Cat (Class alnum_class) (Optional (Cat (UpTo 61 (Class ldh_class)) (Class alnum_class)))"

definition DomainRegex :: rx where
  "DomainRegex = Cat validLabel (Star (Cat (Class [(CHR ''.'', CHR ''.'')]) validLabel))"

record record_definition =
  rdf_Name :: string
  rdf_Type :: string
  rdf_Content :: string
  rdf_TTL :: int
  rdf_Priority :: int

definition ValidateZoneDomain :: "string \<Rightarrow> go_error option" where
  "ValidateZoneDomain domain0 =
     (let domain = ToLower (TrimSpace domain0) in
      if domain = [] then Some ErrEmptyDomain
      else if length domain > 253 then Some (Errorf [] ErrInvalidDomain '': domain too long'')
      else (let domain = TrimSuffix domain ''.'' in
         if \<not> matches DomainRegex domain then Some (Errorf [] ErrInvalidDomain ('': '' @ domain))
         else None))"

definition ValidateRecordType :: "string \<Rightarrow> go_error option" where
  "ValidateRecordType recordType =
     (if list_ex (\<lambda>t. t = ToUpper recordType) ValidRecordTypes then None
      else Some (Errorf [] ErrInvalidRecordType ('': '' @ recordType)))"

definition ValidateRecordName :: "string \<Rightarrow> go_error option" where
  "ValidateRecordName name0 =
     (let name = TrimSpace name0 in
      if name = [] then Some (Errorf [] ErrInvalidRecordName '': name cannot be empty'')
      else if name \<noteq> ''@'' \<and> name \<noteq> ''*'' then
        (if length name > 63 then Some (Errorf [] ErrInvalidRecordName '': label too long'')
         else if \<not> matches validLabel (ToLower name) then Some (Errorf [] ErrInvalidRecordName ('': '' @ name))
         else None)
      else None)"

definition ValidateTTL :: "int \<Rightarrow> go_error option" where
  "ValidateTTL ttl =
     (if ttl < 60 \<or> ttl > 86400
      then Some (Errorf [] ErrInvalidTTL ('': '' @ string_of_int ttl @ '' (valid: 60-86400)''))
      else None)"

definition ValidatePriority :: "int \<Rightarrow> go_error option" where
  "ValidatePriority priority =
     (if priority < 0 \<or> priority > 65535 then Some (Errorf [] ErrInvalidPriority ('': '' @ string_of_int priority))
      else None)"

definition validateIPv4 :: "string \<Rightarrow> go_error option" where
  "validateIPv4 ip =
     (if \<not> ParseIP_ok ip \<or> ContainsChar ip (CHR '':'')
      then Some (Errorf [] ErrInvalidContent ('': not a valid IPv4 address: '' @ ip)) else None)"

definition validateIPv6 :: "string \<Rightarrow> go_error option" where
  "validateIPv6 ip =
     (if \<not> ParseIP_ok ip \<or> \<not> ContainsChar ip (CHR '':'')
      then Some (Errorf [] ErrInvalidContent ('': not a valid IPv6 address: '' @ ip)) else None)"

text \<open>The loop over the labels of a host name.\<close>

fun validateLabels :: "string list \<Rightarrow> go_error option" where
  "validateLabels [] = None"
| "validateLabels (label # labels) =
     (if length label > 63 then Some (Errorf [] ErrInvalidContent ('': label too long: '' @ label))
      else if \<not> matches validLabel (ToLower label)
      then Some (Errorf [] ErrInvalidContent ('': invalid label: '' @ label))
      else validateLabels labels)"

definition validateHostname :: "string \<Rightarrow> go_error option" where
  "validateHostname hostname0 =
     (let hostname = TrimSuffix hostname0 ''.'' in
      if hostname = [] then Some (Errorf [] ErrInvalidContent '': hostname cannot be empty'')
      else if length hostname > 253 then Some (Errorf [] ErrInvalidContent '': hostname too long'')
      else (let labels = Split hostname (CHR ''.'') in
         if length labels < 1 then Some (Errorf [] ErrInvalidContent '': invalid hostname'')
         else validateLabels labels))"

definition quoted :: "string \<Rightarrow> string" where
  "quoted s = [CHR 0x27] @ s @ [CHR 0x27]"

definition validateMXContent :: "string \<Rightarrow> go_error option" where
  "validateMXContent content =
     (let parts = Split content (CHR '' '') in
      if length parts < 2 then Some (Errorf [] ErrInvalidContent ('': MX must be '' @ quoted ''priority hostname''))
      else (case ScanInt (parts ! 0) of
          None \<Rightarrow> Some (Errorf [] ErrInvalidContent '': MX priority must be a number'')
        | Some priority \<Rightarrow>
            if priority < 0 \<or> priority > 65535
            then Some (Errorf [] ErrInvalidContent '': MX priority out of range'')
            else validateHostname (Join (drop 1 parts) '' '')))"

definition validateTXTContent :: "string \<Rightarrow> go_error option" where
  "validateTXTContent content =
     (if length content > 400 then Some (Errorf [] ErrInvalidContent '': TXT content exceeds maximum length'')
      else None)"

definition validateSRVContent :: "string \<Rightarrow> go_error option" where
  "validateSRVContent content =
     (let parts = Split content (CHR '' '') in
      if length parts \<noteq> 4 then Some (Errorf [] ErrInvalidContent ('': SRV must be '' @ quoted ''priority weight port target''))
      else (case ScanInt (parts ! 0) of
          None \<Rightarrow> Some (Errorf [] ErrInvalidContent '': SRV priority must be a number'')
        | Some priority \<Rightarrow>
        (case ScanInt (parts ! 1) of
          None \<Rightarrow> Some (Errorf [] ErrInvalidContent '': SRV weight must be a number'')
        | Some weight \<Rightarrow>
        (case ScanInt (parts ! 2) of
          None \<Rightarrow> Some (Errorf [] ErrInvalidContent '': SRV port must be a number'')
        | Some port \<Rightarrow>
            if priority < 0 \<or> priority > 65535
            then Some (Errorf [] ErrInvalidContent '': SRV priority out of range'')
            else if weight < 0 \<or> weight > 65535
            then Some (Errorf [] ErrInvalidContent '': SRV weight out of range'')
            else if port < 1 \<or> port > 65535
            then Some (Errorf [] ErrInvalidContent '': SRV port must be between 1 and 65535'')
            else if parts ! 3 = ''.'' then None
            else validateHostname (parts ! 3)))))"

definition validateCAAContent :: "string \<Rightarrow> go_error option" where
  "validateCAAContent content =
     (let parts = Split content (CHR '' '') in
      if length parts < 3 then Some (Errorf [] ErrInvalidContent ('': CAA must be '' @ quoted ''flags tag value''))
      else (case ScanInt (parts ! 0) of
          None \<Rightarrow> Some (Errorf [] ErrInvalidContent '': CAA flags must be a number'')
        | Some flags \<Rightarrow>
            if flags < 0 \<or> flags > 255
            then Some (Errorf [] ErrInvalidContent '': CAA flags out of range (0-255)'')
            else (let tag = parts ! 1 in
              if tag \<noteq> ''issue'' \<and> tag \<noteq> ''issuewild'' \<and> tag \<noteq> ''iodef''
              then Some (Errorf [] ErrInvalidContent 
                ('': CAA tag must be '' @ quoted ''issue'' @ '', '' @ quoted ''issuewild'' @ '', or '' @ quoted ''iodef''))
              else if length (Join (drop 2 parts) '' '') > 255
              then Some (Errorf [] ErrInvalidContent '': CAA value too long'') else None)))"

definition ValidateRecordContent :: "string \<Rightarrow> string \<Rightarrow> go_error option" where
  "ValidateRecordContent recordType content0 =
     (let content = TrimSpace content0; t = ToUpper recordType in
      if content = [] then Some (Errorf [] ErrInvalidContent '': content cannot be empty'')
      else if t = RecordTypeA then validateIPv4 content
      else if t = RecordTypeAAAA then validateIPv6 content
      else if t = RecordTypeMX then validateMXContent content
      else if t = RecordTypeTXT then validateTXTContent content
      else if t = RecordTypeCNAME \<or> t = RecordTypeNS then validateHostname content
      else if t = RecordTypeSRV then validateSRVContent content
      else if t = RecordTypeCAA then validateCAAContent content
      else Some (Errorf [] ErrInvalidRecordType ('': '' @ recordType)))"

definition ValidateRecord :: "record_definition \<Rightarrow> go_error option" where
  "ValidateRecord r =
     (case ValidateRecordType (rdf_Type r) of Some e \<Rightarrow> Some e | None \<Rightarrow>
     (case ValidateRecordName (rdf_Name r) of Some e \<Rightarrow> Some e | None \<Rightarrow>
     (case ValidateRecordContent (rdf_Type r) (rdf_Content r) of Some e \<Rightarrow> Some e | None \<Rightarrow>
     (case ValidateTTL (rdf_TTL r) of Some e \<Rightarrow> Some e | None \<Rightarrow>
      ValidatePriority (rdf_Priority r)))))"

definition ValidateZone :: "string \<Rightarrow> go_error option" where
  "ValidateZone domain = ValidateZoneDomain domain"

end
