(* ===== verification/PowerDns.thy ===== *)
theory PowerDns
  imports Encoding
begin

text \<open>
  The PowerDNS client of internal/dns/powerdns_client.go. The network is a parameter that answers a
  request from the requests sent before it; the state of the client is the list of the requests it sent.
  The headers are the API key and the fixed content type.
\<close>

record pdns_config =
  pc_URL :: string
  pc_APIKey :: string
  pc_ServerID :: string
  pc_Timeout :: int

record pdns_client =
  pl_config :: pdns_config
  pl_baseURL :: string

record pdns_request =
  pq_method :: string
  pq_url :: string
  pq_key :: string
  pq_body :: "string option"

text \<open>
  \<open>NewRequest\<close> is the error \<open>http.NewRequest\<close> has for a URL it cannot parse, \<open>Do\<close> the outcome of
  \<open>client.Do\<close>: an error, or a status and the outcome of reading the body.
\<close>

record pdns_net =
  NewRequest :: "string \<Rightarrow> go_error option"
  Do :: "pdns_request list \<Rightarrow> pdns_request \<Rightarrow> go_error + nat \<times> (go_error + string)"

text \<open>\<open>getenv\<close> is \<open>os.Getenv\<close>; the error result is always nil.\<close>

definition NewPowerDNSClient :: "(string \<Rightarrow> string) \<Rightarrow> pdns_client option" where
  "NewPowerDNSClient getenv =
     (let url = getenv ''ORVIX_POWERDNS_URL''; apiKey = getenv ''ORVIX_POWERDNS_API_KEY'' in
      if url = [] \<or> apiKey = [] then None
      else
        let s = getenv ''ORVIX_POWERDNS_SERVER_ID''; serverID = (if s = [] then ''localhost'' else s) in
        Some \<lparr>pl_config = \<lparr>pc_URL = url, pc_APIKey = apiKey, pc_ServerID = serverID, pc_Timeout = 10 * 1000000000\<rparr>,
              pl_baseURL = url @ ''/api/v1/servers/'' @ serverID\<rparr>)"

definition IsConfigured :: "pdns_client option \<Rightarrow> bool" where
  "IsConfigured c =
     (case c of None \<Rightarrow> False | Some p \<Rightarrow> pc_URL (pl_config p) \<noteq> [] \<and> pc_APIKey (pl_config p) \<noteq> [])"

definition doRequest :: "pdns_net \<Rightarrow> pdns_client \<Rightarrow> string \<Rightarrow> string \<Rightarrow> string option \<Rightarrow> pdns_request list \<Rightarrow>
    (go_error + string) \<times> pdns_request list" where
  "doRequest N c method path body sent =
     (case NewRequest N (pl_baseURL c @ path) of
        Some e \<Rightarrow> (Inl (Errorf ''create request: '' e []), sent)
      | None \<Rightarrow>
          let rq = \<lparr>pq_method = method, pq_url = pl_baseURL c @ path, pq_key = pc_APIKey (pl_config c), pq_body = body\<rparr> in
          (case Do N sent rq of
             Inl e \<Rightarrow> Inl (Errorf ''do request: '' e [])
           | Inr (code, Inl e) \<Rightarrow> Inl (Errorf ''read response: '' e [])
           | Inr (code, Inr data) \<Rightarrow>
               if code \<ge> 400 then Inl (ErrNew (''powerdns error '' @ string_of_nat code @ '': '' @ data))
               else Inr data,
           sent @ [rq]))"

subsection \<open>Bodies\<close>

text \<open>\<open>json.Marshal\<close> of objects, given by keys and the text of the values, and of arrays.\<close>

definition json_object :: "(string \<times> string) list \<Rightarrow> string" where
  "json_object kvs =
     [CHR 0x7B] @ Join (map (\<lambda>(k, v). json_string k @ '':'' @ v) kvs) '','' @ [CHR 0x7D]"

definition json_array :: "string list \<Rightarrow> string" where
  "json_array vs = ''['' @ Join vs '','' @ '']''"

definition json_bool :: "bool \<Rightarrow> string" where
  "json_bool b = (if b then ''true'' else ''false'')"

record pdns_zone =
  pz_Name :: string
  pz_Kind :: string
  pz_Masters :: "string list"

definition zone_json :: "pdns_zone \<Rightarrow> string" where
  "zone_json z =
     json_object ([(''name'', json_string (pz_Name z)), (''kind'', json_string (pz_Kind z))] @
       (if pz_Masters z = [] then [] else [(''masters'', json_array (map json_string (pz_Masters z)))]))"

record pdns_record =
  pr_name :: string
  pr_type :: string
  pr_content :: string
  pr_ttl :: int
  pr_disabled :: bool

definition record_json :: "pdns_record \<Rightarrow> string" where
  "record_json r =
     json_object ([(''name'', json_string (pr_name r)), (''type'', json_string (pr_type r)),
        (''content'', json_string (pr_content r))] @
       (if pr_ttl r = 0 then [] else [(''ttl'', string_of_int (pr_ttl r))]) @
       (if pr_disabled r then [(''disabled'', json_bool True)] else []))"

record pdns_record_set =
  ps_Name :: string
  ps_Type :: string
  ps_TTL :: int
  ps_Records :: "pdns_record list"

subsection \<open>Calls\<close>

definition notConfigured :: go_error where
  "notConfigured = ErrNew ''powerdns not configured''"

definition call_error :: "(go_error + string) \<times> pdns_request list \<Rightarrow> go_error option \<times> pdns_request list" where
  "call_error r = (case r of (Inl e, sent) \<Rightarrow> (Some e, sent) | (Inr x, sent) \<Rightarrow> (None, sent))"

definition pdns_CreateZone :: "pdns_net \<Rightarrow> pdns_client option \<Rightarrow> pdns_zone \<Rightarrow> pdns_request list \<Rightarrow>
    go_error option \<times> pdns_request list" where
  "pdns_CreateZone N c zone sent =
     (if \<not> IsConfigured c then (Some notConfigured, sent)
      else call_error (doRequest N (the c) ''POST'' ''/zones'' (Some (zone_json zone)) sent))"

definition pdns_DeleteZone :: "pdns_net \<Rightarrow> pdns_client option \<Rightarrow> string \<Rightarrow> pdns_request list \<Rightarrow>
    go_error option \<times> pdns_request list" where
  "pdns_DeleteZone N c zoneName sent =
     (if \<not> IsConfigured c then (Some notConfigured, sent)
      else call_error (doRequest N (the c) ''DELETE'' (''/zones/'' @ zoneName) None sent))"

definition ReplaceRecords :: "pdns_net \<Rightarrow> pdns_client option \<Rightarrow> string \<Rightarrow> pdns_record_set \<Rightarrow> pdns_request list \<Rightarrow>
    go_error option \<times> pdns_request list" where
  "ReplaceRecords N c zoneName rs sent =
     (if \<not> IsConfigured c then (Some notConfigured, sent)
      else call_error (doRequest N (the c) ''PUT'' (''/zones/'' @ zoneName @ ''/'' @ ps_Type rs @ ''/'' @ ps_Name rs)
             (Some (json_array (map record_json (ps_Records rs)))) sent))"

text \<open>The keys of a Go map are written in order.\<close>

definition pdns_AddRecord :: "pdns_net \<Rightarrow> pdns_client option \<Rightarrow> string \<Rightarrow> pdns_record \<Rightarrow> pdns_request list \<Rightarrow>
    go_error option \<times> pdns_request list" where
  "pdns_AddRecord N c zoneName r sent =
     (if \<not> IsConfigured c then (Some notConfigured, sent)
      else call_error (doRequest N (the c) ''PATCH'' (''/zones/'' @ zoneName)
             (Some (json_object [(''rrsets'', json_array [json_object
                [(''changetype'', json_string ''REPLACE''), (''name'', json_string (pr_name r)),
                 (''records'', json_array [json_object
                    [(''content'', json_string (pr_content r)), (''disabled'', json_bool (pr_disabled r))]]),
                 (''ttl'', string_of_int (pr_ttl r)), (''type'', json_string (pr_type r))]])])) sent))"

definition pdns_DeleteRecord :: "pdns_net \<Rightarrow> pdns_client option \<Rightarrow> string \<Rightarrow> string \<Rightarrow> string \<Rightarrow> pdns_request list \<Rightarrow>
    go_error option \<times> pdns_request list" where
  "pdns_DeleteRecord N c zoneName recordName recordType sent =
     (if \<not> IsConfigured c then (Some notConfigured, sent)
      else call_error (doRequest N (the c) ''PATCH'' (''/zones/'' @ zoneName)
             (Some (json_object [(''rrsets'', json_array [json_object
                [(''changetype'', json_string ''DELETE''), (''name'', json_string recordName),
                 (''type'', json_string recordType)]])])) sent))"

text \<open>
  \<open>SyncZone\<close> ranges over a Go map from types to records, in an order the runtime picks: \<open>order\<close> is that
  permutation of the keys.
\<close>

definition typeRecords :: "pdns_record list \<Rightarrow> string \<Rightarrow> pdns_record list" where
  "typeRecords records t = filter (\<lambda>r. pr_type r = t) records"

definition record_types :: "pdns_record list \<Rightarrow> string list" where
  "record_types records = remdups (map pr_type records)"

fun sync_types :: "pdns_net \<Rightarrow> pdns_client option \<Rightarrow> string \<Rightarrow> pdns_record list \<Rightarrow> string list \<Rightarrow> pdns_request list \<Rightarrow>
    go_error option \<times> pdns_request list" where
  "sync_types N c zoneName records [] sent = (None, sent)"
| "sync_types N c zoneName records (t # ts) sent =
     (case ReplaceRecords N c zoneName
             \<lparr>ps_Name = zoneName, ps_Type = t, ps_TTL = 3600, ps_Records = typeRecords records t\<rparr> sent of
        (Some e, sent') \<Rightarrow> (Some (Errorf (''sync '' @ t @ '' records: '') e []), sent')
      | (None, sent') \<Rightarrow> sync_types N c zoneName records ts sent')"

definition SyncZone :: "pdns_net \<Rightarrow> (string list \<Rightarrow> string list) \<Rightarrow> pdns_client option \<Rightarrow> string \<Rightarrow> pdns_record list \<Rightarrow>
    pdns_request list \<Rightarrow> go_error option \<times> pdns_request list" where
  "SyncZone N order c zoneName records sent =
     (if \<not> IsConfigured c then (None, sent)
      else sync_types N c zoneName records (order (record_types records)) sent)"

end
