(* ===== verification/Dns.thy ===== *)
theory Dns
  imports Request DnsValid PowerDns Complex_Main
begin

text \<open>
  The DNS service of internal/dns/service.go: zones, records and templates in the database, and their copy in
  PowerDNS. The state is the database and the requests sent to PowerDNS.
\<close>

record 'd dns =
  dn_gorm :: "'d gorm"
  dn_pdns :: "pdns_client option"
  dn_net :: pdns_net
  dn_order :: "string list \<Rightarrow> string list"
  dn_unmarshal :: "string \<Rightarrow> go_error + record_definition list"

type_synonym 'd dns_state = "'d \<times> pdns_request list"

definition dns_NewService :: "(string \<Rightarrow> string) \<Rightarrow> 'd gorm \<Rightarrow> pdns_net \<Rightarrow> (string list \<Rightarrow> string list) \<Rightarrow>
    (string \<Rightarrow> go_error + record_definition list) \<Rightarrow> 'd dns" where
  "dns_NewService getenv G N order unmarshal =
     \<lparr>dn_gorm = G, dn_pdns = NewPowerDNSClient getenv, dn_net = N, dn_order = order, dn_unmarshal = unmarshal\<rparr>"

definition IsPowerDNSEnabled :: "'d dns \<Rightarrow> bool" where
  "IsPowerDNSEnabled S \<longleftrightarrow> dn_pdns S \<noteq> None \<and> IsConfigured (dn_pdns S)"

subsection \<open>Zones\<close>

record create_zone_input =
  zi_AccountID :: string
  zi_TenantID :: string
  zi_Domain :: string
  zi_Type :: string
  zi_Masters :: "string list"

definition zone_row :: "string \<Rightarrow> create_zone_input \<Rightarrow> dns_zone" where
  "zone_row newid i =
     BeforeCreate newid
       \<lparr>ID = [], CreatedAt = zero_time, UpdatedAt = zero_time, DeletedAt = None, z_AccountID = zi_AccountID i,
        z_TenantID = zi_TenantID i, z_Domain = ToLower (zi_Domain i),
        z_Type = (if zi_Type i = [] then ''native'' else zi_Type i),
        z_Masters = (if zi_Masters i = [] then [] else json_array (map json_string (zi_Masters i))),
        z_SoaRefresh = 0, z_SoaRetry = 0, z_SoaExpire = 0, z_SoaMinimum = 0, z_Status = ''active''\<rparr>"

definition dns_CreateZone :: "'d dns \<Rightarrow> int \<Rightarrow> string \<Rightarrow> create_zone_input \<Rightarrow> 'd dns_state \<Rightarrow>
    (go_error + dns_zone) \<times> 'd dns_state" where
  "dns_CreateZone S now newid i st =
     (let (d, sent) = st; G = dn_gorm S in
      case ValidateZoneDomain (zi_Domain i) of
        Some e \<Rightarrow> (Inl (Errorf ''validate domain: '' e []), d, sent)
      | None \<Rightarrow>
      (case tFirst (DNSZones G) (\<lambda>z. z_Domain z = zi_Domain i) d of
        Inr existing \<Rightarrow> (Inl (ErrNew (''zone already exists: '' @ zi_Domain i)), d, sent)
      | Inl err \<Rightarrow>
          let zone = zone_row newid i in
          if IsPowerDNSEnabled S then
            (case Begin G d of
               Inl e \<Rightarrow> (Inl (Errorf ''begin transaction: '' e []), d, sent)
             | Inr tx \<Rightarrow>
            (case tCreate (DNSZones G) now zone tx of
               (Inl e, tx') \<Rightarrow> (Inl (Errorf ''create zone: '' e []), Rollback G d tx', sent)
             | (Inr row, tx') \<Rightarrow>
            (case pdns_CreateZone (dn_net S) (dn_pdns S)
                    \<lparr>pz_Name = z_Domain row, pz_Kind = z_Type row, pz_Masters = []\<rparr> sent of
               (Some e, sent') \<Rightarrow> (Inl (Errorf ''powerdns sync failed, rolled back: '' e []), Rollback G d tx', sent')
             | (None, sent') \<Rightarrow>
            (case Commit G d tx' of
               (Some e, d') \<Rightarrow>
                 (Inl (Errorf ''commit transaction: '' e []), d',
                  snd (pdns_DeleteZone (dn_net S) (dn_pdns S) (z_Domain row) sent'))
             | (None, d') \<Rightarrow> (Inr row, d', sent')))))
          else
            (case tCreate (DNSZones G) now zone d of
               (Inl e, d') \<Rightarrow> (Inl (Errorf ''create zone: '' e []), d', sent)
             | (Inr row, d') \<Rightarrow> (Inr row, d', sent))))"

definition dns_GetZone :: "'d dns \<Rightarrow> string \<Rightarrow> 'd \<Rightarrow> go_error + dns_zone" where
  "dns_GetZone S zoneID d =
     (case tFirst (DNSZones (dn_gorm S)) (\<lambda>z. ID z = zoneID) d of
        Inl e \<Rightarrow> Inl (Errorf ''get zone: '' e []) | Inr z \<Rightarrow> Inr z)"

definition dns_GetZoneByDomain :: "'d dns \<Rightarrow> string \<Rightarrow> 'd \<Rightarrow> go_error + dns_zone" where
  "dns_GetZoneByDomain S domain d =
     (case tFirst (DNSZones (dn_gorm S)) (\<lambda>z. z_Domain z = domain) d of
        Inl e \<Rightarrow> Inl (Errorf ''get zone: '' e []) | Inr z \<Rightarrow> Inr z)"

definition dns_ListZones :: "'d dns \<Rightarrow> string \<Rightarrow> 'd \<Rightarrow> go_error + dns_zone list" where
  "dns_ListZones S tenantID d =
     (case tFind (DNSZones (dn_gorm S)) (\<lambda>z. z_TenantID z = tenantID) (\<lambda>a b. CreatedAt b \<le> CreatedAt a) d of
        Inl e \<Rightarrow> Inl (Errorf ''list zones: '' e []) | Inr zs \<Rightarrow> Inr zs)"

definition dns_ListZonesByAccount :: "'d dns \<Rightarrow> string \<Rightarrow> 'd \<Rightarrow> go_error + dns_zone list" where
  "dns_ListZonesByAccount S accountID d =
     (case tFind (DNSZones (dn_gorm S)) (\<lambda>z. z_AccountID z = accountID) (\<lambda>a b. CreatedAt b \<le> CreatedAt a) d of
        Inl e \<Rightarrow> Inl (Errorf ''list zones: '' e []) | Inr zs \<Rightarrow> Inr zs)"

text \<open>
  A \<open>map[string]interface{}\<close> read from JSON. A number is a float64, here its exact value; \<open>int(f)\<close> cuts
  the fraction, and outside int64 gives the least int64, as amd64 does.
\<close>

datatype json_any = AStr string | ANum rat | ABool bool | AOther

type_synonym json_map = "string \<Rightarrow> json_any option"

definition int_of_float :: "rat \<Rightarrow> int" where
  "int_of_float r =
     (let n = (if r < 0 then - \<lfloor>- r\<rfloor> else \<lfloor>r\<rfloor>)
      in if - (2 ^ 63) \<le> n \<and> n < 2 ^ 63 then n else - (2 ^ 63))"

definition apply_str :: "json_map \<Rightarrow> string \<Rightarrow> (string \<Rightarrow> 'r \<Rightarrow> 'r) \<Rightarrow> 'r \<Rightarrow> 'r" where
  "apply_str m k upd r = (case m k of Some (AStr s) \<Rightarrow> upd s r | _ \<Rightarrow> r)"

definition apply_num :: "json_map \<Rightarrow> string \<Rightarrow> (int \<Rightarrow> 'r \<Rightarrow> 'r) \<Rightarrow> 'r \<Rightarrow> 'r" where
  "apply_num m k upd r = (case m k of Some (ANum n) \<Rightarrow> upd (int_of_float n) r | _ \<Rightarrow> r)"

definition apply_bool :: "json_map \<Rightarrow> string \<Rightarrow> (bool \<Rightarrow> 'r \<Rightarrow> 'r) \<Rightarrow> 'r \<Rightarrow> 'r" where
  "apply_bool m k upd r = (case m k of Some (ABool b) \<Rightarrow> upd b r | _ \<Rightarrow> r)"

definition zone_updates :: "json_map \<Rightarrow> dns_zone \<Rightarrow> dns_zone" where
  "zone_updates m z =
     apply_num m ''soa_minimum'' (\<lambda>n z. z\<lparr>z_SoaMinimum := n\<rparr>)
       (apply_num m ''soa_expire'' (\<lambda>n z. z\<lparr>z_SoaExpire := n\<rparr>)
         (apply_num m ''soa_retry'' (\<lambda>n z. z\<lparr>z_SoaRetry := n\<rparr>)
           (apply_num m ''soa_refresh'' (\<lambda>n z. z\<lparr>z_SoaRefresh := n\<rparr>)
             (apply_str m ''status'' (\<lambda>s z. z\<lparr>z_Status := s\<rparr>) z))))"

definition dns_UpdateZone :: "'d dns \<Rightarrow> int \<Rightarrow> string \<Rightarrow> json_map \<Rightarrow> 'd \<Rightarrow> (go_error + dns_zone) \<times> 'd" where
  "dns_UpdateZone S now zoneID input d =
     (case tFirst (DNSZones (dn_gorm S)) (\<lambda>z. ID z = zoneID) d of
        Inl e \<Rightarrow> (Inl (Errorf ''get zone: '' e []), d)
      | Inr zone0 \<Rightarrow>
          let zone = zone_updates input zone0 in
          (case tSave (DNSZones (dn_gorm S)) now zone d of
             (Some e, d') \<Rightarrow> (Inl (Errorf ''update zone: '' e []), d')
           | (None, d') \<Rightarrow> (Inr (zone\<lparr>UpdatedAt := now\<rparr>), d')))"

definition dns_DeleteZone :: "'d dns \<Rightarrow> int \<Rightarrow> string \<Rightarrow> 'd dns_state \<Rightarrow> go_error option \<times> 'd dns_state" where
  "dns_DeleteZone S now zoneID st =
     (let (d, sent) = st; G = dn_gorm S in
      case tFirst (DNSZones G) (\<lambda>z. ID z = zoneID) d of
        Inl e \<Rightarrow> (Some (Errorf ''get zone: '' e []), d, sent)
      | Inr zone \<Rightarrow>
          if IsPowerDNSEnabled S then
            (case pdns_DeleteZone (dn_net S) (dn_pdns S) (z_Domain zone) sent of
               (Some e, sent') \<Rightarrow> (Some (Errorf ''powerdns delete failed: '' e []), d, sent')
             | (None, sent') \<Rightarrow>
            (case Begin G d of
               Inl e \<Rightarrow> (Some (Errorf ''begin transaction: '' e []), d, sent')
             | Inr tx \<Rightarrow>
            (case tDelete (DNSRecords G) now (\<lambda>r. rr_ZoneID r = zoneID) tx of
               (Inl e, tx') \<Rightarrow> (Some (Errorf ''delete records: '' e []), Rollback G d tx', sent')
             | (Inr n, tx') \<Rightarrow>
            (case tDelete (DNSZones G) now (\<lambda>z. ID z = ID zone) tx' of
               (Inl e, tx'') \<Rightarrow> (Some (Errorf ''delete zone: '' e []), Rollback G d tx'', sent')
             | (Inr n', tx'') \<Rightarrow>
            (case Commit G d tx'' of
               (Some e, d') \<Rightarrow> (Some (Errorf ''commit transaction: '' e []), d', sent')
             | (None, d') \<Rightarrow> (None, d', sent'))))))
          else
            (case tDelete (DNSRecords G) now (\<lambda>r. rr_ZoneID r = zoneID) d of
               (Inl e, d') \<Rightarrow> (Some (Errorf ''delete records: '' e []), d', sent)
             | (Inr n, d') \<Rightarrow>
            (case tDelete (DNSZones G) now (\<lambda>z. ID z = ID zone) d' of
               (Inl e, d'') \<Rightarrow> (Some (Errorf ''delete zone: '' e []), d'', sent)
             | (Inr n', d'') \<Rightarrow> (None, d'', sent))))"

subsection \<open>Copying a zone to PowerDNS\<close>

definition pdns_of_record :: "dns_record \<Rightarrow> pdns_record" where
  "pdns_of_record r =
     \<lparr>pr_name = rr_Name r, pr_type = rr_Type r, pr_content = rr_Content r, pr_ttl = rr_TTL r, pr_disabled = rr_Disabled r\<rparr>"

text \<open>An error of the copy is printed and dropped.\<close>

definition syncRecordToPowerDNS :: "'d dns \<Rightarrow> string \<Rightarrow> 'd dns_state \<Rightarrow> 'd dns_state" where
  "syncRecordToPowerDNS S zoneID st =
     (let (d, sent) = st; G = dn_gorm S in
      if \<not> IsPowerDNSEnabled S then (d, sent)
      else (case tFirst (DNSZones G) (\<lambda>z. ID z = zoneID) d of
          Inl e \<Rightarrow> (d, sent)
        | Inr zone \<Rightarrow>
            (case tFind (DNSRecords G) (\<lambda>r. rr_ZoneID r = zoneID) (\<lambda>a b. True) d of
               Inl e \<Rightarrow> (d, sent)
             | Inr records \<Rightarrow>
                 (d, snd (SyncZone (dn_net S) (dn_order S) (dn_pdns S) (z_Domain zone) (map pdns_of_record records) sent)))))"

subsection \<open>Records\<close>

record create_record_input =
  ri_ZoneID :: string
  ri_Name :: string
  ri_Type :: string
  ri_Content :: string
  ri_TTL :: int
  ri_Priority :: int
  ri_Disabled :: bool

definition input_definition :: "create_record_input \<Rightarrow> record_definition" where
  "input_definition i =
     \<lparr>rdf_Name = ri_Name i, rdf_Type = ri_Type i, rdf_Content = ri_Content i, rdf_TTL = ri_TTL i, rdf_Priority = ri_Priority i\<rparr>"

definition record_row :: "string \<Rightarrow> create_record_input \<Rightarrow> dns_record" where
  "record_row newid i =
     BeforeCreate newid
       \<lparr>ID = [], CreatedAt = zero_time, UpdatedAt = zero_time, DeletedAt = None, rr_ZoneID = ri_ZoneID i,
        rr_Name = ri_Name i, rr_Type = ToUpper (ri_Type i), rr_Content = ri_Content i,
        rr_TTL = (if ri_TTL i = 0 then 3600 else ri_TTL i), rr_Priority = ri_Priority i, rr_Disabled = ri_Disabled i\<rparr>"

definition dns_CreateRecord :: "'d dns \<Rightarrow> int \<Rightarrow> string \<Rightarrow> create_record_input \<Rightarrow> 'd dns_state \<Rightarrow>
    (go_error + dns_record) \<times> 'd dns_state" where
  "dns_CreateRecord S now newid i st =
     (let (d, sent) = st in
      case ValidateRecord (input_definition i) of
        Some e \<Rightarrow> (Inl (Errorf ''validate record: '' e []), d, sent)
      | None \<Rightarrow>
          (case tCreate (DNSRecords (dn_gorm S)) now (record_row newid i) d of
             (Inl e, d') \<Rightarrow> (Inl (Errorf ''create record: '' e []), d', sent)
           | (Inr row, d') \<Rightarrow> (Inr row, syncRecordToPowerDNS S (ri_ZoneID i) (d', sent))))"

definition dns_GetRecord :: "'d dns \<Rightarrow> string \<Rightarrow> 'd \<Rightarrow> go_error + dns_record" where
  "dns_GetRecord S recordID d =
     (case tFirst (DNSRecords (dn_gorm S)) (\<lambda>r. ID r = recordID) d of
        Inl e \<Rightarrow> Inl (Errorf ''get record: '' e []) | Inr r \<Rightarrow> Inr r)"

definition dns_ListRecords :: "'d dns \<Rightarrow> string \<Rightarrow> 'd \<Rightarrow> go_error + dns_record list" where
  "dns_ListRecords S zoneID d =
     (case tFind (DNSRecords (dn_gorm S)) (\<lambda>r. rr_ZoneID r = zoneID)
             (\<lambda>a b. rr_Type a < rr_Type b \<or> rr_Type a = rr_Type b \<and> rr_Name a \<le> rr_Name b) d of
        Inl e \<Rightarrow> Inl (Errorf ''list records: '' e []) | Inr rs \<Rightarrow> Inr rs)"

definition record_updates :: "json_map \<Rightarrow> dns_record \<Rightarrow> dns_record" where
  "record_updates m r =
     apply_bool m ''disabled'' (\<lambda>b r. r\<lparr>rr_Disabled := b\<rparr>)
       (apply_num m ''priority'' (\<lambda>n r. r\<lparr>rr_Priority := n\<rparr>)
         (apply_num m ''ttl'' (\<lambda>n r. r\<lparr>rr_TTL := n\<rparr>)
           (apply_str m ''content'' (\<lambda>s r. r\<lparr>rr_Content := s\<rparr>)
             (apply_str m ''type'' (\<lambda>s r. r\<lparr>rr_Type := ToUpper s\<rparr>)
               (apply_str m ''name'' (\<lambda>s r. r\<lparr>rr_Name := s\<rparr>) r)))))"

definition dns_UpdateRecord :: "'d dns \<Rightarrow> int \<Rightarrow> string \<Rightarrow> json_map \<Rightarrow> 'd dns_state \<Rightarrow>
    (go_error + dns_record) \<times> 'd dns_state" where
  "dns_UpdateRecord S now recordID input st =
     (let (d, sent) = st in
      case tFirst (DNSRecords (dn_gorm S)) (\<lambda>r. ID r = recordID) d of
        Inl e \<Rightarrow> (Inl (Errorf ''get record: '' e []), d, sent)
      | Inr r0 \<Rightarrow>
          let r = record_updates input r0 in
          (case tSave (DNSRecords (dn_gorm S)) now r d of
             (Some e, d') \<Rightarrow> (Inl (Errorf ''update record: '' e []), d', sent)
           | (None, d') \<Rightarrow> (Inr (r\<lparr>UpdatedAt := now\<rparr>), syncRecordToPowerDNS S (rr_ZoneID r) (d', sent))))"

definition dns_DeleteRecord :: "'d dns \<Rightarrow> int \<Rightarrow> string \<Rightarrow> 'd dns_state \<Rightarrow> go_error option \<times> 'd dns_state" where
  "dns_DeleteRecord S now recordID st =
     (let (d, sent) = st in
      case tFirst (DNSRecords (dn_gorm S)) (\<lambda>r. ID r = recordID) d of
        Inl e \<Rightarrow> (Some (Errorf ''get record: '' e []), d, sent)
      | Inr r \<Rightarrow>
          (case tDelete (DNSRecords (dn_gorm S)) now (\<lambda>x. ID x = ID r) d of
             (Inl e, d') \<Rightarrow> (Some (Errorf ''delete record: '' e []), d', sent)
           | (Inr n, d') \<Rightarrow> (None, syncRecordToPowerDNS S (rr_ZoneID r) (d', sent))))"

subsection \<open>Templates\<close>

record create_template_input =
  ti_TenantID :: string
  ti_Name :: string
  ti_Description :: string
  ti_Records :: "record_definition list option"

text \<open>\<open>json.Marshal\<close> of a slice of \<open>RecordDefinition\<close>; a nil slice, \<open>None\<close>, is null.\<close>

definition definition_json :: "record_definition \<Rightarrow> string" where
  "definition_json r =
     json_object [(''Name'', json_string (rdf_Name r)), (''Type'', json_string (rdf_Type r)),
       (''Content'', json_string (rdf_Content r)), (''TTL'', string_of_int (rdf_TTL r)),
       (''Priority'', string_of_int (rdf_Priority r))]"

definition definitions_json :: "record_definition list option \<Rightarrow> string" where
  "definitions_json rs = (case rs of None \<Rightarrow> ''null'' | Some l \<Rightarrow> json_array (map definition_json l))"

definition template_row :: "string \<Rightarrow> create_template_input \<Rightarrow> dns_zone_template" where
  "template_row newid i =
     BeforeCreate newid
       \<lparr>ID = [], CreatedAt = zero_time, UpdatedAt = zero_time, DeletedAt = None, tp_TenantID = ti_TenantID i,
        tp_Name = ti_Name i, tp_Description = ti_Description i, tp_Records = definitions_json (ti_Records i)\<rparr>"

definition dns_CreateTemplate :: "'d dns \<Rightarrow> int \<Rightarrow> string \<Rightarrow> create_template_input \<Rightarrow> 'd \<Rightarrow>
    (go_error + dns_zone_template) \<times> 'd" where
  "dns_CreateTemplate S now newid i d =
     (if ti_Name i = [] then (Inl (ErrNew ''template name required''), d)
      else (case tCreate (DNSTemplates (dn_gorm S)) now (template_row newid i) d of
          (Inl e, d') \<Rightarrow> (Inl (Errorf ''create template: '' e []), d')
        | (Inr row, d') \<Rightarrow> (Inr row, d')))"

definition dns_ListTemplates :: "'d dns \<Rightarrow> string \<Rightarrow> 'd \<Rightarrow> go_error + dns_zone_template list" where
  "dns_ListTemplates S tenantID d =
     (case tFind (DNSTemplates (dn_gorm S)) (\<lambda>t. tp_TenantID t = tenantID) (\<lambda>a b. tp_Name a \<le> tp_Name b) d of
        Inl e \<Rightarrow> Inl (Errorf ''list templates: '' e []) | Inr ts \<Rightarrow> Inr ts)"

definition dns_GetTemplate :: "'d dns \<Rightarrow> string \<Rightarrow> 'd \<Rightarrow> go_error + dns_zone_template" where
  "dns_GetTemplate S templateID d =
     (case tFirst (DNSTemplates (dn_gorm S)) (\<lambda>t. ID t = templateID) d of
        Inl e \<Rightarrow> Inl (Errorf ''get template: '' e []) | Inr t \<Rightarrow> Inr t)"

definition dns_DeleteTemplate :: "'d dns \<Rightarrow> int \<Rightarrow> string \<Rightarrow> 'd \<Rightarrow> go_error option \<times> 'd" where
  "dns_DeleteTemplate S now templateID d =
     (case tFirst (DNSTemplates (dn_gorm S)) (\<lambda>t. ID t = templateID) d of
        Inl e \<Rightarrow> (Some (Errorf ''get template: '' e []), d)
      | Inr t \<Rightarrow>
          (case tDelete (DNSTemplates (dn_gorm S)) now (\<lambda>x. ID x = ID t) d of
             (Inl e, d') \<Rightarrow> (Some (Errorf ''delete template: '' e []), d')
           | (Inr n, d') \<Rightarrow> (None, d')))"

text \<open>
  The loop over the records of a template. \<open>env k\<close> is the clock and the fresh ID of the \<open>k\<close>th record.
\<close>

definition template_input :: "string \<Rightarrow> record_definition \<Rightarrow> create_record_input" where
  "template_input zoneID rec =
     \<lparr>ri_ZoneID = zoneID, ri_Name = rdf_Name rec, ri_Type = rdf_Type rec, ri_Content = rdf_Content rec,
      ri_TTL = rdf_TTL rec, ri_Priority = rdf_Priority rec, ri_Disabled = False\<rparr>"

fun apply_records :: "'d dns \<Rightarrow> (nat \<Rightarrow> int \<times> string) \<Rightarrow> nat \<Rightarrow> string \<Rightarrow> record_definition list \<Rightarrow> 'd dns_state \<Rightarrow>
    go_error option \<times> 'd dns_state" where
  "apply_records S env k zoneID [] st = (None, st)"
| "apply_records S env k zoneID (rec # recs) st =
     (case dns_CreateRecord S (fst (env k)) (snd (env k)) (template_input zoneID rec) st of
        (Inl e, st') \<Rightarrow> (Some (Errorf ''create record from template: '' e []), st')
      | (Inr row, st') \<Rightarrow> apply_records S env (Suc k) zoneID recs st')"

definition dns_ApplyTemplate :: "'d dns \<Rightarrow> (nat \<Rightarrow> int \<times> string) \<Rightarrow> string \<Rightarrow> string \<Rightarrow> 'd dns_state \<Rightarrow>
    go_error option \<times> 'd dns_state" where
  "dns_ApplyTemplate S env zoneID templateID st =
     (case dns_GetTemplate S templateID (fst st) of
        Inl e \<Rightarrow> (Some (Errorf ''get template: '' e []), st)
      | Inr template \<Rightarrow>
          (case dn_unmarshal S (tp_Records template) of
             Inl e \<Rightarrow> (Some (Errorf ''parse template records: '' e []), st)
           | Inr records \<Rightarrow> apply_records S env 0 zoneID records st))"

subsection \<open>Local lookup\<close>

definition dns_Lookup :: "'d dns \<Rightarrow> string \<Rightarrow> 'd \<Rightarrow> go_error + dns_record list" where
  "dns_Lookup S domain d =
     (case tFirst (DNSZones (dn_gorm S)) (\<lambda>z. z_Domain z = ToLower domain) d of
        Inl e \<Rightarrow> Inl (ErrNew (''zone not found: '' @ domain))
      | Inr zone \<Rightarrow>
          (case tFind (DNSRecords (dn_gorm S)) (\<lambda>r. rr_ZoneID r = ID zone \<and> \<not> rr_Disabled r) (\<lambda>a b. True) d of
             Inl e \<Rightarrow> Inl (Errorf ''lookup records: '' e [])
           | Inr rs \<Rightarrow> Inr rs))"

definition ValidateRecordInput :: "'d dns \<Rightarrow> record_definition \<Rightarrow> go_error option" where
  "ValidateRecordInput S input = ValidateRecord input"

end
