(* ===== verification/DnsHandlers.thy ===== *)
theory DnsHandlers
  imports Dns
begin

text \<open>
  The DNS endpoints of internal/api/v1/dns.go. The state is the shared world and the requests sent to PowerDNS.
  A path parameter and the parsed body are arguments.
\<close>

record 'd dns_deps =
  dd_DB :: "'d gorm"
  dd_DNS :: "'d dns"
  dd_Audit :: "'d auditor option"

type_synonym 'd dns_world = "'d world \<times> pdns_request list"

definition sprintf_error :: "string \<Rightarrow> go_error \<Rightarrow> string" where
  "sprintf_error msg e = msg @ '': '' @ err_text e"

definition dns_event :: "'d dns_deps \<Rightarrow> request \<Rightarrow> claims \<Rightarrow> string \<Rightarrow> string \<Rightarrow> string \<Rightarrow> string \<Rightarrow> 'd dns_world \<Rightarrow> 'd dns_world" where
  "dns_event D rq cl action rtype rid rname w =
     (record_event (dd_Audit D) rq
        (empty_event\<lparr>Action := action, ResourceType := rtype, ResourceID := rid, ResourceName := rname,
           Result := ''success'', UserID := cl_UserID cl, ActorIP := rq_ip rq\<rparr>) (fst w), snd w)"

text \<open>Putting the state a service call leaves back into the world.\<close>

definition put_state :: "'d dns_world \<Rightarrow> 'd dns_state \<Rightarrow> 'd dns_world" where
  "put_state w st = ((fst w)\<lparr>wdb := fst st\<rparr>, snd st)"

definition get_state :: "'d dns_world \<Rightarrow> 'd dns_state" where
  "get_state w = (wdb (fst w), snd w)"

definition ListZonesHandler :: "'d dns_deps \<Rightarrow> request \<Rightarrow> 'd \<Rightarrow> (dns_zone list \<times> nat) reply" where
  "ListZonesHandler D rq d =
     (case rq_claims rq of
        None \<Rightarrow> ErrUnauthorized
      | Some cl \<Rightarrow>
          (case dns_ListZones (dd_DNS D) (cl_TenantID cl) d of
             Inl e \<Rightarrow> Fail 500 ''list_zones_failed''
           | Inr zones \<Rightarrow> Reply 200 (zones, length zones)))"

record create_zone_request =
  zr_Domain :: string
  zr_AccountID :: string
  zr_Type :: string
  zr_Masters :: "string list"

text \<open>The account a zone is created for: \<open>None\<close> when it is not one of the tenant's.\<close>

definition zone_account :: "'d dns_deps \<Rightarrow> claims \<Rightarrow> string \<Rightarrow> 'd \<Rightarrow> string option" where
  "zone_account D cl accountID d =
     (if accountID = [] then Some []
      else (case tFirst (Accounts (dd_DB D)) (\<lambda>a. ID a = accountID \<and> ac_TenantID a = cl_TenantID cl) d of
          Inl e \<Rightarrow> None
        | Inr a \<Rightarrow> Some accountID))"

definition CreateZoneHandler :: "'d dns_deps \<Rightarrow> request \<Rightarrow> create_zone_request option \<Rightarrow> 'd dns_world \<Rightarrow>
    dns_zone reply \<times> 'd dns_world" where
  "CreateZoneHandler D rq body w =
     (case rq_claims rq of
        None \<Rightarrow> (ErrUnauthorized, w)
      | Some cl \<Rightarrow>
      (case body of
        None \<Rightarrow> (Fail 400 ''invalid_body'', w)
      | Some req \<Rightarrow>
          let domain = ToLower (TrimSpace (zr_Domain req)) in
          if domain = [] then (Fail 400 ''domain_required'', w)
          else (case zone_account D cl (zr_AccountID req) (wdb (fst w)) of
             None \<Rightarrow> (Fail 404 ''account_not_found'', w)
           | Some accountID \<Rightarrow>
               (case dns_CreateZone (dd_DNS D) (rq_now rq) (rq_id rq)
                       \<lparr>zi_AccountID = accountID, zi_TenantID = cl_TenantID cl, zi_Domain = domain,
                        zi_Type = zr_Type req, zi_Masters = zr_Masters req\<rparr> (get_state w) of
                  (Inl e, st) \<Rightarrow> (Fail 400 (sprintf_error ''create_zone_failed'' e), put_state w st)
                | (Inr zone, st) \<Rightarrow>
                    (Reply 201 zone, dns_event D rq cl ''dns.zone.create'' ''dns_zone'' (ID zone) (z_Domain zone) (put_state w st))))))"

text \<open>The beginning the handlers of one zone share: load it and compare its tenant.\<close>

definition owned_zone :: "'d dns_deps \<Rightarrow> claims \<Rightarrow> string \<Rightarrow> 'd \<Rightarrow> 'b reply + dns_zone" where
  "owned_zone D cl zoneID d =
     (case dns_GetZone (dd_DNS D) zoneID d of
        Inl e \<Rightarrow> Inl (Fail 404 ''zone_not_found'')
      | Inr zone \<Rightarrow> if z_TenantID zone \<noteq> cl_TenantID cl then Inl (Fail 403 ''access_denied'') else Inr zone)"

definition GetZoneHandler :: "'d dns_deps \<Rightarrow> request \<Rightarrow> string \<Rightarrow> 'd \<Rightarrow> dns_zone reply" where
  "GetZoneHandler D rq zoneID d =
     (case rq_claims rq of
        None \<Rightarrow> ErrUnauthorized
      | Some cl \<Rightarrow> (case owned_zone D cl zoneID d of Inl r \<Rightarrow> r | Inr zone \<Rightarrow> Reply 200 zone))"

definition UpdateZoneHandler :: "'d dns_deps \<Rightarrow> request \<Rightarrow> string \<Rightarrow> json_map option \<Rightarrow> 'd dns_world \<Rightarrow>
    dns_zone reply \<times> 'd dns_world" where
  "UpdateZoneHandler D rq zoneID body w =
     (case rq_claims rq of
        None \<Rightarrow> (ErrUnauthorized, w)
      | Some cl \<Rightarrow>
      (case owned_zone D cl zoneID (wdb (fst w)) of
        Inl r \<Rightarrow> (r, w)
      | Inr zone \<Rightarrow>
      (case body of
        None \<Rightarrow> (Fail 400 ''invalid_body'', w)
      | Some input \<Rightarrow>
          (case dns_UpdateZone (dd_DNS D) (rq_now rq) zoneID input (wdb (fst w)) of
             (Inl e, d) \<Rightarrow> (Fail 400 (sprintf_error ''update_zone_failed'' e), put_state w (d, snd w))
           | (Inr z, d) \<Rightarrow>
               (Reply 200 z,
                dns_event D rq cl ''dns.zone.update'' ''dns_zone'' (ID zone) (z_Domain zone) (put_state w (d, snd w)))))))"

definition DeleteZoneHandler :: "'d dns_deps \<Rightarrow> request \<Rightarrow> string \<Rightarrow> 'd dns_world \<Rightarrow> unit reply \<times> 'd dns_world" where
  "DeleteZoneHandler D rq zoneID w =
     (case rq_claims rq of
        None \<Rightarrow> (ErrUnauthorized, w)
      | Some cl \<Rightarrow>
      (case owned_zone D cl zoneID (wdb (fst w)) of
        Inl r \<Rightarrow> (r, w)
      | Inr zone \<Rightarrow>
          (case dns_DeleteZone (dd_DNS D) (rq_now rq) zoneID (get_state w) of
             (Some e, st) \<Rightarrow> (Fail 500 (sprintf_error ''delete_zone_failed'' e), put_state w st)
           | (None, st) \<Rightarrow>
               (Reply 204 (),
                dns_event D rq cl ''dns.zone.delete'' ''dns_zone'' (ID zone) (z_Domain zone) (put_state w st)))))"

subsection \<open>Records\<close>

definition ListRecordsHandler :: "'d dns_deps \<Rightarrow> request \<Rightarrow> string \<Rightarrow> 'd \<Rightarrow> (dns_record list \<times> nat) reply" where
  "ListRecordsHandler D rq zoneID d =
     (case rq_claims rq of
        None \<Rightarrow> ErrUnauthorized
      | Some cl \<Rightarrow>
      (case owned_zone D cl zoneID d of
        Inl r \<Rightarrow> r
      | Inr zone \<Rightarrow>
          (case dns_ListRecords (dd_DNS D) zoneID d of
             Inl e \<Rightarrow> Fail 500 ''list_records_failed''
           | Inr rs \<Rightarrow> Reply 200 (rs, length rs))))"

record create_record_request =
  rr_name :: string
  rr_type :: string
  rr_content :: string
  rr_ttl :: int
  rr_priority :: int
  rr_disabled :: bool

definition CreateRecordHandler :: "'d dns_deps \<Rightarrow> request \<Rightarrow> string \<Rightarrow> create_record_request option \<Rightarrow> 'd dns_world \<Rightarrow>
    dns_record reply \<times> 'd dns_world" where
  "CreateRecordHandler D rq zoneID body w =
     (case rq_claims rq of
        None \<Rightarrow> (ErrUnauthorized, w)
      | Some cl \<Rightarrow>
      (case owned_zone D cl zoneID (wdb (fst w)) of
        Inl r \<Rightarrow> (r, w)
      | Inr zone \<Rightarrow>
      (case body of
        None \<Rightarrow> (Fail 400 ''invalid_body'', w)
      | Some req \<Rightarrow>
          (case dns_CreateRecord (dd_DNS D) (rq_now rq) (rq_id rq)
                  \<lparr>ri_ZoneID = zoneID, ri_Name = rr_name req, ri_Type = rr_type req, ri_Content = rr_content req,
                   ri_TTL = rr_ttl req, ri_Priority = rr_priority req, ri_Disabled = rr_disabled req\<rparr> (get_state w) of
             (Inl e, st) \<Rightarrow> (Fail 400 (sprintf_error ''create_record_failed'' e), put_state w st)
           | (Inr r, st) \<Rightarrow>
               (Reply 201 r,
                dns_event D rq cl ''dns.record.create'' ''dns_record'' (ID r)
                  (z_Domain zone @ '' '' @ rr_type req @ '' '' @ rr_name req) (put_state w st))))))"

definition UpdateRecordHandler :: "'d dns_deps \<Rightarrow> request \<Rightarrow> string \<Rightarrow> string \<Rightarrow> json_map option \<Rightarrow> 'd dns_world \<Rightarrow>
    dns_record reply \<times> 'd dns_world" where
  "UpdateRecordHandler D rq zoneID recordID body w =
     (case rq_claims rq of
        None \<Rightarrow> (ErrUnauthorized, w)
      | Some cl \<Rightarrow>
      (case owned_zone D cl zoneID (wdb (fst w)) of
        Inl r \<Rightarrow> (r, w)
      | Inr zone \<Rightarrow>
      (case body of
        None \<Rightarrow> (Fail 400 ''invalid_body'', w)
      | Some input \<Rightarrow>
          (case dns_UpdateRecord (dd_DNS D) (rq_now rq) recordID input (get_state w) of
             (Inl e, st) \<Rightarrow> (Fail 400 (sprintf_error ''update_record_failed'' e), put_state w st)
           | (Inr r, st) \<Rightarrow>
               (Reply 200 r, dns_event D rq cl ''dns.record.update'' ''dns_record'' (ID r) [] (put_state w st))))))"

definition DeleteRecordHandler :: "'d dns_deps \<Rightarrow> request \<Rightarrow> string \<Rightarrow> string \<Rightarrow> 'd dns_world \<Rightarrow> unit reply \<times> 'd dns_world" where
  "DeleteRecordHandler D rq zoneID recordID w =
     (case rq_claims rq of
        None \<Rightarrow> (ErrUnauthorized, w)
      | Some cl \<Rightarrow>
      (case owned_zone D cl zoneID (wdb (fst w)) of
        Inl r \<Rightarrow> (r, w)
      | Inr zone \<Rightarrow>
          (case dns_DeleteRecord (dd_DNS D) (rq_now rq) recordID (get_state w) of
             (Some e, st) \<Rightarrow> (Fail 500 (sprintf_error ''delete_record_failed'' e), put_state w st)
           | (None, st) \<Rightarrow>
               (Reply 204 (), dns_event D rq cl ''dns.record.delete'' ''dns_record'' recordID [] (put_state w st)))))"

subsection \<open>Templates\<close>

definition ListTemplatesHandler :: "'d dns_deps \<Rightarrow> request \<Rightarrow> 'd \<Rightarrow> (dns_zone_template list \<times> nat) reply" where
  "ListTemplatesHandler D rq d =
     (case rq_claims rq of
        None \<Rightarrow> ErrUnauthorized
      | Some cl \<Rightarrow>
          (case dns_ListTemplates (dd_DNS D) (cl_TenantID cl) d of
             Inl e \<Rightarrow> Fail 500 ''list_templates_failed''
           | Inr ts \<Rightarrow> Reply 200 (ts, length ts)))"

record create_template_request =
  tr_Name :: string
  tr_Description :: string
  tr_Records :: "record_definition list option"

definition CreateTemplateHandler :: "'d dns_deps \<Rightarrow> request \<Rightarrow> create_template_request option \<Rightarrow> 'd dns_world \<Rightarrow>
    dns_zone_template reply \<times> 'd dns_world" where
  "CreateTemplateHandler D rq body w =
     (case rq_claims rq of
        None \<Rightarrow> (ErrUnauthorized, w)
      | Some cl \<Rightarrow>
      (case body of
        None \<Rightarrow> (Fail 400 ''invalid_body'', w)
      | Some req \<Rightarrow>
          if tr_Name req = [] then (Fail 400 ''name_required'', w)
          else (case dns_CreateTemplate (dd_DNS D) (rq_now rq) (rq_id rq)
                  \<lparr>ti_TenantID = cl_TenantID cl, ti_Name = tr_Name req, ti_Description = tr_Description req,
                   ti_Records = tr_Records req\<rparr> (wdb (fst w)) of
             (Inl e, d) \<Rightarrow> (Fail 400 (sprintf_error ''create_template_failed'' e), put_state w (d, snd w))
           | (Inr t, d) \<Rightarrow> (Reply 201 t, put_state w (d, snd w)))))"

text \<open>The body is the zone ID; \<open>env\<close> gives the clock and the fresh ID of each record.\<close>

definition ApplyTemplateHandler :: "'d dns_deps \<Rightarrow> request \<Rightarrow> (nat \<Rightarrow> int \<times> string) \<Rightarrow> string \<Rightarrow> string option \<Rightarrow>
    'd dns_world \<Rightarrow> unit reply \<times> 'd dns_world" where
  "ApplyTemplateHandler D rq env templateID body w =
     (case rq_claims rq of
        None \<Rightarrow> (ErrUnauthorized, w)
      | Some cl \<Rightarrow>
      (case body of
        None \<Rightarrow> (Fail 400 ''invalid_body'', w)
      | Some zoneID \<Rightarrow>
          if zoneID = [] then (Fail 400 ''zone_id_required'', w)
          else (case owned_zone D cl zoneID (wdb (fst w)) of
             Inl r \<Rightarrow> (r, w)
           | Inr zone \<Rightarrow>
               (case dns_ApplyTemplate (dd_DNS D) env zoneID templateID (get_state w) of
                  (Some e, st) \<Rightarrow> (Fail 400 (sprintf_error ''apply_template_failed'' e), put_state w st)
                | (None, st) \<Rightarrow> (Reply 200 (), put_state w st)))))"

subsection \<open>Utilities\<close>

text \<open>The reply is \<open>valid\<close> and the text of the error.\<close>

definition ValidateRecordHandler :: "'d dns_deps \<Rightarrow> record_definition option \<Rightarrow> (bool \<times> string) reply" where
  "ValidateRecordHandler D body =
     (case body of
        None \<Rightarrow> Fail 400 ''invalid_body''
      | Some req \<Rightarrow>
          (case ValidateRecordInput (dd_DNS D) req of
             Some e \<Rightarrow> Reply 200 (False, err_text e)
           | None \<Rightarrow> Reply 200 (True, [])))"

record lookup_view =
  lv_domain :: string
  lv_found :: bool
  lv_records :: "dns_record list"

definition LookupHandler :: "'d dns_deps \<Rightarrow> request \<Rightarrow> string \<Rightarrow> 'd \<Rightarrow> lookup_view reply" where
  "LookupHandler D rq param d =
     (case rq_claims rq of
        None \<Rightarrow> ErrUnauthorized
      | Some cl \<Rightarrow>
          let domain = ToLower (TrimSpace param) in
          if domain = [] then Fail 400 ''domain_required''
          else (case dns_Lookup (dd_DNS D) domain d of
             Inl e \<Rightarrow> Reply 200 \<lparr>lv_domain = domain, lv_found = False, lv_records = []\<rparr>
           | Inr records \<Rightarrow> Reply 200 \<lparr>lv_domain = domain, lv_found = True, lv_records = records\<rparr>))"

end
