(* ===== verification/DnsValidProps.thy ===== *)
theory DnsValidProps
  imports DnsValid
begin

text \<open>What the DNS validators accept.\<close>

definition ldh :: "char \<Rightarrow> bool" where
  "ldh c \<longleftrightarrow> is_lower c \<or> is_digit c \<or> c = CHR ''-''"

definition label_ok :: "string \<Rightarrow> bool" where
  "label_ok s \<longleftrightarrow> s \<noteq> [] \<and> length s \<le> 63 \<and> (\<forall>c\<in>set s. ldh c) \<and> hd s \<noteq> CHR ''-'' \<and> last s \<noteq> CHR ''-''"

lemma in_alnum: "in_class alnum_class c \<longleftrightarrow> is_lower c \<or> is_digit c"
  by (simp add: in_class_def alnum_class_def is_lower_def is_digit_def)

lemma ch_eq: "c = d \<longleftrightarrow> ch c = ch d"
  by (simp add: ch_inject)

lemma in_ldh: "in_class ldh_class c \<longleftrightarrow> ldh c"
  using ch_eq [of c "CHR ''-''"]
  by (auto simp: in_class_def ldh_class_def ldh_def is_lower_def is_digit_def)

lemma in_dot: "in_class [(CHR ''.'', CHR ''.'')] c \<longleftrightarrow> c = CHR ''.''"
  using ch_eq [of c "CHR ''.''"] by (auto simp: in_class_def)

lemma alnum_ldh: "is_lower c \<or> is_digit c \<longleftrightarrow> ldh c \<and> c \<noteq> CHR ''-''"
  by (auto simp: ldh_def is_lower_def is_digit_def)

lemma ldh_not_dot: "ldh c \<Longrightarrow> c \<noteq> CHR ''.''"
  by (auto simp: ldh_def is_lower_def is_digit_def)

lemma validLabel_lang: "s \<in> lang validLabel \<longleftrightarrow> label_ok s"
proof
  assume "s \<in> lang validLabel"
  then obtain c t where s: "s = c # t" "in_class alnum_class c"
    "t \<in> insert [] (lang (Cat (UpTo 61 (Class ldh_class)) (Class alnum_class)))"
    unfolding validLabel_def lang_Cat_Class lang_Optional by blast
  show "label_ok s"
  proof (cases "t = []")
    case True
    then show ?thesis using s by (auto simp: label_ok_def in_alnum alnum_ldh)
  next
    case False
    then obtain m e where "t = m @ [e]" "length m \<le> 61" "\<forall>c\<in>set m. ldh c" "in_class alnum_class e"
      using s(3) by (auto simp: lang_UpTo_Class in_ldh simp del: UpTo.simps)
    then show ?thesis using s(1,2) by (auto simp: label_ok_def in_alnum alnum_ldh)
  qed
next
  assume ok: "label_ok s"
  then obtain c t where s: "s = c # t" by (cases s) (auto simp: label_ok_def)
  have c: "in_class alnum_class c" using ok s by (auto simp: label_ok_def in_alnum alnum_ldh)
  have "t \<in> insert [] (lang (Cat (UpTo 61 (Class ldh_class)) (Class alnum_class)))"
  proof (cases t rule: rev_cases)
    case (snoc m e)
    then have "in_class alnum_class e" "m \<in> lang (UpTo 61 (Class ldh_class))"
      using ok s by (auto simp: label_ok_def in_alnum alnum_ldh lang_UpTo_Class in_ldh simp del: UpTo.simps)
    with snoc show ?thesis by auto
  qed simp
  with s c show "s \<in> lang validLabel" unfolding validLabel_def lang_Cat_Class lang_Optional by blast
qed

lemma validLabel_iff: "matches validLabel s \<longleftrightarrow> label_ok s"
  by (simp only: matches_lang validLabel_lang)

lemma DomainRegex_iff: "matches DomainRegex s \<longleftrightarrow> (\<forall>w\<in>set (Split s (CHR ''.'')). label_ok w)"
proof -
  have sep: "w \<in> lang validLabel \<Longrightarrow> CHR ''.'' \<notin> set w" for w
    using ldh_not_dot by (auto simp: validLabel_lang label_ok_def)
  show ?thesis
    unfolding matches_lang DomainRegex_def
    using lang_sep_list [where r = validLabel and c = "CHR ''.''" and rs = "[(CHR ''.'', CHR ''.'')]" and s = s]
      sep in_dot unfolding validLabel_lang by blast
qed

lemma lower_char_dot: "lower_char c = CHR ''.'' \<longleftrightarrow> c = CHR ''.''"
proof
  assume l: "lower_char c = CHR ''.''"
  show "c = CHR ''.''"
  proof (cases "is_upper c")
    case True
    then have "ch (lower_char c) = ch c + 32" by (simp add: lower_char_def is_upper_def)
    with l True show ?thesis by (simp add: is_upper_def)
  next
    case False
    with l show ?thesis by (simp add: lower_char_id)
  qed
qed (simp add: lower_char_def is_upper_def)

lemma Split_ToLower: "Split (ToLower s) (CHR ''.'') = map ToLower (Split s (CHR ''.''))"
  by (induction s) (auto simp: ToLower_def lower_char_dot split: list.splits)

lemma validateLabels_iff: "validateLabels ls = None \<longleftrightarrow> (\<forall>l\<in>set ls. label_ok (ToLower l))"
  by (induction ls) (auto simp: validLabel_iff, auto simp: label_ok_def)

lemma validateHostname_iff:
  "validateHostname h = None \<longleftrightarrow>
     (let t = TrimSuffix h ''.'' in t \<noteq> [] \<and> length t \<le> 253 \<and> (\<forall>l\<in>set (Split (ToLower t) (CHR ''.'')). label_ok l))"
  by (auto simp: validateHostname_def validateLabels_iff Split_ToLower Let_def length_Split)


subsection \<open>Addresses\<close>

definition host_char :: "char \<Rightarrow> bool" where
  "host_char c \<longleftrightarrow> is_lower c \<or> is_upper c \<or> is_digit c \<or> c = CHR ''-'' \<or> c = CHR ''.'' \<or> c = CHR '':''"

lemma octet_chars: "c \<in> set (string_of_nat n) \<Longrightarrow> is_digit c"
  by (rule string_of_nat_digits)

lemma valid_ip4_chars:
  assumes "valid_ip4 s" "c \<in> set s"
  shows "is_digit c \<or> c = CHR ''.''"
  using assms unfolding valid_ip4_iff dotted_def by (auto dest: octet_chars)

definition ip6_char :: "char \<Rightarrow> bool" where
  "ip6_char c \<longleftrightarrow> is_hex c \<or> c = CHR ''.'' \<or> c = CHR '':''"

lemma ip6_loop_chars: "ip6_loop i el s \<Longrightarrow> \<forall>c\<in>set s. ip6_char c"
proof (induction i el s rule: ip6_loop.induct)
  case (1 i el s)
  let ?g = "takeWhile is_hex s" and ?r = "dropWhile is_hex s"
  note run = "1.prems" [unfolded ip6_loop.simps [of i el s] Let_def]
  have hex: "\<forall>c\<in>set ?g. ip6_char c" unfolding ip6_char_def by (meson set_takeWhileD)
  have s: "set s = set ?g \<union> set ?r" by (metis set_append takeWhile_dropWhile_id)
  show ?case
  proof (cases "16 \<le> i")
    case True
    with run show ?thesis by simp
  next
    case False
    note run = run [unfolded if_not_P [OF False]]
    have g: "\<not> (?g = [] \<or> 4 < length ?g)" using run if_P by metis
    note run = run [unfolded if_not_P [OF g]]
    note IH = "1.IH" [OF False refl refl g]
    show ?thesis
    proof (cases ?r)
      case Nil
      then have "set s = set ?g" using s by (simp only: list.set Un_empty_right)
      then show ?thesis using hex by (simp only:)
    next
      case (Cons c cs)
      note run = run [unfolded Cons list.case]
      show ?thesis
      proof (cases "c = CHR ''.''")
        case True
        then have "valid_ip4 s" using run by simp
        then show ?thesis using valid_ip4_chars by (fastforce simp: ip6_char_def is_hex_def)
      next
        case dot: False
        then have c: "c = CHR '':''" using run by (simp split: if_splits)
        obtain c' cs' where cs: "cs = c' # cs'" using run dot c by (cases cs) auto
        have "\<forall>x\<in>set cs. ip6_char x"
        proof (cases "c' = CHR '':''")
          case True
          then have "cs' = [] \<or> ip6_loop (i + 2) True cs'" "\<not> el" using run dot c cs by (auto split: if_splits)
          then have "\<forall>x\<in>set cs'. ip6_char x"
            using IH(1) [OF Cons dot _ cs True] c by (cases "cs' = []") auto
          then show ?thesis using cs True by (simp add: ip6_char_def)
        next
          case False
          then have "ip6_loop (i + 2) el cs" using run dot c cs by auto
          then show ?thesis using IH(2) [OF Cons dot _ cs False] c by simp
        qed
        then show ?thesis using hex s Cons c by (auto simp: ip6_char_def)
      qed
    qed
  qed
qed

lemma hex_host: "ip6_char c \<Longrightarrow> host_char c"
  by (auto simp: ip6_char_def is_hex_def host_char_def is_lower_def is_upper_def is_digit_def)

lemma ParseIP_chars:
  assumes "ParseIP_ok s" "c \<in> set s"
  shows "host_char c"
proof -
  have "valid_ip4 s \<or> valid_ip6 s"
    using assms(1) by (auto simp: ParseIP_ok_def split: list.splits if_splits)
  then show ?thesis
  proof
    assume "valid_ip4 s"
    then show ?thesis using valid_ip4_chars assms(2) by (auto simp: host_char_def)
  next
    assume v: "valid_ip6 s"
    show ?thesis
    proof (cases "HasPrefix s ''::''")
      case True
      then obtain t where t: "s = ''::'' @ t" by (auto simp: HasPrefix_iff)
      then have "t = [] \<or> ip6_loop 0 True t" using v by (simp add: valid_ip6_def Let_def HasPrefix_def split: if_splits)
      then show ?thesis
        using ip6_loop_chars [of 0 True t] assms(2) t hex_host by (auto simp: host_char_def)
    next
      case False
      then show ?thesis
        using v ip6_loop_chars [of 0 False s] assms(2) hex_host by (auto simp: valid_ip6_def host_char_def)
    qed
  qed
qed

lemma punct_not_digit: "is_digit c \<Longrightarrow> c \<notin> {CHR ''.'', CHR '':'', CHR ''%''}"
  by (auto simp: is_digit_def)

lemma dotted_first: "dropWhile (\<lambda>c. c \<notin> {CHR ''.'', CHR '':'', CHR ''%''}) (dotted a b c d) =
    CHR ''.'' # string_of_nat b @ ''.'' @ string_of_nat c @ ''.'' @ string_of_nat d"
proof -
  have "\<forall>x\<in>set (string_of_nat a). x \<notin> {CHR ''.'', CHR '':'', CHR ''%''}"
    using octet_chars [of _ a] punct_not_digit by blast
  then show ?thesis unfolding dotted_def by (simp add: dropWhile_append2)
qed

lemma validateIPv4_iff:
  "validateIPv4 ip = None \<longleftrightarrow> (\<exists>a b c d. a \<le> 255 \<and> b \<le> 255 \<and> c \<le> 255 \<and> d \<le> 255 \<and> ip = dotted a b c d)"
proof
  assume "validateIPv4 ip = None"
  then have ok: "ParseIP_ok ip" "CHR '':'' \<notin> set ip" by (auto simp: validateIPv4_def ContainsChar_def split: if_splits)
  have "c \<in> set (dropWhile P ip) \<Longrightarrow> c \<in> set ip" for c P by (rule set_dropWhileD)
  then have "valid_ip4 ip"
    using ok by (auto simp: ParseIP_ok_def split: list.splits if_splits) (metis list.set_intros(1) set_dropWhileD)
  then show "\<exists>a b c d. a \<le> 255 \<and> b \<le> 255 \<and> c \<le> 255 \<and> d \<le> 255 \<and> ip = dotted a b c d"
    unfolding valid_ip4_iff .
next
  assume "\<exists>a b c d. a \<le> 255 \<and> b \<le> 255 \<and> c \<le> 255 \<and> d \<le> 255 \<and> ip = dotted a b c d"
  then obtain a b c d where ip: "ip = dotted a b c d" and v: "valid_ip4 ip" using valid_ip4_iff by blast
  have "ParseIP_ok ip" unfolding ParseIP_ok_def unfolding ip dotted_first using v ip by simp
  moreover have "CHR '':'' \<notin> set ip" using valid_ip4_chars [OF v] punct_not_digit by fastforce
  ultimately show "validateIPv4 ip = None" by (simp add: validateIPv4_def ContainsChar_def)
qed

subsection \<open>Records\<close>

lemma host_char_lower: "ldh (lower_char c) \<Longrightarrow> host_char c"
  by (cases "is_upper c") (auto simp: ldh_def host_char_def lower_char_id)

lemma Split_chars: "c \<in> set s \<Longrightarrow> c = d \<or> (\<exists>p\<in>set (Split s d). c \<in> set p)"
  by (induction s) (auto split: list.splits)

lemma TrimSuffix_chars: "c \<in> set s \<Longrightarrow> c \<in> set (TrimSuffix s t) \<or> c \<in> set t"
  by (cases "HasSuffix s t") (auto simp: HasSuffix_iff TrimSuffix_def [of s t])

lemma validateHostname_chars:
  assumes "validateHostname h = None" "c \<in> set h"
  shows "host_char c"
proof (cases "c \<in> set (TrimSuffix h ''.'')")
  case False
  then show ?thesis using TrimSuffix_chars [OF assms(2), of "''.''"] by (simp add: host_char_def)
next
  case True
  then consider "c = CHR ''.''" | p where "p \<in> set (Split (TrimSuffix h ''.'') (CHR ''.''))" "c \<in> set p"
    using Split_chars by blast
  then show ?thesis
  proof cases
    case 2
    then have "label_ok (ToLower p)"
      using assms(1) by (simp add: validateHostname_iff Let_def Split_ToLower)
    then show ?thesis using 2(2) host_char_lower by (auto simp: label_ok_def ToLower_def)
  qed (simp add: host_char_def)
qed

lemma Join_space: "parts \<noteq> [] \<Longrightarrow> Join (p # parts) '' '' = p @ '' '' @ Join parts '' ''"
  by (rule Join_Cons)

lemma validateMX_parts:
  assumes "validateMXContent s = None"
  shows "\<exists>p h n. s = p @ '' '' @ h \<and> CHR '' '' \<notin> set p \<and> ScanInt p = Some n \<and> 0 \<le> n \<and> n \<le> 65535 \<and> validateHostname h = None"
proof -
  obtain p rest where sp: "Split s (CHR '' '') = p # rest" "rest \<noteq> []"
    using assms by (cases "Split s (CHR '' '')") (auto simp: validateMXContent_def Let_def split: if_splits)
  then have "s = p @ '' '' @ Join rest '' ''" using Join_Split [of s "CHR '' ''"] Join_space by metis
  moreover have "CHR '' '' \<notin> set p" using Split_pieces_no_sep [of p s "CHR '' ''"] sp by simp
  moreover have "\<exists>n. ScanInt p = Some n \<and> 0 \<le> n \<and> n \<le> 65535 \<and> validateHostname (Join rest '' '') = None"
    using assms sp by (cases rest) (auto simp: validateMXContent_def Let_def split: if_splits option.splits)
  ultimately show ?thesis by blast
qed


subsection \<open>Text after a number\<close>

lemma SkipSpace_digit: "is_digit c \<Longrightarrow> SkipSpace (c # cs) = Some (c # cs)"
  by (cases "c # cs" rule: SkipSpace.cases) (auto simp: is_digit_def is_space_def space2_def space3_def)

lemma ScanInt_prefix:
  assumes "n < 2 ^ 63" "j = [] \<or> \<not> is_digit (hd j)"
  shows "ScanInt (string_of_nat n @ j) = Some (int n)"
proof -
  obtain c cs where s: "string_of_nat n = c # cs" by (cases "string_of_nat n") auto
  have digits: "\<forall>x\<in>set (string_of_nat n). is_digit x" using string_of_nat_digits by blast
  then have c: "is_digit c" using s by simp
  have "takeWhile is_digit (string_of_nat n @ j) = string_of_nat n"
    using digits assms(2) by (cases j) (auto simp: takeWhile_append2 takeWhile_append)
  then have v: "digits_value ((c # cs) @ j) = Some (int n)"
    using s nat_of_string_of_nat [of n] by (simp only: digits_value_def Let_def) simp
  have "c \<noteq> CHR ''-''" "c \<noteq> CHR ''+''" using c by (auto simp: is_digit_def)
  moreover have "int n < 2 ^ 63" using assms(1) by (metis of_nat_less_iff of_nat_numeral of_nat_power)
  ultimately show ?thesis
    unfolding ScanInt_def s using c v by (simp add: SkipSpace_digit)
qed

text \<open>
  The number at the start of an MX record may be followed by any bytes but a space: \<open>Sscanf\<close> stops reading
  at the first byte that is not a digit and the rest is never looked at. So newlines and other text in the content
  of a record pass the check, and are stored as they are.
\<close>

theorem mx_priority_junk:
  assumes "n \<le> 65535" "j = [] \<or> \<not> is_digit (hd j)" "CHR '' '' \<notin> set j"
    and "validateHostname h = None" "solid (last h)"
  shows "ValidateRecordContent ''MX'' (string_of_nat n @ j @ '' '' @ h) = None"
proof -
  let ?c = "string_of_nat n @ j @ '' '' @ h"
  obtain c cs where ds: "string_of_nat n = c # cs" by (cases "string_of_nat n") auto
  have digits: "\<forall>x\<in>set (string_of_nat n). is_digit x" using string_of_nat_digits by blast
  then have "solid c" using ds by (auto simp: solid_def is_digit_def is_space_def)
  moreover have "h \<noteq> []" using assms(4) by (auto simp: validateHostname_def TrimSuffix_def HasSuffix_def)
  ultimately have trim: "TrimSpace ?c = ?c" using assms(5) ds by (intro TrimSpace_solid) simp
  have "CHR '' '' \<notin> set (string_of_nat n @ j)" using digits assms(3) by (auto simp: is_digit_def)
  then have sp: "Split ?c (CHR '' '') = (string_of_nat n @ j) # Split h (CHR '' '')"
    using Split_append [of "CHR '' ''" "string_of_nat n @ j" h] by simp
  have "ScanInt (string_of_nat n @ j) = Some (int n)" using ScanInt_prefix assms(1,2) by simp
  then have "validateMXContent ?c = None"
    using sp assms(1,4) by (simp add: validateMXContent_def Let_def length_Split Join_Split)
  then show ?thesis
    using trim by (simp add: ValidateRecordContent_def Let_def record_type_defs ToUpper_def upper_char_def is_lower_def)
qed

subsection \<open>Concrete names and records\<close>



theorem mx_priority_junk_witness:
  "ValidateRecordContent ''MX'' ''10;include mail.example.com'' = None"
proof -
  have "string_of_nat 10 = ''10''" "validateHostname ''mail.example.com'' = None" by code_simp+
  then show ?thesis
    using mx_priority_junk [of 10 "'';include''" "''mail.example.com''"]
    by (simp add: is_digit_def solid_def is_space_def)
qed

end
