(* ===== verification/DnsProps.thy ===== *)
theory DnsProps
  imports DnsHandlers DnsValidProps
begin

text \<open>What the DNS service and its endpoints guarantee, and where they do not.\<close>

subsection \<open>Requests to PowerDNS\<close>

definition accepted :: "pdns_net \<Rightarrow> pdns_request list \<Rightarrow> pdns_request \<Rightarrow> bool" where
  "accepted N sent rq \<longleftrightarrow> (\<exists>code data. Do N sent rq = Inr (code, Inr data) \<and> code < 400)"

definition pdns_rq :: "pdns_client \<Rightarrow> string \<Rightarrow> string \<Rightarrow> string option \<Rightarrow> pdns_request" where
  "pdns_rq c method path body =
     \<lparr>pq_method = method, pq_url = pl_baseURL c @ path, pq_key = pc_APIKey (pl_config c), pq_body = body\<rparr>"

lemma call_doRequest:
  "call_error (doRequest N c m p b sent) = (x, sent') \<Longrightarrow>
     (if NewRequest N (pl_baseURL c @ p) \<noteq> None then x \<noteq> None \<and> sent' = sent
      else sent' = sent @ [pdns_rq c m p b] \<and> (x = None \<longleftrightarrow> accepted N sent (pdns_rq c m p b)))"
  by (auto simp: call_error_def doRequest_def pdns_rq_def accepted_def Let_def
      split: option.splits sum.splits prod.splits if_splits)

lemma IsPowerDNSEnabled_iff: "IsPowerDNSEnabled S \<longleftrightarrow> IsConfigured (dn_pdns S)"
  by (auto simp: IsPowerDNSEnabled_def IsConfigured_def split: option.splits)

definition zone_post :: "'d dns \<Rightarrow> string \<Rightarrow> string \<Rightarrow> pdns_request" where
  "zone_post S domain kind =
     pdns_rq (the (dn_pdns S)) ''POST'' ''/zones'' (Some (zone_json \<lparr>pz_Name = domain, pz_Kind = kind, pz_Masters = []\<rparr>))"

definition zone_del :: "'d dns \<Rightarrow> string \<Rightarrow> pdns_request" where
  "zone_del S domain = pdns_rq (the (dn_pdns S)) ''DELETE'' (''/zones/'' @ domain) None"

lemma pdns_CreateZone_cases:
  assumes "IsPowerDNSEnabled S" "pdns_CreateZone (dn_net S) (dn_pdns S) \<lparr>pz_Name = n, pz_Kind = k, pz_Masters = []\<rparr> sent = (x, sent')"
  shows "x = None \<and> sent' = sent @ [zone_post S n k] \<and> accepted (dn_net S) sent (zone_post S n k) \<or>
    x \<noteq> None \<and> (sent' = sent \<or> sent' = sent @ [zone_post S n k] \<and> \<not> accepted (dn_net S) sent (zone_post S n k))"
  using assms call_doRequest [of "dn_net S" "the (dn_pdns S)" "''POST''" "''/zones''"
      "Some (zone_json \<lparr>pz_Name = n, pz_Kind = k, pz_Masters = []\<rparr>)" sent x sent']
  by (simp add: pdns_CreateZone_def IsPowerDNSEnabled_iff zone_post_def split: if_splits) auto

lemma pdns_DeleteZone_cases:
  assumes "IsPowerDNSEnabled S" "pdns_DeleteZone (dn_net S) (dn_pdns S) n sent = (x, sent')"
  shows "x = None \<and> sent' = sent @ [zone_del S n] \<and> accepted (dn_net S) sent (zone_del S n) \<or>
    x \<noteq> None \<and> (sent' = sent \<and> NewRequest (dn_net S) (pq_url (zone_del S n)) \<noteq> None \<or>
      sent' = sent @ [zone_del S n] \<and> \<not> accepted (dn_net S) sent (zone_del S n))"
  using assms call_doRequest [of "dn_net S" "the (dn_pdns S)" "''DELETE''" "''/zones/'' @ n" None sent x sent']
  by (simp add: pdns_DeleteZone_def IsPowerDNSEnabled_iff zone_del_def pdns_rq_def split: if_splits) auto

subsection \<open>Creating a zone\<close>

text \<open>The zone a successful call returns, and the database after it.\<close>

definition zone_added :: "create_zone_input \<Rightarrow> dns_zone \<Rightarrow> database \<Rightarrow> database \<Rightarrow> bool" where
  "zone_added i row v v' \<longleftrightarrow>
     z_Domain row = ToLower (zi_Domain i) \<and> z_TenantID row = zi_TenantID i \<and> live row \<and>
     list_all (\<lambda>z. z_Domain z \<noteq> z_Domain row) (db_zones v) \<and> v' = v\<lparr>db_zones := db_zones v @ [row]\<rparr>"

context gorm_db
begin

lemma zone_created:
  assumes "tCreate (DNSZones G) now (zone_row newid i) d = (Inr row, d')"
  shows "zone_added i row (view d) (view d')"
  using dns_zone.create_ok [OF assms]
  by (auto simp: zone_added_def zone_row_def dns_zone_clash_def list_all_iff live_def)

text \<open>From the row in the transaction on: the request to PowerDNS, and the commit.\<close>

lemma create_zone_row:
  assumes S: "dn_gorm S = G" and en: "IsPowerDNSEnabled S"
    and run: "dns_CreateZone S now newid i (d, sent) = (res, d', sent')"
    and valid: "ValidateZoneDomain (zi_Domain i) = None" and hit: "tFirst (DNSZones G) (\<lambda>z. z_Domain z = zi_Domain i) d = Inl err"
    and Inr: "Begin G d = Inr tx" and cr: "tCreate (DNSZones G) now (zone_row newid i) tx = (Inr row, tx')"
  shows "case res of
      Inr row \<Rightarrow> ValidateZoneDomain (zi_Domain i) = None \<and> zone_added i row (view d) (view d') \<and>
        sent' = sent @ [zone_post S (z_Domain row) (z_Type row)] \<and>
        accepted (dn_net S) sent (zone_post S (z_Domain row) (z_Type row))
    | Inl e \<Rightarrow> view d' = view d \<and> (\<exists>n k. sent' = sent \<or> sent' = sent @ [zone_post S n k, zone_del S n] \<or>
        sent' = sent @ [zone_post S n k] \<and>
          (\<not> accepted (dn_net S) sent (zone_post S n k) \<or> NewRequest (dn_net S) (pq_url (zone_del S n)) \<noteq> None))"
proof -
  have added: "zone_added i row (view d) (view tx')"
    using zone_created [of now newid i tx row tx'] cr begin_ok [OF Inr] by simp
  obtain y sent1 where post: "pdns_CreateZone (dn_net S) (dn_pdns S)
      \<lparr>pz_Name = z_Domain row, pz_Kind = z_Type row, pz_Masters = []\<rparr> sent = (y, sent1)" by fastforce
  note pc = pdns_CreateZone_cases [OF en post]
  show ?thesis
  proof (cases y)
    case (Some e)
    then have "res = Inl (Errorf ''powerdns sync failed, rolled back: '' e [])" "d' = Rollback G d tx'" "sent' = sent1"
      using run valid S en hit Inr cr post by (auto simp: dns_CreateZone_def)
    then show ?thesis using pc Some rollback_view by auto
  next
    case None
    obtain z d1 where cm: "Commit G d tx' = (z, d1)" by fastforce
    obtain q sent2 where del: "pdns_DeleteZone (dn_net S) (dn_pdns S) (z_Domain row) sent1 = (q, sent2)" by fastforce
    show ?thesis
    proof (cases z)
      case (Some e)
      then have r: "res = Inl (Errorf ''commit transaction: '' e [])" "d' = d1" "sent' = sent2"
        using run valid S en hit Inr cr post None cm del by (auto simp: dns_CreateZone_def)
      then show ?thesis
        using pc None pdns_DeleteZone_cases [OF en del] commit_fail [OF cm [unfolded Some]] by auto
    next
      case c: None
      then have r: "res = Inr row" "d' = d1" "sent' = sent1"
        using run valid S en hit Inr cr post None cm by (auto simp: dns_CreateZone_def)
      then show ?thesis
        using pc None added valid commit_ok [OF cm [unfolded c]] by simp
    qed
  qed
qed

lemma create_zone_pdns:
  assumes S: "dn_gorm S = G" and en: "IsPowerDNSEnabled S"
    and run: "dns_CreateZone S now newid i (d, sent) = (res, d', sent')"
  shows "case res of
      Inr row \<Rightarrow> ValidateZoneDomain (zi_Domain i) = None \<and> zone_added i row (view d) (view d') \<and>
        sent' = sent @ [zone_post S (z_Domain row) (z_Type row)] \<and>
        accepted (dn_net S) sent (zone_post S (z_Domain row) (z_Type row))
    | Inl e \<Rightarrow> view d' = view d \<and> (\<exists>n k. sent' = sent \<or> sent' = sent @ [zone_post S n k, zone_del S n] \<or>
        sent' = sent @ [zone_post S n k] \<and>
          (\<not> accepted (dn_net S) sent (zone_post S n k) \<or> NewRequest (dn_net S) (pq_url (zone_del S n)) \<noteq> None))"
proof (cases "ValidateZoneDomain (zi_Domain i)")
  case (Some e)
  then show ?thesis using run by (auto simp: dns_CreateZone_def)
next
  case valid: None
  show ?thesis
  proof (cases "tFirst (DNSZones G) (\<lambda>z. z_Domain z = zi_Domain i) d")
    case (Inr z)
    then show ?thesis using run valid S by (auto simp: dns_CreateZone_def)
  next
    case miss: (Inl err)
    show ?thesis
    proof (cases "Begin G d")
      case (Inl e)
      then show ?thesis using run valid S en \<open>tFirst _ _ _ = _\<close> by (auto simp: dns_CreateZone_def)
    next
      case (Inr tx)
      obtain x tx' where cr: "tCreate (DNSZones G) now (zone_row newid i) tx = (x, tx')" by fastforce
      show ?thesis
      proof (cases x)
        case (Inl e)
        then have "res = Inl (Errorf ''create zone: '' e [])" "d' = Rollback G d tx'" "sent' = sent"
          using run valid S en \<open>tFirst _ _ _ = _\<close> Inr cr by (auto simp: dns_CreateZone_def)
        then show ?thesis using rollback_view by auto
      next
        case row: (Inr row)
        then show ?thesis using create_zone_row [OF S en run valid miss Inr] cr by simp
      qed
    qed
  qed
qed

lemma create_zone_local:
  assumes S: "dn_gorm S = G" and off: "\<not> IsPowerDNSEnabled S"
    and run: "dns_CreateZone S now newid i (d, sent) = (res, d', sent')"
  shows "sent' = sent \<and> (case res of
      Inr row \<Rightarrow> ValidateZoneDomain (zi_Domain i) = None \<and> zone_added i row (view d) (view d')
    | Inl e \<Rightarrow> view d' = view d)"
proof (cases "ValidateZoneDomain (zi_Domain i)")
  case None
  obtain x d1 where cr: "tCreate (DNSZones G) now (zone_row newid i) d = (x, d1)" by fastforce
  show ?thesis
    using run S off None cr zone_created [of now newid i d _ d1] dns_zone.create_fail [of now "zone_row newid i" d _ d1]
    by (auto simp: dns_CreateZone_def Let_def split: sum.splits)
qed (use run in \<open>auto simp: dns_CreateZone_def\<close>)

end


subsection \<open>Copying the records of a zone\<close>

definition records_put :: "pdns_client \<Rightarrow> string \<Rightarrow> pdns_record list \<Rightarrow> string \<Rightarrow> pdns_request" where
  "records_put c zone records t =
     pdns_rq c ''PUT'' (''/zones/'' @ zone @ ''/'' @ t @ ''/'' @ zone)
       (Some (json_array (map record_json (filter (\<lambda>r. pr_type r = t) records))))"

lemma sync_types_requests:
  assumes "IsConfigured c" "sync_types N c zone records ts sent = (x, sent')"
  shows "\<exists>k\<le>length ts. sent' = sent @ map (records_put (the c) zone records) (take k ts) \<and> (x = None \<longrightarrow> k = length ts)"
  using assms(2)
proof (induction ts arbitrary: sent)
  case (Cons t ts)
  let ?rs = "\<lparr>ps_Name = zone, ps_Type = t, ps_TTL = 3600, ps_Records = typeRecords records t\<rparr>"
  obtain y sent1 where rep: "ReplaceRecords N c zone ?rs sent = (y, sent1)" by fastforce
  have "call_error (doRequest N (the c) ''PUT'' (''/zones/'' @ zone @ ''/'' @ t @ ''/'' @ zone)
      (Some (json_array (map record_json (typeRecords records t)))) sent) = (y, sent1)"
    using rep assms(1) by (simp add: ReplaceRecords_def)
  from call_doRequest [OF this]
  have c: "y \<noteq> None \<and> sent1 = sent \<or> sent1 = sent @ [records_put (the c) zone records t]"
    by (auto simp: records_put_def typeRecords_def split: if_splits)
  show ?case
  proof (cases y)
    case (Some e)
    then have "x \<noteq> None" "sent' = sent1" using Cons.prems rep by auto
    with c consider "x \<noteq> None" "sent' = sent" | "x \<noteq> None" "sent' = sent @ [records_put (the c) zone records t]" by blast
    then show ?thesis
    proof cases
      case 1
      then show ?thesis by (intro exI [of _ 0]) simp
    next
      case 2
      then show ?thesis by (intro exI [of _ 1]) auto
    qed
  next
    case None
    then have "sync_types N c zone records ts sent1 = (x, sent')" using Cons.prems rep by simp
    from Cons.IH [OF this] obtain k where "k \<le> length ts"
      "sent' = sent1 @ map (records_put (the c) zone records) (take k ts)" "x = None \<longrightarrow> k = length ts" by blast
    then show ?thesis using c None by (intro exI [of _ "Suc k"]) auto
  qed
qed simp

text \<open>
  What a copy of a zone sends. It sends one request for each type among the records, in the order of the map, each
  replacing the records of its type by all the records of that type; an error ends it early. There is no request for
  a type without records, so after the last record of a type is deleted PowerDNS keeps serving it.
\<close>

theorem sync_zone_requests:
  assumes "IsConfigured c" "\<And>ts. mset (order ts) = mset ts"
    and "SyncZone N order c zone records sent = (x, sent')"
  shows "\<exists>ts. distinct ts \<and> set ts \<subseteq> pr_type ` set records \<and>
      sent' = sent @ map (records_put (the c) zone records) ts \<and>
      (x = None \<longrightarrow> set ts = pr_type ` set records)"
proof -
  let ?ts = "order (record_types records)"
  have ts: "distinct ?ts" "set ?ts = pr_type ` set records"
    using assms(2) [of "record_types records"]
    by (metis distinct_remdups mset_eq_imp_distinct_iff record_types_def,
        metis list.set_map mset_eq_setD record_types_def set_remdups)
  have "sync_types N c zone records ?ts sent = (x, sent')" using assms(1,3) by (simp add: SyncZone_def)
  from sync_types_requests [OF assms(1) this]
  obtain k where k: "k \<le> length ?ts" "sent' = sent @ map (records_put (the c) zone records) (take k ?ts)" "x = None \<longrightarrow> k = length ?ts"
    by blast
  have "set (take k ?ts) \<subseteq> pr_type ` set records" using ts(2) set_take_subset by metis
  then show ?thesis using k ts by (intro exI [of _ "take k ?ts"]) (auto simp: distinct_take)
qed

subsection \<open>Tenants\<close>

lemma apply_keep:
  "(\<And>n x. f (upd n x) = f x) \<Longrightarrow> f (apply_num m k upd r) = f r"
  "(\<And>n x. f (upds n x) = f x) \<Longrightarrow> f (apply_str m k upds r) = f r"
  "(\<And>n x. f (updb n x) = f x) \<Longrightarrow> f (apply_bool m k updb r) = f r"
  by (simp_all add: apply_num_def apply_str_def apply_bool_def split: option.splits json_any.splits)

lemma zone_updates_keep [simp]:
  "ID (zone_updates m z) = ID z" "z_TenantID (zone_updates m z) = z_TenantID z" "live (zone_updates m z) = live z"
  by (simp_all add: zone_updates_def apply_keep live_def)

text \<open>The zones of the other tenants.\<close>

definition other_zones :: "string \<Rightarrow> database \<Rightarrow> dns_zone list" where
  "other_zones t v = filter (\<lambda>z. z_TenantID z \<noteq> t) (db_zones v)"

lemma filter_save_row:
  assumes "\<And>x. x \<in> set rows \<Longrightarrow> live x \<Longrightarrow> ID x = ID r \<Longrightarrow> \<not> P x" "\<not> P (r\<lparr>UpdatedAt := now\<rparr>)"
  shows "filter P (save_row now r rows) = filter P rows"
  using assms(1) by (induction rows) (auto simp: save_row_def assms(2))

lemma filter_del_rows:
  assumes "\<And>x. x \<in> set rows \<Longrightarrow> live x \<Longrightarrow> q x \<Longrightarrow> \<not> P x" "\<And>x. \<not> P x \<Longrightarrow> \<not> P (x\<lparr>DeletedAt := Some now\<rparr>)"
  shows "filter P (del_rows now q rows) = filter P rows"
  using assms by (induction rows) (auto simp: del_rows_def)

context gorm_db
begin

lemma owned_zone_Inr:
  assumes "dn_gorm (dd_DNS D) = G" "owned_zone D cl zoneID d = Inr zone"
  shows "zone \<in> set (db_zones (view d))" "live zone" "ID zone = zoneID" "z_TenantID zone = cl_TenantID cl"
    "tFirst (DNSZones G) (\<lambda>z. ID z = zoneID) d = Inr zone"
proof -
  have f: "tFirst (DNSZones G) (\<lambda>z. ID z = zoneID) d = Inr zone" and t: "z_TenantID zone = cl_TenantID cl"
    using assms by (auto simp: owned_zone_def dns_GetZone_def split: sum.splits if_splits)
  show "tFirst (DNSZones G) (\<lambda>z. ID z = zoneID) d = Inr zone" "z_TenantID zone = cl_TenantID cl" by (fact f, fact t)
  show "zone \<in> set (db_zones (view d))" "live zone" "ID zone = zoneID" using dns_zone.first_mem [OF f] by auto
qed

lemma owned_zone_Inl:
  assumes "owned_zone D cl zoneID d = Inl r"
  shows "\<exists>code why. r = Fail code why"
  using assms by (auto simp: owned_zone_def split: sum.splits if_splits)

lemma update_zone_others:
  assumes "dn_gorm S = G" "tFirst (DNSZones G) (\<lambda>z. ID z = zoneID) d = Inr zone" "z_TenantID zone = t"
    and "ids_ok (db_zones (view d))" "dns_UpdateZone S now zoneID m d = (x, d')"
  shows "other_zones t (view d') = other_zones t (view d)"
proof -
  note z = dns_zone.first_mem [OF assms(2)]
  have uniq: "z_TenantID y = t" if "y \<in> set (db_zones (view d))" "ID y = ID zone" for y
    using ids_ok_unique [OF assms(4) z(1) that] assms(3) by simp
  obtain y d1 where sv: "tSave (DNSZones G) now (zone_updates m zone) d = (y, d1)" by fastforce
  have "d' = d1" using assms(1,2,5) sv by (auto simp: dns_UpdateZone_def split: option.splits)
  moreover have "other_zones t (view d1) = other_zones t (view d)"
  proof (cases y)
    case None
    have "first_row (\<lambda>x. ID x = ID (zone_updates m zone)) (db_zones (view d)) \<noteq> None"
      using z by (auto simp: first_row_None)
    from dns_zone.save_ok [OF sv [unfolded None] this] show ?thesis
      using uniq assms(3) z(3) by (auto simp: other_zones_def intro!: filter_save_row)
  next
    case (Some e)
    then show ?thesis using dns_zone.save_fail sv by (simp add: other_zones_def)
  qed
  ultimately show ?thesis by simp
qed

lemma delete_rows_view:
  assumes "tDelete (DNSZones G) now q d = (x, d')"
  shows "view d' = view d \<or> view d' = (view d)\<lparr>db_zones := del_rows now q (db_zones (view d))\<rparr>"
  using dns_zone.delete_ok [of now q d _ d'] dns_zone.delete_fail [of now q d _ d'] assms by (cases x) auto

lemma delete_records_zones:
  assumes "tDelete (DNSRecords G) now q d = (x, d')"
  shows "db_zones (view d') = db_zones (view d)"
  using dns_record.delete_ok [of now q d _ d'] dns_record.delete_fail [of now q d _ d'] assms by (cases x) auto

lemma delete_zone_tx:
  assumes "dn_gorm S = G" "tFirst (DNSZones G) (\<lambda>z. ID z = zoneID) d = Inr zone" "IsPowerDNSEnabled S"
    and "dns_DeleteZone S now zoneID (d, sent) = (x, d', sent')"
  shows "view d' = view d \<or> (\<exists>tx a d1 b d2. Begin G d = Inr tx \<and>
    tDelete (DNSRecords G) now (\<lambda>r. rr_ZoneID r = zoneID) tx = (a, d1) \<and>
    tDelete (DNSZones G) now (\<lambda>z. ID z = ID zone) d1 = (b, d2) \<and> view d' = view d2)"
proof -
  obtain y sent1 where p: "pdns_DeleteZone (dn_net S) (dn_pdns S) (z_Domain zone) sent = (y, sent1)" by fastforce
  show ?thesis
  proof (cases "y = None \<and> (\<exists>tx. Begin G d = Inr tx)")
    case False
    then have "d' = d"
      using assms(1,2,4) assms(3) p by (auto simp: dns_DeleteZone_def split: option.splits sum.splits)
    then show ?thesis by simp
  next
    case y: True
    then obtain tx where tx: "y = None" "Begin G d = Inr tx" by blast
    obtain a d1 where 1: "tDelete (DNSRecords G) now (\<lambda>r. rr_ZoneID r = zoneID) tx = (a, d1)" by fastforce
    obtain b d2 where 2: "tDelete (DNSZones G) now (\<lambda>z. ID z = ID zone) d1 = (b, d2)" by fastforce
    obtain c d3 where 3: "Commit G d d2 = (c, d3)" by fastforce
    have "d' = Rollback G d d1 \<or> d' = Rollback G d d2 \<or> d' = d3"
      using assms(1,2,4) assms(3) p tx 1 2 3 by (auto simp: dns_DeleteZone_def split: option.splits sum.splits)
    moreover have "view d3 = view d \<or> view d3 = view d2"
      using commit_ok [of d d2 d3] commit_fail [of d d2 _ d3] 3 by (cases c) auto
    ultimately show ?thesis using rollback_view tx 1 2 by metis
  qed
qed

lemma delete_zone_others:
  assumes "dn_gorm S = G" "tFirst (DNSZones G) (\<lambda>z. ID z = zoneID) d = Inr zone" "z_TenantID zone = t"
    and "ids_ok (db_zones (view d))" "dns_DeleteZone S now zoneID (d, sent) = (x, d', sent')"
  shows "other_zones t (view d') = other_zones t (view d)"
proof -
  note z = dns_zone.first_mem [OF assms(2)]
  have uniq: "z_TenantID y = t" if "y \<in> set (db_zones (view d))" "ID y = ID zone" for y
    using ids_ok_unique [OF assms(4) z(1) that] assms(3) by simp
  have del: "other_zones t (view d2) = other_zones t (view d)"
    if "tDelete (DNSRecords G) now q d0 = (a, d1)" "tDelete (DNSZones G) now (\<lambda>z. ID z = ID zone) d1 = (b, d2)"
      "view d0 = view d" for q a b d0 d1 d2
  proof -
    have e: "db_zones (view d1) = db_zones (view d)" using delete_records_zones [OF that(1)] that(3) by simp
    show ?thesis
      using delete_rows_view [OF that(2)] uniq z(3) assms(3) e
      by (auto simp: other_zones_def intro!: filter_del_rows)
  qed
  have del1: "other_zones t (view d1) = other_zones t (view d)"
    if "tDelete (DNSRecords G) now q d = (a, d1)" for q a d1
    using delete_records_zones [OF that] by (simp add: other_zones_def)
  show ?thesis
  proof (cases "IsPowerDNSEnabled S")
    case False
    obtain a d1 where 1: "tDelete (DNSRecords G) now (\<lambda>r. rr_ZoneID r = zoneID) d = (a, d1)" by fastforce
    obtain b d2 where 2: "tDelete (DNSZones G) now (\<lambda>z. ID z = ID zone) d1 = (b, d2)" by fastforce
    have "d' = d1 \<or> d' = d2"
      using assms(1,2,5) False 1 2 by (auto simp: dns_DeleteZone_def split: sum.splits)
    then show ?thesis using del [OF 1 2] del1 [OF 1] by auto
  next
    case True
    note tx = delete_zone_tx [OF assms(1,2) True assms(5)]
    show ?thesis using tx del begin_ok by (auto simp: other_zones_def)
  qed
qed

lemma create_zone_others:
  assumes "dn_gorm S = G" "dns_CreateZone S now newid i (d, sent) = (x, d', sent')"
  shows "other_zones (zi_TenantID i) (view d') = other_zones (zi_TenantID i) (view d)"
proof -
  have "view d' = view d \<or> (\<exists>row. zone_added i row (view d) (view d'))"
    using create_zone_pdns [OF assms(1) _ assms(2)] create_zone_local [OF assms(1) _ assms(2)]
    by (cases "IsPowerDNSEnabled S"; cases x) auto
  then show ?thesis by (auto simp: zone_added_def other_zones_def)
qed

end

lemma dns_event_view:
  assumes "gorm_db G view" "\<forall>A. dd_Audit D = Some A \<longrightarrow> au_gorm A = G"
  shows "db_zones (view (wdb (fst (dns_event D rq cl a b c e w)))) = db_zones (view (wdb (fst w)))"
    and "db_records (view (wdb (fst (dns_event D rq cl a b c e w)))) = db_records (view (wdb (fst w)))"
  unfolding dns_event_def fst_conv by (subst record_event_view [OF assms], simp)+

lemma put_state_db [simp]: "wdb (fst (put_state w st)) = fst st"
  by (simp add: put_state_def)

text \<open>What the zone endpoints do to the database is what the service does.\<close>

lemma zone_handlers_db:
  assumes "gorm_db G view" "\<forall>A. dd_Audit D = Some A \<longrightarrow> au_gorm A = G" "rq_claims rq = Some cl"
  shows "db_zones (view (wdb (fst (snd (UpdateZoneHandler D rq zoneID body w))))) = db_zones (view (wdb (fst w))) \<or>
      (\<exists>zone m. owned_zone D cl zoneID (wdb (fst w)) = (Inr zone :: dns_zone reply + dns_zone) \<and>
        db_zones (view (wdb (fst (snd (UpdateZoneHandler D rq zoneID body w))))) =
        db_zones (view (snd (dns_UpdateZone (dd_DNS D) (rq_now rq) zoneID m (wdb (fst w))))))"
    and "db_zones (view (wdb (fst (snd (DeleteZoneHandler D rq zoneID w))))) = db_zones (view (wdb (fst w))) \<or>
      (\<exists>zone. owned_zone D cl zoneID (wdb (fst w)) = (Inr zone :: unit reply + dns_zone) \<and>
        db_zones (view (wdb (fst (snd (DeleteZoneHandler D rq zoneID w))))) =
        db_zones (view (fst (snd (dns_DeleteZone (dd_DNS D) (rq_now rq) zoneID (get_state w))))))"
    and "db_zones (view (wdb (fst (snd (CreateZoneHandler D rq zbody w))))) = db_zones (view (wdb (fst w))) \<or>
      (\<exists>i. zi_TenantID i = cl_TenantID cl \<and>
        db_zones (view (wdb (fst (snd (CreateZoneHandler D rq zbody w))))) =
        db_zones (view (fst (snd (dns_CreateZone (dd_DNS D) (rq_now rq) (rq_id rq) i (get_state w))))))"
proof -
  note ev = dns_event_view(1) [OF assms(1,2)]
  show "db_zones (view (wdb (fst (snd (UpdateZoneHandler D rq zoneID body w))))) = db_zones (view (wdb (fst w))) \<or>
      (\<exists>zone m. owned_zone D cl zoneID (wdb (fst w)) = (Inr zone :: dns_zone reply + dns_zone) \<and>
        db_zones (view (wdb (fst (snd (UpdateZoneHandler D rq zoneID body w))))) =
        db_zones (view (snd (dns_UpdateZone (dd_DNS D) (rq_now rq) zoneID m (wdb (fst w))))))"
  proof (cases "\<exists>zone m. owned_zone D cl zoneID (wdb (fst w)) = (Inr zone :: dns_zone reply + dns_zone) \<and> body = Some m")
    case True
    then obtain zone m where z: "owned_zone D cl zoneID (wdb (fst w)) = (Inr zone :: dns_zone reply + dns_zone)" "body = Some m" by blast
    obtain x d where "dns_UpdateZone (dd_DNS D) (rq_now rq) zoneID m (wdb (fst w)) = (x, d)" by fastforce
    then show ?thesis using z assms(3) by (intro disjI2 exI [of _ zone] exI [of _ m]) (auto simp: UpdateZoneHandler_def ev split: sum.splits)
  next
    case False
    then show ?thesis using assms(3) by (auto simp: UpdateZoneHandler_def split: sum.splits option.splits)
  qed
  show "db_zones (view (wdb (fst (snd (DeleteZoneHandler D rq zoneID w))))) = db_zones (view (wdb (fst w))) \<or>
      (\<exists>zone. owned_zone D cl zoneID (wdb (fst w)) = (Inr zone :: unit reply + dns_zone) \<and>
        db_zones (view (wdb (fst (snd (DeleteZoneHandler D rq zoneID w))))) =
        db_zones (view (fst (snd (dns_DeleteZone (dd_DNS D) (rq_now rq) zoneID (get_state w))))))"
    using assms(3) ev by (auto simp: DeleteZoneHandler_def split: sum.splits option.splits prod.splits)
  show "db_zones (view (wdb (fst (snd (CreateZoneHandler D rq zbody w))))) = db_zones (view (wdb (fst w))) \<or>
      (\<exists>i. zi_TenantID i = cl_TenantID cl \<and>
        db_zones (view (wdb (fst (snd (CreateZoneHandler D rq zbody w))))) =
        db_zones (view (fst (snd (dns_CreateZone (dd_DNS D) (rq_now rq) (rq_id rq) i (get_state w))))))"
  proof (cases "\<exists>req acc. zbody = Some req \<and> ToLower (TrimSpace (zr_Domain req)) \<noteq> [] \<and>
      zone_account D cl (zr_AccountID req) (wdb (fst w)) = Some acc")
    case False
    then show ?thesis using assms(3) by (auto simp: CreateZoneHandler_def Let_def split: option.splits)
  next
    case True
    then obtain req acc where r: "zbody = Some req" "ToLower (TrimSpace (zr_Domain req)) \<noteq> []"
      "zone_account D cl (zr_AccountID req) (wdb (fst w)) = Some acc" by blast
    let ?i = "\<lparr>zi_AccountID = acc, zi_TenantID = cl_TenantID cl, zi_Domain = ToLower (TrimSpace (zr_Domain req)),
      zi_Type = zr_Type req, zi_Masters = zr_Masters req\<rparr>"
    obtain x st where run: "dns_CreateZone (dd_DNS D) (rq_now rq) (rq_id rq) ?i (get_state w) = (x, st)" by (metis surj_pair)
    then show ?thesis
      using r assms(3) by (intro disjI2 exI [of _ ?i]) (auto simp: CreateZoneHandler_def Let_def ev split: sum.splits)
  qed
qed

context gorm_db
begin

lemma create_handler_others:
  assumes "dn_gorm (dd_DNS D) = G" "\<forall>A. dd_Audit D = Some A \<longrightarrow> au_gorm A = G" "rq_claims rq = Some cl"
  shows "other_zones (cl_TenantID cl) (view (wdb (fst (snd (CreateZoneHandler D rq body w))))) =
    other_zones (cl_TenantID cl) (view (wdb (fst w)))"
proof -
  have "other_zones (zi_TenantID i) (view (fst (snd (dns_CreateZone (dd_DNS D) (rq_now rq) (rq_id rq) i (get_state w))))) =
      other_zones (zi_TenantID i) (view (wdb (fst w)))" for i
  proof -
    obtain x d' sent' where run: "dns_CreateZone (dd_DNS D) (rq_now rq) (rq_id rq) i (wdb (fst w), snd w) = (x, d', sent')"
      by (metis surj_pair)
    show ?thesis using create_zone_others [OF assms(1) run] by (simp add: get_state_def run)
  qed
  then show ?thesis using zone_handlers_db(3) [OF gorm_db_axioms assms(2,3), of body w] unfolding other_zones_def by metis
qed

lemma update_handler_others:
  assumes "dn_gorm (dd_DNS D) = G" "\<forall>A. dd_Audit D = Some A \<longrightarrow> au_gorm A = G" "rq_claims rq = Some cl"
    and "ids_ok (db_zones (view (wdb (fst w))))"
  shows "other_zones (cl_TenantID cl) (view (wdb (fst (snd (UpdateZoneHandler D rq zoneID body w))))) =
    other_zones (cl_TenantID cl) (view (wdb (fst w)))"
proof -
  have "other_zones (cl_TenantID cl) (view (snd (dns_UpdateZone (dd_DNS D) (rq_now rq) zoneID m (wdb (fst w))))) =
      other_zones (cl_TenantID cl) (view (wdb (fst w)))"
    if "owned_zone D cl zoneID (wdb (fst w)) = (Inr zone :: dns_zone reply + dns_zone)" for zone m
  proof -
    note z = owned_zone_Inr [OF assms(1) that]
    obtain x d' where run: "dns_UpdateZone (dd_DNS D) (rq_now rq) zoneID m (wdb (fst w)) = (x, d')" by (metis surj_pair)
    show ?thesis using update_zone_others [OF assms(1) z(5) _ assms(4) run, of "cl_TenantID cl"] z(4) by (simp add: run)
  qed
  then show ?thesis using zone_handlers_db(1) [OF gorm_db_axioms assms(2,3), of zoneID body w] by (auto simp: other_zones_def)
qed

lemma delete_handler_others:
  assumes "dn_gorm (dd_DNS D) = G" "\<forall>A. dd_Audit D = Some A \<longrightarrow> au_gorm A = G" "rq_claims rq = Some cl"
    and "ids_ok (db_zones (view (wdb (fst w))))"
  shows "other_zones (cl_TenantID cl) (view (wdb (fst (snd (DeleteZoneHandler D rq zoneID w))))) =
    other_zones (cl_TenantID cl) (view (wdb (fst w)))"
proof -
  have "other_zones (cl_TenantID cl) (view (fst (snd (dns_DeleteZone (dd_DNS D) (rq_now rq) zoneID (get_state w))))) =
      other_zones (cl_TenantID cl) (view (wdb (fst w)))"
    if "owned_zone D cl zoneID (wdb (fst w)) = (Inr zone :: unit reply + dns_zone)" for zone
  proof -
    note z = owned_zone_Inr [OF assms(1) that]
    obtain x d' sent' where run: "dns_DeleteZone (dd_DNS D) (rq_now rq) zoneID (wdb (fst w), snd w) = (x, d', sent')"
      by (metis surj_pair)
    show ?thesis
      using delete_zone_others [OF assms(1) z(5) _ assms(4) run, of "cl_TenantID cl"] z(4) by (simp add: get_state_def run)
  qed
  then show ?thesis using zone_handlers_db(2) [OF gorm_db_axioms assms(2,3), of zoneID w] by (auto simp: other_zones_def)
qed

lemma list_handler_own:
  assumes "dn_gorm (dd_DNS D) = G" "rq_claims rq = Some cl" "ListRecordsHandler D rq zoneID d = Reply code page"
  shows "\<exists>z\<in>set (db_zones (view d)). live z \<and> ID z = zoneID \<and> z_TenantID z = cl_TenantID cl"
    and "list_all (\<lambda>r. live r \<and> rr_ZoneID r = zoneID) (fst page)"
proof -
  obtain zone where o: "owned_zone D cl zoneID d = (Inr zone :: (dns_record list \<times> nat) reply + dns_zone)"
    using assms(2,3) owned_zone_Inl by (fastforce simp: ListRecordsHandler_def split: sum.splits)
  then show "\<exists>z\<in>set (db_zones (view d)). live z \<and> ID z = zoneID \<and> z_TenantID z = cl_TenantID cl"
    using owned_zone_Inr(1-4) [OF assms(1) o] by blast
  obtain rs where rs: "dns_ListRecords (dd_DNS D) zoneID d = Inr rs" "fst page = rs"
    using assms(2,3) o by (auto simp: ListRecordsHandler_def split: sum.splits)
  then obtain ord where f: "tFind (DNSRecords G) (\<lambda>r. rr_ZoneID r = zoneID) ord d = Inr rs"
    using assms(1) by (auto simp: dns_ListRecords_def split: sum.splits)
  show "list_all (\<lambda>r. live r \<and> rr_ZoneID r = zoneID) (fst page)"
    using dns_record.find_mem [OF f] rs(2) by (auto simp: list_all_iff)
qed

end


subsection \<open>Records of other zones\<close>

lemma syncRecord_db [simp]: "fst (syncRecordToPowerDNS S zoneID (d, sent)) = d"
  by (auto simp: syncRecordToPowerDNS_def Let_def split: sum.splits)

text \<open>
  The record endpoints check the zone in the path and then act on any record. Whoever owns some zone can delete every
  record of every other tenant: with the ID of the own zone and of the record the answer is 204 and the record is gone.
\<close>

theorem record_delete_any_zone:
  assumes "gorm_db_up G view" "dn_gorm (dd_DNS D) = G" "\<forall>A. dd_Audit D = Some A \<longrightarrow> au_gorm A = G"
    and "rq_claims rq = Some cl" "ids_ok (db_zones (view (wdb (fst w))))" "ids_ok (db_records (view (wdb (fst w))))"
    and "zone \<in> set (db_zones (view (wdb (fst w))))" "live zone" "z_TenantID zone = cl_TenantID cl"
    and "r \<in> set (db_records (view (wdb (fst w))))" "live r"
  shows "fst (DeleteRecordHandler D rq (ID zone) (ID r) w) = Reply 204 () \<and>
    db_records (view (wdb (fst (snd (DeleteRecordHandler D rq (ID zone) (ID r) w))))) =
      del_rows (rq_now rq) (\<lambda>x. ID x = ID r) (db_records (view (wdb (fst w))))"
proof -
  let ?d = "wdb (fst w)"
  note db = gorm_db_up.axioms(1) [OF assms(1)]
  note zt = gorm_db_up.axioms(12) [OF assms(1)] and rt = gorm_db_up.axioms(13) [OF assms(1)]
  have "first_row (\<lambda>z. ID z = ID zone) (db_zones (view ?d)) = Some zone"
    by (rule first_row_unique) (use assms ids_ok_unique in blast)+
  then have z: "owned_zone D cl (ID zone) ?d = (Inr zone :: unit reply + dns_zone)"
    using gorm_table_up.first_up [OF zt, of "\<lambda>z. ID z = ID zone" ?d] assms(2,9)
    by (simp add: owned_zone_def dns_GetZone_def)
  have "first_row (\<lambda>x. ID x = ID r) (db_records (view ?d)) = Some r"
    by (rule first_row_unique) (use assms ids_ok_unique in blast)+
  then have f: "tFirst (DNSRecords G) (\<lambda>x. ID x = ID r) ?d = Inr r"
    using gorm_table_up.first_up [OF rt, of "\<lambda>x. ID x = ID r" ?d] by simp
  obtain n d1 where del: "tDelete (DNSRecords G) (rq_now rq) (\<lambda>x. ID x = ID r) ?d = (Inr n, d1)"
    using gorm_table_up.delete_up [OF rt] by blast
  have v: "db_records (view d1) = del_rows (rq_now rq) (\<lambda>x. ID x = ID r) (db_records (view ?d))"
    using gorm_table.delete_ok [OF gorm_db.axioms(12) [OF db] del] by simp
  have "dns_DeleteRecord (dd_DNS D) (rq_now rq) (ID r) (get_state w) =
      (None, syncRecordToPowerDNS (dd_DNS D) (rr_ZoneID r) (d1, snd w))"
    using f del assms(2) by (simp add: dns_DeleteRecord_def get_state_def)
  then have "DeleteRecordHandler D rq (ID zone) (ID r) w =
      (Reply 204 (), dns_event D rq cl ''dns.record.delete'' ''dns_record'' (ID r) []
         (put_state w (syncRecordToPowerDNS (dd_DNS D) (rr_ZoneID r) (d1, snd w))))"
    using assms(4) z by (simp add: DeleteRecordHandler_def)
  then show ?thesis using v by (simp add: dns_event_view(2) [OF db assms(3)])
qed

subsection \<open>Concrete runs\<close>

definition demo_net :: pdns_net where
  "demo_net = \<lparr>NewRequest = (\<lambda>url. None), Do = (\<lambda>sent rq. Inr (201, Inr []))\<rparr>"

definition demo_pdns :: pdns_client where
  "demo_pdns =
     \<lparr>pl_config = \<lparr>pc_URL = ''http://127.0.0.1:8081'', pc_APIKey = ''key'', pc_ServerID = ''localhost'', pc_Timeout = 10000000000\<rparr>,
      pl_baseURL = ''http://127.0.0.1:8081/api/v1/servers/localhost''\<rparr>"

definition demo_dns :: "database dns" where
  "demo_dns = \<lparr>dn_gorm = mem_gorm, dn_pdns = Some demo_pdns, dn_net = demo_net, dn_order = (\<lambda>ts. ts),
     dn_unmarshal = (\<lambda>s. Inr [])\<rparr>"

definition demo_dns_deps :: "database dns_deps" where
  "demo_dns_deps = \<lparr>dd_DB = mem_gorm, dd_DNS = demo_dns, dd_Audit = None\<rparr>"

definition demo_zone :: "string \<Rightarrow> string \<Rightarrow> string \<Rightarrow> dns_zone" where
  "demo_zone zid tenantID domain =
     \<lparr>ID = zid, CreatedAt = 1, UpdatedAt = 1, DeletedAt = None, z_AccountID = [], z_TenantID = tenantID, z_Domain = domain,
      z_Type = ''native'', z_Masters = [], z_SoaRefresh = 10800, z_SoaRetry = 7200, z_SoaExpire = 604800,
      z_SoaMinimum = 3600, z_Status = ''active''\<rparr>"

definition demo_record :: dns_record where
  "demo_record =
     \<lparr>ID = ''01D'', CreatedAt = 1, UpdatedAt = 1, DeletedAt = None, rr_ZoneID = ''01Y'', rr_Name = ''www'', rr_Type = ''A'',
      rr_Content = ''192.0.2.1'', rr_TTL = 3600, rr_Priority = 0, rr_Disabled = False\<rparr>"

definition demo_dns_db :: database where
  "demo_dns_db = empty_database\<lparr>db_zones := [demo_zone ''01X'' ''01T'' ''example.com'', demo_zone ''01Y'' ''01V'' ''example.org''],
     db_records := [demo_record]\<rparr>"

definition demo_claims :: claims where
  "demo_claims = \<lparr>cl_UserID = ''01U'', cl_Email = [], cl_Role = ''account_owner'', cl_TenantID = ''01T'', cl_AccountID = [],
     cl_SessionID = [], cl_Iss = [], cl_Sub = [], cl_Exp = 0, cl_Iat = 0\<rparr>"

lemma demo_dns_simps [simp]:
  "dn_gorm demo_dns = mem_gorm" "dn_pdns demo_dns = Some demo_pdns" "dn_net demo_dns = demo_net" "dd_DNS demo_dns_deps = demo_dns"
  "dd_Audit demo_dns_deps = None" "IsPowerDNSEnabled demo_dns"
  by (simp_all add: demo_dns_def demo_dns_deps_def IsPowerDNSEnabled_iff IsConfigured_def demo_pdns_def)


theorem sync_zone_requests_witness:
  "\<exists>sent'. SyncZone demo_net (\<lambda>ts. ts) (Some demo_pdns) ''example.com'' [pdns_of_record demo_record] [] = (None, sent') \<and>
     length sent' = 1"
proof -
  let ?rs = "[pdns_of_record demo_record]"
  have c: "IsConfigured (Some demo_pdns)" by (simp add: IsConfigured_def demo_pdns_def)
  have "\<exists>sent'. SyncZone demo_net (\<lambda>ts. ts) (Some demo_pdns) ''example.com'' ?rs [] = (None, sent')"
    by (simp add: SyncZone_def c record_types_def ReplaceRecords_def call_error_def doRequest_def demo_net_def Let_def)
  then obtain sent' where run: "SyncZone demo_net (\<lambda>ts. ts) (Some demo_pdns) ''example.com'' ?rs [] = (None, sent')" by blast
  obtain ts where ts: "distinct ts" "set ts = {''A''}" "sent' = map (records_put demo_pdns ''example.com'' ?rs) ts"
    using sync_zone_requests [OF c _ run] by (auto simp: pdns_of_record_def demo_record_def)
  have "length sent' = 1" using distinct_card [OF ts(1)] ts(2,3) by simp
  with run show ?thesis by blast
qed

lemma demo_dns_ids: "ids_ok (db_zones demo_dns_db)" "ids_ok (db_records demo_dns_db)"
  by (simp_all add: demo_dns_db_def ids_ok_def demo_zone_def demo_record_def)

lemma demo_request_claims: "rq_claims (demo_request\<lparr>rq_claims := Some demo_claims\<rparr>) = Some demo_claims"
  by simp


theorem record_delete_any_zone_witness:
  "fst (DeleteRecordHandler demo_dns_deps (demo_request\<lparr>rq_claims := Some demo_claims\<rparr>) ''01X'' ''01D''
       (\<lparr>wdb = demo_dns_db, wcache = []\<rparr>, [])) = Reply 204 ()"
proof -
  let ?w = "(\<lparr>wdb = demo_dns_db, wcache = []\<rparr>, [] :: pdns_request list)"
    and ?z = "demo_zone ''01X'' ''01T'' ''example.com''"
  have z: "?z \<in> set (db_zones (wdb (fst ?w)))" "live ?z" "z_TenantID ?z = cl_TenantID demo_claims"
    by (simp_all add: demo_dns_db_def demo_zone_def live_def demo_claims_def)
  have r: "demo_record \<in> set (db_records (wdb (fst ?w)))" "live demo_record"
    by (simp_all add: demo_dns_db_def demo_record_def live_def)
  have i: "ids_ok (db_zones (wdb (fst ?w)))" "ids_ok (db_records (wdb (fst ?w)))" using demo_dns_ids by simp_all
  have n: "ID ?z = ''01X''" "ID demo_record = ''01D''" by (simp_all add: demo_zone_def demo_record_def)
  show ?thesis
    using record_delete_any_zone [OF mem_gorm_db_up _ _ demo_request_claims i z r, of demo_dns_deps] unfolding n by simp
qed

end
