(* ===== verification/HostingProps.thy ===== *)
theory HostingProps
  imports HostingHandlers
begin

text \<open>What the hosting layer and its endpoints guarantee, and where they do not.\<close>

subsection \<open>Names\<close>

primrec chars_ok :: "(char \<Rightarrow> bool) \<Rightarrow> rx \<Rightarrow> bool" where
  "chars_ok P NoString = True"
| "chars_ok P EmptyString = True"
| "chars_ok P (Class rs) = (\<forall>c. in_class rs c \<longrightarrow> P c)"
| "chars_ok P (Alt r s) = (chars_ok P r \<and> chars_ok P s)"
| "chars_ok P (Cat r s) = (chars_ok P r \<and> chars_ok P s)"
| "chars_ok P (Star r) = chars_ok P r"

lemma star_chars: "w \<in> star A \<Longrightarrow> \<forall>u\<in>A. list_all P u \<Longrightarrow> list_all P w"
  by (induction rule: star.induct) auto

lemma chars_ok_lang: "chars_ok P r \<Longrightarrow> w \<in> lang r \<Longrightarrow> list_all P w"
proof (induction r arbitrary: w)
  case (Star r)
  then show ?case using star_chars by auto
qed auto

lemma chars_ok_UpTo [simp]: "chars_ok P r \<Longrightarrow> chars_ok P (UpTo n r)"
  by (induction n) auto

lemma chars_ok_Optional [simp]: "chars_ok P (Optional r) = chars_ok P r"
  by (simp add: Optional_def)

definition name_char :: "char \<Rightarrow> bool" where
  "name_char c \<longleftrightarrow> is_lower c \<or> is_upper c \<or> is_digit c \<or> c = CHR ''-'' \<or> c = CHR ''_'' \<or> c = CHR ''.''"

lemma in_host_class: "in_class host_class c \<longleftrightarrow> is_lower c \<or> is_upper c \<or> is_digit c"
  by (auto simp: in_class_def host_class_def is_lower_def is_upper_def is_digit_def)

lemma in_class_append: "in_class (rs @ qs) c \<longleftrightarrow> in_class rs c \<or> in_class qs c"
  by (simp add: in_class_def)

lemma in_class_single: "in_class [(a, a)] c \<longleftrightarrow> c = a"
  by (simp add: in_class_def) (metis ch_inject le_antisym order_refl)

lemma in_host_class_hyphen: "in_class (host_class @ [(CHR ''-'', CHR ''-'')]) c \<Longrightarrow> name_char c"
  unfolding in_class_append in_class_single in_host_class name_char_def by blast

lemma host_label_chars: "chars_ok name_char host_label"
  using in_host_class_hyphen by (auto simp: host_label_def in_host_class name_char_def simp del: UpTo.simps)

lemma dot_label_chars: "chars_ok name_char dot_label"
  using host_label_chars by (simp add: dot_label_def in_class_single name_char_def)

lemma domainRegex_chars:
  assumes "matches domainRegex s"
  shows "list_all name_char s" "\<exists>c cs. s = c # cs \<and> (is_lower c \<or> is_upper c \<or> is_digit c)"
proof -
  have "chars_ok name_char domainRegex"
    using host_label_chars dot_label_chars by (simp add: domainRegex_def)
  then show "list_all name_char s" using assms chars_ok_lang by (simp only: matches_lang)
  have "s \<in> lang domainRegex" using assms by (simp only: matches_lang)
  then obtain u v where "s = u @ v" "u \<in> lang host_label" unfolding domainRegex_def lang.simps(5) by blast
  moreover from this(2) obtain c t where "u = c # t" "in_class host_class c"
    unfolding host_label_def lang_Cat_Class by blast
  ultimately show "\<exists>c cs. s = c # cs \<and> (is_lower c \<or> is_upper c \<or> is_digit c)"
    by (simp add: in_host_class)
qed

text \<open>A user name and a domain as the endpoints use them: the domain trimmed and in lower case.\<close>

definition good_names :: "'o hosting \<Rightarrow> 'o \<Rightarrow> string \<Rightarrow> string \<Rightarrow> bool" where
  "good_names S s username domain \<longleftrightarrow> check_names S username domain s = None \<and> TrimSpace (ToLower domain) = domain"

lemma name_char_not_slash: "name_char c \<Longrightarrow> c \<noteq> CHR ''/''"
  by (auto simp: name_char_def is_lower_def is_upper_def is_digit_def)

lemma validateUsername_chars:
  assumes "validateUsername u = None"
  shows "list_all name_char u" "\<exists>c cs. u = c # cs \<and> is_lower c" "length u \<le> 32"
  using assms by (cases u; auto simp: validateUsername_def name_char_def list_all_iff split: if_splits)+

lemma good_names_chars:
  assumes "good_names S s u d"
  shows "list_all name_char u" "list_all name_char d" "plain u" "plain d"
proof -
  have u: "validateUsername u = None" and d: "matches domainRegex d"
    using assms by (auto simp: good_names_def check_names_def ValidateDomain_def Let_def split: option.splits if_splits)
  show cu: "list_all name_char u" and cd: "list_all name_char d"
    using validateUsername_chars [OF u] domainRegex_chars [OF d] by auto
  have "CHR ''/'' \<notin> set u" "CHR ''/'' \<notin> set d"
    using cu cd name_char_not_slash by (auto simp: list_all_iff)
  moreover obtain c cs where "u = c # cs" "is_lower c" using validateUsername_chars(2) [OF u] by blast
  moreover obtain e es where "d = e # es" "is_lower e \<or> is_upper e \<or> is_digit e" using domainRegex_chars(2) [OF d] by blast
  ultimately show "plain u" "plain d"
    by (auto simp: plain_def is_lower_def is_upper_def is_digit_def)
qed

subsection \<open>Paths\<close>

text \<open>The directories of the configuration are absolute and clean.\<close>

definition dir_ok :: "string \<Rightarrow> string list \<Rightarrow> bool" where
  "dir_ok p ps \<longleftrightarrow> p = abs_path ps \<and> ps \<noteq> [] \<and> list_all plain ps"

lemma plain_public_html [simp]: "plain ''public_html''"
  by (simp add: plain_def)

lemma path_Join_dir: "dir_ok p ps \<Longrightarrow> list_all plain qs \<Longrightarrow> path_Join (p # qs) = abs_path (ps @ qs)"
  by (simp add: dir_ok_def path_Join_abs)

lemma home_paths:
  assumes "dir_ok (HomesDir p) hs" "plain u" "plain d"
  shows "AccountHome p u = abs_path (hs @ [u])"
    and "DomainDocumentRoot p u d = abs_path (hs @ [u, ''public_html'', d])"
proof -
  show h: "AccountHome p u = abs_path (hs @ [u])" using assms path_Join_dir by (simp add: AccountHome_def)
  have "AccountPublicHTML p u = abs_path (hs @ [u] @ [''public_html''])"
    using assms path_Join_abs [of "hs @ [u]" "[''public_html'']"] by (simp add: AccountPublicHTML_def h dir_ok_def)
  then show "DomainDocumentRoot p u d = abs_path (hs @ [u, ''public_html'', d])"
    using assms path_Join_abs [of "hs @ [u, ''public_html'']" "[d]"] by (simp add: DomainDocumentRoot_def dir_ok_def)
qed

lemma plain_conf: "CHR ''/'' \<notin> set u \<Longrightarrow> plain (u @ ''.conf'')"
proof -
  assume u: "CHR ''/'' \<notin> set u"
  have "length (u @ ''.conf'') \<noteq> length ''.''" "length (u @ ''.conf'') \<noteq> length ''..''" by simp_all
  then have "u @ ''.conf'' \<noteq> ''.''" "u @ ''.conf'' \<noteq> ''..''" by metis+
  then show ?thesis using u by (simp add: plain_def)
qed

lemma conf_paths:
  assumes "dir_ok (NginxDir p) ns" "dir_ok (FpmDir p) fs" "plain u" "plain d"
  shows "NginxVHostPath p u d = abs_path (ns @ [u @ ''-'' @ d @ ''.conf''])"
    and "FpmPoolPath p u d = abs_path (fs @ [''orvix-'' @ u @ ''-'' @ d @ ''.conf''])"
proof -
  have "plain ((u @ ''-'' @ d) @ ''.conf'')" "plain ((''orvix-'' @ u @ ''-'' @ d) @ ''.conf'')"
    by (rule plain_conf, use assms(3,4) in \<open>auto simp: plain_def\<close>)+
  then show "NginxVHostPath p u d = abs_path (ns @ [u @ ''-'' @ d @ ''.conf''])"
    "FpmPoolPath p u d = abs_path (fs @ [''orvix-'' @ u @ ''-'' @ d @ ''.conf''])"
    using assms(1,2) path_Join_dir by (simp_all add: NginxVHostPath_def FpmPoolPath_def)
qed

lemma owned_domain:
  assumes "good_names S s u d" "dir_ok (HomesDir (ho_Paths S)) hs"
  shows "DomainOwnedBy S u d s = Inr True"
proof -
  note n = good_names_chars [OF assms(1)]
  have "Join [''public_html'', d] ''/'' = ''public_html/'' @ d" by simp
  then have "path_Rel (AccountHome (ho_Paths S) u) (DomainDocumentRoot (ho_Paths S) u d) = Inr (''public_html/'' @ d)"
    using path_Rel_below [of "hs @ [u]" "[''public_html'', d]"] n assms(2)
      home_paths [OF assms(2) n(3,4)] by (simp add: dir_ok_def)
  then show ?thesis using assms(1) by (simp add: DomainOwnedBy_def good_names_def HasPrefix_def)
qed

text \<open>
  Where the files of a domain are. The document root lies in the home of its account, and two pairs of account and domain
  have the same document root only if they are the same. The configuration files are not separated like that: their
  names join account and domain with a hyphen, which both may contain, so different accounts can own the same nginx and PHP-FPM file.
\<close>

theorem domain_paths:
  fixes S :: "'o hosting"
  defines "p \<equiv> ho_Paths S"
  assumes "good_names S s u d" "good_names S s u' d'"
    and "dir_ok (HomesDir p) hs" "dir_ok (NginxDir p) ns" "dir_ok (FpmDir p) fs"
  shows "DomainOwnedBy S u d s = Inr True \<and>
    (DomainDocumentRoot p u d = DomainDocumentRoot p u' d' \<longleftrightarrow> u = u' \<and> d = d') \<and>
    (NginxVHostPath p u d = NginxVHostPath p u' d' \<longleftrightarrow> u @ ''-'' @ d = u' @ ''-'' @ d') \<and>
    (FpmPoolPath p u d = FpmPoolPath p u' d' \<longleftrightarrow> u @ ''-'' @ d = u' @ ''-'' @ d')"
proof -
  note n = good_names_chars [OF assms(2)] and n' = good_names_chars [OF assms(3)]
  have hs: "list_all plain hs" using assms(4) by (simp add: dir_ok_def)
  note r = home_paths [OF assms(4)] and c = conf_paths [OF assms(5,6)]
  have conf: "plain (x @ ''-'' @ y @ ''.conf'')" "plain (''orvix-'' @ x @ ''-'' @ y @ ''.conf'')" if "plain x" "plain y" for x y
    using plain_conf [of "x @ ''-'' @ y"] plain_conf [of "''orvix-'' @ x @ ''-'' @ y"] that by (auto simp: plain_def)
  have "DomainOwnedBy S u d s = Inr True" using owned_domain assms(2,4) by (simp add: p_def)
  moreover have "DomainDocumentRoot p u d = DomainDocumentRoot p u' d' \<longleftrightarrow> u = u' \<and> d = d'"
    unfolding r(2) [OF n(3,4)] r(2) [OF n'(3,4)] using n(3,4) n'(3,4) hs by (simp add: abs_path_inject)
  moreover have "NginxVHostPath p u d = NginxVHostPath p u' d' \<longleftrightarrow> u @ ''-'' @ d = u' @ ''-'' @ d'"
    unfolding c(1) [OF n(3,4)] c(1) [OF n'(3,4)]
    using conf [OF n(3,4)] conf [OF n'(3,4)] assms(5) by (subst abs_path_inject) (auto simp: dir_ok_def)
  moreover have "FpmPoolPath p u d = FpmPoolPath p u' d' \<longleftrightarrow> u @ ''-'' @ d = u' @ ''-'' @ d'"
    unfolding c(2) [OF n(3,4)] c(2) [OF n'(3,4)]
    using conf [OF n(3,4)] conf [OF n'(3,4)] assms(6) by (subst abs_path_inject) (auto simp: dir_ok_def)
  ultimately show ?thesis by blast
qed

subsection \<open>Configuration files\<close>

text \<open>The characters that give the two configuration formats their structure.\<close>

definition structural :: "char \<Rightarrow> bool" where
  "structural c \<longleftrightarrow> \<not> name_char c \<and> c \<noteq> CHR ''/''"

definition skeleton :: "string \<Rightarrow> string" where
  "skeleton s = filter structural s"

lemma skeleton_append: "skeleton (a @ b) = skeleton a @ skeleton b"
  by (simp add: skeleton_def)

lemma skeleton_names: "list_all name_char s \<Longrightarrow> skeleton s = []"
  by (auto simp: skeleton_def structural_def list_all_iff filter_empty_conv)

lemma skeleton_slash: "skeleton ''/'' = []"
  by (simp add: skeleton_def structural_def)

lemma skeleton_abs: "skeleton (abs_path ps) = concat (map skeleton ps)"
proof -
  have "skeleton (Join ps ''/'') = concat (map skeleton ps)"
  proof (induction ps)
    case (Cons x xs)
    show ?case
    proof (cases "xs = []")
      case False
      with Cons show ?thesis
        by (simp only: Join_Cons [OF False] skeleton_append skeleton_slash list.map concat.simps append_Nil)
    qed simp
  qed (simp add: skeleton_def)
  then show ?thesis by (simp only: abs_path_def skeleton_append skeleton_slash append_Nil)
qed

lemma skeleton_root:
  assumes "dir_ok (HomesDir p) hs" "plain u" "plain d" "list_all name_char u" "list_all name_char d"
  shows "skeleton (DomainDocumentRoot p u d) = concat (map skeleton (hs @ [''public_html'']))"
  using home_paths(2) [OF assms(1-3)] skeleton_names [OF assms(4)] skeleton_names [OF assms(5)]
  by (simp add: skeleton_abs)

lemma default_root_eq: "default_root getenv u d = path_Join [AccountHome (DefaultPaths getenv) u, ''public_html'', d]"
  by (simp add: default_root_def)

lemma default_home: "dir_ok (HomesDir (DefaultPaths getenv)) [''var'', ''lib'', ''orvixpanel'', ''homes'']"
  by (simp add: DefaultPaths_def Let_def dir_ok_def abs_path_def plain_def)

lemma skeleton_default_root:
  assumes "plain u" "plain d" "list_all name_char u" "list_all name_char d"
  shows "skeleton (default_root getenv u d) = concat (map skeleton [''var'', ''lib'', ''orvixpanel'', ''homes'', ''public_html''])"
    "default_root getenv u d \<noteq> []"
proof -
  let ?hs = "[''var'', ''lib'', ''orvixpanel'', ''homes'']"
  have h: "AccountHome (DefaultPaths getenv) u = abs_path (?hs @ [u])"
    using home_paths(1) [OF default_home assms(1,2)] .
  have "default_root getenv u d = abs_path ((?hs @ [u]) @ [''public_html'', d])"
    unfolding default_root_def h
    by (rule path_Join_abs) (use assms default_home in \<open>simp_all add: dir_ok_def\<close>)
  then show "skeleton (default_root getenv u d) = concat (map skeleton [''var'', ''lib'', ''orvixpanel'', ''homes'', ''public_html''])"
    "default_root getenv u d \<noteq> []"
    using skeleton_names [OF assms(3)] skeleton_names [OF assms(4)]
    by (simp_all add: skeleton_abs, simp add: abs_path_def)
qed

lemma skeleton_println: "skeleton (println ls) = concat (map (\<lambda>l. skeleton l @ skeleton [CHR 0x0A]) ls)"
proof (induction ls)
  case (Cons l ls)
  then show ?case by (simp only: println_def list.map concat.simps skeleton_append)
qed (simp add: println_def skeleton_def)

lemma skeleton_Nil: "skeleton [] = []"
  by (simp add: skeleton_def)

lemma skeleton_socket:
  assumes "list_all name_char u" "list_all name_char d"
  shows "skeleton (socket_path u d) = skeleton (socket_path [] [])"
  unfolding socket_path_def
  by (simp only: skeleton_append skeleton_names [OF assms(1)] skeleton_names [OF assms(2)] skeleton_Nil)

lemmas skeleton_lines = list.map map_append concat_append concat.simps skeleton_append skeleton_Nil append_Nil append_Nil2

text \<open>The lines of two nginx files, and of two pools, that differ in the names only.\<close>

lemma skeleton_vhost:
  assumes "skeleton (vh_Username v) = []" "skeleton (vh_Domain v) = []" "skeleton (vh_Username v') = []" "skeleton (vh_Domain v') = []"
    and "vh_Port v' = vh_Port v" "vh_PHP v' = vh_PHP v" "vh_ExtraHeaders v' = vh_ExtraHeaders v"
    and "skeleton (vh_DocumentRoot v') = skeleton (vh_DocumentRoot v)" "skeleton (vh_FpmSocket v') = skeleton (vh_FpmSocket v)"
      "skeleton (vh_OpenBasedir v') = skeleton (vh_OpenBasedir v)"
  shows "skeleton (println (vhost_head ts v' @ vhost_php v' @ vhost_tail v')) = skeleton (println (vhost_head ts v @ vhost_php v @ vhost_tail v))"
proof -
  have "concat (map (\<lambda>l. skeleton l @ skeleton [CHR 0x0A]) (vhost_php v')) = concat (map (\<lambda>l. skeleton l @ skeleton [CHR 0x0A]) (vhost_php v))"
    unfolding vhost_php_def assms(6) dq_def
    by (cases "vh_PHP v") (simp_all only: if_True if_False skeleton_lines assms)
  then show ?thesis
    unfolding skeleton_println vhost_head_def vhost_tail_def by (simp only: skeleton_lines assms)
qed

lemma skeleton_fpm:
  assumes "skeleton (fp_Username c) = []" "skeleton (fp_Domain c) = []" "skeleton (fp_Username c') = []" "skeleton (fp_Domain c') = []"
    and "skeleton (fp_UnixUser c') = skeleton (fp_UnixUser c)" "skeleton (fp_UnixGroup c') = skeleton (fp_UnixGroup c)"
      "skeleton (fp_Listen c') = skeleton (fp_Listen c)" "skeleton (fp_OpenBasedir c') = skeleton (fp_OpenBasedir c)"
    and "fp_PHPVersion c' = fp_PHPVersion c" "fp_PM c' = fp_PM c" "fp_MaxChildren c' = fp_MaxChildren c"
      "fp_StartServers c' = fp_StartServers c" "fp_MinSpareServers c' = fp_MinSpareServers c"
      "fp_MaxSpareServers c' = fp_MaxSpareServers c" "fp_MaxRequests c' = fp_MaxRequests c"
      "fp_MemoryLimit c' = fp_MemoryLimit c" "fp_Chdir c' = fp_Chdir c"
  shows "skeleton (println (fpm_lines ts c')) = skeleton (println (fpm_lines ts c))"
  unfolding skeleton_println fpm_lines_def by (cases "fp_PM c = ''dynamic''") (simp_all only: if_True if_False skeleton_lines assms)

text \<open>
  C14: Names cannot change the meaning of the configuration. The nginx file and the PHP-FPM pool written for a domain have
  the same structure for every valid account and domain: the braces, semicolons, line breaks, quotes, spaces and all other
  characters but letters, digits, hyphens, underscores, dots and slashes are the same, in the same order.
\<close>

theorem config_no_injection:
  fixes S :: "'o hosting"
  assumes "good_names S s u d" "good_names S s u' d'" "dir_ok (HomesDir (ho_Paths S)) hs"
  shows "\<exists>c c' f f'.
    GenerateNginxConfig getenv ts (domain_vhost S u d port) = Inr c \<and>
    GenerateNginxConfig getenv ts (domain_vhost S u' d' port) = Inr c' \<and> skeleton c' = skeleton c \<and>
    GenerateFPMPool getenv ts (domain_pool S u d) = Inr f \<and>
    GenerateFPMPool getenv ts (domain_pool S u' d') = Inr f' \<and> skeleton f' = skeleton f"
proof -
  note n = good_names_chars [OF assms(1)] and n' = good_names_chars [OF assms(2)]
  have ne: "u \<noteq> []" "d \<noteq> []" "u' \<noteq> []" "d' \<noteq> []" using n n' by (auto simp: plain_def)
  have root: "DomainDocumentRoot (ho_Paths S) u d \<noteq> []" "DomainDocumentRoot (ho_Paths S) u' d' \<noteq> []"
    using home_paths(2) [OF assms(3) n(3,4)] home_paths(2) [OF assms(3) n'(3,4)] by (simp_all add: abs_path_def)
  note sk = skeleton_names [OF n(1)] skeleton_names [OF n(2)] skeleton_names [OF n'(1)] skeleton_names [OF n'(2)]
    skeleton_root [OF assms(3) n(3,4,1,2)] skeleton_root [OF assms(3) n'(3,4,1,2)]
    skeleton_default_root(1) [OF n(3,4,1,2)] skeleton_default_root(1) [OF n'(3,4,1,2)]
    skeleton_socket [OF n(1,2)] skeleton_socket [OF n'(1,2)]
  let ?v = "vhost_defaults getenv (domain_vhost S u d port)" and ?v' = "vhost_defaults getenv (domain_vhost S u' d' port)"
  have v: "skeleton (println (vhost_head ts ?v' @ vhost_php ?v' @ vhost_tail ?v')) = skeleton (println (vhost_head ts ?v @ vhost_php ?v @ vhost_tail ?v))"
    by (rule skeleton_vhost) (simp_all add: vhost_defaults_def domain_vhost_def Let_def root sk)
  let ?f = "fpm_defaults getenv (domain_pool S u d)" and ?f' = "fpm_defaults getenv (domain_pool S u' d')"
  have f: "skeleton (println (fpm_lines ts ?f')) = skeleton (println (fpm_lines ts ?f))"
    by (rule skeleton_fpm) (simp_all add: fpm_defaults_def domain_pool_def or_str_def or_int_def sk)
  have "vh_HTTPRedirectHTTPS ?v = False" "vh_HTTPRedirectHTTPS ?v' = False"
    by (simp_all add: vhost_defaults_def domain_vhost_def Let_def)
  then show ?thesis
    using v f ne by (simp add: GenerateNginxConfig_def GenerateFPMPool_def Let_def domain_vhost_def domain_pool_def)
qed

subsection \<open>Deployments\<close>

text \<open>The two paths a swap writes, and the link it makes.\<close>

definition swap_tmp :: "paths \<Rightarrow> string \<Rightarrow> string \<Rightarrow> string" where
  "swap_tmp p u d = DomainDocumentRoot p u d @ ''.orvix-tmp''"

context os_fs
begin

text \<open>Before the rename nothing happens to the document root; the rename replaces it at once.\<close>

lemma swap_rename:
  assumes "Symlink X src tmp s1 = (None, s2)" "Rename X tmp dst s2 = (None, s3)" "tmp \<noteq> dst"
  shows "tree s3 dst = Some (Link src)" "tree s2 dst \<noteq> Some Dir" "q \<noteq> tmp \<Longrightarrow> q \<noteq> dst \<Longrightarrow> tree s3 q = tree s1 q"
proof -
  have t: "tree s2 tmp = Some (Link src)" "\<And>q. q \<noteq> tmp \<Longrightarrow> tree s2 q = tree s1 q"
    using symlink_ok [OF assms(1)] by auto
  show "tree s3 dst = Some (Link src)" "tree s2 dst \<noteq> Some Dir" "q \<noteq> tmp \<Longrightarrow> q \<noteq> dst \<Longrightarrow> tree s3 q = tree s1 q"
    using rename_ok [OF assms(2) t(1) assms(3)] assms(3) t(2) by auto
qed

text \<open>A swap over something: the new link is made beside it and renamed over it.\<close>

lemma swap_over:
  fixes S u d r
  defines "src \<equiv> ReleaseDir (ho_Paths S) u d r" and "dst \<equiv> DomainDocumentRoot (ho_Paths S) u d" and "tmp \<equiv> swap_tmp (ho_Paths S) u d"
  assumes X: "ho_os S = X" and run: "AtomicSwap S u d r s = (e, s')"
    and ok: "check_names S u d s = None \<and> (\<exists>n. Stat X src s = Inr n)" and Inr: "Lstat X dst s = Inr n"
  shows "(case e of None \<Rightarrow> tree s' dst = Some (Link src) \<and> tree s dst \<noteq> Some Dir | Some err \<Rightarrow> tree s' dst = tree s dst) \<and>
    (\<forall>q. q \<noteq> dst \<longrightarrow> q \<noteq> tmp \<longrightarrow> tree s' q = tree s q)"
proof -
  have nt: "tmp \<noteq> dst" "tmp = dst @ ''.orvix-tmp''" by (simp_all add: tmp_def dst_def swap_tmp_def)
  obtain e1 s1 where rm: "Remove X tmp s = (e1, s1)" by fastforce
  have 1: "q \<noteq> tmp \<Longrightarrow> tree s1 q = tree s q" for q using remove_other [OF rm] .
  obtain e2 s2 where sy: "Symlink X src tmp s1 = (e2, s2)" by fastforce
  have 2: "q \<noteq> tmp \<Longrightarrow> tree s2 q = tree s1 q" for q using symlink_other [OF sy] .
  obtain e3 s3 where mv: "Rename X tmp dst s2 = (e3, s3)" by fastforce
  obtain e4 s4 where rm2: "Remove X tmp s3 = (e4, s4)" by fastforce
  have 4: "q \<noteq> tmp \<Longrightarrow> tree s4 q = tree s3 q" for q using remove_other [OF rm2] .
  note unf = AtomicSwap_def Let_def src_def [symmetric] dst_def [symmetric] nt(2) [symmetric] X
  show ?thesis
  proof (cases "e2 = None")
    case False
    then have "s' = s2" "e \<noteq> None" using run ok Inr rm sy by (auto simp: unf)
    then show ?thesis using 1 2 nt(1) by (auto split: option.splits)
  next
    case True
    show ?thesis
    proof (cases "e3 = None")
      case False
      then have "s' = s4" "e \<noteq> None" using run ok Inr rm sy True mv rm2 by (auto simp: unf)
      moreover have "tree s3 = tree s2" using rename_fail mv False by auto
      ultimately show ?thesis using 1 2 4 nt(1) by (auto split: option.splits)
    next
      case e3: True
      then have "s' = s3" "e = None" using run ok Inr rm sy True mv by (auto simp: unf)
      then show ?thesis
        using swap_rename [OF sy [unfolded True] mv [unfolded e3] nt(1)] 1 2 nt(1) by auto
    qed
  qed
qed

lemma AtomicSwap_cases:
  fixes S u d r
  defines "src \<equiv> ReleaseDir (ho_Paths S) u d r" and "dst \<equiv> DomainDocumentRoot (ho_Paths S) u d" and "tmp \<equiv> swap_tmp (ho_Paths S) u d"
  assumes X: "ho_os S = X" and run: "AtomicSwap S u d r s = (e, s')"
  shows "(case e of None \<Rightarrow> tree s' dst = Some (Link src) \<and> tree s dst \<noteq> Some Dir | Some err \<Rightarrow> tree s' dst = tree s dst) \<and>
    (\<forall>q. q \<noteq> dst \<longrightarrow> q \<noteq> tmp \<longrightarrow> tree s' q = tree s q)"
proof -
  show ?thesis
  proof (cases "check_names S u d s = None \<and> (\<exists>n. Stat X src s = Inr n)")
    case False
    have "s' = s \<and> e \<noteq> None"
    proof (cases "check_names S u d s")
      case (Some err)
      then have "AtomicSwap S u d r s = (Some err, s)" by (simp add: AtomicSwap_def Let_def)
      then show ?thesis using run by auto
    next
      case None
      with False obtain err where "Stat X src s = Inl err" by (cases "Stat X src s") auto
      then show ?thesis using run X None by (auto simp: AtomicSwap_def Let_def src_def [symmetric])
    qed
    then show ?thesis by (auto split: option.splits)
  next
    case ok: True
    show ?thesis
    proof (cases "Lstat X dst s")
      case (Inl err)
      show ?thesis
      proof (cases "IsNotExist err")
        case True
        then have sy: "Symlink X src dst s = (e, s')" and "tree s dst = None"
          using run X ok Inl lstat_missing by (auto simp: AtomicSwap_def Let_def src_def dst_def)
        then show ?thesis
          using symlink_ok [of src dst s s'] symlink_fail [of src dst s _ s'] by (cases e) auto
      next
        case False
        then have "s' = s" "e \<noteq> None" using run X ok Inl by (auto simp: AtomicSwap_def Let_def src_def dst_def)
        then show ?thesis by (auto split: option.splits)
      qed
    next
      case (Inr n)
      then show ?thesis using swap_over [OF X run] ok unfolding src_def dst_def tmp_def by blast
    qed
  qed
qed

lemma CurrentRelease_link:
  assumes "ho_os S = X" "tree s (DomainDocumentRoot (ho_Paths S) u d) = Some (Link l)" "CurrentRelease S u d s = Inr c"
  shows "c = path_Base l"
  using assms lstat_ok readlink_ok
  by (fastforce simp: CurrentRelease_def Let_def split: sum.splits node.splits)

end

text \<open>
  C33: A swap is all or nothing. When it succeeds the document root is a link to the new release, which is then the current one;
  when it fails the document root is as before, whatever step failed; no file but the document root and its
  temporary link changes. A document root that is a directory, as the creation of a domain leaves it, can never be swapped.
\<close>

theorem atomic_swap:
  assumes "os_fs X tree" "ho_os S = X" "AtomicSwap S u d r s = (e, s')"
    and "dir_ok (ReleasesRoot (ho_Paths S)) rs" "plain u" "plain d" "plain r"
  shows "(case e of
        None \<Rightarrow> tree s' (DomainDocumentRoot (ho_Paths S) u d) = Some (Link (ReleaseDir (ho_Paths S) u d r))
      | Some err \<Rightarrow> tree s' (DomainDocumentRoot (ho_Paths S) u d) = tree s (DomainDocumentRoot (ho_Paths S) u d)) \<and>
    (tree s (DomainDocumentRoot (ho_Paths S) u d) = Some Dir \<longrightarrow> e \<noteq> None) \<and>
    (e = None \<longrightarrow> CurrentRelease S u d s' = Inr c \<longrightarrow> c = r) \<and>
    (\<forall>q. q \<noteq> DomainDocumentRoot (ho_Paths S) u d \<longrightarrow> q \<noteq> swap_tmp (ho_Paths S) u d \<longrightarrow> tree s' q = tree s q)"
proof -
  note sw = os_fs.AtomicSwap_cases [OF assms(1-3)]
  have rd: "ReleasesDir (ho_Paths S) u d = abs_path (rs @ [u, d])"
    using path_Join_dir [OF assms(4)] assms(5,6) by (simp add: ReleasesDir_def)
  have rr: "ReleaseDir (ho_Paths S) u d r = abs_path ((rs @ [u, d]) @ [r])"
    unfolding ReleaseDir_def rd by (rule path_Join_abs) (use assms(4-7) in \<open>simp_all add: dir_ok_def\<close>)
  then have base: "path_Base (ReleaseDir (ho_Paths S) u d r) = r"
    using path_Base_abs [of "rs @ [u, d]" r] assms(4-7) by (simp add: dir_ok_def)
  have "e = None \<Longrightarrow> CurrentRelease S u d s' = Inr c \<Longrightarrow> c = r"
    using os_fs.CurrentRelease_link [OF assms(1,2), of s' u d "ReleaseDir (ho_Paths S) u d r" c] sw base by auto
  then show ?thesis using sw by (cases e) auto
qed

subsection \<open>Deleting an account\<close>

text \<open>The system after \<open>k\<close> attempts, and whether the next one succeeds.\<close>

primrec after_attempts :: "'o hosting \<Rightarrow> string list \<Rightarrow> nat \<Rightarrow> 'o \<Rightarrow> 'o" where
  "after_attempts S cmd 0 s = s"
| "after_attempts S cmd (Suc k) s = after_attempts S cmd k (snd (ho_run S cmd s))"

definition attempt_ok :: "'o hosting \<Rightarrow> string list \<Rightarrow> nat \<Rightarrow> 'o \<Rightarrow> bool" where
  "attempt_ok S cmd k s \<longleftrightarrow> fst (ho_run S cmd (after_attempts S cmd k s)) = None"

lemma userdel_loop_iff:
  "\<exists>k\<le>n. userdel_loop S cmd n s = (fst (ho_run S cmd (after_attempts S cmd k s)), after_attempts S cmd (Suc k) s) \<and>
     (\<forall>j<k. \<not> attempt_ok S cmd j s) \<and> (attempt_ok S cmd k s \<or> k = n)"
proof (induction n arbitrary: s)
  case 0
  then show ?case by (simp add: attempt_ok_def)
next
  case (Suc n)
  obtain e s1 where run: "ho_run S cmd s = (e, s1)" by fastforce
  show ?case
  proof (cases e)
    case None
    then show ?thesis using run by (intro exI [of _ 0]) (simp add: attempt_ok_def)
  next
    case (Some err)
    obtain k where k: "k \<le> n" "userdel_loop S cmd n s1 = (fst (ho_run S cmd (after_attempts S cmd k s1)), after_attempts S cmd (Suc k) s1)"
      "\<forall>j<k. \<not> attempt_ok S cmd j s1" "attempt_ok S cmd k s1 \<or> k = n"
      using Suc.IH by blast
    have "\<not> attempt_ok S cmd 0 s" "\<And>j. attempt_ok S cmd (Suc j) s = attempt_ok S cmd j s1"
      using run Some by (simp_all add: attempt_ok_def)
    then have "\<forall>j<Suc k. \<not> attempt_ok S cmd j s" using k(3) by (metis less_Suc_eq_0_disj)
    moreover have "attempt_ok S cmd (Suc k) s \<or> Suc k = Suc n" using k(4) \<open>\<And>j. attempt_ok S cmd (Suc j) s = attempt_ok S cmd j s1\<close> by simp
    ultimately show ?thesis using k(1,2) run Some by (intro exI [of _ "Suc k"]) simp
  qed
qed

text \<open>
  C35: Deleting an account ends. After the processes of the user were killed, \<open>userdel\<close> runs at most six times: up to the first
  success, and then the answer is nil; or six times in vain, and then it is the error of the last. A user that does not exist is
  a success without any command.
\<close>

theorem delete_account_ends:
  assumes "validateUsername u = None"
  shows "(case LookupUser (ho_os S) u s of
      UnknownUser n \<Rightarrow> ho_DeleteAccount S u s = (None, s)
    | LookupFailed e \<Rightarrow> ho_DeleteAccount S u s = (Some e, s)
    | Found uid \<Rightarrow> (\<exists>k\<le>5. let cmd = [UserdelBin (ho_Paths S), ''-r'', u]; s1 = snd (ho_run S [''pkill'', ''-9'', ''-u'', u] s) in
        ho_DeleteAccount S u s = (fst (ho_run S cmd (after_attempts S cmd k s1)), after_attempts S cmd (Suc k) s1) \<and>
        (\<forall>j<k. \<not> attempt_ok S cmd j s1) \<and> (attempt_ok S cmd k s1 \<or> k = 5)))"
  using assms userdel_loop_iff [of 5 S "[UserdelBin (ho_Paths S), ''-r'', u]" "snd (ho_run S [''pkill'', ''-9'', ''-u'', u] s)"]
  by (simp add: ho_DeleteAccount_def Let_def split: lookup.split)

subsection \<open>Domains of other accounts\<close>

lemma host_event_view:
  assumes "gorm_db G view" "\<forall>A. a = Some A \<longrightarrow> au_gorm A = G"
  shows "db_accounts (view (wdb (fst (host_event a rq ev w)))) = db_accounts (view (wdb (fst w)))"
  unfolding host_event_def fst_conv by (subst record_event_view [OF assms], simp)

text \<open>
  C34: A domain that belongs to one account can be created for another, of any tenant. Nothing asks who has the
  domain; when the system accepts the files, the answer is 201, and the update of the account, which the unique index on the
  domain refuses, fails without notice: the files serve the domain and no account row changes.
\<close>

theorem domain_takeover:
  assumes "gorm_db G view" "dm_DB D = G" "\<forall>A. dm_Audit D = Some A \<longrightarrow> au_gorm A = G" "rq_claims rq = Some cl"
    and "ids_ok (db_accounts (view (wdb (fst w))))"
    and "tenant_account G cl aid (wdb (fst w)) = Inr acct"
    and "other \<in> set (db_accounts (view (wdb (fst w))))" "ID other \<noteq> ID acct" "ac_Domain other = name"
    and "name = ToLower (TrimSpace (cd_Domain req))" "name \<noteq> []" "ValidateDomain (dm_Hosting D) name (snd w) = None"
    and "provision_domain (dm_Hosting D) (dm_stamp D (rq_now rq)) (ac_Username acct) name (or_int (cd_Port req) 80) (snd w) = (None, s)"
  shows "\<exists>v w'. CreateDomainHandler D rq aid (Some req) w = (Reply 201 v, w') \<and> do_Name v = name \<and> snd w' = s \<and>
    db_accounts (view (wdb (fst w'))) = db_accounts (view (wdb (fst w)))"
proof -
  have f: "tFirst (Accounts G) (\<lambda>a. ID a = aid \<and> ac_TenantID a = cl_TenantID cl) (wdb (fst w)) = Inr acct"
    using assms(6) by (simp add: tenant_account_def)
  note acc = gorm_db.axioms(4) [OF assms(1)]
  note row = gorm_table.first_mem [OF acc f]
  obtain e d where sv: "tSave (Accounts G) (rq_now rq) (acct\<lparr>ac_Domain := name\<rparr>) (wdb (fst w)) = (e, d)" by fastforce
  have "e \<noteq> None"
  proof
    assume "e = None"
    have "first_row (\<lambda>x. ID x = ID (acct\<lparr>ac_Domain := name\<rparr>)) (db_accounts (view (wdb (fst w)))) \<noteq> None"
      using row by (auto simp: first_row_None)
    from gorm_table.save_unique [OF acc sv [unfolded \<open>e = None\<close>] this assms(7)] show False
      using assms(8,9) by (simp add: account_clash_def)
  qed
  then have v: "view d = view (wdb (fst w))" using gorm_table.save_fail [OF acc] sv by blast
  have port: "cd_Port req = 0 \<longrightarrow> or_int (cd_Port req) 80 = 80" by (simp add: or_int_def)
  show ?thesis
    using assms(2,4,6,10-13) sv
    by (simp add: CreateDomainHandler_def Let_def host_event_view [OF assms(1,3)] v) (simp add: host_event_def)
qed

subsection \<open>Concrete runs\<close>

definition demo_hosting :: "mem_os hosting" where
  "demo_hosting = NewService mem_os_ops"

definition demo_os :: mem_os where
  "demo_os = \<lparr>m_files = (\<lambda>p. None), m_users = [''alice'']\<rparr>"

lemma demo_hosting_simps [simp]:
  "ho_Paths demo_hosting = DefaultPaths (\<lambda>k. [])" "ho_os demo_hosting = mem_os_ops" "Getenv mem_os_ops = (\<lambda>k. [])"
  by (simp_all add: demo_hosting_def NewService_def mem_os_ops_def)

lemma demo_dirs:
  "dir_ok (HomesDir (DefaultPaths (\<lambda>k. []))) [''var'', ''lib'', ''orvixpanel'', ''homes'']"
  "dir_ok (NginxDir (DefaultPaths (\<lambda>k. []))) [''etc'', ''nginx'', ''conf.d'', ''orvix'']"
  "dir_ok (FpmDir (DefaultPaths (\<lambda>k. []))) [''etc'', ''php'', ''8.5'', ''fpm'', ''pool.d'']"
  "dir_ok (ReleasesRoot (DefaultPaths (\<lambda>k. []))) [''var'', ''lib'', ''orvixpanel'', ''releases'']"
  by (simp_all add: DefaultPaths_def Let_def dir_ok_def abs_path_def plain_def)

lemma demo_domain:
  assumes "TrimSpace (ToLower d) = d" "matches domainRegex d" "\<not> HasSuffix d ''.local''" "length d \<le> 253" "d \<noteq> []"
  shows "ValidateDomain demo_hosting d s = None"
  using assms by (simp add: ValidateDomain_def Let_def)

lemma demo_domains:
  "ValidateDomain demo_hosting ''c.com'' s = None" "ValidateDomain demo_hosting ''b-c.com'' s = None"
  "ValidateDomain demo_hosting ''example.com'' s = None"
  by (rule demo_domain; code_simp)+

lemma demo_users: "validateUsername ''a-b'' = None" "validateUsername ''a'' = None" "validateUsername ''alice'' = None"
  by code_simp+

lemma demo_names:
  "good_names demo_hosting s ''a-b'' ''c.com''" "good_names demo_hosting s ''a'' ''b-c.com''" "good_names demo_hosting s ''alice'' ''example.com''"
proof -
  have "TrimSpace (ToLower ''c.com'') = ''c.com''" "TrimSpace (ToLower ''b-c.com'') = ''b-c.com''"
    "TrimSpace (ToLower ''example.com'') = ''example.com''" by code_simp+
  then show "good_names demo_hosting s ''a-b'' ''c.com''" "good_names demo_hosting s ''a'' ''b-c.com''"
    "good_names demo_hosting s ''alice'' ''example.com''"
    by (simp_all add: good_names_def check_names_def demo_users demo_domains)
qed

theorem domain_paths_witness:
  "NginxVHostPath (ho_Paths demo_hosting) ''a-b'' ''c.com'' = NginxVHostPath (ho_Paths demo_hosting) ''a'' ''b-c.com'' \<and>
   DomainDocumentRoot (ho_Paths demo_hosting) ''a-b'' ''c.com'' \<noteq> DomainDocumentRoot (ho_Paths demo_hosting) ''a'' ''b-c.com''"
  using domain_paths [OF demo_names(1,2) [of demo_os], unfolded demo_hosting_simps, OF demo_dirs(1-3)] by simp

theorem config_no_injection_witness:
  "\<exists>c c'. GenerateNginxConfig (\<lambda>k. []) ''now'' (domain_vhost demo_hosting ''alice'' ''example.com'' 80) = Inr c \<and>
     GenerateNginxConfig (\<lambda>k. []) ''now'' (domain_vhost demo_hosting ''a'' ''b-c.com'' 80) = Inr c' \<and> skeleton c = skeleton c'"
proof -
  have "dir_ok (HomesDir (ho_Paths demo_hosting)) [''var'', ''lib'', ''orvixpanel'', ''homes'']" using demo_dirs(1) by simp
  from config_no_injection [OF demo_names(3,2) [of demo_os] this, of "\<lambda>k. []" "''now''" 80] show ?thesis by metis
qed

theorem atomic_swap_witness:
  "\<exists>s'. AtomicSwap demo_hosting ''alice'' ''example.com'' ''1735689600000''
      (demo_os\<lparr>m_files := [''/var/lib/orvixpanel/homes/alice/public_html/example.com'' \<mapsto> Dir,
         ''/var/lib/orvixpanel/releases/alice/example.com/1735689600000'' \<mapsto> Dir]\<rparr>) = (Some (Errorf ''atomic rename: '' exists_error []), s') \<and>
    m_files s' (DomainDocumentRoot (ho_Paths demo_hosting) ''alice'' ''example.com'') = Some Dir"
proof -
  let ?dst = "''/var/lib/orvixpanel/homes/alice/public_html/example.com''" and ?rel = "''/var/lib/orvixpanel/releases/alice/example.com/1735689600000''"
  let ?s = "demo_os\<lparr>m_files := [?dst \<mapsto> Dir, ?rel \<mapsto> Dir]\<rparr>"
  have p: "plain ''alice''" "plain ''example.com''" "plain ''1735689600000''" by (simp_all add: plain_def)
  have dst: "DomainDocumentRoot (ho_Paths demo_hosting) ''alice'' ''example.com'' = ?dst"
    using home_paths(2) [OF demo_dirs(1) p(1,2)] by (simp add: abs_path_def)
  have "ReleasesDir (DefaultPaths (\<lambda>k. [])) ''alice'' ''example.com'' =
      abs_path [''var'', ''lib'', ''orvixpanel'', ''releases'', ''alice'', ''example.com'']"
    using path_Join_dir [OF demo_dirs(4)] p(1,2) by (simp add: ReleasesDir_def)
  then have rel: "ReleaseDir (ho_Paths demo_hosting) ''alice'' ''example.com'' ''1735689600000'' = ?rel"
    using path_Join_abs [of "[''var'', ''lib'', ''orvixpanel'', ''releases'', ''alice'', ''example.com'']" "[''1735689600000'']"] p
    by (simp add: ReleaseDir_def plain_def abs_path_def)
  have "check_names demo_hosting ''alice'' ''example.com'' ?s = None" by (simp add: check_names_def demo_users demo_domains)
  then have "\<exists>s'. AtomicSwap demo_hosting ''alice'' ''example.com'' ''1735689600000'' ?s = (Some (Errorf ''atomic rename: '' exists_error []), s')"
    unfolding AtomicSwap_def Let_def dst rel by (simp add: mem_os_ops_def demo_os_def)
  then obtain s' where run: "AtomicSwap demo_hosting ''alice'' ''example.com'' ''1735689600000'' ?s = (Some (Errorf ''atomic rename: '' exists_error []), s')" by blast
  have "dir_ok (ReleasesRoot (ho_Paths demo_hosting)) [''var'', ''lib'', ''orvixpanel'', ''releases'']" using demo_dirs(4) by simp
  from atomic_swap [OF mem_os_fs demo_hosting_simps(2) run this p] have
    "m_files s' (DomainDocumentRoot (ho_Paths demo_hosting) ''alice'' ''example.com'') =
     m_files ?s (DomainDocumentRoot (ho_Paths demo_hosting) ''alice'' ''example.com'')" by simp
  moreover have "m_files ?s ?dst = Some Dir" by simp
  ultimately show ?thesis using run dst by simp
qed

theorem delete_account_ends_witness:
  "fst (ho_DeleteAccount demo_hosting ''alice'' demo_os) = None \<and> fst (ho_DeleteAccount demo_hosting ''a'' demo_os) = None"
proof -
  have a: "LookupUser (ho_os demo_hosting) ''alice'' demo_os = Found ''1001''" "LookupUser (ho_os demo_hosting) ''a'' demo_os = UnknownUser ''a''"
    by (simp_all add: mem_os_ops_def demo_os_def)
  have ok: "fst (ho_run demo_hosting cmd s) = None" for cmd s
    by (auto simp: ho_run_def mem_os_ops_def mem_run_def split: prod.splits option.splits if_splits)
  show ?thesis
    using delete_account_ends [OF demo_users(3), of demo_hosting demo_os] delete_account_ends [OF demo_users(2), of demo_hosting demo_os] ok
    unfolding a by (auto simp: Let_def)
qed

definition demo_account :: "string \<Rightarrow> string \<Rightarrow> string \<Rightarrow> string \<Rightarrow> account" where
  "demo_account aid username domain tenantID =
     \<lparr>ID = aid, CreatedAt = 1, UpdatedAt = 1, DeletedAt = None, ac_Username = username, ac_Domain = domain,
      ac_TenantID = tenantID, ac_Plan = ''basic'', ac_DiskQuotaMB = 10240, ac_BandwidthGB = 100, ac_BandwidthUsedGB = 0,
      ac_DiskUsedMB = 0, ac_Status = ''active''\<rparr>"

definition demo_domain_deps :: "(database, mem_os) domain_deps" where
  "demo_domain_deps = \<lparr>dm_DB = mem_gorm, dm_Hosting = demo_hosting, dm_Audit = None, dm_fmt = (\<lambda>t. []), dm_stamp = (\<lambda>t. []),
     dm_uuid5 = (\<lambda>s. s)\<rparr>"

definition demo_accounts :: database where
  "demo_accounts = empty_database\<lparr>db_accounts :=
     [demo_account ''1'' ''alice'' [] ''01T'', demo_account ''2'' ''bob'' ''example.com'' ''01V'']\<rparr>"

lemma mem_write: "WriteFile mem_os_ops p b m s = (None, s\<lparr>m_files := (m_files s)(p \<mapsto> File b)\<rparr>)"
  by (simp add: mem_os_ops_def)

lemma mem_mkdir: "m_files s p = None \<Longrightarrow> MkdirAll mem_os_ops p m s = (None, s\<lparr>m_files := (m_files s)(p \<mapsto> Dir)\<rparr>)"
  by (simp add: mem_os_ops_def)

lemma demo_provision: "\<exists>s. provision_domain demo_hosting [] ''alice'' ''example.com'' 80 demo_os = (None, s)"
proof -
  let ?dst = "''/var/lib/orvixpanel/homes/alice/public_html/example.com''"
  have p: "plain ''alice''" "plain ''example.com''" by (simp_all add: plain_def)
  have dst: "DomainDocumentRoot (DefaultPaths (\<lambda>k. [])) ''alice'' ''example.com'' = ?dst"
    using home_paths(2) [OF demo_dirs(1) p] by (simp add: abs_path_def)
  have idx: "path_Join [?dst, ''index.html''] = ?dst @ ''/index.html''" "path_Join [?dst, ''info.php''] = ?dst @ ''/info.php''"
    by code_simp+
  have conf: "NginxVHostPath (DefaultPaths (\<lambda>k. [])) ''alice'' ''example.com'' = ''/etc/nginx/conf.d/orvix/alice-example.com.conf''"
    "FpmPoolPath (DefaultPaths (\<lambda>k. [])) ''alice'' ''example.com'' = ''/etc/php/8.5/fpm/pool.d/orvix-alice-example.com.conf''"
    using conf_paths [OF demo_dirs(2,3) p] by (simp_all add: abs_path_def)
  have dirs: "NginxDir (DefaultPaths (\<lambda>k. [])) = ''/etc/nginx/conf.d/orvix''" "FpmDir (DefaultPaths (\<lambda>k. [])) = ''/etc/php/8.5/fpm/pool.d''"
    by (simp_all add: DefaultPaths_def)
  have ok: "check_names demo_hosting ''alice'' ''example.com'' s = None" for s
    by (simp add: check_names_def demo_users demo_domains)
  have owned: "DomainOwnedBy demo_hosting ''alice'' ''example.com'' s = Inr True" for s
    using owned_domain [OF demo_names(3)] demo_dirs(1) by simp
  have gen: "\<exists>c. GenerateNginxConfig g ts (domain_vhost demo_hosting ''alice'' ''example.com'' 80) = Inr c"
    "\<exists>c. GenerateFPMPool g ts (domain_pool demo_hosting ''alice'' ''example.com'') = Inr c" for g ts
    by (simp_all add: GenerateNginxConfig_def GenerateFPMPool_def Let_def domain_vhost_def domain_pool_def)
  obtain c f where gen: "GenerateNginxConfig (\<lambda>k. []) [] (domain_vhost demo_hosting ''alice'' ''example.com'' 80) = Inr c"
    "GenerateFPMPool (\<lambda>k. []) [] (domain_pool demo_hosting ''alice'' ''example.com'') = Inr f"
    using gen by blast
  have sh: "runShell demo_hosting cmd s = (None, s)" for cmd s
    by (simp add: runShell_def ho_run_def mem_os_ops_def mem_run_def HasSuffix_def)
  let ?s1 = "demo_os\<lparr>m_files := (\<lambda>p. None)(?dst \<mapsto> Dir, ?dst @ ''/index.html'' \<mapsto> File (placeholder ''alice'' ''example.com''),
      ?dst @ ''/info.php'' \<mapsto> File infoPhp)\<rparr>"
  have 1: "ho_CreateDomain demo_hosting ''alice'' ''example.com'' demo_os = (None, ?s1)"
    using mem_mkdir [of demo_os ?dst 493]
    unfolding ho_CreateDomain_def Let_def demo_hosting_simps dst idx by (simp only: ok owned) (simp add: sh mem_write demo_os_def)
  have free: "m_files ?s1 ''/etc/nginx/conf.d/orvix'' = None" "m_files ?s1 ''/etc/php/8.5/fpm/pool.d'' = None"
    by simp_all
  obtain s2 where 2: "WriteVHostConfig demo_hosting ''alice'' ''example.com'' c ?s1 = (None, s2)"
    "m_files s2 ''/etc/php/8.5/fpm/pool.d'' = None"
    using mem_mkdir [OF free(1)] free(2) unfolding WriteVHostConfig_def demo_hosting_simps conf dirs
    by (simp add: ok mem_write)
  obtain s3 where 3: "WriteFPMPool demo_hosting ''alice'' ''example.com'' f s2 = (None, s3)"
    using mem_mkdir [OF 2(2)] unfolding WriteFPMPool_def demo_hosting_simps conf dirs by (simp add: ok mem_write)
  show ?thesis
    using 1(1) 2(1) 3 gen by (simp add: provision_domain_def TestNginx_def TestPHP_def ReloadNginx_def ReloadPHP_def sh)
qed

theorem domain_takeover_witness:
  "\<exists>v w'. CreateDomainHandler demo_domain_deps (demo_request\<lparr>rq_claims := Some \<lparr>cl_UserID = ''01U'', cl_Email = [],
       cl_Role = ''account_owner'', cl_TenantID = ''01T'', cl_AccountID = [], cl_SessionID = [], cl_Iss = [], cl_Sub = [], cl_Exp = 0,
       cl_Iat = 0\<rparr>\<rparr>) ''1'' (Some \<lparr>cd_Domain = ''example.com'', cd_Port = 0\<rparr>) (\<lparr>wdb = demo_accounts, wcache = []\<rparr>, demo_os) = (Reply 201 v, w') \<and>
     do_Name v = ''example.com''"
proof -
  let ?cl = "\<lparr>cl_UserID = ''01U'', cl_Email = [], cl_Role = ''account_owner'', cl_TenantID = ''01T'', cl_AccountID = [],
       cl_SessionID = [], cl_Iss = [], cl_Sub = [], cl_Exp = 0, cl_Iat = 0\<rparr> :: claims"
  let ?rq = "demo_request\<lparr>rq_claims := Some ?cl\<rparr>" and ?w = "(\<lparr>wdb = demo_accounts, wcache = []\<rparr>, demo_os)"
    and ?req = "\<lparr>cd_Domain = ''example.com'', cd_Port = 0\<rparr>" and ?acct = "demo_account ''1'' ''alice'' [] ''01T''"
  have D: "dm_DB demo_domain_deps = mem_gorm" "\<forall>A. dm_Audit demo_domain_deps = Some A \<longrightarrow> au_gorm A = mem_gorm"
    "dm_Hosting demo_domain_deps = demo_hosting" "dm_stamp demo_domain_deps t = []" for t
    by (simp_all add: demo_domain_deps_def)
  have ids: "ids_ok (db_accounts (wdb (fst ?w)))" by (simp add: demo_accounts_def demo_account_def ids_ok_def)
  have acct: "tenant_account mem_gorm ?cl ''1'' (wdb (fst ?w)) = Inr ?acct"
    by (simp add: tenant_account_def mem_gorm_def mem_table_def demo_accounts_def demo_account_def first_row_def sel_def live_def)
  have other: "demo_account ''2'' ''bob'' ''example.com'' ''01V'' \<in> set (db_accounts (wdb (fst ?w)))"
    "ID (demo_account ''2'' ''bob'' ''example.com'' ''01V'') \<noteq> ID ?acct" "ac_Domain (demo_account ''2'' ''bob'' ''example.com'' ''01V'') = ''example.com''"
    by (simp_all add: demo_accounts_def demo_account_def)
  have name: "''example.com'' = ToLower (TrimSpace (cd_Domain ?req))" unfolding create_domain_request.simps by code_simp
  have rq: "rq_claims ?rq = Some ?cl" by simp
  obtain s where "provision_domain demo_hosting [] ''alice'' ''example.com'' 80 demo_os = (None, s)" using demo_provision by blast
  then have prov: "provision_domain (dm_Hosting demo_domain_deps) (dm_stamp demo_domain_deps (rq_now ?rq)) (ac_Username ?acct) ''example.com''
      (or_int (cd_Port ?req) 80) (snd ?w) = (None, s)"
    by (simp add: D or_int_def demo_account_def)
  have val: "ValidateDomain (dm_Hosting demo_domain_deps) ''example.com'' (snd ?w) = None" by (simp add: D demo_domains)
  show ?thesis
    using domain_takeover [OF mem_gorm_db D(1,2) rq ids acct other name _ val prov] by auto
qed

end
