(* ===== verification/Config.thy ===== *)
theory Config
  imports Encoding GoTime
begin

text \<open>
  The configuration of internal/config/config.go and rand.go: the environment file, what \<open>Load\<close> asks of the viper library
  (a parameter), and the placeholders of the development mode. The state is the environment of the process.
\<close>

type_synonym environ = "string \<Rightarrow> string option"

subsection \<open>The environment\<close>

definition os_Getenv :: "environ \<Rightarrow> string \<Rightarrow> string" where
  "os_Getenv en k = (case en k of None \<Rightarrow> [] | Some v \<Rightarrow> v)"

text \<open>\<open>os.Setenv\<close> refuses an empty key, a key with \<open>=\<close> and any NUL byte; the error is dropped by the caller.\<close>

definition os_Setenv :: "string \<Rightarrow> string \<Rightarrow> environ \<Rightarrow> environ" where
  "os_Setenv k v en =
     (if k = [] \<or> CHR ''='' \<in> set k \<or> CHR 0x00 \<in> set k \<or> CHR 0x00 \<in> set v then en else en(k \<mapsto> v))"

text \<open>One line of the file: nothing for a blank line, a comment, and a line with no text before its first \<open>=\<close>.\<close>

definition env_line :: "string \<Rightarrow> (string \<times> string) option" where
  "env_line line0 =
     (let line = TrimSpace line0; k = takeWhile (\<lambda>c. c \<noteq> CHR ''='') line in
      if line = [] \<or> HasPrefix line ''#'' then None
      else if k = [] \<or> length k = length line then None
      else Some (TrimSpace k, TrimSpace (drop (Suc (length k)) line)))"

definition export_line :: "environ \<Rightarrow> string \<Rightarrow> environ" where
  "export_line en line =
     (case env_line line of
        None \<Rightarrow> en
      | Some (k, v) \<Rightarrow> if en k = None then os_Setenv k v en else en)"

definition load_env_file :: "environ \<Rightarrow> string \<Rightarrow> environ" where
  "load_env_file en data = foldl export_line en (Split data (CHR 0x0A))"

definition env_file :: "environ \<Rightarrow> string" where
  "env_file en =
     (let f = os_Getenv en ''ORVIX_ENV_FILE'' in if f = [] then ''/etc/orvixpanel/orvixpanel.env'' else f)"

subsection \<open>The configuration\<close>

record server_config =
  sc_BindAddr :: string
  sc_ExternalURL :: string
  sc_SecretKey :: string
  sc_Debug :: bool
  sc_ReadTimeout :: int
  sc_WriteTimeout :: int

record license_config =
  lc_Key :: string
  lc_OfflineGraceDays :: int

record db_config =
  dc_Driver :: string
  dc_DSN :: string

record redis_config =
  rc_Addr :: string
  rc_Password :: string
  rc_DB :: int

record auth_config =
  ac_AccessTokenTTL :: int
  ac_RefreshTokenTTL :: int
  ac_MaxFailedLogins :: int
  ac_LockoutDuration :: int
  ac_BcryptCost :: int

record dns_config =
  nc_Mode :: string
  nc_PowerDNSURL :: string
  nc_PowerDNSAPIKey :: string
  nc_PowerDNSServer :: string

record config =
  cf_Server :: server_config
  cf_License :: license_config
  cf_DB :: db_config
  cf_Redis :: redis_config
  cf_Auth :: auth_config
  cf_DNS :: dns_config

subsection \<open>What viper is asked\<close>

datatype default_value = DString string | DBool bool | DInt int

datatype config_source = ConfigFile string | SearchFor string string "string list"

record viper_setup =
  vs_defaults :: "(string \<times> default_value) list"
  vs_file :: config_source
  vs_prefix :: string
  vs_binds :: "(string \<times> string) list"

definition defaults :: "(string \<times> default_value) list" where
  "defaults =
     [(''server.bind_addr'', DString ''0.0.0.0:8443''), (''server.external_url'', DString ''https://panel.localhost:8443''),
      (''server.read_timeout'', DString ''30s''), (''server.write_timeout'', DString ''30s''), (''server.debug'', DBool False),
      (''license.offline_grace_days'', DInt 7), (''license.key'', DString []),
      (''database.driver'', DString ''sqlite''), (''database.dsn'', DString ''/tmp/orvixpanel-test.db''),
      (''redis.addr'', DString ''localhost:6379''), (''redis.db'', DInt 0),
      (''auth.access_token_ttl'', DString ''15m''), (''auth.refresh_token_ttl'', DString ''720h''),
      (''auth.max_failed_logins'', DInt 5), (''auth.lockout_duration'', DString ''15m''), (''auth.bcrypt_cost'', DInt 12),
      (''dns.mode'', DString ''local''), (''dns.powerdns_server'', DString ''localhost'')]"

definition binds :: "(string \<times> string) list" where
  "binds =
     [(''server.bind_addr'', ''ORVIX_SERVER_BIND_ADDR''), (''server.external_url'', ''ORVIX_SERVER_EXTERNAL_URL''),
      (''server.secret_key'', ''ORVIX_SERVER_SECRET_KEY''), (''license.key'', ''ORVIX_LICENSE_KEY''),
      (''database.dsn'', ''ORVIX_DATABASE_DSN''), (''redis.addr'', ''ORVIX_REDIS_ADDR''), (''redis.password'', ''ORVIX_REDIS_PASSWORD''),
      (''auth.access_token_ttl'', ''ORVIX_AUTH_ACCESS_TOKEN_TTL''), (''auth.refresh_token_ttl'', ''ORVIX_AUTH_REFRESH_TOKEN_TTL''),
      (''dns.mode'', ''ORVIX_DNS_MODE''), (''dns.powerdns_url'', ''ORVIX_POWERDNS_URL''),
      (''dns.powerdns_api_key'', ''ORVIX_POWERDNS_API_KEY''), (''dns.powerdns_server'', ''ORVIX_POWERDNS_SERVER_ID'')]"

definition config_file :: "environ \<Rightarrow> config_source" where
  "config_file en =
     (let p = os_Getenv en ''ORVIX_CONFIG'' in
      if p \<noteq> [] then ConfigFile p
      else SearchFor ''orvixpanel.toml'' ''toml'' [''/etc/orvixpanel'', ''./configs'', ''.''])"

definition viper_of :: "environ \<Rightarrow> viper_setup" where
  "viper_of en = \<lparr>vs_defaults = defaults, vs_file = config_file en, vs_prefix = ''ORVIX'', vs_binds = binds\<rparr>"

text \<open>\<open>ReadInConfig\<close> fails with \<open>ConfigFileNotFoundError\<close> or another error; \<open>Unmarshal\<close> builds the configuration.\<close>

datatype read_result = ReadDone | NotFound | ReadFailed go_error

record viper =
  ReadInConfig :: "viper_setup \<Rightarrow> environ \<Rightarrow> read_result"
  Unmarshal :: "viper_setup \<Rightarrow> environ \<Rightarrow> go_error + config"

subsection \<open>Secrets for the development mode\<close>

definition b64_std_char :: "nat \<Rightarrow> char" where
  "b64_std_char n = (if n = 62 then CHR ''+'' else if n = 63 then CHR ''/'' else b64_char n)"

definition base64Encode :: "string \<Rightarrow> string" where
  "base64Encode b =
     map b64_std_char (b64_sextets (map ch b)) @ replicate ((3 - length b mod 3) mod 3) (CHR ''='')"

text \<open>\<open>rand\<close> is what \<open>rand.Read\<close> gave for the buffer of \<open>n\<close> bytes.\<close>

definition randomSecret :: "go_error + string \<Rightarrow> string" where
  "randomSecret rand = (case rand of Inl e \<Rightarrow> ''INSECURE-DEV-SECRET'' | Inr b \<Rightarrow> base64Encode b)"

definition applyDevDefaults :: "environ \<Rightarrow> go_error + string \<Rightarrow> config \<Rightarrow> go_error + config" where
  "applyDevDefaults en rand c =
     (if os_Getenv en ''ORVIX_ALLOW_DEV'' = ''1'' then
        let c1 = (if sc_SecretKey (cf_Server c) = []
                  then c\<lparr>cf_Server := (cf_Server c)\<lparr>sc_SecretKey := randomSecret rand\<rparr>\<rparr> else c)
        in Inr (if lc_Key (cf_License c1) = []
                then c1\<lparr>cf_License := (cf_License c1)\<lparr>lc_Key := ''ORVIX-SMB-2025-DEV-DEVPLACE''\<rparr>\<rparr> else c1)
      else if sc_SecretKey (cf_Server c) = []
      then Inl (ErrNew ''server.secret_key is required (or set ORVIX_ALLOW_DEV=1)'')
      else if lc_Key (cf_License c) = []
      then Inl (ErrNew ''license.key is required (or set ORVIX_ALLOW_DEV=1)'')
      else Inr c)"

text \<open>\<open>file\<close> reads a file; the environment after the call is part of the result.\<close>

definition config_Load :: "viper \<Rightarrow> (string \<Rightarrow> go_error + string) \<Rightarrow> go_error + string \<Rightarrow> environ \<Rightarrow>
    (go_error + config) \<times> environ" where
  "config_Load V file rand en0 =
     (let en = (case file (env_file en0) of Inl e \<Rightarrow> en0 | Inr data \<Rightarrow> load_env_file en0 data); setup = viper_of en in
      case ReadInConfig V setup en of
        ReadFailed e \<Rightarrow> (Inl (Errorf ''read config: '' e []), en)
      | _ \<Rightarrow>
          (case Unmarshal V setup en of
             Inl e \<Rightarrow> (Inl (Errorf ''unmarshal config: '' e []), en)
           | Inr cfg \<Rightarrow> (applyDevDefaults en rand cfg, en)))"

subsection \<open>The environment wins over the file\<close>

lemma export_line_set: "en k = Some v \<Longrightarrow> export_line en line k = Some v"
  by (auto simp: export_line_def os_Setenv_def split: option.splits)

lemma load_env_file_keeps: "en k = Some v \<Longrightarrow> load_env_file en data k = Some v"
proof -
  have "en k = Some v \<Longrightarrow> foldl export_line en ls k = Some v" for ls
    by (induction ls arbitrary: en) (simp_all add: export_line_set)
  then show "en k = Some v \<Longrightarrow> ?thesis" by (simp add: load_env_file_def)
qed

text \<open>The first line of the file that names a key, of those the process does not have, gives its value.\<close>

lemma load_env_file_first:
  assumes "en k = None"
  shows "load_env_file en data k =
    map_of (filter (\<lambda>(k, v). k \<noteq> [] \<and> CHR ''='' \<notin> set k \<and> CHR 0x00 \<notin> set k \<and> CHR 0x00 \<notin> set v)
       (List.map_filter env_line (Split data (CHR 0x0A)))) k"
proof -
  have "foldl export_line en ls k =
      (case en k of Some v \<Rightarrow> Some v | None \<Rightarrow>
        map_of (filter (\<lambda>(k, v). k \<noteq> [] \<and> CHR ''='' \<notin> set k \<and> CHR 0x00 \<notin> set k \<and> CHR 0x00 \<notin> set v)
          (List.map_filter env_line ls)) k)" for ls
  proof (induction ls arbitrary: en)
    case (Cons l ls)
    then show ?case
      by (auto simp: export_line_def os_Setenv_def map_filter_simps split: option.splits if_splits)
  qed (simp add: map_filter_simps split: option.splits)
  then show ?thesis using assms by (simp add: load_env_file_def)
qed

lemma b64_padded: "length (b64_sextets bs) + (3 - length bs mod 3) mod 3 = (length bs + 2) div 3 * 4"
proof (induction bs rule: b64_sextets.induct)
  case (4 a b c r)
  have "length (a # b # c # r) mod 3 = length r mod 3" "(length (a # b # c # r) + 2) div 3 = Suc ((length r + 2) div 3)"
    using mod_add_self2 [of "length r" 3] div_add_self2 [of 3 "length r + 2"] by simp_all
  with 4 show ?case by simp
qed simp_all

lemma length_base64Encode: "length (base64Encode b) = (length b + 2) div 3 * 4"
  using b64_padded [of "map ch b"] by (simp add: base64Encode_def)

text \<open>A configuration that was loaded has a secret key and a license key.\<close>

lemma applyDevDefaults_keys:
  assumes "applyDevDefaults en rand c = Inr c'" "\<And>b. rand = Inr b \<Longrightarrow> length b = 64"
  shows "sc_SecretKey (cf_Server c') \<noteq> []" "lc_Key (cf_License c') \<noteq> []"
proof -
  have "randomSecret rand \<noteq> []"
  proof (cases rand)
    case (Inr b)
    then have "length (base64Encode b) = 88" using assms(2) by (simp add: length_base64Encode)
    with Inr show ?thesis by (auto simp: randomSecret_def)
  qed (simp add: randomSecret_def)
  then show "sc_SecretKey (cf_Server c') \<noteq> []" "lc_Key (cf_License c') \<noteq> []"
    using assms(1) by (auto simp: applyDevDefaults_def Let_def split: if_splits)
qed

end
