(* ===== verification/Bootstrap.thy ===== *)
theory Bootstrap
  imports Auth Config
begin

text \<open>
  The first administrator: cmd/orvixpanel/bootstrap.go, with the part of Go's \<open>flag\<close> package it uses. The state is the
  database; what the operator types is a list of lines and a list of passwords, and an empty list is the end of the input.
\<close>

subsection \<open>Flags\<close>

record bootstrap_options =
  bo_AdminEmail :: string
  bo_AdminPassword :: string
  bo_Interactive :: bool
  bo_Skip :: bool

text \<open>\<open>strconv.ParseBool\<close>; the flag package stores the result of a failed parse, false, before it reports the error.\<close>

definition ParseBool :: "string \<Rightarrow> bool option" where
  "ParseBool s =
     (if s \<in> {''1'', ''t'', ''T'', ''TRUE'', ''true'', ''True''} then Some True
      else if s \<in> {''0'', ''f'', ''F'', ''FALSE'', ''false'', ''False''} then Some False
      else None)"

definition bool_flags :: "string list" where
  "bool_flags = [''i'', ''skip'']"

definition string_flags :: "string list" where
  "string_flags = [''admin-email'', ''admin-password'']"

definition set_bool :: "string \<Rightarrow> bool \<Rightarrow> bootstrap_options \<Rightarrow> bootstrap_options" where
  "set_bool n b opts = (if n = ''i'' then opts\<lparr>bo_Interactive := b\<rparr> else opts\<lparr>bo_Skip := b\<rparr>)"

definition set_string :: "string \<Rightarrow> string \<Rightarrow> bootstrap_options \<Rightarrow> bootstrap_options" where
  "set_string n v opts = (if n = ''admin-email'' then opts\<lparr>bo_AdminEmail := v\<rparr> else opts\<lparr>bo_AdminPassword := v\<rparr>)"

text \<open>A flag is \<open>-name\<close> or \<open>--name\<close>, with \<open>=value\<close> or not: its name and value.\<close>

definition flag_of :: "string \<Rightarrow> (string \<times> string option) option" where
  "flag_of s =
     (if length s < 2 \<or> hd s \<noteq> CHR ''-'' \<or> s = ''--'' then None
      else let name = (if HasPrefix s ''--'' then drop 2 s else drop 1 s); n = takeWhile (\<lambda>c. c \<noteq> CHR ''='') name in
        if name = [] \<or> hd name = CHR ''-'' \<or> hd name = CHR ''='' then None
        else Some (n, if n = name then None else Some (drop (Suc (length n)) name)))"

text \<open>\<open>FlagSet.Parse\<close>, which stops at the first argument that is no flag and at the first error; the caller drops the error.\<close>

fun flag_Parse :: "string list \<Rightarrow> bootstrap_options \<Rightarrow> bootstrap_options" where
  "flag_Parse [] opts = opts"
| "flag_Parse (s # args) opts =
     (case flag_of s of
        None \<Rightarrow> opts
      | Some (n, value) \<Rightarrow>
          if n \<in> set bool_flags then
            (case value of
               None \<Rightarrow> flag_Parse args (set_bool n True opts)
             | Some v \<Rightarrow>
                 (case ParseBool v of
                    None \<Rightarrow> set_bool n False opts
                  | Some b \<Rightarrow> flag_Parse args (set_bool n b opts)))
          else if n \<in> set string_flags then
            (case value of
               Some v \<Rightarrow> flag_Parse args (set_string n v opts)
             | None \<Rightarrow>
                 (case args of
                    [] \<Rightarrow> opts
                  | v # args' \<Rightarrow> flag_Parse args' (set_string n v opts)))
          else opts)"

fun clean_args :: "string list \<Rightarrow> string list" where
  "clean_args [] = []"
| "clean_args (a # as) =
     (if \<not> HasPrefix a ''-'' then
        (if a = ''--config'' \<or> a = ''--debug'' \<or> a = ''--help'' \<or> a = ''-h'' then [] else a # clean_args as)
      else a # clean_args as)"

definition ParseBootstrapFlags :: "string list \<Rightarrow> bootstrap_options option" where
  "ParseBootstrapFlags args =
     (case dropWhile (\<lambda>a. \<not> (a = ''--bootstrap'' \<or> a = ''bootstrap'')) args of
        [] \<Rightarrow> None
      | _ # bootstrapArgs \<Rightarrow>
          Some (flag_Parse (clean_args bootstrapArgs)
            \<lparr>bo_AdminEmail = [], bo_AdminPassword = [], bo_Interactive = True, bo_Skip = False\<rparr>))"

subsection \<open>Credentials\<close>

definition validateEmail :: "string \<Rightarrow> go_error option" where
  "validateEmail email =
     (let atIdx = length (takeWhile (\<lambda>c. c \<noteq> CHR ''@'') email) in
      if length email < 3 \<or> length email > 254 then Some (ErrNew ''email must be between 3 and 254 characters'')
      else if atIdx < 1 \<or> atIdx > length email - 3
      then Some (ErrNew ''email must contain a valid @ with characters before and after'')
      else if CHR ''.'' \<notin> set (drop (Suc atIdx) email) then Some (ErrNew ''email domain must contain a dot'')
      else None)"

definition validatePassword :: "string \<Rightarrow> go_error option" where
  "validatePassword p =
     (if length p < 8 then Some (ErrNew ''password must be at least 8 characters'')
      else if length p > 128 then Some (ErrNew ''password must be at most 128 characters'')
      else if \<not> list_ex is_lower p \<or> \<not> list_ex is_upper p \<or> \<not> list_ex is_digit p
      then Some (ErrNew ''password must contain uppercase, lowercase, and digit'')
      else None)"

definition alphabet :: string where
  "alphabet = ''ABCDEFGHIJKLMNOPQRSTUVWXYZabcdefghijklmnopqrstuvwxyz0123456789''"

text \<open>\<open>rand\<close> is what \<open>rand.Read\<close> gave for the buffer.\<close>

definition randomPassword :: "go_error + string \<Rightarrow> go_error + string" where
  "randomPassword rand =
     (case rand of Inl e \<Rightarrow> Inl e | Inr b \<Rightarrow> Inr (map (\<lambda>v. alphabet ! (ch v mod length alphabet)) b))"

text \<open>\<open>newULIDInline\<close> of 16 bytes; a failed read leaves them zero.\<close>

definition bootstrapID :: "go_error + string \<Rightarrow> string" where
  "bootstrapID rand =
     take 22 (RawURLEncode (case rand of Inl e \<Rightarrow> replicate 16 (CHR 0x00) | Inr b \<Rightarrow> b))"

subsection \<open>The rows\<close>

definition root_tenant :: "string \<Rightarrow> tenant" where
  "root_tenant newid =
     \<lparr>ID = newid, CreatedAt = zero_time, UpdatedAt = zero_time, DeletedAt = None, t_Name = ''OrvixPanel'', t_Slug = ''default'',
      t_Type = ''admin'', t_Status = ''active''\<rparr>"

definition admin_row :: "string \<Rightarrow> string \<Rightarrow> string \<Rightarrow> string \<Rightarrow> user" where
  "admin_row newid email hash tenantID =
     \<lparr>ID = newid, CreatedAt = zero_time, UpdatedAt = zero_time, DeletedAt = None, u_Email = email, u_PasswordHash = hash,
      u_Role = RoleRootAdmin, u_TenantID = tenantID, u_AccountID = [], u_TOTPSecret = [], u_TOTPEnabled = False,
      u_FailedLogins = 0, u_LockedUntil = None, u_LastLoginAt = None, u_LastLoginIP = [], u_Status = ''active''\<rparr>"

text \<open>The values drawn: the bytes of the two identifiers and of the password.\<close>

record boot_rand =
  br_tenant :: "go_error + string"
  br_user :: "go_error + string"
  br_password :: "go_error + string"

definition ensure_tenant :: "'d auth \<Rightarrow> int \<Rightarrow> boot_rand \<Rightarrow> 'd \<Rightarrow> (go_error + tenant) \<times> 'd" where
  "ensure_tenant s now r d =
     (case tFirst (Tenants (as_gorm s)) (\<lambda>t. t_Slug t = ''default'') d of
        Inr tenant \<Rightarrow> (Inr tenant, d)
      | Inl e \<Rightarrow>
          (case tCreate (Tenants (as_gorm s)) now (root_tenant (bootstrapID (br_tenant r))) d of
             (Inl e, d1) \<Rightarrow> (Inl (Errorf ''create tenant: '' e []), d1)
           | (Inr tenant, d1) \<Rightarrow> (Inr tenant, d1)))"

definition createAdminUser :: "'d auth \<Rightarrow> int \<Rightarrow> boot_rand \<Rightarrow> string \<Rightarrow> string \<Rightarrow> 'd \<Rightarrow> go_error option \<times> 'd" where
  "createAdminUser s now r email password d =
     (case HashPassword s password of
        Inl e \<Rightarrow> (Some (Errorf ''hash password: '' e []), d)
      | Inr hash \<Rightarrow>
          (case ensure_tenant s now r d of
             (Inl e, d1) \<Rightarrow> (Some e, d1)
           | (Inr tenant, d1) \<Rightarrow>
               (case tCreate (Users (as_gorm s)) now (admin_row (bootstrapID (br_user r)) email hash (ID tenant)) d1 of
                  (Inl e, d2) \<Rightarrow> (Some (Errorf ''create user: '' e []), d2)
                | (Inr _, d2) \<Rightarrow> (None, d2))))"

definition bootstrapRootAdminWithCredentials :: "'d auth \<Rightarrow> int \<Rightarrow> boot_rand \<Rightarrow> string \<Rightarrow> string \<Rightarrow> 'd \<Rightarrow>
    go_error option \<times> 'd" where
  "bootstrapRootAdminWithCredentials s now r email password d =
     (if email = [] then (Some (ErrNew ''admin email is required (use --admin-email)''), d)
      else if password = [] then (Some (ErrNew ''admin password is required (use --admin-password)''), d)
      else (case validateEmail email of
         Some e \<Rightarrow> (Some (Errorf ''invalid admin email: '' e []), d)
       | None \<Rightarrow>
           (case validatePassword password of
              Some e \<Rightarrow> (Some (Errorf ''invalid admin password: '' e []), d)
            | None \<Rightarrow> createAdminUser s now r email password d)))"

definition no_bootstrap :: go_error where
  "no_bootstrap = ErrNew (''no admin user exists and --bootstrap not provided in non-interactive mode; '' @
     ''run '' @ [CHR 0x27] @ ''orvixpanel --bootstrap'' @ [CHR 0x27] @ '' to create the initial admin user or '' @
     ''use '' @ [CHR 0x27] @ ''orvixpanel --bootstrap --admin-email=admin@example.com --admin-password=SecurePass123!'' @ [CHR 0x27])"

definition bootstrapRootAdminNonInteractive :: "'d auth \<Rightarrow> environ \<Rightarrow> int \<Rightarrow> boot_rand \<Rightarrow> 'd \<Rightarrow> go_error option \<times> 'd" where
  "bootstrapRootAdminNonInteractive s en now r d =
     (if os_Getenv en ''ORVIX_ALLOW_DEV'' \<noteq> ''1'' then (Some no_bootstrap, d)
      else (case randomPassword (br_password r) of
         Inl e \<Rightarrow> (Some (Errorf ''generate password: '' e []), d)
       | Inr pw \<Rightarrow> createAdminUser s now r ''admin@orvixpanel.local'' pw d))"

subsection \<open>Asking the operator\<close>

definition io_EOF :: go_error where
  "io_EOF = ErrNew ''EOF''"

type_synonym input = "(go_error + string) list"

definition next_input :: "input \<Rightarrow> go_error + string" where
  "next_input ls = (case ls of [] \<Rightarrow> Inl io_EOF | x # _ \<Rightarrow> x)"

fun read_email :: "input \<Rightarrow> go_error + string" where
  "read_email [] = Inl (Errorf ''read email: '' io_EOF [])"
| "read_email (Inl e # ls) = Inl (Errorf ''read email: '' e [])"
| "read_email (Inr line # ls) =
     (let email = TrimSpace line in
      if email = [] then read_email ls
      else if validateEmail email \<noteq> None then read_email ls
      else Inr email)"

fun read_password :: "input \<Rightarrow> go_error + string" where
  "read_password [] = Inl (Errorf ''read password: '' io_EOF [])"
| "read_password (Inl e # ls) = Inl (Errorf ''read password: '' e [])"
| "read_password (Inr line # ls) =
     (let password = TrimSpace line in
      if password = [] then read_password ls
      else if validatePassword password \<noteq> None then read_password ls
      else (case next_input ls of
         Inl e \<Rightarrow> Inl (Errorf ''read password confirmation: '' e [])
       | Inr confirm \<Rightarrow> if TrimSpace confirm \<noteq> password then read_password (tl ls) else Inr password))"

definition bootstrapRootAdminInteractive :: "'d auth \<Rightarrow> int \<Rightarrow> boot_rand \<Rightarrow> input \<Rightarrow> input \<Rightarrow> 'd \<Rightarrow>
    go_error option \<times> 'd" where
  "bootstrapRootAdminInteractive s now r lines passwords d =
     (case read_email lines of
        Inl e \<Rightarrow> (Some e, d)
      | Inr email \<Rightarrow>
          (case read_password passwords of
             Inl e \<Rightarrow> (Some e, d)
           | Inr password \<Rightarrow> createAdminUser s now r email password d))"

text \<open>Whether it ran, the error, and the database.\<close>

definition RunBootstrapWizard :: "'d auth \<Rightarrow> environ \<Rightarrow> int \<Rightarrow> boot_rand \<Rightarrow> input \<Rightarrow> input \<Rightarrow> string list \<Rightarrow> 'd \<Rightarrow>
    (bool \<times> go_error option) \<times> 'd" where
  "RunBootstrapWizard s en now r lines passwords args d =
     (case tCount (Users (as_gorm s)) (\<lambda>_. True) d of
        Inl e \<Rightarrow> ((False, Some (Errorf ''check user count: '' e [])), d)
      | Inr users \<Rightarrow>
          if users > 0 then ((False, None), d)
          else (case ParseBootstrapFlags args of
             None \<Rightarrow> apfst (Pair False) (bootstrapRootAdminNonInteractive s en now r d)
           | Some opts \<Rightarrow>
               if bo_Skip opts then ((False, None), d)
               else if bo_Interactive opts \<and> (bo_AdminEmail opts = [] \<or> bo_AdminPassword opts = [])
               then apfst (Pair True) (bootstrapRootAdminInteractive s now r lines passwords d)
               else apfst (Pair True)
                 (bootstrapRootAdminWithCredentials s now r (bo_AdminEmail opts) (bo_AdminPassword opts) d)))"

end
