(* ===== verification/BootstrapProps.thy ===== *)
theory BootstrapProps
  imports Bootstrap AuthProps
begin

text \<open>
  What the bootstrap of the first administrator guarantees: when it acts and what it creates, whether the administrator can
  log in, which passwords it accepts, and that flags are read back as they were written.
\<close>

subsection \<open>Creating the administrator\<close>

definition first_admin :: "'d auth \<Rightarrow> int \<Rightarrow> string \<Rightarrow> string \<Rightarrow> user \<Rightarrow> bool" where
  "first_admin s now email password u \<longleftrightarrow>
     (\<exists>newid hash tenantID. HashPassword s password = Inr hash \<and> u = stamp now (admin_row newid email hash tenantID))"

lemma first_admin_simps:
  assumes "first_admin s now email password u"
  shows "live u" "u_Email u = email" "u_Role u = ''root_admin''" "u_Status u = ''active''" "u_LockedUntil u = None"
    "\<exists>h. HashPassword s password = Inr h \<and> u_PasswordHash u = h"
  using assms by (auto simp: first_admin_def admin_row_def live_def stamp_def RoleRootAdmin_def)

context gorm_db
begin

lemma ensure_tenant_ok:
  assumes "as_gorm s = G" "ensure_tenant s now r d = (Inr t, d')"
  shows "t \<in> set (db_tenants (view d')) \<and> live t \<and> t_Slug t = ''default''"
    "\<exists>ts. view d' = (view d)\<lparr>db_tenants := ts\<rparr>"
  using assms tenant.first_mem [of "\<lambda>t. t_Slug t = ''default''" d] tenant.create_ok [of now "root_tenant (bootstrapID (br_tenant r))" d]
  by (auto simp: ensure_tenant_def root_tenant_def tenant_defaults_def stamp_def live_def split: sum.splits prod.splits
      intro: exI [of _ "db_tenants (view d)"])

lemma ensure_tenant_fail:
  "as_gorm s = G \<Longrightarrow> ensure_tenant s now r d = (Inl e, d') \<Longrightarrow> view d' = view d"
  using tenant.create_fail by (auto simp: ensure_tenant_def split: sum.splits prod.splits)

lemma createAdminUser_ok:
  assumes "as_gorm s = G" "createAdminUser s now r email password d = (None, d')"
  shows "\<exists>u t ts. first_admin s now email password u \<and> t \<in> set ts \<and> live t \<and> t_Slug t = ''default'' \<and> u_TenantID u = ID t \<and>
    view d' = (view d)\<lparr>db_tenants := ts, db_users := db_users (view d) @ [u]\<rparr> \<and>
    (\<forall>x\<in>set (db_users (view d)). ID x \<noteq> ID u \<and> u_Email x \<noteq> u_Email u)"
proof -
  obtain h where h: "HashPassword s password = Inr h"
    using assms(2) by (cases "HashPassword s password") (auto simp: createAdminUser_def)
  obtain t d1 where t: "ensure_tenant s now r d = (Inr t, d1)"
    using assms(2) h by (auto simp: createAdminUser_def split: prod.splits sum.splits)
  obtain u where u: "tCreate (Users G) now (admin_row (bootstrapID (br_user r)) email h (ID t)) d1 = (Inr u, d')"
    using assms h t by (auto simp: createAdminUser_def split: prod.splits sum.splits)
  obtain ts where ts: "view d1 = (view d)\<lparr>db_tenants := ts\<rparr>" using ensure_tenant_ok(2) [OF assms(1) t] by blast
  have d: "user_defaults (admin_row i e h t) = admin_row i e h t" for i e h t
    by (simp add: user_defaults_def admin_row_def RoleRootAdmin_def)
  note c = user.create_ok [OF u, unfolded d]
  have "first_admin s now email password u" using c h by (auto simp: first_admin_def)
  moreover have "u_TenantID u = ID t" using c by (simp add: admin_row_def stamp_def)
  moreover have "view d' = (view d)\<lparr>db_tenants := ts, db_users := db_users (view d) @ [u]\<rparr>"
    using c ts by simp
  moreover have "\<forall>x\<in>set (db_users (view d)). ID x \<noteq> ID u \<and> u_Email x \<noteq> u_Email u"
    using c ts by (auto simp: user_clash_def)
  ultimately show ?thesis using ensure_tenant_ok(1) [OF assms(1) t] ts by auto
qed

lemma createAdminUser_fail:
  assumes "as_gorm s = G" "createAdminUser s now r email password d = (Some e, d')"
  shows "\<exists>ts. view d' = (view d)\<lparr>db_tenants := ts\<rparr>"
proof -
  have same: "\<exists>ts. view d = (view d)\<lparr>db_tenants := ts\<rparr>" by (rule exI [of _ "db_tenants (view d)"]) simp
  show ?thesis
  proof (cases "HashPassword s password")
    case (Inl e')
    then show ?thesis using assms(2) same by (simp add: createAdminUser_def)
  next
    case (Inr h)
    obtain t d1 where t: "ensure_tenant s now r d = (t, d1)" by fastforce
    show ?thesis
    proof (cases t)
      case (Inl e')
      then show ?thesis
        using assms t Inr same ensure_tenant_fail [OF assms(1), of now r d] by (simp add: createAdminUser_def)
    next
      case t': (Inr tn)
      obtain u d2 where u: "tCreate (Users G) now (admin_row (bootstrapID (br_user r)) email h (ID tn)) d1 = (u, d2)" by fastforce
      then have "view d' = view d1"
        using assms t t' Inr user.create_fail by (auto simp: createAdminUser_def split: sum.splits)
      then show ?thesis using ensure_tenant_ok(2) [OF assms(1) t [unfolded t']] by simp
    qed
  qed
qed

end

subsection \<open>The wizard\<close>

lemma read_email_ok: "read_email ls = Inr email \<Longrightarrow> validateEmail email = None"
  by (induction ls rule: read_email.induct) (auto simp: Let_def split: if_splits)

lemma read_password_ok: "read_password ls = Inr p \<Longrightarrow> validatePassword p = None"
  by (induction ls rule: read_password.induct) (auto simp: Let_def split: if_splits sum.splits)

text \<open>One user more, the administrator, with the default tenant; nothing else changed.\<close>

definition admin_added :: "'d auth \<Rightarrow> int \<Rightarrow> string \<Rightarrow> string \<Rightarrow> database \<Rightarrow> database \<Rightarrow> bool" where
  "admin_added s now email password v v' \<longleftrightarrow>
     (\<exists>u t ts. first_admin s now email password u \<and> t \<in> set ts \<and> live t \<and> t_Slug t = ''default'' \<and> u_TenantID u = ID t \<and>
       v' = v\<lparr>db_tenants := ts, db_users := db_users v @ [u]\<rparr> \<and>
       (\<forall>x\<in>set (db_users v). ID x \<noteq> ID u \<and> u_Email x \<noteq> u_Email u))"

lemma createAdminUser_added:
  assumes "gorm_db G view" "as_gorm s = G" "createAdminUser s now r email password d = (None, d')"
  shows "admin_added s now email password (view d) (view d')"
  unfolding admin_added_def by (rule gorm_db.createAdminUser_ok [OF assms])

text \<open>What one run of the wizard comes to: no change, or a call of \<open>createAdminUser\<close> with these credentials.\<close>

definition wizard_credentials :: "environ \<Rightarrow> bool \<Rightarrow> string \<Rightarrow> string \<Rightarrow> bool" where
  "wizard_credentials en acted email password \<longleftrightarrow>
     (if acted then validateEmail email = None \<and> validatePassword password = None
      else os_Getenv en ''ORVIX_ALLOW_DEV'' = ''1'' \<and> email = ''admin@orvixpanel.local'')"

lemma wizard_cases:
  assumes "RunBootstrapWizard s en now r ls ps args d = ((acted, e), d')"
  shows "(d' = d \<and> (acted \<longrightarrow> e \<noteq> None)) \<or>
    tCount (Users (as_gorm s)) (\<lambda>_. True) d = Inr 0 \<and>
    (\<exists>email password. wizard_credentials en acted email password \<and> createAdminUser s now r email password d = (e, d'))"
proof (cases "tCount (Users (as_gorm s)) (\<lambda>_. True) d")
  case (Inr n)
  show ?thesis
  proof (cases "n = 0")
    case True
    show ?thesis
    proof (cases "ParseBootstrapFlags args")
      case None
      then have w: "bootstrapRootAdminNonInteractive s en now r d = (e, d')" "\<not> acted"
        using assms Inr True by (auto simp: RunBootstrapWizard_def apfst_def map_prod_def split: prod.splits)
      then show ?thesis using Inr True
        by (auto simp: bootstrapRootAdminNonInteractive_def wizard_credentials_def split: if_splits sum.splits)
    next
      case (Some opts)
      consider (skip) "bo_Skip opts"
        | (ask) "\<not> bo_Skip opts" "bo_Interactive opts \<and> (bo_AdminEmail opts = [] \<or> bo_AdminPassword opts = [])"
        | (given) "\<not> bo_Skip opts" "\<not> (bo_Interactive opts \<and> (bo_AdminEmail opts = [] \<or> bo_AdminPassword opts = []))"
        by blast
      then show ?thesis
      proof cases
        case skip
        then show ?thesis using assms Inr True Some by (simp add: RunBootstrapWizard_def)
      next
        case ask
        then have w: "bootstrapRootAdminInteractive s now r ls ps d = (e, d')" "acted"
          using assms Inr True Some by (auto simp: RunBootstrapWizard_def apfst_def map_prod_def split: prod.splits)
        then show ?thesis using Inr True read_email_ok [of ls] read_password_ok [of ps]
          by (auto simp: bootstrapRootAdminInteractive_def wizard_credentials_def split: sum.splits)
      next
        case given
        then have w: "bootstrapRootAdminWithCredentials s now r (bo_AdminEmail opts) (bo_AdminPassword opts) d = (e, d')" "acted"
          using assms Inr True Some by (auto simp: RunBootstrapWizard_def apfst_def map_prod_def split: prod.splits)
        then show ?thesis using Inr True
          by (auto simp: bootstrapRootAdminWithCredentials_def wizard_credentials_def split: if_splits option.splits)
      qed
    qed
  qed (use assms Inr in \<open>simp add: RunBootstrapWizard_def\<close>)
qed (use assms in \<open>simp add: RunBootstrapWizard_def\<close>)


subsection \<open>The first login\<close>

text \<open>The administrator is the only live user, so \<open>Login\<close> finds him or nobody.\<close>

definition only_user :: "user \<Rightarrow> database \<Rightarrow> bool" where
  "only_user u v \<longleftrightarrow> live u \<and> u \<in> set (db_users v) \<and> (\<forall>x\<in>set (db_users v). live x \<longrightarrow> x = u)"

lemma admin_only_user:
  assumes "admin_added s now email password v v'" "\<forall>x\<in>set (db_users v). \<not> live x"
  obtains u where "first_admin s now email password u" "only_user u v'"
  using assms first_admin_simps(1) by (fastforce simp: admin_added_def only_user_def)

context gorm_db_up
begin

lemma only_user_first:
  "only_user u (view d) \<Longrightarrow>
    tFirst (Users G) (\<lambda>x. u_Email x = e) d = (if e = u_Email u then Inr u else Inl ErrRecordNotFound)"
proof -
  assume u: "only_user u (view d)"
  then have "first_row (\<lambda>x. u_Email x = e) (db_users (view d)) = (if e = u_Email u then Some u else None)"
    using first_row_unique [of u "db_users (view d)" "\<lambda>x. u_Email x = e"] by (auto simp: only_user_def first_row_None)
  then show ?thesis by (simp add: user.first_up)
qed

lemma only_user_count:
  assumes "only_user u (view d)"
  shows "\<exists>n. tCount (Users G) (\<lambda>_. True) d = Inr (Suc n)"
proof -
  obtain n where n: "tCount (Users G) (\<lambda>_. True) d = Inr n" using user.count_up by blast
  have "sel (\<lambda>_. True) (db_users (view d)) \<noteq> []" using assms by (auto simp: only_user_def sel_def filter_empty_conv)
  then have "n \<noteq> 0" using user.count_ok [OF n] by simp
  then show ?thesis using n by (metis not0_implies_Suc)
qed

lemma Login_only_user:
  assumes "as_gorm s = G" "only_user u (view d)" "u_Status u = ''active''" "u_LockedUntil u = None"
  shows "ToLower (TrimSpace e) \<noteq> u_Email u \<Longrightarrow> Login s now f e pw ip d = (Inl ErrInvalidCredentials, d)"
    and "ToLower (TrimSpace e) = u_Email u \<Longrightarrow> bcrypt_ok s (u_PasswordHash u) pw \<Longrightarrow>
      Login s now f e pw ip d =
        (case issueTokens s now f (after_success now ip u) ip [] (snd (tSave (Users G) now (after_success now ip u) d)) of
           (Inl e, d2) \<Rightarrow> (Inl e, d2) | (Inr pair, d2) \<Rightarrow> (Inr (pair, after_success now ip u), d2))"
  using assms only_user_first [OF assms(2)]
  by (simp_all add: Login_def Let_def user_locked_def VerifyPassword_def)

text \<open>Tokens are issued when the random source works, the session is new and the library signs.\<close>

lemma issueTokens_succeeds:
  assumes "as_gorm s = G" "fr_rand f = Inr b" "\<forall>x\<in>set (db_sessions (view d)). ID x \<noteq> fr_id f \<and> s_SessionID x \<noteq> fr_uuid f"
    and "\<exists>t. jwt_sign s (as_secret s) (token_claims s now u (fr_uuid f)) = Inr t"
  shows "\<exists>pair d'. issueTokens s now f u ip ua d = (Inr pair, d')"
proof -
  let ?row = "session_row s now (fr_id f) u (fr_uuid f) (RawURLEncode b) ip ua"
  have "\<forall>x\<in>set (db_sessions (view d)). \<not> user_session_clash x (stamp now (user_session_defaults ?row))"
    using assms(3) by (auto simp: user_session_clash_def user_session_defaults_def session_row_def stamp_def)
  then obtain r d1 where "tCreate (Sessions G) now ?row d = (Inr r, d1)" using user_session.create_up by blast
  then show ?thesis using assms(1,2,4)
    by (auto simp: issueTokens_def newRefreshToken_def signAccessToken_def)
qed

lemma save_user_sessions: "db_sessions (view (snd (tSave (Users G) now u d))) = db_sessions (view d)"
  if "first_row (\<lambda>x. ID x = ID u) (db_users (view d)) \<noteq> None"
proof -
  obtain e d' where sv: "tSave (Users G) now u d = (e, d')" by fastforce
  then show ?thesis
    using user.save_ok [of now u d d', OF _ that] user.save_fail [of now u d _ d'] by (cases e) auto
qed

end

text \<open>
  C37: The administrator can log in, unless his email has a capital letter. The email is stored as it was typed, while a login
  looks for the lower-case text: with a capital letter every login of every name and password is refused, and the wizard does not run again.
  Otherwise the chosen password opens the panel with the root role.
\<close>

theorem admin_can_log_in:
  assumes "gorm_db_up G view" "as_gorm s = G" "\<forall>x\<in>set (db_users (view d)). \<not> live x"
    and "createAdminUser s now r email password d = (None, d')"
    and "\<And>p h. bcrypt_gen s (as_bcryptCost s) p = Inr h \<Longrightarrow> bcrypt_ok s h p"
    and "\<And>k c. \<exists>t. jwt_sign s k c = Inr t" "fr_rand f = Inr b"
    and "\<forall>x\<in>set (db_sessions (view d)). ID x \<noteq> fr_id f \<and> s_SessionID x \<noteq> fr_uuid f"
  shows "(ToLower (TrimSpace email) = email \<longrightarrow>
      (\<exists>pair u d2. Login s later f email password ip d' = (Inr (pair, u), d2) \<and> u_Role u = ''root_admin'')) \<and>
    (ToLower email \<noteq> email \<longrightarrow>
      (\<forall>name pw. Login s later f name pw ip d' = (Inl ErrInvalidCredentials, d'))) \<and>
    RunBootstrapWizard s en later r' ls ps args d' = ((False, None), d')"
proof -
  note added = createAdminUser_added [OF gorm_db_up.axioms(1) [OF assms(1)] assms(2,4)]
  obtain u where u: "first_admin s now email password u" and o: "only_user u (view d')"
    using admin_only_user [OF added assms(3)] by blast
  note us = first_admin_simps [OF u]
  note login = gorm_db_up.Login_only_user [OF assms(1,2) o us(4,5)]
  have hash: "bcrypt_ok s (u_PasswordHash u) password"
    using us(6) assms(5) by (auto simp: HashPassword_def split: option.splits sum.splits)
  have sess: "db_sessions (view d') = db_sessions (view d)" using added by (auto simp: admin_added_def)
  have first: "first_row (\<lambda>x. ID x = ID (after_success later ip u)) (db_users (view d')) \<noteq> None"
    using o by (auto simp: only_user_def first_row_None after_success_def)
  let ?d1 = "snd (tSave (Users G) later (after_success later ip u) d')"
  have fresh: "\<forall>x\<in>set (db_sessions (view ?d1)). ID x \<noteq> fr_id f \<and> s_SessionID x \<noteq> fr_uuid f"
    using gorm_db_up.save_user_sessions [OF assms(1) first] sess assms(8) by simp
  obtain pair d2 where it: "issueTokens s later f (after_success later ip u) ip [] ?d1 = (Inr pair, d2)"
    using gorm_db_up.issueTokens_succeeds [OF assms(1,2,7) fresh] assms(6) by blast
  have good: "\<exists>pair u d2. Login s later f email password ip d' = (Inr (pair, u), d2) \<and> u_Role u = ''root_admin''"
    if "ToLower (TrimSpace email) = email"
    using login(2) [of email password] that us(2,3) hash it by (simp add: after_success_def)
  have bad: "Login s later f name pw ip d' = (Inl ErrInvalidCredentials, d')" if "ToLower email \<noteq> email" for name pw
    by (rule login(1)) (use that us(2) in \<open>metis ToLower_idem\<close>)
  obtain n where "tCount (Users G) (\<lambda>_. True) d' = Inr (Suc n)" using gorm_db_up.only_user_count [OF assms(1) o] by blast
  then have "RunBootstrapWizard s en later r' ls ps args d' = ((False, None), d')"
    using assms(2) by (simp add: RunBootstrapWizard_def)
  with good bad show ?thesis by blast
qed

subsection \<open>Passwords\<close>

lemma validatePassword_None:
  "validatePassword p = None \<longleftrightarrow>
     8 \<le> length p \<and> length p \<le> 128 \<and> (\<exists>c\<in>set p. is_lower c) \<and> (\<exists>c\<in>set p. is_upper c) \<and> (\<exists>c\<in>set p. is_digit c)"
  by (auto simp: validatePassword_def list_ex_iff)

lemma ValidatePassword_None:
  "ValidatePassword p = None \<longleftrightarrow> 10 \<le> length p \<and> (\<exists>c\<in>set p. is_letter c) \<and> (\<exists>c\<in>set p. is_digit c)"
  by (auto simp: ValidatePassword_def scan_password_flags list_ex_iff)

lemma length_alphabet [simp]: "length alphabet = 62"
  by (simp add: alphabet_def)

lemma alphabet_classes:
  assumes "k < 62"
  shows "is_letter (alphabet ! k) \<longleftrightarrow> k < 52" "is_digit (alphabet ! k) \<longleftrightarrow> 52 \<le> k"
proof -
  have "list_all (\<lambda>k. (is_letter (alphabet ! k) \<longleftrightarrow> k < 52) \<and> (is_digit (alphabet ! k) \<longleftrightarrow> 52 \<le> k)) [0..<62]"
    by code_simp
  with assms show "is_letter (alphabet ! k) \<longleftrightarrow> k < 52" "is_digit (alphabet ! k) \<longleftrightarrow> 52 \<le> k"
    by (simp_all add: list_all_iff)
qed

text \<open>
  Two policies meet. A password the wizard accepts is hashed when it has ten bytes; with eight or nine the whole run ends with
  an error. A generated password is refused when its random bytes select no digit, or no letter.
\<close>

lemma bootstrap_passwords:
  assumes "validatePassword p = None"
  shows "if 10 \<le> length p then ValidatePassword p = None
    else \<exists>e. createAdminUser s now r email p d = (Some e, d) \<and> errors_Is e ErrWeakPassword"
proof (cases "10 \<le> length p")
  case True
  then show ?thesis using assms by (auto simp: validatePassword_None ValidatePassword_None is_letter_def)
next
  case False
  then show ?thesis by (simp add: createAdminUser_def HashPassword_def ValidatePassword_def ErrWeakPassword_def)
qed

lemma randomPassword_policy:
  assumes "randomPassword (Inr b) = Inr p"
  shows "ValidatePassword p = None \<longleftrightarrow> 10 \<le> length b \<and> (\<exists>c\<in>set b. ch c mod 62 < 52) \<and> (\<exists>c\<in>set b. 52 \<le> ch c mod 62)"
proof -
  have p: "p = map (\<lambda>v. alphabet ! (ch v mod 62)) b" using assms by (auto simp: randomPassword_def)
  show ?thesis unfolding p ValidatePassword_None by (simp add: alphabet_classes)
qed

subsection \<open>Flags\<close>

lemma clean_args_id [simp]: "clean_args as = as"
  by (induction as) (auto simp: HasPrefix_def)

lemma flag_of_long:
  assumes "n \<noteq> []" "CHR ''='' \<notin> set n" "hd n \<noteq> CHR ''-''"
  shows "flag_of (''--'' @ n @ CHR ''='' # v) = Some (n, Some v)" "flag_of (''--'' @ n) = Some (n, None)"
proof -
  have t: "takeWhile (\<lambda>c. c \<noteq> CHR ''='') (n @ CHR ''='' # v) = n" "takeWhile (\<lambda>c. c \<noteq> CHR ''='') n = n"
    using assms(2) by (simp_all add: takeWhile_append takeWhile_eq_all_conv, blast+)
  have "hd n \<noteq> CHR ''=''" using assms by (cases n) auto
  then show "flag_of (''--'' @ n @ CHR ''='' # v) = Some (n, Some v)" "flag_of (''--'' @ n) = Some (n, None)"
    using assms t by (auto simp: flag_of_def HasPrefix_def Let_def hd_append)
qed

text \<open>
  Flags are read back. Whatever stands before the word \<open>--bootstrap\<close>, an email and a password given as \<open>--name=value\<close> or as
  two arguments come out unchanged, any bytes included, and with the answers to the two switches.
\<close>

theorem bootstrap_flags:
  assumes "\<forall>a\<in>set before. a \<noteq> ''--bootstrap'' \<and> a \<noteq> ''bootstrap''"
  shows "ParseBootstrapFlags (before @ [''--bootstrap'', ''--admin-email='' @ email, ''--admin-password'', password] @
      (if ask then [] else [''--i=false'']) @ (if skip then [''--skip''] else [])) =
    Some \<lparr>bo_AdminEmail = email, bo_AdminPassword = password, bo_Interactive = ask, bo_Skip = skip\<rparr>"
proof -
  have d: "dropWhile (\<lambda>a. \<not> (a = ''--bootstrap'' \<or> a = ''bootstrap'')) (before @ ''--bootstrap'' # rest) = ''--bootstrap'' # rest" for rest
    using assms by (subst dropWhile_append2) auto
  have f: "flag_of (''--admin-email='' @ email) = Some (''admin-email'', Some email)"
    "flag_of ''--admin-password'' = Some (''admin-password'', None)"
    "flag_of ''--i=false'' = Some (''i'', Some ''false'')" "flag_of ''--skip'' = Some (''skip'', None)"
    using flag_of_long(1) [of "''admin-email''" email] flag_of_long(2) [of "''admin-password''"]
      flag_of_long(1) [of "''i''" "''false''"] flag_of_long(2) [of "''skip''"] by simp_all
  show ?thesis
    using d f unfolding ParseBootstrapFlags_def clean_args_id
    by (cases ask; cases skip) (simp_all add: bool_flags_def string_flags_def set_string_def set_bool_def ParseBool_def)
qed

subsection \<open>The environment file\<close>

text \<open>
  The process environment wins over the environment file, and the first line of the file that names a variable over later
  ones; lines that name none, with an empty name or with a NUL byte, count for nothing.
\<close>

theorem env_file_precedence:
  "load_env_file en data k =
     (case en k of
        Some v \<Rightarrow> Some v
      | None \<Rightarrow> map_of (filter (\<lambda>(k, v). k \<noteq> [] \<and> CHR ''='' \<notin> set k \<and> CHR 0x00 \<notin> set k \<and> CHR 0x00 \<notin> set v)
          (List.map_filter env_line (Split data (CHR 0x0A)))) k)"
  using load_env_file_keeps load_env_file_first by (auto split: option.split)

subsection \<open>A first start\<close>

definition demo_rand :: boot_rand where
  "demo_rand = \<lparr>br_tenant = Inr ''0123456789abcdef'', br_user = Inr ''fedcba9876543210'', br_password = Inr ''0123456789abcdef''\<rparr>"

definition demo_args :: "string list" where
  "demo_args = [''orvixpanel'', ''--bootstrap'', ''--admin-email=root@example.com'', ''--admin-password'', ''CorrectHorse1'']"

lemma demo_create:
  "\<exists>d'. createAdminUser run_auth 0 demo_rand email ''CorrectHorse1'' empty_database = (None, d')"
proof -
  have "ValidatePassword ''CorrectHorse1'' = None" by code_simp
  then show ?thesis
    by (simp add: createAdminUser_def HashPassword_def run_auth_def ensure_tenant_def mem_gorm_def mem_table_def Let_def
        empty_database_def split: sum.splits)
qed

lemma demo_empty: "db_users empty_database = []" "db_sessions empty_database = []"
  by (simp_all add: empty_database_def)

theorem bootstrap_flags_witness:
  "ParseBootstrapFlags demo_args =
    Some \<lparr>bo_AdminEmail = ''root@example.com'', bo_AdminPassword = ''CorrectHorse1'', bo_Interactive = True, bo_Skip = False\<rparr>"
  using bootstrap_flags [of "[''orvixpanel'']" "''root@example.com''" "''CorrectHorse1''" True False] by (simp add: demo_args_def)

lemma demo_flags:
  "ParseBootstrapFlags demo_args =
    Some \<lparr>bo_AdminEmail = ''root@example.com'', bo_AdminPassword = ''CorrectHorse1'', bo_Interactive = True, bo_Skip = False\<rparr>"
  by code_simp

lemma demo_wizard:
  "\<exists>d'. RunBootstrapWizard run_auth (\<lambda>k. None) 0 demo_rand [] [] demo_args empty_database = ((True, None), d')"
proof -
  obtain d' where c: "createAdminUser run_auth 0 demo_rand ''root@example.com'' ''CorrectHorse1'' empty_database = (None, d')"
    using demo_create by blast
  have v: "validateEmail ''root@example.com'' = None" "validatePassword ''CorrectHorse1'' = None" by code_simp+
  have n: "tCount (Users mem_gorm) (\<lambda>_. True) empty_database = Inr 0"
    by (simp add: mem_gorm_def mem_table_def empty_database_def sel_def)
  show ?thesis
    using c v n demo_flags by (simp add: RunBootstrapWizard_def bootstrapRootAdminWithCredentials_def)
qed


theorem admin_can_log_in_witness:
  "(\<exists>d' pair u d2. createAdminUser run_auth 0 demo_rand ''root@example.com'' ''CorrectHorse1'' empty_database = (None, d') \<and>
      Login run_auth 1 run_fresh ''root@example.com'' ''CorrectHorse1'' ''192.0.2.1'' d' = (Inr (pair, u), d2) \<and>
      u_Role u = ''root_admin'') \<and>
   (\<exists>d'. createAdminUser run_auth 0 demo_rand ''Root@example.com'' ''CorrectHorse1'' empty_database = (None, d') \<and>
      Login run_auth 1 run_fresh ''Root@example.com'' ''CorrectHorse1'' ''192.0.2.1'' d' = (Inl ErrInvalidCredentials, d'))"
proof -
  have e: "ToLower (TrimSpace ''root@example.com'') = ''root@example.com''" "ToLower ''Root@example.com'' \<noteq> ''Root@example.com''"
    by code_simp+
  have b: "bcrypt_gen run_auth (as_bcryptCost run_auth) p = Inr h \<Longrightarrow> bcrypt_ok run_auth h p" for p h
    by (simp add: run_auth_def)
  have f: "fr_rand run_fresh = Inr ''0123456789abcdef0123456789abcdef''" by (simp add: run_fresh_def)
  obtain d1 d2 where c: "createAdminUser run_auth 0 demo_rand ''root@example.com'' ''CorrectHorse1'' empty_database = (None, d1)"
    "createAdminUser run_auth 0 demo_rand ''Root@example.com'' ''CorrectHorse1'' empty_database = (None, d2)"
    using demo_create by blast
  show ?thesis
    using admin_can_log_in [OF mem_gorm_db_up run_auth_simps(1) _ c(1) b _ f, of 1 "''192.0.2.1''"]
      admin_can_log_in [OF mem_gorm_db_up run_auth_simps(1) _ c(2) b _ f, of 1 "''192.0.2.1''"] c e
    by (simp add: demo_empty)
qed

end
