(* ===== verification/Startup.thy ===== *)
theory Startup
  imports Bootstrap LicenseStore Vault Hosting Dns Middleware
begin

text \<open>
  The start of the program and its end: cmd/orvixpanel/main.go with internal/db/db.go and
  cmd/orvixpanel/runtime_dir_linux.go, and the small endpoints of internal/api/server.go. The state is the operating
  system, and the database once it is open.
\<close>

subsection \<open>What the program is given\<close>

text \<open>
  \<open>mc_ids\<close> looks up the UID and GID of a user as text; \<open>mc_open\<close>, \<open>mc_sqlDB\<close>, \<open>mc_ping\<close> and \<open>mc_migrate\<close> are the calls of the
  database library, \<open>mc_gorm\<close> its operations; \<open>mc_auth\<close> carries bcrypt, SHA-256 and the JWT library.
\<close>

record ('d, 'o, 'k) machine =
  mc_os :: "'o os"
  mc_ids :: "string \<Rightarrow> 'o \<Rightarrow> (string \<times> string) option"
  mc_chown :: "string \<Rightarrow> int \<Rightarrow> int \<Rightarrow> 'o \<Rightarrow> go_error option \<times> 'o"
  mc_now :: int
  mc_viper :: viper
  mc_secret :: "go_error + string"
  mc_verify :: "'k \<Rightarrow> string \<Rightarrow> string \<Rightarrow> bool"
  mc_ParseTime :: "string \<Rightarrow> string \<Rightarrow> go_error + int"
  mc_FormatTime :: "string \<Rightarrow> int \<Rightarrow> string"
  mc_open :: "string \<Rightarrow> go_error + 'd"
  mc_sqlDB :: "'d \<Rightarrow> go_error option"
  mc_ping :: "'d \<Rightarrow> go_error option"
  mc_migrate :: "'d \<Rightarrow> go_error option \<times> 'd"
  mc_gorm :: "'d gorm"
  mc_tf :: "int \<Rightarrow> go_error + string"
  mc_auth :: "'d auth"
  mc_rand :: boot_rand
  mc_aes :: "string \<Rightarrow> go_error + gcm"
  mc_license :: "string \<Rightarrow> go_error + license"
  mc_grants :: "string \<Rightarrow> go_error + grant list"
  mc_net :: pdns_net
  mc_order :: "string list \<Rightarrow> string list"
  mc_records :: "string \<Rightarrow> go_error + record_definition list"

text \<open>The packages read the environment as it is after the configuration was loaded.\<close>

definition env_of :: "('d, 'o, 'k) machine \<Rightarrow> environ \<Rightarrow> env" where
  "env_of M en = \<lparr>License.env.Getenv = os_Getenv en, ParseTime = mc_ParseTime M, FormatTime = mc_FormatTime M\<rparr>"

subsection \<open>The steps\<close>

definition ensureRuntimeDir :: "('d, 'o, 'k) machine \<Rightarrow> string \<Rightarrow> nat \<Rightarrow> string \<Rightarrow> 'o \<Rightarrow> go_error option \<times> 'o" where
  "ensureRuntimeDir M path mode owner s =
     (case MkdirAll (mc_os M) path mode s of
        (Some e, s1) \<Rightarrow> (Some (Errorf (''mkdir '' @ path @ '': '') e []), s1)
      | (None, s1) \<Rightarrow>
          (case mc_ids M owner s1 of
             None \<Rightarrow> (None, s1)
           | Some (uid, gid) \<Rightarrow>
               (case (ParseInt64 uid, ParseInt64 gid) of
                  (Inr u, Inr g) \<Rightarrow>
                    (case mc_chown M path u g s1 of
                       (Some e, s2) \<Rightarrow> (Some (Errorf (''chown '' @ path @ '': '') e []), s2)
                     | (None, s2) \<Rightarrow> (None, s2))
                | _ \<Rightarrow> (None, s1))))"

definition dev_fallback :: "env \<Rightarrow> license" where
  "dev_fallback en =
     \<lparr>lic_Tier = TierSMB, lic_MaxServers = 1, lic_ExpiresAt = expiry_override en 1735689600, lic_IssuedAt = 1704067200,
      lic_Features = TierFeatures TierSMB, lic_LicensedTo = [], lic_GraceDays = 7\<rparr>"

definition load_license :: "('d, 'o, 'k) machine \<Rightarrow> environ \<Rightarrow> string \<Rightarrow> go_error + license" where
  "load_license M en key =
     (case Parse (mc_verify M) (env_of M en) key of
        Inr lic \<Rightarrow> Inr lic
      | Inl e \<Rightarrow>
          if os_Getenv en ''ORVIX_ALLOW_DEV'' \<noteq> ''1'' then Inl (Errorf ''license: '' e [])
          else Inr (dev_fallback (env_of M en)))"

definition db_Open :: "('d, 'o, 'k) machine \<Rightarrow> db_config \<Rightarrow> go_error + 'd" where
  "db_Open M cfg =
     (if dc_Driver cfg \<noteq> ''sqlite'' then Inl (ErrNew (''v1.0 only supports sqlite; got '' @ go_quote (dc_Driver cfg)))
      else (case mc_open M (dc_DSN cfg @ ''?_journal_mode=WAL&_busy_timeout=5000&_foreign_keys=on'') of
         Inl e \<Rightarrow> Inl (Errorf ''gorm open: '' e [])
       | Inr d \<Rightarrow>
           (case mc_sqlDB M d of
              Some e \<Rightarrow> Inl (Errorf ''get *sql.DB: '' e [])
            | None \<Rightarrow> (case mc_ping M d of Some e \<Rightarrow> Inl (Errorf ''db ping: '' e []) | None \<Rightarrow> Inr d))))"

definition Migrate :: "('d, 'o, 'k) machine \<Rightarrow> 'd \<Rightarrow> go_error option \<times> 'd" where
  "Migrate M d =
     (case mc_migrate M d of (Some e, d') \<Rightarrow> (Some (Errorf ''automigrate: '' e []), d') | (None, d') \<Rightarrow> (None, d'))"

text \<open>The license store and the vault, when there is a master key; a license in the store replaces the current one.\<close>

definition open_stores :: "('d, 'o, 'k) machine \<Rightarrow> environ \<Rightarrow> 'd \<Rightarrow> license_state \<Rightarrow>
    go_error + 'd store option \<times> 'd vault option \<times> license_state" where
  "open_stores M en d L =
     (case MasterKeySource (as_sum256 (mc_auth M)) (env_of M en) of
        Inl e \<Rightarrow> Inr (None, None, L)
      | Inr key \<Rightarrow>
          (case NewStore (mc_aes M) (mc_license M) (mc_gorm M) key of
             Inl e \<Rightarrow> Inl (Errorf ''license store: '' e [])
           | Inr store \<Rightarrow>
               (case vault_New (mc_aes M) (mc_gorm M) key of
                  Inl e \<Rightarrow> Inl (Errorf ''vault: '' e [])
                | Inr v \<Rightarrow>
                    Inr (Some store, Some v,
                      case Load store d of Inr lic \<Rightarrow> SetGlobal (mc_now M) (Some lic) L | Inl e \<Rightarrow> L))))"

text \<open>The services handed to \<open>api.NewServer\<close>, with the shared state they start from.\<close>

record ('d, 'o) services =
  su_Config :: config
  su_API :: "'d api_deps"
  su_Store :: "'d store option"
  su_Vault :: "'d vault option"
  su_Quota :: "'d gorm"
  su_Hosting :: "'o hosting"
  su_DNS :: "'d dns"
  su_License :: license_state
  su_World :: "'d world"

definition auditor_of :: "('d, 'o, 'k) machine \<Rightarrow> 'd auditor" where
  "auditor_of M = \<lparr>au_gorm = mc_gorm M, au_sum = as_sum256 (mc_auth M), au_tf = mc_tf M\<rparr>"

definition auth_of :: "('d, 'o, 'k) machine \<Rightarrow> config \<Rightarrow> go_error + 'd auth" where
  "auth_of M cfg =
     auth_New ((mc_auth M)\<lparr>as_gorm := mc_gorm M\<rparr>) (sc_SecretKey (cf_Server cfg)) (ac_BcryptCost (cf_Auth cfg))
       (ac_AccessTokenTTL (cf_Auth cfg)) (ac_RefreshTokenTTL (cf_Auth cfg))"

definition hosting_of :: "('d, 'o, 'k) machine \<Rightarrow> environ \<Rightarrow> 'o hosting" where
  "hosting_of M en = NewService ((mc_os M)\<lparr>Os.os.Getenv := os_Getenv en\<rparr>)"

definition services_of :: "('d, 'o, 'k) machine \<Rightarrow> environ \<Rightarrow> config \<Rightarrow> 'd auth \<Rightarrow>
    'd store option \<times> 'd vault option \<times> license_state \<Rightarrow> 'd world \<Rightarrow> ('d, 'o) services" where
  "services_of M en cfg svc stores w =
     \<lparr>su_Config = cfg,
      su_API = \<lparr>ad_Auth = svc, ad_Audit = auditor_of M, ad_RBAC = \<lparr>rb_gorm = mc_gorm M, rb_Unmarshal = mc_grants M\<rparr>,
                ad_APIKeys = \<lparr>ks_gorm = mc_gorm M, ks_sum256 = as_sum256 (mc_auth M)\<rparr>\<rparr>,
      su_Store = fst stores, su_Vault = fst (snd stores), su_Quota = mc_gorm M, su_Hosting = hosting_of M en,
      su_DNS = dns_NewService (os_Getenv en) (mc_gorm M) (mc_net M) (mc_order M) (mc_records M),
      su_License = snd (snd stores), su_World = w\<rparr>"

text \<open>From the database on: \<open>d\<close> is the open database, \<open>L\<close> the license state.\<close>

definition run_services :: "('d, 'o, 'k) machine \<Rightarrow> environ \<Rightarrow> config \<Rightarrow> input \<Rightarrow> input \<Rightarrow> string list \<Rightarrow> license_state \<Rightarrow>
    'd \<Rightarrow> 'o \<Rightarrow> (go_error + ('d, 'o) services) \<times> 'd \<times> 'o" where
  "run_services M en cfg lines passwords args L d0 s =
     (case Migrate M d0 of (Some e, d1) \<Rightarrow> (Inl (Errorf ''migrate: '' e []), d1, s) | (None, d1) \<Rightarrow>
      (case New (auditor_of M) d1 of Inl e \<Rightarrow> (Inl (Errorf ''audit: '' e []), d1, s) | Inr w \<Rightarrow>
      (case auth_of M cfg of Inl e \<Rightarrow> (Inl (Errorf ''auth: '' e []), d1, s) | Inr svc \<Rightarrow>
      (case RunBootstrapWizard svc en (mc_now M) (mc_rand M) lines passwords args d1 of
         ((_, Some e), d2) \<Rightarrow> (Inl (Errorf ''bootstrap: '' e []), d2, s)
       | ((_, None), d2) \<Rightarrow>
      (case open_stores M en d2 L of Inl e \<Rightarrow> (Inl e, d2, s) | Inr stores \<Rightarrow>
         (Inr (services_of M en cfg svc stores (w\<lparr>wdb := d2\<rparr>)), d2, snd (EnsureDirs (hosting_of M en) s)))))))"

text \<open>\<open>run\<close>: the services or the error, the database if it was opened, and the operating system.\<close>

definition run :: "('d, 'o, 'k) machine \<Rightarrow> environ \<Rightarrow> input \<Rightarrow> input \<Rightarrow> string list \<Rightarrow> 'o \<Rightarrow>
    (go_error + ('d, 'o) services) \<times> 'd option \<times> 'o" where
  "run M en0 lines passwords args s0 =
     (let s = snd (ensureRuntimeDir M ''/run/orvixpanel'' 493 ''orvixpanel'' s0) in
      case config_Load (mc_viper M) (\<lambda>p. ReadFile (mc_os M) p s) (mc_secret M) en0 of
        (Inl e, en) \<Rightarrow> (Inl (Errorf ''load config: '' e []), None, s)
      | (Inr cfg, en) \<Rightarrow>
      (case load_license M en (lc_Key (cf_License cfg)) of Inl e \<Rightarrow> (Inl e, None, s) | Inr lic \<Rightarrow>
      (case db_Open M (cf_DB cfg) of Inl e \<Rightarrow> (Inl (Errorf ''open db: '' e []), None, s) | Inr d \<Rightarrow>
         (case run_services M en cfg lines passwords args (SetGlobal (mc_now M) (Some lic) license_init) d s of
            (r, d', s') \<Rightarrow> (r, Some d', s')))))"

subsection \<open>Serving, and the end of the program\<close>

text \<open>
  What the \<open>select\<close> of \<open>run\<close> receives while the server listens: a signal, or what \<open>Listen\<close> returned. The error of the
  shutdown that follows is only logged.
\<close>

datatype stop = Signal | Closed "go_error option"

definition ErrServerClosed :: go_error where
  "ErrServerClosed = ErrNew ''http: Server closed''"

definition listening :: "stop \<Rightarrow> go_error option" where
  "listening ev =
     (case ev of
        Signal \<Rightarrow> None
      | Closed None \<Rightarrow> None
      | Closed (Some e) \<Rightarrow> if errors_Is e ErrServerClosed then None else Some (Errorf ''http server: '' e []))"

text \<open>\<open>main\<close>: the exit code of the program, with its effects up to the moment it listens.\<close>

definition main :: "('d, 'o, 'k) machine \<Rightarrow> environ \<Rightarrow> input \<Rightarrow> input \<Rightarrow> string list \<Rightarrow> stop \<Rightarrow> 'o \<Rightarrow>
    nat \<times> 'd option \<times> 'o" where
  "main M en lines passwords args ev s0 =
     (case run M en lines passwords args s0 of
        (Inl e, d, s) \<Rightarrow> (1, d, s)
      | (Inr S, d, s) \<Rightarrow> (if listening ev = None then 0 else 1, d, s))"

subsection \<open>Small parts of the server\<close>

definition healthz :: "string reply" where
  "healthz = Reply 200 ''ok''"

definition readyz :: "('d, 'o, 'k) machine \<Rightarrow> 'd \<Rightarrow> string reply" where
  "readyz M d =
     (if mc_sqlDB M d \<noteq> None then Reply 503 ''db_unavailable''
      else if mc_ping M d \<noteq> None then Reply 503 ''db_unavailable'' else Reply 200 ''ready'')"

definition NotImplemented :: "string \<Rightarrow> 'b reply" where
  "NotImplemented name = Fail 501 (''phase_'' @ name @ ''_pending'')"

text \<open>The build information of the system endpoint.\<close>

definition BuildInfo :: "env \<Rightarrow> int \<Rightarrow> (string \<times> string) list" where
  "BuildInfo en now = [(''name'', ''OrvixPanel''), (''version'', ''1.0.0''), (''uptime_at'', FormatTime en timeRFC3339 now)]"

definition AdminSystem :: "env \<Rightarrow> int \<Rightarrow> (string \<times> string) list reply" where
  "AdminSystem en now = Reply 200 (BuildInfo en now)"

end
