(* ===== verification/StartupProps.thy ===== *)
theory StartupProps
  imports Startup BootstrapProps LicenseProps AccessProps
begin

text \<open>
  What a start of the program comes to: it is refused outside the development mode, a fresh panel starts locked, and the services
  of a panel that started are consistent.
\<close>

lemma Parse_refuses: "\<exists>e. Parse verify en key = Inl e"
  using ParseWithPublicKey_Inr [of verify en key None False] by (cases "Parse verify en key") (auto simp: Parse_def)

lemma load_license_dev:
  "load_license M en key =
     (if os_Getenv en ''ORVIX_ALLOW_DEV'' = ''1'' then Inr (dev_fallback (env_of M en))
      else Inl (Errorf ''license: '' (projl (Parse (mc_verify M) (env_of M en) key)) []))"
proof -
  obtain e where "Parse (mc_verify M) (env_of M en) key = Inl e" using Parse_refuses by blast
  then show ?thesis by (simp add: load_license_def)
qed

text \<open>What the environment is once the configuration was loaded.\<close>

definition started_env :: "('d, 'o, 'k) machine \<Rightarrow> environ \<Rightarrow> 'o \<Rightarrow> environ" where
  "started_env M en0 s0 =
     (let s = snd (ensureRuntimeDir M ''/run/orvixpanel'' 493 ''orvixpanel'' s0) in
      snd (config_Load (mc_viper M) (\<lambda>p. ReadFile (mc_os M) p s) (mc_secret M) en0))"

text \<open>
  C38: The panel starts only in the development mode. Without \<open>ORVIX_ALLOW_DEV=1\<close> in the environment or the environment file, no
  license key whatever is accepted: the program ends with an error of the configuration or of the license, before it opens the database,
  and its exit code is 1.
\<close>

theorem production_never_starts:
  assumes "os_Getenv (started_env M en0 s0) ''ORVIX_ALLOW_DEV'' \<noteq> ''1''"
  shows "\<exists>e s. run M en0 ls ps args s0 = (Inl e, None, s) \<and>
    (HasPrefix (err_text e) ''load config: '' \<or> HasPrefix (err_text e) ''license: '') \<and>
    main M en0 ls ps args ev s0 = (1, None, s)"
proof -
  let ?s = "snd (ensureRuntimeDir M ''/run/orvixpanel'' 493 ''orvixpanel'' s0)"
  obtain r en where l: "config_Load (mc_viper M) (\<lambda>p. ReadFile (mc_os M) p ?s) (mc_secret M) en0 = (r, en)" by fastforce
  then have "os_Getenv en ''ORVIX_ALLOW_DEV'' \<noteq> ''1''" using assms by (simp add: started_env_def Let_def)
  then show ?thesis using l
    by (cases r) (simp_all add: run_def main_def Let_def load_license_dev HasPrefix_def)
qed

text \<open>The steps of a successful start.\<close>

lemma run_services_ok:
  assumes "run_services M en cfg ls ps args L d0 s = (Inr S, d', s')"
  shows "\<exists>d1 w svc acted stores. mc_migrate M d0 = (None, d1) \<and> New (auditor_of M) d1 = Inr w \<and> auth_of M cfg = Inr svc \<and>
    RunBootstrapWizard svc en (mc_now M) (mc_rand M) ls ps args d1 = ((acted, None), d') \<and> open_stores M en d' L = Inr stores \<and>
    S = services_of M en cfg svc stores (w\<lparr>wdb := d'\<rparr>)"
proof -
  obtain m d1 where m: "mc_migrate M d0 = (m, d1)" by fastforce
  have [simp]: "m = None" using assms m by (cases m) (auto simp: run_services_def Migrate_def)
  obtain w where w: "New (auditor_of M) d1 = Inr w"
    using assms m by (cases "New (auditor_of M) d1") (auto simp: run_services_def Migrate_def)
  obtain svc where svc: "auth_of M cfg = Inr svc"
    using assms m w by (cases "auth_of M cfg") (auto simp: run_services_def Migrate_def)
  obtain acted e d2 where b: "RunBootstrapWizard svc en (mc_now M) (mc_rand M) ls ps args d1 = ((acted, e), d2)" by (metis surj_pair)
  have [simp]: "e = None" using assms m w svc b by (cases e) (auto simp: run_services_def Migrate_def)
  show ?thesis using assms m w svc b
    by (cases "open_stores M en d2 L") (auto simp: run_services_def Migrate_def)
qed

lemma run_ok:
  assumes "run M en0 ls ps args s0 = (Inr S, d, s')"
  shows "\<exists>cfg d0 d' s. os_Getenv (started_env M en0 s0) ''ORVIX_ALLOW_DEV'' = ''1'' \<and> d = Some d' \<and>
    run_services M (started_env M en0 s0) cfg ls ps args
      (SetGlobal (mc_now M) (Some (dev_fallback (env_of M (started_env M en0 s0)))) license_init) d0 s = (Inr S, d', s')"
proof -
  let ?s = "snd (ensureRuntimeDir M ''/run/orvixpanel'' 493 ''orvixpanel'' s0)"
  obtain r en where l: "config_Load (mc_viper M) (\<lambda>p. ReadFile (mc_os M) p ?s) (mc_secret M) en0 = (r, en)" by fastforce
  then have en: "started_env M en0 s0 = en" by (simp add: started_env_def Let_def)
  obtain cfg where cfg: "r = Inr cfg" using assms l by (cases r) (auto simp: run_def Let_def)
  have dev: "os_Getenv en ''ORVIX_ALLOW_DEV'' = ''1''"
    using assms l cfg by (auto simp: run_def Let_def load_license_dev split: if_splits)
  obtain d0 where d0: "db_Open M (cf_DB cfg) = Inr d0"
    using assms l cfg dev by (cases "db_Open M (cf_DB cfg)") (auto simp: run_def Let_def load_license_dev)
  show ?thesis unfolding en
    using assms l cfg dev d0 by (auto simp: run_def Let_def load_license_dev split: prod.splits)
qed

lemma open_stores_none:
  assumes "gorm_db (mc_gorm M) view" "open_stores M en d L = Inr (store, v, L')" "\<forall>x\<in>set (db_licenses (view d)). \<not> live x"
  shows "L' = L"
proof -
  have "\<exists>e. Load st d = Inl e" if "st_gorm st = mc_gorm M" for st
  proof (cases "tFirst (LicenseStores (mc_gorm M)) (\<lambda>r. ls_KeyID r = licenseStoreKeyID) d")
    case (Inl e)
    then show ?thesis using that by (simp add: Load_def)
  next
    case (Inr r)
    then show ?thesis using gorm_table.first_mem [OF gorm_db.axioms(10) [OF assms(1)]] assms(3) by blast
  qed
  moreover have "NewStore a u G k = Inr st \<Longrightarrow> st_gorm st = G" for a u k st and G :: "'a gorm"
    by (auto simp: NewStore_def split: sum.splits)
  ultimately show ?thesis using assms(2)
    by (fastforce simp: open_stores_def split: sum.splits)
qed

text \<open>The license of the development mode, with its 7 days of grace from the first of January 2025.\<close>

lemma dev_fallback_locked:
  assumes "License.Getenv en ''ORVIX_DEV_LICENSE_EXPIRES_AT'' = []" "1736294400 * Second \<le> now"
  shows "ModeAt (dev_fallback en) now = ModeLocked"
proof -
  have f: "lic_ExpiresAt (dev_fallback en) = 1735689600" "lic_GraceDays (dev_fallback en) = 7"
    using assms(1) by (simp_all add: dev_fallback_def expiry_override_def)
  then have p: "plain_license (dev_fallback en)" by (simp add: plain_license_def)
  show ?thesis using assms(2) unfolding ModeAt_def ExpiresAtTime_plain [OF p] GraceEndsAt_plain [OF p] f by simp
qed


text \<open>A successful run of the wizard: someone was there, he was skipped, or one was created.\<close>

lemma wizard_success:
  assumes "gorm_db G view" "as_gorm s = G" "RunBootstrapWizard s en now r ls ps args d = ((acted, None), d')"
  shows "(\<exists>u\<in>set (db_users (view d')). live u) \<or> (\<exists>opts. ParseBootstrapFlags args = Some opts \<and> bo_Skip opts)"
    "db_audit (view d') = db_audit (view d)"
proof -
  have created: "(\<exists>u\<in>set (db_users (view d')). live u) \<and> db_audit (view d') = db_audit (view d)"
    if "createAdminUser s now r email password d = (None, d')" for email password
    using createAdminUser_added [OF assms(1,2) that] first_admin_simps(1) by (fastforce simp: admin_added_def)
  have there: "\<exists>u\<in>set (db_users (view d)). live u" if "tCount (Users G) (\<lambda>_. True) d = Inr n" "0 < n" for n
    using gorm_table.count_ok [OF gorm_db.axioms(2) [OF assms(1)] that(1)] that(2)
    by (auto simp: sel_def dest!: filter_eq_ConsD simp: length_greater_0_conv filter_empty_conv)
  note w = wizard_cases [OF assms(3)]
  show "db_audit (view d') = db_audit (view d)" using w created by auto
  show "(\<exists>u\<in>set (db_users (view d')). live u) \<or> (\<exists>opts. ParseBootstrapFlags args = Some opts \<and> bo_Skip opts)"
  proof (cases "\<exists>email password. createAdminUser s now r email password d = (None, d')")
    case False
    then have "d' = d" "\<not> acted" using w by auto
    moreover obtain n where n: "tCount (Users G) (\<lambda>_. True) d = Inr n"
      using assms by (cases "tCount (Users G) (\<lambda>_. True) d") (auto simp: RunBootstrapWizard_def)
    moreover have "n = 0 \<Longrightarrow> \<exists>opts. ParseBootstrapFlags args = Some opts \<and> bo_Skip opts"
      using assms(2,3) n \<open>\<not> acted\<close> False
      by (auto simp: RunBootstrapWizard_def bootstrapRootAdminNonInteractive_def apfst_def map_prod_def
          split: option.splits if_splits prod.splits sum.splits)
    ultimately show ?thesis using there by (cases "n = 0") auto
  qed (use created in blast)
qed

text \<open>The database of a panel that started, from its migration on.\<close>

lemma start_facts:
  assumes "run M en0 ls ps args s0 = (Inr S, d, s')" "gorm_db (mc_gorm M) view"
  shows "\<exists>d0 d1 acted. mc_migrate M d0 = (None, d1) \<and> d = Some (wdb (su_World S)) \<and>
    RunBootstrapWizard (ad_Auth (su_API S)) (started_env M en0 s0) (mc_now M) (mc_rand M) ls ps args d1 = ((acted, None), wdb (su_World S)) \<and>
    as_gorm (ad_Auth (su_API S)) = mc_gorm M \<and> 32 \<le> length (as_secret (ad_Auth (su_API S))) \<and>
    api_deps.ad_Audit (su_API S) = auditor_of M \<and>
    (distinct (map ID (db_audit (view d1))) \<longrightarrow>
     chain_ok (as_sum256 (mc_auth M)) (mc_tf M) [] (audit_log (db_audit (view d1))) \<longrightarrow> audit_inv (auditor_of M) view (su_World S))"
proof -
  obtain cfg d0 d' s1 L where r: "run_services M (started_env M en0 s0) cfg ls ps args L d0 s1 = (Inr S, d', s')" and d: "d = Some d'"
    using run_ok [OF assms(1)] by blast
  obtain d1 w svc acted stores where st: "mc_migrate M d0 = (None, d1)" "New (auditor_of M) d1 = Inr w" "auth_of M cfg = Inr svc"
    "RunBootstrapWizard svc (started_env M en0 s0) (mc_now M) (mc_rand M) ls ps args d1 = ((acted, None), d')"
    "S = services_of M (started_env M en0 s0) cfg svc stores (w\<lparr>wdb := d'\<rparr>)"
    using run_services_ok [OF r] by blast
  have svc: "as_gorm svc = mc_gorm M" "32 \<le> length (as_secret svc)"
    using st(3) by (auto simp: auth_of_def auth_New_def Let_def split: if_splits)
  have a: "au_gorm (auditor_of M) = mc_gorm M" "au_sum (auditor_of M) = as_sum256 (mc_auth M)" "au_tf (auditor_of M) = mc_tf M"
    by (simp_all add: auditor_of_def)
  have au: "db_audit (view d') = db_audit (view d1)" using wizard_success(2) [OF assms(2) svc(1) st(4)] .
  have "audit_inv (auditor_of M) view (w\<lparr>wdb := d'\<rparr>)"
    if "distinct (map ID (db_audit (view d1)))" "chain_ok (as_sum256 (mc_auth M)) (mc_tf M) [] (audit_log (db_audit (view d1)))"
    using gorm_db.New_inv [OF assms(2) a(1) st(2) that(1)] that(2) au a by (auto simp: audit_inv_def)
  then show ?thesis using st svc d by (intro exI [of _ d0] exI [of _ d1] exI [of _ acted]) (simp add: services_of_def)
qed

text \<open>
  What holds of a panel that started. Its signing secret has at least 32 bytes, all services work on the one database, there
  is a user unless the bootstrap was skipped, and the auditor continues the chain the log has, so that the next record verifies.
\<close>

theorem startup_ready:
  assumes "run M en0 ls ps args s0 = (Inr S, d, s')" "gorm_db (mc_gorm M) view"
    and "\<And>d d1. mc_migrate M d = (None, d1) \<Longrightarrow> distinct (map ID (db_audit (view d1))) \<and>
      chain_ok (as_sum256 (mc_auth M)) (mc_tf M) [] (audit_log (db_audit (view d1)))"
  shows "32 \<le> length (as_secret (ad_Auth (su_API S))) \<and>
    as_gorm (ad_Auth (su_API S)) = mc_gorm M \<and> au_gorm (ad_Audit (su_API S)) = mc_gorm M \<and>
    d = Some (wdb (su_World S)) \<and>
    ((\<exists>u\<in>set (db_users (view (wdb (su_World S)))). live u) \<or> (\<exists>opts. ParseBootstrapFlags args = Some opts \<and> bo_Skip opts)) \<and>
    audit_inv (ad_Audit (su_API S)) view (su_World S)"
proof -
  obtain d0 d1 acted where f: "mc_migrate M d0 = (None, d1)" "d = Some (wdb (su_World S))"
    "RunBootstrapWizard (ad_Auth (su_API S)) (started_env M en0 s0) (mc_now M) (mc_rand M) ls ps args d1 = ((acted, None), wdb (su_World S))"
    "as_gorm (ad_Auth (su_API S)) = mc_gorm M" "32 \<le> length (as_secret (ad_Auth (su_API S)))" "ad_Audit (su_API S) = auditor_of M"
    "audit_inv (auditor_of M) view (su_World S)"
    using start_facts [OF assms(1,2)] assms(3) by blast
  then show ?thesis using wizard_success(1) [OF assms(2) f(4,3)] by (simp add: auditor_of_def)
qed

subsection \<open>A first start\<close>

text \<open>An empty machine on the first day the license of the development mode is expired and out of grace.\<close>

definition demo_config :: config where
  "demo_config =
     \<lparr>cf_Server = \<lparr>sc_BindAddr = ''0.0.0.0:8443'', sc_ExternalURL = [], sc_SecretKey = replicate 32 (CHR ''k''), sc_Debug = False,
        sc_ReadTimeout = 30 * Second, sc_WriteTimeout = 30 * Second\<rparr>,
      cf_License = \<lparr>lc_Key = [], lc_OfflineGraceDays = 7\<rparr>,
      cf_DB = \<lparr>dc_Driver = ''sqlite'', dc_DSN = ''/tmp/orvixpanel-test.db''\<rparr>,
      cf_Redis = \<lparr>rc_Addr = [], rc_Password = [], rc_DB = 0\<rparr>,
      cf_Auth = \<lparr>ac_AccessTokenTTL = 900 * Second, ac_RefreshTokenTTL = 86400 * Second, ac_MaxFailedLogins = 5,
        ac_LockoutDuration = 900 * Second, ac_BcryptCost = 12\<rparr>,
      cf_DNS = \<lparr>nc_Mode = ''local'', nc_PowerDNSURL = [], nc_PowerDNSAPIKey = [], nc_PowerDNSServer = ''localhost''\<rparr>\<rparr>"

definition demo_machine :: "(database, mem_os, unit) machine" where
  "demo_machine =
     \<lparr>mc_os = mem_os_ops, mc_ids = (\<lambda>_ _. None), mc_chown = (\<lambda>_ _ _ s. (None, s)), mc_now = 1736294400 * Second,
      mc_viper = \<lparr>ReadInConfig = (\<lambda>_ _. NotFound), Unmarshal = (\<lambda>_ _. Inr demo_config)\<rparr>,
      mc_secret = Inr (replicate 64 (CHR ''s'')), mc_verify = (\<lambda>_ _ _. False),
      mc_ParseTime = (\<lambda>_ _. Inl (ErrNew ''parsing time'')), mc_FormatTime = (\<lambda>_. string_of_int),
      mc_open = (\<lambda>_. Inr empty_database), mc_sqlDB = (\<lambda>_. None), mc_ping = (\<lambda>_. None),
      mc_migrate = (\<lambda>_. (None, empty_database)), mc_gorm = mem_gorm, mc_tf = (\<lambda>t. Inr (string_of_int t)), mc_auth = run_auth,
      mc_rand = demo_rand, mc_aes = (\<lambda>_. Inl (ErrNew ''crypto/aes: invalid key size'')),
      mc_license = (\<lambda>_. Inl (ErrNew ''unexpected end of JSON input'')), mc_grants = (\<lambda>_. Inr []),
      mc_net = \<lparr>NewRequest = (\<lambda>_. None), Do = (\<lambda>_ _. Inl (ErrNew ''connection refused''))\<rparr>,
      mc_order = sort, mc_records = (\<lambda>_. Inr [])\<rparr>"

definition demo_disk :: mem_os where
  "demo_disk = \<lparr>m_files = (\<lambda>_. None), m_users = []\<rparr>"

definition dev_environ :: environ where
  "dev_environ = [''ORVIX_ALLOW_DEV'' \<mapsto> ''1'']"

lemma demo_machine_simps [simp]:
  "mc_gorm demo_machine = mem_gorm" "mc_now demo_machine = 1736294400 * Second" "mc_auth demo_machine = run_auth"
  "mc_migrate demo_machine d = (None, empty_database)" "mc_rand demo_machine = demo_rand"
  by (simp_all add: demo_machine_def)

lemma demo_load:
  assumes "en ''ORVIX_ENV_FILE'' = None"
  shows "config_Load (mc_viper demo_machine)
      (\<lambda>p. ReadFile (mc_os demo_machine) p (snd (ensureRuntimeDir demo_machine ''/run/orvixpanel'' 493 ''orvixpanel'' demo_disk)))
      (mc_secret demo_machine) en = (applyDevDefaults en (mc_secret demo_machine) demo_config, en)"
  using assms
  by (simp add: ensureRuntimeDir_def demo_machine_def mem_os_ops_def demo_disk_def config_Load_def env_file_def os_Getenv_def Let_def)

lemma demo_env [simp]: "started_env demo_machine dev_environ demo_disk = dev_environ"
  by (simp add: started_env_def Let_def demo_load dev_environ_def)

theorem production_never_starts_witness:
  "\<exists>e s. run demo_machine (\<lambda>k. None) [] [] demo_args demo_disk = (Inl e, None, s) \<and>
    (HasPrefix (err_text e) ''load config: '' \<or> HasPrefix (err_text e) ''license: '') \<and>
    main demo_machine (\<lambda>k. None) [] [] demo_args Signal demo_disk = (1, None, s)"
  by (rule production_never_starts) (simp add: started_env_def Let_def demo_load os_Getenv_def)

lemma demo_wizard_start:
  "\<exists>d'. RunBootstrapWizard run_auth dev_environ now demo_rand [] [] demo_args empty_database = ((True, None), d') \<and>
    db_licenses d' = []"
proof -
  have p: "ValidatePassword ''CorrectHorse1'' = None" by code_simp
  then obtain d' where c: "createAdminUser run_auth now demo_rand ''root@example.com'' ''CorrectHorse1'' empty_database = (None, d')"
    "db_licenses d' = []"
    by (simp add: createAdminUser_def HashPassword_def run_auth_def ensure_tenant_def mem_gorm_def mem_table_def Let_def
        empty_database_def split: sum.splits)
  have v: "validateEmail ''root@example.com'' = None" "validatePassword ''CorrectHorse1'' = None" by code_simp+
  have n: "tCount (Users mem_gorm) (\<lambda>_. True) empty_database = Inr 0"
    by (simp add: mem_gorm_def mem_table_def empty_database_def sel_def)
  show ?thesis
    using c v n demo_flags by (simp add: RunBootstrapWizard_def bootstrapRootAdminWithCredentials_def)
qed

lemma demo_auth: "auth_of demo_machine demo_config = Inr run_auth"
  by (simp add: auth_of_def auth_New_def demo_config_def run_auth_def demo_machine_def)

lemma demo_run:
  "\<exists>S d s. run demo_machine dev_environ [] [] demo_args demo_disk = (Inr S, Some d, s) \<and>
    wdb (su_World S) = d \<and> db_licenses d = []"
proof -
  let ?s = "snd (ensureRuntimeDir demo_machine ''/run/orvixpanel'' 493 ''orvixpanel'' demo_disk)"
  let ?L = "SetGlobal (1736294400 * Second) (Some (dev_fallback (env_of demo_machine dev_environ))) license_init"
  obtain d' where w: "RunBootstrapWizard run_auth dev_environ (1736294400 * Second) demo_rand [] [] demo_args empty_database = ((True, None), d')"
    "db_licenses d' = []"
    using demo_wizard_start by blast
  have cfg: "applyDevDefaults dev_environ (mc_secret demo_machine) demo_config =
      Inr (demo_config\<lparr>cf_License := (cf_License demo_config)\<lparr>lc_Key := ''ORVIX-SMB-2025-DEV-DEVPLACE''\<rparr>\<rparr>)" (is "_ = Inr ?cfg")
    by (simp add: applyDevDefaults_def dev_environ_def os_Getenv_def demo_config_def)
  have db: "db_Open demo_machine (cf_DB ?cfg) = Inr empty_database" by (simp add: db_Open_def demo_config_def demo_machine_def)
  have au: "New (auditor_of demo_machine) empty_database = Inr \<lparr>wdb = empty_database, wcache = []\<rparr>"
    by (simp add: New_def auditor_of_def loadLastHash_def mem_gorm_def mem_table_def empty_database_def sel_def
        sort_by_def)
  have svc: "auth_of demo_machine ?cfg = Inr run_auth" using demo_auth by (simp add: auth_of_def demo_config_def)
  have st: "open_stores demo_machine dev_environ d' ?L = Inr (None, None, ?L)"
    by (simp add: open_stores_def MasterKeySource_def env_of_def os_Getenv_def dev_environ_def)
  have "\<exists>s'. run_services demo_machine dev_environ ?cfg [] [] demo_args ?L empty_database ?s =
      (Inr (services_of demo_machine dev_environ ?cfg run_auth (None, None, ?L) \<lparr>wdb = d', wcache = []\<rparr>), d', s')"
    using au svc w(1) st by (simp add: run_services_def Migrate_def)
  moreover have "load_license demo_machine dev_environ k = Inr (dev_fallback (env_of demo_machine dev_environ))" for k
    by (simp add: load_license_dev dev_environ_def os_Getenv_def)
  ultimately show ?thesis using cfg db w(2)
    by (auto simp: run_def Let_def demo_load dev_environ_def [THEN fun_cong] services_of_def split: prod.splits)
qed


theorem startup_ready_witness:
  "\<exists>S d s. run demo_machine dev_environ [] [] demo_args demo_disk = (Inr S, Some d, s) \<and>
    32 \<le> length (as_secret (ad_Auth (su_API S))) \<and> (\<exists>u\<in>set (db_users d). live u) \<and>
    audit_inv (ad_Audit (su_API S)) (\<lambda>d. d) (su_World S)"
proof -
  obtain S d s where r: "run demo_machine dev_environ [] [] demo_args demo_disk = (Inr S, Some d, s)" "wdb (su_World S) = d"
    using demo_run by blast
  have "\<not> (\<exists>opts. ParseBootstrapFlags demo_args = Some opts \<and> bo_Skip opts)" by (simp add: demo_flags)
  then show ?thesis
    using startup_ready [OF r(1), of "\<lambda>d. d"] r mem_gorm_db
    by (auto simp: empty_database_def audit_log_def sel_def)
qed

end
