(* ===== verification/Frontend.thy ===== *)
theory Frontend
  imports GoPath Os
begin

text \<open>
  Serving the user interface: internal/web/frontend.go. A request is its path; the answer is the file that is sent, with its
  cache header, or a text. Go's \<open>c.SendFile\<close> is the outcome \<open>SendFile\<close>, the current directory a parameter of \<open>filepath.Abs\<close>.
\<close>

datatype ui_reply = SendFile string "string option" | SendText nat string

definition not_built :: string where
  "not_built = ''OrvixPanel UI not built. Run `cd frontend && npm install && npm run build` '' @
     ''or set $ORVIX_WEB_DIR to the built dist directory.''"

definition is_dir :: "'o os \<Rightarrow> 'o \<Rightarrow> string \<Rightarrow> bool" where
  "is_dir X s p \<longleftrightarrow> Stat X p s = Inr Dir"

definition is_file :: "'o os \<Rightarrow> 'o \<Rightarrow> string \<Rightarrow> bool" where
  "is_file X s p = (case Stat X p s of Inl e \<Rightarrow> False | Inr n \<Rightarrow> n \<noteq> Dir)"

definition findDistDir :: "'o os \<Rightarrow> 'o \<Rightarrow> string option" where
  "findDistDir X s =
     (let v = Getenv X ''ORVIX_WEB_DIR'' in
      if v \<noteq> [] \<and> is_dir X s v then Some v
      else List.find (is_dir X s) [''./frontend/dist'', ''../frontend/dist'', ''./ui/dist''])"

definition isInside :: "string \<Rightarrow> string \<Rightarrow> bool" where
  "isInside parent child =
     (case path_Rel (Clean parent) (Clean child) of
        Inl e \<Rightarrow> False
      | Inr rel \<Rightarrow> if rel = ''.'' then True else \<not> HasPrefix rel ''..'')"

text \<open>\<open>filepath.Abs\<close>: \<open>cwd\<close> is what \<open>os.Getwd\<close> returned.\<close>

definition path_Abs :: "go_error + string \<Rightarrow> string \<Rightarrow> go_error + string" where
  "path_Abs cwd p =
     (if is_rooted p then Inr (Clean p)
      else (case cwd of Inl e \<Rightarrow> Inl e | Inr wd \<Rightarrow> Inr (path_Join [wd, p])))"

definition ui_root :: "go_error + string \<Rightarrow> string \<Rightarrow> string" where
  "ui_root cwd dir = (case path_Abs cwd dir of Inl e \<Rightarrow> dir | Inr p \<Rightarrow> p)"

definition assets_handler :: "'o os \<Rightarrow> 'o \<Rightarrow> string \<Rightarrow> string \<Rightarrow> ui_reply" where
  "assets_handler X s root path =
     (let full = path_Join [root, TrimPrefix path ''/''] in
      if \<not> isInside root full then SendText 400 ''bad path''
      else if is_file X s full then SendFile full (Some ''public, max-age=31536000, immutable'')
      else SendText 404 ''not found'')"

definition favicon_handler :: "string \<Rightarrow> ui_reply" where
  "favicon_handler root = SendFile (path_Join [root, ''favicon.svg'']) None"

definition spa_handler :: "'o os \<Rightarrow> 'o \<Rightarrow> string \<Rightarrow> string \<Rightarrow> ui_reply" where
  "spa_handler X s root path =
     (let rel0 = TrimPrefix path ''/''; rel = (if rel0 = [] then ''index.html'' else rel0);
          full = path_Join [root, rel]; idx = path_Join [root, ''index.html''] in
      if \<not> isInside root full then SendText 400 ''bad path''
      else if is_file X s full then SendFile full (Some ''no-cache'')
      else if \<not> isl (Stat X idx s) then SendFile idx (Some ''no-cache'')
      else SendText 404 ''OrvixPanel UI: index.html missing in dist'')"

text \<open>
  The routes: \<open>root\<close> is \<open>None\<close> when no UI was found at the start. \<open>under_assets\<close> is Fiber's match of a path with the prefix
  \<open>/assets\<close>, which takes every method; the others take GET, and HEAD with it. Other methods are not answered here.
\<close>

definition ui_route :: "'o os \<Rightarrow> 'o \<Rightarrow> (string \<Rightarrow> bool) \<Rightarrow> string option \<Rightarrow> string \<Rightarrow> string \<Rightarrow> ui_reply option" where
  "ui_route X s under_assets root meth path =
     (let get = (meth = ''GET'' \<or> meth = ''HEAD'') in
      case root of
        None \<Rightarrow> if get then Some (SendText 404 not_built) else None
      | Some r \<Rightarrow>
          if under_assets path then Some (assets_handler X s r path)
          else if get \<and> path = ''/favicon.svg'' then Some (favicon_handler r)
          else if get then Some (spa_handler X s r path)
          else None)"

definition RegisterRoutes :: "'o os \<Rightarrow> 'o \<Rightarrow> go_error + string \<Rightarrow> string option" where
  "RegisterRoutes X s cwd = map_option (ui_root cwd) (findDistDir X s)"

subsection \<open>Paths stay below the root\<close>

lemma clean_parts_rooted:
  "list_all plain stack \<Longrightarrow> \<forall>p\<in>set ps. CHR ''/'' \<notin> set p \<Longrightarrow> list_all plain (clean_parts True stack ps)"
proof (induction ps arbitrary: stack)
  case (Cons p ps)
  have "list_all plain (tl stack)" using Cons.prems(1) by (cases stack) simp_all
  moreover have "plain p" if "p \<noteq> []" "p \<noteq> ''.''" "p \<noteq> ''..''" using that Cons.prems(2) by (simp add: plain_def)
  ultimately show ?case using Cons by simp
qed simp

lemma Clean_rooted:
  assumes "is_rooted p"
  shows "Clean p = abs_path (path_parts p)" "list_all plain (path_parts p)"
proof -
  have "p \<noteq> []" using assms by (auto simp: is_rooted_def HasPrefix_def)
  then show "Clean p = abs_path (path_parts p)" using assms by (simp add: Clean_def abs_path_def)
  show "list_all plain (path_parts p)"
    using assms by (auto simp: path_parts_def intro!: clean_parts_rooted dest: Split_pieces_no_sep)
qed

lemma Split_sep: "Split (s @ c # t) c = Split s c @ Split t c"
  by (induction s) (auto split: list.splits)

lemma clean_parts_append:
  "clean_parts rooted stack (xs @ ys) = clean_parts rooted (rev (clean_parts rooted stack xs)) ys"
  by (induction xs arbitrary: stack) auto

text \<open>Joining plain elements to a clean absolute path, the root directory included.\<close>

lemma path_Join_names:
  assumes "list_all plain ds" "list_all plain es" "es \<noteq> []"
  shows "path_Join [abs_path ds, Join es ''/''] = abs_path (ds @ es)"
proof -
  let ?p = "abs_path ds @ CHR ''/'' # Join es ''/''"
  have r: "is_rooted ?p" by (simp add: is_rooted_def abs_path_def HasPrefix_def)
  have "Split (Join es ''/'') (CHR ''/'') = es" using assms by (intro Split_Join) (auto simp: list_all_iff plain_def)
  then have "path_parts ?p = clean_parts True (rev (path_parts (abs_path ds))) es"
    using r by (simp add: path_parts_def Split_sep clean_parts_append)
  also have "\<dots> = ds @ es" using assms by (simp add: path_parts_abs clean_parts_plain)
  finally show ?thesis using Clean_rooted(1) [OF r] by (simp add: path_Join_def abs_path_def)
qed

lemma HasPrefix_dots:
  assumes "list_all plain es" "es \<noteq> []"
  shows "HasPrefix (Join es ''/'') ''..'' \<longleftrightarrow> HasPrefix (hd es) ''..''"
proof -
  obtain e es' where es: "es = e # es'" "plain e" using assms by (cases es) auto
  then obtain c cs where e: "e = c # cs" by (cases e) (auto simp: plain_def)
  show ?thesis using es(1) e by (cases cs; cases es') (auto simp: HasPrefix_def Join_Cons)
qed

lemma path_Join_rooted:
  assumes "is_rooted p"
  obtains cs where "path_Join [p, q] = abs_path cs" "list_all plain cs"
proof -
  have "p \<noteq> []" "is_rooted (Join [p, q] ''/'')" using assms by (auto simp: is_rooted_def HasPrefix_iff)
  then show ?thesis using that Clean_rooted by (fastforce simp: path_Join_def)
qed

lemma strip_common_Nil: "strip_common ds cs = ([], ts) \<Longrightarrow> cs = ds @ ts"
  by (induction ds cs rule: strip_common.induct) (auto split: if_splits)

lemma strip_common_left: "strip_common ds cs = (b # bs, ts) \<Longrightarrow> b \<in> set ds"
  by (induction ds cs rule: strip_common.induct) (auto split: if_splits)

text \<open>\<open>isInside\<close> holds below the parent, but for a first element that starts with two dots.\<close>

lemma isInside_iff:
  assumes "list_all plain ds" "list_all plain cs"
  shows "isInside (abs_path ds) (abs_path cs) \<longleftrightarrow> (\<exists>ts. cs = ds @ ts \<and> \<not> HasPrefix (Join ts ''/'') ''..'')"
proof -
  have same: "abs_path ds = abs_path cs \<longleftrightarrow> ds = cs" using abs_path_inject assms by blast
  obtain bs ts where sc: "strip_common ds cs = (bs, ts)" by fastforce
  show ?thesis
  proof (cases bs)
    case Nil
    then have cs: "cs = ds @ ts" using strip_common_Nil sc by blast
    show ?thesis
    proof (cases "ts = []")
      case True
      then show ?thesis using cs assms by (simp add: isInside_def Clean_abs path_Rel_def HasPrefix_def)
    next
      case False
      then have "path_Rel (abs_path ds) (abs_path cs) = Inr (Join ts ''/'')"
        using path_Rel_below [of ds ts] assms cs by simp
      moreover have "\<not> HasPrefix ''.'' ''..''" by (simp add: HasPrefix_def)
      ultimately show ?thesis using assms cs by (auto simp: isInside_def Clean_abs)
    qed
  next
    case (Cons b bs')
    then have b: "b \<noteq> ''..''" using strip_common_left [of ds cs b bs' ts] sc assms(1) by (auto simp: list_all_iff plain_def)
    have ne: "\<nexists>ts. cs = ds @ ts" using sc Cons strip_common_prefix [of ds] by auto
    then have "ds \<noteq> cs" by auto
    then have "path_Rel (abs_path ds) (abs_path cs) = Inr (Join (map (\<lambda>x. ''..'') (b # bs') @ ts) ''/'')"
      using sc Cons b assms same by (simp add: path_Rel_def path_parts_abs Clean_abs)
    moreover have up: "HasPrefix (Join (''..'' # zs) ''/'') ''..''" for zs
      by (cases "zs = []") (simp_all add: Join_Cons HasPrefix_def)
    moreover have "Join (''..'' # zs) ''/'' \<noteq> ''.''" for zs
      using up [of zs] by (auto simp: HasPrefix_def)
    ultimately show ?thesis using ne assms by (simp add: isInside_def Clean_abs)
  qed
qed

lemma ui_root_abs:
  assumes "RegisterRoutes X s (Inr wd) = Some root" "is_rooted wd"
  obtains ds where "root = abs_path ds" "list_all plain ds"
proof -
  obtain dir where "root = ui_root (Inr wd) dir" using assms(1) by (auto simp: RegisterRoutes_def)
  then show ?thesis using that Clean_rooted [of dir] path_Join_rooted [OF assms(2), of dir]
    by (cases "is_rooted dir") (auto simp: ui_root_def path_Abs_def)
qed

text \<open>
  C40: No request leaves the directory of the user interface. Whatever the path of a request, with any number of \<open>..\<close> elements and
  any bytes, a file that is sent lies in that directory, found at the start as an absolute path; a path of plain elements is
  answered from the file of that name, if there is one, unless the first of them starts with two dots.
\<close>

theorem ui_no_traversal:
  assumes "RegisterRoutes X s (Inr wd) = Some root" "is_rooted wd"
  shows "\<exists>ds. root = abs_path ds \<and> list_all plain ds \<and>
    (\<forall>s' meth path f h. ui_route X s' under_assets (Some root) meth path = Some (SendFile f h) \<longrightarrow>
      (\<exists>rest. f = abs_path (ds @ rest) \<and> list_all plain rest)) \<and>
    (\<forall>s' es. es \<noteq> [] \<and> list_all plain es \<and> is_file X s' (abs_path (ds @ es)) \<longrightarrow>
      spa_handler X s' root (abs_path es) =
        (if HasPrefix (hd es) ''..'' then SendText 400 ''bad path'' else SendFile (abs_path (ds @ es)) (Some ''no-cache'')))"
proof -
  obtain ds where ds: "root = abs_path ds" "list_all plain ds" using ui_root_abs [OF assms] .
  have join: "\<exists>cs. path_Join [root, q] = abs_path cs \<and> list_all plain cs" for q
    using path_Join_rooted [of root q] ds(1) is_rooted_abs by metis
  have below: "\<exists>rest. path_Join [root, q] = abs_path (ds @ rest) \<and> list_all plain rest" if "isInside root (path_Join [root, q])" for q
  proof -
    obtain cs where cs: "path_Join [root, q] = abs_path cs" "list_all plain cs" using join by blast
    have "isInside (abs_path ds) (abs_path cs)" using \<open>isInside root _\<close> cs(1) ds(1) by simp
    then obtain ts where "cs = ds @ ts" using isInside_iff [OF ds(2) cs(2)] by blast
    with cs show ?thesis by (intro exI [of _ ts]) simp
  qed
  have name: "\<exists>rest. path_Join [root, q] = abs_path (ds @ rest) \<and> list_all plain rest" if "plain q" for q
    using path_Join_names [of ds "[q]"] that ds by (intro exI [of _ "[q]"]) simp
  have named: "plain ''favicon.svg''" "plain ''index.html''" by (simp_all add: plain_def)
  have sent: "\<exists>rest. f = abs_path (ds @ rest) \<and> list_all plain rest"
    if "ui_route X s' under_assets (Some root) meth path = Some (SendFile f h)" for s' meth path f h
  proof -
    have "f = path_Join [root, ''favicon.svg''] \<or> f = path_Join [root, ''index.html''] \<or>
        (\<exists>q. f = path_Join [root, q] \<and> isInside root (path_Join [root, q]))"
      using that by (auto simp: ui_route_def assets_handler_def favicon_handler_def spa_handler_def Let_def split: if_splits)
    then show ?thesis using below name [OF named(1)] name [OF named(2)] by blast
  qed
  have plain: "spa_handler X s' root (abs_path es) =
      (if HasPrefix (hd es) ''..'' then SendText 400 ''bad path'' else SendFile (abs_path (ds @ es)) (Some ''no-cache''))"
    if "es \<noteq> []" "list_all plain es" "is_file X s' (abs_path (ds @ es))" for s' es
  proof -
    have "Join es ''/'' \<noteq> []" using that(1,2) by (cases es) (auto simp: Join_Cons plain_def, cases "tl es", auto)
    moreover have "TrimPrefix (abs_path es) ''/'' = Join es ''/''" by (simp add: abs_path_def TrimPrefix_def HasPrefix_def)
    moreover have "isInside root (abs_path (ds @ es)) \<longleftrightarrow> \<not> HasPrefix (hd es) ''..''"
      using isInside_iff [of ds "ds @ es"] HasPrefix_dots [OF that(2,1)] ds that(2) by simp
    ultimately show ?thesis
      using path_Join_names [OF ds(2) that(2,1)] that(3) ds(1) by (simp add: spa_handler_def Let_def)
  qed
  show ?thesis using ds sent plain by blast
qed

definition demo_ui :: mem_os where
  "demo_ui = \<lparr>m_files = [''./frontend/dist'' \<mapsto> Dir, ''/opt/frontend/dist/logo.png'' \<mapsto> File ''x'',
     ''/opt/frontend/dist/index.html'' \<mapsto> File ''y'', ''/etc/passwd'' \<mapsto> File ''z''], m_users = []\<rparr>"

theorem ui_no_traversal_witness:
  "RegisterRoutes mem_os_ops demo_ui (Inr ''/opt'') = Some (abs_path [''opt'', ''frontend'', ''dist'']) \<and>
   spa_handler mem_os_ops demo_ui (abs_path [''opt'', ''frontend'', ''dist'']) (abs_path [''logo.png'']) =
     SendFile (abs_path [''opt'', ''frontend'', ''dist'', ''logo.png'']) (Some ''no-cache'') \<and>
   spa_handler mem_os_ops demo_ui (abs_path [''opt'', ''frontend'', ''dist'']) ''/../../../etc/passwd'' = SendText 400 ''bad path''"
proof -
  have reg: "RegisterRoutes mem_os_ops demo_ui (Inr ''/opt'') = Some (abs_path [''opt'', ''frontend'', ''dist''])" by code_simp
  have "is_rooted ''/opt''" by code_simp
  from ui_no_traversal [OF reg this, of "\<lambda>_. False"] obtain ds where ds: "abs_path [''opt'', ''frontend'', ''dist''] = abs_path ds"
    "list_all plain ds" and serve: "\<And>s' es. es \<noteq> [] \<Longrightarrow> list_all plain es \<Longrightarrow> is_file mem_os_ops s' (abs_path (ds @ es)) \<Longrightarrow>
      spa_handler mem_os_ops s' (abs_path [''opt'', ''frontend'', ''dist'']) (abs_path es) =
        (if HasPrefix (hd es) ''..'' then SendText 400 ''bad path'' else SendFile (abs_path (ds @ es)) (Some ''no-cache''))"
    by blast
  have "ds = [''opt'', ''frontend'', ''dist'']"
    using ds abs_path_inject [of ds "[''opt'', ''frontend'', ''dist'']"] by (simp add: plain_def)
  moreover have "is_file mem_os_ops demo_ui (abs_path [''opt'', ''frontend'', ''dist'', ''logo.png''])" by code_simp
  moreover have "\<not> HasPrefix ''logo.png'' ''..''" "list_all plain [''logo.png'']" by code_simp+
  ultimately have "spa_handler mem_os_ops demo_ui (abs_path [''opt'', ''frontend'', ''dist'']) (abs_path [''logo.png'']) =
     SendFile (abs_path [''opt'', ''frontend'', ''dist'', ''logo.png'']) (Some ''no-cache'')"
    using serve [of "[''logo.png'']" demo_ui] by simp
  moreover have "spa_handler mem_os_ops demo_ui (abs_path [''opt'', ''frontend'', ''dist'']) ''/../../../etc/passwd'' =
      SendText 400 ''bad path''" by code_simp
  ultimately show ?thesis using reg by blast
qed

end
