(* ===== verification/Tenancy.thy ===== *)
theory Tenancy
  imports Models
begin

text \<open>
  What of the database belongs to a tenant, and a relation between the database before and after an operation on behalf of a
  tenant: primary keys stay unique, no other tenant's rows change, and the audit log is not written. One locale gives it for every
  operation of a table; all tables are instances.
\<close>

subsection \<open>Rows of a tenant\<close>

text \<open>\<open>tid\<close> is the tenant of a row, if its table has one, \<open>core\<close> drops the columns anybody's request may touch.\<close>

definition rows_of :: "('a base_scheme \<Rightarrow> string option) \<Rightarrow> ('a base_scheme \<Rightarrow> 'c) \<Rightarrow> string \<Rightarrow> 'a base_scheme list \<Rightarrow> 'c list" where
  "rows_of tid core b rows = map core (filter (\<lambda>r. tid r = Some b) rows)"

definition frame :: "('a base_scheme \<Rightarrow> string option) \<Rightarrow> ('a base_scheme \<Rightarrow> 'c) \<Rightarrow> string option \<Rightarrow>
    'a base_scheme list \<Rightarrow> 'a base_scheme list \<Rightarrow> bool" where
  "frame tid core who rows rows' \<longleftrightarrow>
     (ids_ok rows \<longrightarrow> ids_ok rows' \<and> (\<forall>b. who \<noteq> Some b \<longrightarrow> rows_of tid core b rows' = rows_of tid core b rows))"

lemma frameI:
  "(ids_ok rows \<Longrightarrow> ids_ok rows') \<Longrightarrow>
   (\<And>b. ids_ok rows \<Longrightarrow> who \<noteq> Some b \<Longrightarrow> rows_of tid core b rows' = rows_of tid core b rows) \<Longrightarrow> frame tid core who rows rows'"
  by (simp add: frame_def)

lemma frame_refl [simp]: "frame tid core who rows rows"
  by (simp add: frame_def)

text \<open>A row of tenant \<open>who\<close>, or of none.\<close>

definition own :: "('a base_scheme \<Rightarrow> string option) \<Rightarrow> string option \<Rightarrow> 'a base_scheme \<Rightarrow> bool" where
  "own tid who r \<longleftrightarrow> tid r = None \<or> tid r = who"

lemma rows_of_own: "own tid who r \<Longrightarrow> who \<noteq> Some b \<Longrightarrow> tid r \<noteq> Some b"
  by (auto simp: own_def)

text \<open>Replacing rows one by one: an own row by an own row, or any row by one that differs in touchable columns only.\<close>

definition touched :: "('a base_scheme \<Rightarrow> string option) \<Rightarrow> ('a base_scheme \<Rightarrow> 'c) \<Rightarrow> string option \<Rightarrow>
    'a base_scheme \<Rightarrow> 'a base_scheme \<Rightarrow> bool" where
  "touched tid core who x y \<longleftrightarrow> (own tid who x \<and> own tid who y) \<or> (tid y = tid x \<and> core y = core x)"

lemma rows_of_map:
  assumes "who \<noteq> Some b" "\<forall>x\<in>set rows. touched tid core who x (f x)"
  shows "rows_of tid core b (map f rows) = rows_of tid core b rows"
  using assms(2)
proof (induction rows)
  case (Cons x rows)
  then have "touched tid core who x (f x)" by simp
  then show ?case using Cons rows_of_own [OF _ assms(1)] unfolding touched_def rows_of_def by auto
qed (simp add: rows_of_def)

lemma rows_of_filter:
  assumes "who \<noteq> Some b" "\<forall>x\<in>set rows. p x \<longrightarrow> own tid who x"
  shows "rows_of tid core b (purge_rows p rows) = rows_of tid core b rows"
  using assms(2)
proof (induction rows)
  case (Cons x rows)
  then have "p x \<Longrightarrow> tid x \<noteq> Some b" using rows_of_own [OF _ assms(1)] by auto
  then show ?case using Cons by (auto simp: rows_of_def purge_rows_def)
qed (simp add: rows_of_def purge_rows_def)

subsection \<open>The database\<close>

definition user_tid :: "user \<Rightarrow> string option" where "user_tid x = Some (u_TenantID x)"
definition account_tid :: "account \<Rightarrow> string option" where "account_tid x = Some (ac_TenantID x)"
definition key_tid :: "api_key \<Rightarrow> string option" where "key_tid x = Some (k_TenantID x)"
definition role_tid :: "custom_role \<Rightarrow> string option" where "role_tid x = Some (r_TenantID x)"
definition secret_tid :: "secret \<Rightarrow> string option" where "secret_tid x = Some (sec_TenantID x)"
definition quota_tid :: "tenant_quota \<Rightarrow> string option" where "quota_tid x = Some (q_TenantID x)"
definition zone_tid :: "dns_zone \<Rightarrow> string option" where "zone_tid x = Some (z_TenantID x)"
definition template_tid :: "dns_zone_template \<Rightarrow> string option" where "template_tid x = Some (tp_TenantID x)"

text \<open>A login changes the counters of a user, a request with an API key the last use of the key.\<close>

definition user_core :: "user \<Rightarrow> user" where
  "user_core x = x\<lparr>UpdatedAt := 0, u_FailedLogins := 0, u_LockedUntil := None, u_LastLoginAt := None, u_LastLoginIP := []\<rparr>"

definition key_core :: "api_key \<Rightarrow> api_key" where
  "key_core x = x\<lparr>UpdatedAt := 0, k_LastUsedAt := None, k_LastUsedIP := []\<rparr>"

record tenant_data =
  td_users :: "user list"
  td_accounts :: "account list"
  td_keys :: "api_key list"
  td_roles :: "custom_role list"
  td_secrets :: "secret list"
  td_quotas :: "tenant_quota list"
  td_zones :: "dns_zone list"
  td_templates :: "dns_zone_template list"

definition tenant_data :: "string \<Rightarrow> database \<Rightarrow> tenant_data" where
  "tenant_data b v =
     \<lparr>td_users = rows_of user_tid user_core b (db_users v), td_accounts = rows_of account_tid (\<lambda>x. x) b (db_accounts v),
      td_keys = rows_of key_tid key_core b (db_api_keys v), td_roles = rows_of role_tid (\<lambda>x. x) b (db_custom_roles v),
      td_secrets = rows_of secret_tid (\<lambda>x. x) b (db_secrets v), td_quotas = rows_of quota_tid (\<lambda>x. x) b (db_quotas v),
      td_zones = rows_of zone_tid (\<lambda>x. x) b (db_zones v), td_templates = rows_of template_tid (\<lambda>x. x) b (db_templates v)\<rparr>"

text \<open>Primary keys, of every table but the audit log, whose IDs the chain keeps in order.\<close>

definition keys_ok :: "database \<Rightarrow> bool" where
  "keys_ok v \<longleftrightarrow>
     ids_ok (db_tenants v) \<and> ids_ok (db_users v) \<and> ids_ok (db_sessions v) \<and> ids_ok (db_accounts v) \<and> ids_ok (db_api_keys v) \<and>
     ids_ok (db_custom_roles v) \<and> ids_ok (db_secrets v) \<and> ids_ok (db_quotas v) \<and> ids_ok (db_licenses v) \<and> ids_ok (db_zones v) \<and>
     ids_ok (db_records v) \<and> ids_ok (db_templates v)"

definition kept :: "string option \<Rightarrow> database \<Rightarrow> database \<Rightarrow> bool" where
  "kept who v v' \<longleftrightarrow> db_audit v' = db_audit v \<and>
     (keys_ok v \<longrightarrow> keys_ok v' \<and> (\<forall>b. who \<noteq> Some b \<longrightarrow> tenant_data b v' = tenant_data b v))"

lemma kept_refl [simp]: "kept who v v"
  by (simp add: kept_def)

lemma kept_trans: "kept who v1 v2 \<Longrightarrow> kept who v2 v3 \<Longrightarrow> kept who v1 v3"
  by (simp add: kept_def)

lemma kept_None: "kept None v v' \<Longrightarrow> kept who v v'"
  by (simp add: kept_def)

lemma kept_puts:
  "frame (\<lambda>_. None) core0 who (db_tenants v) tenants' \<Longrightarrow> kept who v (v\<lparr>db_tenants := tenants'\<rparr>)"
  "frame user_tid user_core who (db_users v) users' \<Longrightarrow> kept who v (v\<lparr>db_users := users'\<rparr>)"
  "frame (\<lambda>_. None) core1 who (db_sessions v) sessions' \<Longrightarrow> kept who v (v\<lparr>db_sessions := sessions'\<rparr>)"
  "frame account_tid (\<lambda>x. x) who (db_accounts v) accounts' \<Longrightarrow> kept who v (v\<lparr>db_accounts := accounts'\<rparr>)"
  "frame key_tid key_core who (db_api_keys v) keys' \<Longrightarrow> kept who v (v\<lparr>db_api_keys := keys'\<rparr>)"
  "frame role_tid (\<lambda>x. x) who (db_custom_roles v) roles' \<Longrightarrow> kept who v (v\<lparr>db_custom_roles := roles'\<rparr>)"
  "frame secret_tid (\<lambda>x. x) who (db_secrets v) secrets' \<Longrightarrow> kept who v (v\<lparr>db_secrets := secrets'\<rparr>)"
  "frame quota_tid (\<lambda>x. x) who (db_quotas v) quotas' \<Longrightarrow> kept who v (v\<lparr>db_quotas := quotas'\<rparr>)"
  "frame (\<lambda>_. None) core2 who (db_licenses v) licenses' \<Longrightarrow> kept who v (v\<lparr>db_licenses := licenses'\<rparr>)"
  "frame zone_tid (\<lambda>x. x) who (db_zones v) zones' \<Longrightarrow> kept who v (v\<lparr>db_zones := zones'\<rparr>)"
  "frame (\<lambda>_. None) core3 who (db_records v) records' \<Longrightarrow> kept who v (v\<lparr>db_records := records'\<rparr>)"
  "frame template_tid (\<lambda>x. x) who (db_templates v) templates' \<Longrightarrow> kept who v (v\<lparr>db_templates := templates'\<rparr>)"
  by (auto simp: kept_def frame_def keys_ok_def tenant_data_def)

subsection \<open>Operations of a table\<close>

locale kept_table = gorm_table T view get put dflt clash
  for T :: "('d, 'a base_scheme) table" and view :: "'d \<Rightarrow> database" and get put dflt clash +
  fixes tid :: "'a base_scheme \<Rightarrow> string option" and core :: "'a base_scheme \<Rightarrow> 'c"
  assumes clash_ID: "ID x = ID y \<Longrightarrow> clash x y"
    and tid_base: "base.more x = base.more y \<Longrightarrow> tid x = tid y"
    and tid_dflt: "tid (dflt r) = tid r"
    and put_kept: "frame tid core who (get v) rows \<Longrightarrow> kept who v (put rows v)"
begin

lemma own_base: "base.more x = base.more y \<Longrightarrow> own tid who x = own tid who y"
  using tid_base [of x y] by (simp add: own_def)

lemma create_kept:
  assumes "tCreate T now r d = (res, d')" "own tid who r"
  shows "kept who (view d) (view d')"
proof (cases res)
  case (Inl e)
  then show ?thesis using create_fail assms(1) by simp
next
  case (Inr r')
  note c = create_ok [OF assms(1) [unfolded Inr]]
  have "tid r' = tid r" using c tid_base [of "stamp now (dflt r)" "dflt r"] tid_dflt by simp
  then have "rows_of tid core b (get (view d) @ [r']) = rows_of tid core b (get (view d))" if "who \<noteq> Some b" for b
    using rows_of_own [OF assms(2) that] by (simp add: rows_of_def)
  moreover have "ids_ok (get (view d) @ [r'])" if "ids_ok (get (view d))"
  proof -
    have "\<forall>x\<in>set (get (view d)). ID x \<noteq> ID r'" using c clash_ID by blast
    then have "ID r' \<notin> set (map ID (get (view d)))" by (metis (no_types, lifting) imageE set_map)
    then show ?thesis using that by (simp add: ids_ok_def)
  qed
  ultimately have "frame tid core who (get (view d)) (get (view d) @ [r'])" by (intro frameI)
  then show ?thesis using c put_kept by simp
qed

lemma save_kept:
  assumes "tSave T now r d = (e, d')" "x \<in> set (get (view d))" "live x" "ID r = ID x"
    and "touched tid core who x (r\<lparr>UpdatedAt := now\<rparr>)"
  shows "kept who (view d) (view d')"
proof (cases e)
  case (Some err)
  then show ?thesis using save_fail assms(1) by simp
next
  case None
  have "first_row (\<lambda>y. ID y = ID r) (get (view d)) \<noteq> None" using assms(2-4) by (auto simp: first_row_None)
  note v = save_ok [OF assms(1) [unfolded None] this]
  have "touched tid core who y (if live y \<and> ID y = ID r then r\<lparr>UpdatedAt := now\<rparr> else y)"
    if "ids_ok (get (view d))" "y \<in> set (get (view d))" for y
    using ids_ok_unique [OF that(1) assms(2) that(2)] assms(4,5) by (auto simp: touched_def)
  then have "frame tid core who (get (view d)) (save_row now r (get (view d)))"
    unfolding frame_def save_row_def [symmetric] using ids_ok_save_row rows_of_map
    by (metis (no_types, lifting) save_row_def)
  then show ?thesis using v put_kept by simp
qed

lemma updates_kept:
  assumes "tUpdates T now p f d = (res, d')" "\<And>x. ID (f x) = ID x"
    and "\<And>x. ids_ok (get (view d)) \<Longrightarrow> x \<in> set (get (view d)) \<Longrightarrow> live x \<Longrightarrow> p x \<Longrightarrow> touched tid core who x ((f x)\<lparr>UpdatedAt := now\<rparr>)"
  shows "kept who (view d) (view d')"
proof (cases res)
  case (Inl e)
  then show ?thesis using updates_fail assms(1) by simp
next
  case (Inr n)
  have "frame tid core who (get (view d)) (upd_rows now p f (get (view d)))"
    using assms(2,3) by (intro frameI) (simp, auto simp: upd_rows_def touched_def intro!: rows_of_map)
  then show ?thesis using updates_ok [OF assms(1) [unfolded Inr]] put_kept by simp
qed

lemma delete_kept:
  assumes "tDelete T now p d = (res, d')"
    and "\<And>x. ids_ok (get (view d)) \<Longrightarrow> x \<in> set (get (view d)) \<Longrightarrow> live x \<Longrightarrow> p x \<Longrightarrow> own tid who x"
  shows "kept who (view d) (view d')"
proof (cases res)
  case (Inl e)
  then show ?thesis using delete_fail assms(1) by simp
next
  case (Inr n)
  have "own tid who (x\<lparr>DeletedAt := Some now\<rparr>) = own tid who x" for x by (rule own_base) simp
  then have "frame tid core who (get (view d)) (del_rows now p (get (view d)))"
    using assms(2) by (intro frameI) (simp, auto simp: del_rows_def touched_def intro!: rows_of_map)
  then show ?thesis using delete_ok [OF assms(1) [unfolded Inr]] put_kept by simp
qed

lemma purge_kept:
  assumes "tPurge T p d = (res, d')" "\<And>x. ids_ok (get (view d)) \<Longrightarrow> x \<in> set (get (view d)) \<Longrightarrow> p x \<Longrightarrow> own tid who x"
  shows "kept who (view d) (view d')"
proof (cases res)
  case (Inl e)
  then show ?thesis using purge_fail assms(1) by simp
next
  case (Inr n)
  have "ids_ok (get (view d)) \<Longrightarrow> ids_ok (purge_rows p (get (view d)))"
    by (simp add: ids_ok_def purge_rows_def distinct_map_filter)
  then have "frame tid core who (get (view d)) (purge_rows p (get (view d)))"
    using assms(2) by (intro frameI rows_of_filter) auto
  then show ?thesis using purge_ok [OF assms(1) [unfolded Inr]] put_kept by simp
qed

text \<open>What the services do after finding a row: save it, or delete the rows of its ID.\<close>

lemma first_save_kept:
  assumes "tFirst T p d = Inr x" "tSave T now r d = (e, d')" "ID r = ID x"
    and "p x \<Longrightarrow> touched tid core who x (r\<lparr>UpdatedAt := now\<rparr>)"
  shows "kept who (view d) (view d')"
  using save_kept [OF assms(2) first_mem(1,2) [OF assms(1)] assms(3)] assms(4) first_mem(3) [OF assms(1)] by blast

lemma first_own:
  assumes "tFirst T p d = Inr x" "p x \<Longrightarrow> own tid who x" "ids_ok (get (view d))" "y \<in> set (get (view d))" "ID y = ID x"
  shows "own tid who y"
  using ids_ok_unique [OF assms(3) first_mem(1) [OF assms(1)] assms(4,5)] assms(2) first_mem(3) [OF assms(1)] by simp

lemma first_delete_kept:
  assumes "tFirst T p d = Inr x" "tDelete T now (\<lambda>y. ID y = ID x) d1 = (res, d')" "get (view d1) = get (view d)"
    and "p x \<Longrightarrow> own tid who x"
  shows "kept who (view d1) (view d')"
  using assms(2) by (rule delete_kept) (use first_own [OF assms(1,4)] assms(3) in auto)

lemma first_purge_kept:
  assumes "tFirst T p d = Inr x" "tPurge T (\<lambda>y. ID y = ID x) d = (res, d')" "p x \<Longrightarrow> own tid who x"
  shows "kept who (view d) (view d')"
  using assms(2) by (rule purge_kept) (use first_own [OF assms(1,3)] in auto)

end

lemmas clash_defs = tenant_clash_def user_clash_def user_session_clash_def account_clash_def api_key_clash_def
  custom_role_clash_def secret_clash_def tenant_quota_clash_def license_store_clash_def dns_zone_clash_def
  dns_record_clash_def dns_zone_template_clash_def

lemmas tid_defs = user_tid_def account_tid_def key_tid_def role_tid_def secret_tid_def quota_tid_def zone_tid_def
  template_tid_def


subsection \<open>Every table of the database\<close>

lemma tenant_columns:
  "base.more x0 = base.more y0 \<Longrightarrow> u_TenantID (x0 :: user) = u_TenantID y0"
  "base.more x1 = base.more y1 \<Longrightarrow> ac_TenantID (x1 :: account) = ac_TenantID y1"
  "base.more x2 = base.more y2 \<Longrightarrow> k_TenantID (x2 :: api_key) = k_TenantID y2"
  "base.more x3 = base.more y3 \<Longrightarrow> r_TenantID (x3 :: custom_role) = r_TenantID y3"
  "base.more x4 = base.more y4 \<Longrightarrow> sec_TenantID (x4 :: secret) = sec_TenantID y4"
  "base.more x5 = base.more y5 \<Longrightarrow> q_TenantID (x5 :: tenant_quota) = q_TenantID y5"
  "base.more x6 = base.more y6 \<Longrightarrow> z_TenantID (x6 :: dns_zone) = z_TenantID y6"
  "base.more x7 = base.more y7 \<Longrightarrow> tp_TenantID (x7 :: dns_zone_template) = tp_TenantID y7"
proof -
  show "base.more x0 = base.more y0 \<Longrightarrow> u_TenantID x0 = u_TenantID y0" by (cases x0; cases y0) simp
  show "base.more x1 = base.more y1 \<Longrightarrow> ac_TenantID x1 = ac_TenantID y1" by (cases x1; cases y1) simp
  show "base.more x2 = base.more y2 \<Longrightarrow> k_TenantID x2 = k_TenantID y2" by (cases x2; cases y2) simp
  show "base.more x3 = base.more y3 \<Longrightarrow> r_TenantID x3 = r_TenantID y3" by (cases x3; cases y3) simp
  show "base.more x4 = base.more y4 \<Longrightarrow> sec_TenantID x4 = sec_TenantID y4" by (cases x4; cases y4) simp
  show "base.more x5 = base.more y5 \<Longrightarrow> q_TenantID x5 = q_TenantID y5" by (cases x5; cases y5) simp
  show "base.more x6 = base.more y6 \<Longrightarrow> z_TenantID x6 = z_TenantID y6" by (cases x6; cases y6) simp
  show "base.more x7 = base.more y7 \<Longrightarrow> tp_TenantID x7 = tp_TenantID y7" by (cases x7; cases y7) simp
qed

sublocale gorm_db \<subseteq> k_tenant: kept_table "Tenants G" view db_tenants "\<lambda>xs v. v\<lparr>db_tenants := xs\<rparr>" tenant_defaults tenant_clash
  "\<lambda>_. None" "\<lambda>x. x"
  by unfold_locales (auto simp: clash_defs intro: kept_puts)

sublocale gorm_db \<subseteq> k_user: kept_table "Users G" view db_users "\<lambda>xs v. v\<lparr>db_users := xs\<rparr>" user_defaults user_clash
  user_tid user_core
  by unfold_locales (auto simp: clash_defs tid_defs intro: kept_puts tenant_columns)

sublocale gorm_db \<subseteq> k_session: kept_table "Sessions G" view db_sessions "\<lambda>xs v. v\<lparr>db_sessions := xs\<rparr>" user_session_defaults user_session_clash
  "\<lambda>_. None" "\<lambda>x. x"
  by unfold_locales (auto simp: clash_defs tid_defs intro: kept_puts tenant_columns)

sublocale gorm_db \<subseteq> k_account: kept_table "Accounts G" view db_accounts "\<lambda>xs v. v\<lparr>db_accounts := xs\<rparr>" account_defaults account_clash
  account_tid "\<lambda>x. x"
  by unfold_locales (auto simp: clash_defs tid_defs intro: kept_puts tenant_columns)

sublocale gorm_db \<subseteq> k_key: kept_table "APIKeys G" view db_api_keys "\<lambda>xs v. v\<lparr>db_api_keys := xs\<rparr>" api_key_defaults api_key_clash
  key_tid key_core
  by unfold_locales (auto simp: clash_defs tid_defs intro: kept_puts tenant_columns)

sublocale gorm_db \<subseteq> k_role: kept_table "CustomRoles G" view db_custom_roles "\<lambda>xs v. v\<lparr>db_custom_roles := xs\<rparr>" custom_role_defaults custom_role_clash
  role_tid "\<lambda>x. x"
  by unfold_locales (auto simp: clash_defs tid_defs intro: kept_puts tenant_columns)

sublocale gorm_db \<subseteq> k_secret: kept_table "Secrets G" view db_secrets "\<lambda>xs v. v\<lparr>db_secrets := xs\<rparr>" secret_defaults secret_clash
  secret_tid "\<lambda>x. x"
  by unfold_locales (auto simp: clash_defs tid_defs intro: kept_puts tenant_columns)

sublocale gorm_db \<subseteq> k_quota: kept_table "TenantQuotas G" view db_quotas "\<lambda>xs v. v\<lparr>db_quotas := xs\<rparr>" tenant_quota_defaults tenant_quota_clash
  quota_tid "\<lambda>x. x"
  by unfold_locales (auto simp: clash_defs tid_defs intro: kept_puts tenant_columns)

sublocale gorm_db \<subseteq> k_license: kept_table "LicenseStores G" view db_licenses "\<lambda>xs v. v\<lparr>db_licenses := xs\<rparr>" license_store_defaults license_store_clash
  "\<lambda>_. None" "\<lambda>x. x"
  by unfold_locales (auto simp: clash_defs tid_defs intro: kept_puts tenant_columns)

sublocale gorm_db \<subseteq> k_zone: kept_table "DNSZones G" view db_zones "\<lambda>xs v. v\<lparr>db_zones := xs\<rparr>" dns_zone_defaults dns_zone_clash
  zone_tid "\<lambda>x. x"
  by unfold_locales (auto simp: clash_defs tid_defs intro: kept_puts tenant_columns)

sublocale gorm_db \<subseteq> k_record: kept_table "DNSRecords G" view db_records "\<lambda>xs v. v\<lparr>db_records := xs\<rparr>" dns_record_defaults dns_record_clash
  "\<lambda>_. None" "\<lambda>x. x"
  by unfold_locales (auto simp: clash_defs tid_defs intro: kept_puts tenant_columns)

sublocale gorm_db \<subseteq> k_template: kept_table "DNSTemplates G" view db_templates "\<lambda>xs v. v\<lparr>db_templates := xs\<rparr>" dns_zone_template_defaults dns_zone_template_clash
  template_tid "\<lambda>x. x"
  by unfold_locales (auto simp: clash_defs tid_defs intro: kept_puts tenant_columns)

end
