(* ===== verification/Isolation.thy ===== *)
theory Isolation
  imports Startup RbacHandlers HostingHandlers DnsHandlers Tenancy DnsProps
begin

text \<open>
  Every operation of a service keeps to the tenant it is called for: it is \<open>kept\<close> for that tenant.
\<close>

subsection \<open>Operations of the services\<close>

lemmas kept_simps = own_def touched_def tid_defs

context gorm_db
begin

lemma quota_Get_kept: "quota_Get G now newid t tier d = (r, d') \<Longrightarrow> kept (Some t) (view d) (view d')"
  by (auto simp: quota_Get_def Let_def kept_simps copy_limits_def quota_row_def split: if_splits sum.splits prod.splits
      intro!: k_quota.create_kept)

lemma quota_Put_kept: "quota_Put G now newid q d = (e, q', d') \<Longrightarrow> kept (Some (q_TenantID q)) (view d) (view d')"
  by (auto simp: quota_Put_def kept_simps copy_limits_def split: if_splits sum.splits prod.splits
      intro: k_quota.create_kept k_quota.first_save_kept)

lemma quota_Check_kept: "quota_Check G now newid t res d = (r, d') \<Longrightarrow> kept (Some t) (view d) (view d')"
  using quota_Get_kept by (auto simp: quota_Check_def split: sum.splits prod.splits)

lemma vault_Put_kept:
  assumes [simp]: "va_gorm v = G" and "vault_Put v now newid nonce t n p a d = (r, d')"
  shows "kept (Some t) (view d) (view d')"
  using assms(2)
  by (auto simp: vault_Put_def Let_def kept_simps secret_row_def rotated_def is_secret_def
      split: if_splits sum.splits prod.splits option.splits intro: k_secret.create_kept k_secret.first_save_kept)

lemma vault_Delete_kept:
  assumes [simp]: "va_gorm v = G" and "vault_Delete v now t n d = (e, d')"
  shows "kept (Some t) (view d) (view d')"
  using assms(2)
  by (auto simp: vault_Delete_def kept_simps is_secret_def split: if_splits sum.splits prod.splits intro!: k_secret.delete_kept)

lemma role_Create_kept:
  assumes [simp]: "rb_gorm S = G" and "role_Create S now newid t n descr perms d = (r, d')"
  shows "kept (Some t) (view d) (view d')"
  using assms(2)
  by (auto simp: role_Create_def kept_simps role_row_def split: if_splits sum.splits prod.splits option.splits
      intro!: k_role.create_kept)

lemma role_Update_kept:
  assumes [simp]: "rb_gorm S = G" and "role_Update S now t n descr perms d = (e, d')"
  shows "kept (Some t) (view d) (view d')"
  using assms(2)
  by (auto simp: role_Update_def role_Get_def kept_simps is_role_def split: if_splits sum.splits elim!: k_role.first_save_kept)

lemma role_Delete_kept:
  assumes [simp]: "rb_gorm S = G" and "role_Delete S now t n d = (e, d')"
  shows "kept (Some t) (view d) (view d')"
  using assms(2)
  by (auto simp: role_Delete_def role_Get_def kept_simps is_role_def split: if_splits sum.splits prod.splits
      elim!: k_role.first_delete_kept)

lemma key_Create_kept:
  assumes [simp]: "ks_gorm S = G" and "key_Create S now newid r1 r2 t by req d = (r, d')"
  shows "kept (Some t) (view d) (view d')"
  using assms(2)
  by (auto simp: key_Create_def kept_simps key_row_def split: if_splits sum.splits prod.splits intro!: k_key.create_kept)

lemma key_Revoke_kept:
  assumes [simp]: "ks_gorm S = G" and "key_Revoke S now t i reason d = (e, d')"
  shows "kept (Some t) (view d) (view d')"
  using assms(2)
  by (auto simp: key_Revoke_def kept_simps split: if_splits sum.splits prod.splits elim!: k_key.updates_kept)

lemma key_Verify_kept: "ks_gorm S = G \<Longrightarrow> key_Verify S now key ip d = (r, d') \<Longrightarrow> kept None (view d) (view d')"
proof -
  have "kept None (view d) (view (snd (tUpdates (APIKeys G) now p (\<lambda>k. k\<lparr>k_LastUsedAt := a, k_LastUsedIP := b\<rparr>) d)))" for p a b
    by (rule k_key.updates_kept [OF surjective_pairing]) (simp_all add: kept_simps key_core_def)
  then show "ks_gorm S = G \<Longrightarrow> key_Verify S now key ip d = (r, d') \<Longrightarrow> ?thesis"
    by (auto simp: key_Verify_def Let_def split: if_splits sum.splits)
qed

lemma license_Save_kept:
  assumes [simp]: "st_gorm S = G" and "Save S now newid nonce lic by d = (e, d')"
  shows "kept who (view d) (view d')"
proof -
  have del: "kept who (view d) (view d1)" if "tDelete (LicenseStores G) now p d = (r, d1)" for p r d1
    using that by (rule k_license.delete_kept) (simp add: kept_simps)
  have create: "kept who (view d1) (view d2)" if "tCreate (LicenseStores G) now row d1 = (r, d2)" for row d1 r d2
    using that by (rule k_license.create_kept) (simp add: kept_simps)
  show ?thesis
    using assms(2) by (auto simp: Save_def Let_def split: option.splits sum.splits prod.splits dest!: del create intro: kept_trans)
qed

subsection \<open>Sessions\<close>

lemma issueTokens_kept:
  assumes [simp]: "as_gorm s = G" and "issueTokens s now f u ip ua d = (r, d')"
  shows "kept None (view d) (view d')"
  using assms(2)
  by (auto simp: issueTokens_def kept_simps split: sum.splits prod.splits intro!: k_session.create_kept)

lemma Login_kept:
  assumes [simp]: "as_gorm s = G" and "Login s now f email p ip d = (r, d')"
  shows "kept None (view d) (view d')"
proof -
  have save: "kept None (view d) (view (snd (tSave (Users G) now u' d)))"
    if "tFirst (Users G) q d = Inr u" "u' \<in> {after_failure now u, after_success now ip u}" for q u u'
    using that(1) by (rule k_user.first_save_kept [OF _ surjective_pairing])
      (use that(2) in \<open>auto simp: kept_simps user_core_def after_failure_def after_success_def Let_def\<close>)
  show ?thesis
  proof (cases "tFirst (Users G) (\<lambda>u. u_Email u = ToLower (TrimSpace email)) d")
    case (Inl err)
    then show ?thesis using assms(2) by (auto simp: Login_def Let_def)
  next
    case (Inr u)
    let ?d1 = "snd (tSave (Users G) now (after_success now ip u) d)"
    obtain x d2 where i: "issueTokens s now f (after_success now ip u) ip [] ?d1 = (x, d2)" by fastforce
    have "kept None (view d) (view d2)"
      using kept_trans [OF save [OF Inr] issueTokens_kept [OF assms(1) i]] by simp
    then show ?thesis
      using assms(2) Inr i save [OF Inr] by (auto simp: Login_def Let_def split: if_splits sum.splits)
  qed
qed

lemma Refresh_kept:
  assumes [simp]: "as_gorm s = G" and "Refresh s now f tok ip d = (r, d')"
  shows "kept None (view d) (view d')"
proof -
  have save: "kept None (view d) (view d1)"
    if "tFirst (Sessions G) q d = Inr x" "tSave (Sessions G) now (x\<lparr>s_RevokedAt := a, s_RevokeReason := b\<rparr>) d = (e, d1)" for q x a b e d1
    using that by (rule k_session.first_save_kept) (simp_all add: kept_simps)
  have issue: "kept None (view d1) (view d2)" if "issueTokens s now f u ip [] d1 = (x, d2)" for u d1 x d2
    using issueTokens_kept [OF assms(1) that] .
  show ?thesis
    using assms(2) by (auto simp: Refresh_def Let_def split: if_splits sum.splits prod.splits option.splits dest!: save issue
        intro: kept_trans)
qed

lemma Logout_kept:
  assumes [simp]: "as_gorm s = G" and "Logout s now cl d = (e, d')"
  shows "kept None (view d) (view d')"
  using assms(2)
  by (auto simp: Logout_def kept_simps split: option.splits if_splits sum.splits prod.splits elim!: k_session.updates_kept)

subsection \<open>The DNS service\<close>

lemma dns_CreateZone_kept:
  assumes [simp]: "dn_gorm S = G" and "dns_CreateZone S now newid i (d, sent) = (r, d', sent')"
  shows "kept (Some (zi_TenantID i)) (view d) (view d')"
proof -
  have create: "kept (Some (zi_TenantID i)) (view d1) (view d2)"
    if "tCreate (DNSZones G) now (zone_row newid i) d1 = (x, d2)" for x d1 d2
    using that by (rule k_zone.create_kept) (simp add: kept_simps zone_row_def)
  note tx = begin_ok commit_ok commit_fail
  show ?thesis
    using assms(2)
    by (auto simp: dns_CreateZone_def Let_def rollback_view split: if_splits sum.splits prod.splits option.splits
        dest!: create tx)
qed

lemma dns_UpdateZone_kept:
  assumes [simp]: "dn_gorm S = G" and "dns_UpdateZone S now zid m d = (r, d')"
    and "dns_GetZone S zid d = Inr z" "z_TenantID z = t"
  shows "kept (Some t) (view d) (view d')"
proof -
  have z: "tFirst (DNSZones G) (\<lambda>z. ID z = zid) d = Inr z"
    using assms(3) by (auto simp: dns_GetZone_def split: sum.splits)
  have "kept (Some t) (view d) (view d2)" if "tSave (DNSZones G) now (zone_updates m z) d = (e, d2)" for e d2
    using z that by (rule k_zone.first_save_kept) (simp_all add: kept_simps assms(4))
  then show ?thesis using assms(2) z by (auto simp: dns_UpdateZone_def Let_def split: prod.splits option.splits)
qed

lemma dns_DeleteZone_kept:
  assumes [simp]: "dn_gorm S = G" and "dns_DeleteZone S now zid (d, sent) = (e, d', sent')"
    and "dns_GetZone S zid d = Inr z" "z_TenantID z = t"
  shows "kept (Some t) (view d) (view d')"
proof -
  have z: "tFirst (DNSZones G) (\<lambda>z. ID z = zid) d = Inr z"
    using assms(3) by (auto simp: dns_GetZone_def split: sum.splits)
  have recs: "kept (Some t) (view d1) (view d2) \<and> db_zones (view d2) = db_zones (view d1)"
    if "tDelete (DNSRecords G) now p d1 = (x, d2)" for p x d1 d2
    using k_record.delete_kept [OF that] dns_record.delete_ok [of now p d1 _ d2] dns_record.delete_fail [of now p d1 _ d2] that
    by (cases x) (auto simp: kept_simps)
  have zones: "kept (Some t) (view d1) (view d2)"
    if "tDelete (DNSZones G) now (\<lambda>y. ID y = ID z) d1 = (x, d2)" "db_zones (view d1) = db_zones (view d)" for x d1 d2
    using z that by (rule k_zone.first_delete_kept) (simp add: kept_simps assms(4))
  have both: "kept (Some t) (view d) (view d3)"
    if "view d0 = view d" "tDelete (DNSRecords G) now p d0 = (x, d2)" "tDelete (DNSZones G) now (\<lambda>y. ID y = ID z) d2 = (y, d3)" for p d0 x d2 y d3
    using kept_trans [OF _ zones [OF that(3)]] recs [OF that(2)] that(1) by simp
  show ?thesis
  proof (cases "IsPowerDNSEnabled S")
    case False
    then show ?thesis using assms(2) z recs both [OF refl]
      by (auto simp: dns_DeleteZone_def Let_def split: sum.splits prod.splits)
  next
    case True
    then show ?thesis using assms(2) z both [OF begin_ok]
      by (auto simp: dns_DeleteZone_def Let_def rollback_view split: sum.splits prod.splits option.splits
          dest!: commit_ok commit_fail)
  qed
qed

lemma syncRecord_same: "syncRecordToPowerDNS S z (d, sent) = (d', sent') \<Longrightarrow> d' = d"
  using syncRecord_db [of S z d sent] by simp

lemma dns_CreateRecord_kept:
  assumes [simp]: "dn_gorm S = G" and "dns_CreateRecord S now newid i (d, sent) = (r, d', sent')"
  shows "kept who (view d) (view d')"
  using assms(2) by (auto simp: dns_CreateRecord_def kept_simps split: sum.splits prod.splits option.splits
      dest!: syncRecord_same intro!: k_record.create_kept)

lemma dns_UpdateRecord_kept:
  assumes [simp]: "dn_gorm S = G" and "dns_UpdateRecord S now i m (d, sent) = (r, d', sent')"
  shows "kept who (view d) (view d')"
proof -
  have "kept who (view d) (view d2)"
    if "tFirst (DNSRecords G) p d = Inr x" "tSave (DNSRecords G) now (record_updates m x) d = (e, d2)" for p x e d2
    using that by (rule k_record.first_save_kept) (simp_all add: kept_simps record_updates_def apply_keep)
  then show ?thesis
    using assms(2) by (auto simp: dns_UpdateRecord_def Let_def split: sum.splits prod.splits option.splits dest!: syncRecord_same)
qed

lemma dns_DeleteRecord_kept:
  assumes [simp]: "dn_gorm S = G" and "dns_DeleteRecord S now i (d, sent) = (e, d', sent')"
  shows "kept who (view d) (view d')"
  using assms(2) by (auto simp: dns_DeleteRecord_def kept_simps split: sum.splits prod.splits
      dest!: syncRecord_same intro: k_record.first_delete_kept)

lemma dns_CreateTemplate_kept:
  assumes [simp]: "dn_gorm S = G" and "dns_CreateTemplate S now newid i d = (r, d')"
  shows "kept (Some (ti_TenantID i)) (view d) (view d')"
  using assms(2) by (auto simp: dns_CreateTemplate_def kept_simps template_row_def split: if_splits sum.splits prod.splits
      intro!: k_template.create_kept)

lemma apply_records_kept:
  assumes [simp]: "dn_gorm S = G" and "apply_records S env k z recs (d, sent) = (e, d', sent')"
  shows "kept who (view d) (view d')"
  using assms(2)
proof (induction recs arbitrary: k d sent)
  case (Cons rec recs)
  obtain x d1 sent1 where c: "dns_CreateRecord S (fst (env k)) (snd (env k)) (template_input z rec) (d, sent) = (x, d1, sent1)"
    by (metis prod_cases3)
  note dns_CreateRecord_kept [OF assms(1) c, of who]
  then show ?case using Cons c by (cases x) (auto intro: kept_trans)
qed simp

lemma dns_ApplyTemplate_kept:
  assumes [simp]: "dn_gorm S = G" and "dns_ApplyTemplate S env z i (d, sent) = (e, d', sent')"
  shows "kept who (view d) (view d')"
  using assms(2) by (auto simp: dns_ApplyTemplate_def split: sum.splits intro: apply_records_kept [OF assms(1)])

end

end
