(* ===== verification/Panel.thy ===== *)
theory Panel
  imports Startup AuditExport RbacHandlers HostingHandlers DnsHandlers
begin

text \<open>
  The panel as a whole: what internal/api/router.go and internal/api/server.go put together. A call is a request under
  \<open>/api/v1\<close> with its path parameters and its parsed body; \<open>serve\<close> is the handler its route is registered with; \<open>panel_request\<close>
  runs it behind all middleware. The state is everything a request can change.
\<close>

subsection \<open>The state\<close>

text \<open>
  The shared world and the limiter, what was sent to PowerDNS, the operating system, the destinations of audit exports, and the
  license in force.
\<close>

record ('d, 'o, 'e) panel = "'d server" +
  pn_pdns :: "pdns_request list"
  pn_os :: 'o
  pn_out :: 'e
  pn_license :: license_state

text \<open>
  The services of the start, and what the handlers take from the outside: the clock's formats, the verification of license keys,
  the destinations of exports, UUIDs of version 5, the readiness probe. \<open>pd_gorm\<close> is the database of \<open>Deps\<close>.
\<close>

record ('d, 'o, 'e, 'k) panel_deps =
  pd_services :: "('d, 'o) services"
  pd_gorm :: "'d gorm"
  pd_env :: env
  pd_verify :: "'k \<Rightarrow> string \<Rightarrow> string \<Rightarrow> bool"
  pd_outputs :: "'e outputs"
  pd_fmt :: "int \<Rightarrow> string"
  pd_stamp :: "int \<Rightarrow> string"
  pd_uuid5 :: "string \<Rightarrow> string"
  pd_ready :: "'d \<Rightarrow> string reply"

text \<open>\<open>run\<close> hands its services to \<open>NewServer\<close> like this.\<close>

definition panel_deps_of :: "('d, 'os, 'k) machine \<Rightarrow> environ \<Rightarrow> ('d, 'o) services \<Rightarrow> 'e outputs \<Rightarrow> (int \<Rightarrow> string) \<Rightarrow>
    (int \<Rightarrow> string) \<Rightarrow> (string \<Rightarrow> string) \<Rightarrow> ('d, 'o, 'e, 'k) panel_deps" where
  "panel_deps_of M en S outs fmt stmp uuid5 =
     \<lparr>pd_services = S, pd_gorm = mc_gorm M, pd_env = env_of M en, pd_verify = mc_verify M, pd_outputs = outs, pd_fmt = fmt,
      pd_stamp = stmp, pd_uuid5 = uuid5, pd_ready = readyz M\<rparr>"

definition pd_api :: "('d, 'o, 'e, 'k) panel_deps \<Rightarrow> 'd api_deps" where
  "pd_api P = su_API (pd_services P)"

definition pd_audit :: "('d, 'o, 'e, 'k) panel_deps \<Rightarrow> 'd auditor" where
  "pd_audit P = api_deps.ad_Audit (pd_api P)"

text \<open>The dependencies \<open>registerV1\<close> gives each group of handlers.\<close>

definition vault_deps_of :: "('d, 'o, 'e, 'k) panel_deps \<Rightarrow> 'd vault_deps" where
  "vault_deps_of P =
     \<lparr>vd_Vault = su_Vault (pd_services P), vd_Audit = Some (pd_audit P), vd_Quota = Some (su_Quota (pd_services P))\<rparr>"

definition rbac_deps_of :: "('d, 'o, 'e, 'k) panel_deps \<Rightarrow> 'd rbac_deps" where
  "rbac_deps_of P = \<lparr>rd_Service = ad_RBAC (pd_api P), rd_DB = pd_gorm P, rd_Audit = Some (pd_audit P)\<rparr>"

definition key_deps_of :: "('d, 'o, 'e, 'k) panel_deps \<Rightarrow> 'd key_deps" where
  "key_deps_of P = \<lparr>kd_Keys = ad_APIKeys (pd_api P), kd_Audit = Some (pd_audit P)\<rparr>"

definition account_deps_of :: "('d, 'o, 'e, 'k) panel_deps \<Rightarrow> ('d, 'o) account_deps" where
  "account_deps_of P =
     \<lparr>ad_DB = pd_gorm P, ad_Hosting = su_Hosting (pd_services P), account_deps.ad_Audit = Some (pd_audit P)\<rparr>"

definition domain_deps_of :: "('d, 'o, 'e, 'k) panel_deps \<Rightarrow> ('d, 'o) domain_deps" where
  "domain_deps_of P =
     \<lparr>dm_DB = pd_gorm P, dm_Hosting = su_Hosting (pd_services P), dm_Audit = Some (pd_audit P),
      dm_fmt = pd_fmt P, dm_stamp = pd_stamp P, dm_uuid5 = pd_uuid5 P\<rparr>"

definition dns_deps_of :: "('d, 'o, 'e, 'k) panel_deps \<Rightarrow> 'd dns_deps" where
  "dns_deps_of P = \<lparr>dd_DB = pd_gorm P, dd_DNS = su_DNS (pd_services P), dd_Audit = Some (pd_audit P)\<rparr>"

subsection \<open>Calls and answers\<close>

text \<open>Random bytes and fresh identifiers a handler draws beyond those of the request are arguments of the call.\<close>

datatype api_call =
    Me | MyQuotas
  | SecretList | SecretPut string "put_request option" | SecretGet string | SecretRead string | SecretDelete string
  | SystemGet | LicenseGet | LicenseRenewal | LicenseUpload "string option"
  | AuditLogGet int | AuditVerify | AuditSearch "search_request option" | AuditExport "export_request option"
  | RoleList | RoleCreate "role_request option" | RoleUpdate string "role_request option" | RoleDelete string
  | RoleAssign string "string option"
  | KeyList | KeyCreate "go_error + string" "go_error + string" "create_key_request option" | KeyRevoke string
  | QuotaGet string | QuotaPut string "tenant_quota option"
  | AccountCreate "create_account_request option" | AccountList | AccountGet string | AccountDelete string
  | AccountSuspend string | AccountUnsuspend string | AccountUsage string
  | DomainCreate string "create_domain_request option" | DomainList string | DomainDelete string string | DeploymentList string
  | ZoneList | ZoneCreate "create_zone_request option" | ZoneGet string | ZoneUpdate string "json_map option" | ZoneDelete string
  | RecordList string | RecordCreate string "create_record_request option"
  | RecordUpdate string string "json_map option" | RecordDelete string string
  | TemplateList | TemplateCreate "create_template_request option"
  | TemplateApply "nat \<Rightarrow> int \<times> string" string "string option"
  | RecordValidate "record_definition option" | DnsLookup string

datatype body =
    BEmpty | BText string | BTokens "token_pair \<times> string \<times> string \<times> string" | BPair token_pair | BClaims claims
  | BQuota tenant_quota | BSecrets "secret_meta list" | BSecret secret_meta | BValue "string \<times> string"
  | BSystem "(string \<times> string) list" | BLicense "license option" | BRenewal renewal_info | BUploaded license
  | BAudit "audit_entry list" | BVerify "bool \<times> int \<times> go_error option" | BSearch search_response | BExport export_response
  | BRoles "role_view list" | BRole custom_role | BAssigned "string \<times> string"
  | BKeys "key_view list" | BKey create_key_response
  | BAccounts "account list" | BAccount account | BUsage account_usage
  | BDomain domain_view | BDomains "domain_view list" | BDeployments "deployment_view list"
  | BZones "dns_zone list \<times> nat" | BZone dns_zone | BRecords "dns_record list \<times> nat" | BRecord dns_record
  | BTemplates "dns_zone_template list \<times> nat" | BTemplate dns_zone_template | BValid "bool \<times> string" | BLookup lookup_view

text \<open>The method and pattern a call's route is registered under.\<close>

fun endpoint_of :: "api_call \<Rightarrow> string \<times> string" where
  "endpoint_of Me = (''GET'', ''/me'')"
| "endpoint_of MyQuotas = (''GET'', ''/me/quotas'')"
| "endpoint_of SecretList = (''GET'', ''/vault/secrets'')"
| "endpoint_of (SecretPut _ _) = (''POST'', ''/vault/secrets'')"
| "endpoint_of (SecretGet _) = (''GET'', ''/vault/secrets/:name'')"
| "endpoint_of (SecretRead _) = (''GET'', ''/vault/secrets/:name/value'')"
| "endpoint_of (SecretDelete _) = (''DELETE'', ''/vault/secrets/:name'')"
| "endpoint_of SystemGet = (''GET'', ''/admin/system'')"
| "endpoint_of LicenseGet = (''GET'', ''/admin/license'')"
| "endpoint_of LicenseRenewal = (''GET'', ''/admin/license/renewal-info'')"
| "endpoint_of (LicenseUpload _) = (''PUT'', ''/admin/license'')"
| "endpoint_of (AuditLogGet _) = (''GET'', ''/admin/audit-log'')"
| "endpoint_of AuditVerify = (''POST'', ''/admin/audit-log/verify'')"
| "endpoint_of (AuditSearch _) = (''POST'', ''/admin/audit-log/search'')"
| "endpoint_of (AuditExport _) = (''POST'', ''/admin/audit-log/export'')"
| "endpoint_of RoleList = (''GET'', ''/admin/roles'')"
| "endpoint_of (RoleCreate _) = (''POST'', ''/admin/roles'')"
| "endpoint_of (RoleUpdate _ _) = (''PUT'', ''/admin/roles/:name'')"
| "endpoint_of (RoleDelete _) = (''DELETE'', ''/admin/roles/:name'')"
| "endpoint_of (RoleAssign _ _) = (''POST'', ''/admin/users/:id/role'')"
| "endpoint_of KeyList = (''GET'', ''/admin/api-keys'')"
| "endpoint_of (KeyCreate _ _ _) = (''POST'', ''/admin/api-keys'')"
| "endpoint_of (KeyRevoke _) = (''DELETE'', ''/admin/api-keys/:id'')"
| "endpoint_of (QuotaGet _) = (''GET'', ''/admin/tenants/:id/quotas'')"
| "endpoint_of (QuotaPut _ _) = (''PUT'', ''/admin/tenants/:id/quotas'')"
| "endpoint_of (AccountCreate _) = (''POST'', ''/accounts'')"
| "endpoint_of AccountList = (''GET'', ''/accounts'')"
| "endpoint_of (AccountGet _) = (''GET'', ''/accounts/:id'')"
| "endpoint_of (AccountDelete _) = (''DELETE'', ''/accounts/:id'')"
| "endpoint_of (AccountSuspend _) = (''POST'', ''/accounts/:id/suspend'')"
| "endpoint_of (AccountUnsuspend _) = (''POST'', ''/accounts/:id/unsuspend'')"
| "endpoint_of (AccountUsage _) = (''GET'', ''/accounts/:id/usage'')"
| "endpoint_of (DomainCreate _ _) = (''POST'', ''/accounts/:id/domains'')"
| "endpoint_of (DomainList _) = (''GET'', ''/accounts/:id/domains'')"
| "endpoint_of (DomainDelete _ _) = (''DELETE'', ''/accounts/:id/domains/:domain'')"
| "endpoint_of (DeploymentList _) = (''GET'', ''/accounts/:id/deployments'')"
| "endpoint_of ZoneList = (''GET'', ''/dns/zones'')"
| "endpoint_of (ZoneCreate _) = (''POST'', ''/dns/zones'')"
| "endpoint_of (ZoneGet _) = (''GET'', ''/dns/zones/:id'')"
| "endpoint_of (ZoneUpdate _ _) = (''PUT'', ''/dns/zones/:id'')"
| "endpoint_of (ZoneDelete _) = (''DELETE'', ''/dns/zones/:id'')"
| "endpoint_of (RecordList _) = (''GET'', ''/dns/zones/:id/records'')"
| "endpoint_of (RecordCreate _ _) = (''POST'', ''/dns/zones/:id/records'')"
| "endpoint_of (RecordUpdate _ _ _) = (''PUT'', ''/dns/zones/:id/records/:recordId'')"
| "endpoint_of (RecordDelete _ _) = (''DELETE'', ''/dns/zones/:id/records/:recordId'')"
| "endpoint_of TemplateList = (''GET'', ''/dns/templates'')"
| "endpoint_of (TemplateCreate _) = (''POST'', ''/dns/templates'')"
| "endpoint_of (TemplateApply _ _ _) = (''POST'', ''/dns/templates/:id/apply'')"
| "endpoint_of (RecordValidate _) = (''POST'', ''/dns/validate'')"
| "endpoint_of (DnsLookup _) = (''GET'', ''/dns/lookup/:domain'')"

definition route_of :: "api_call \<Rightarrow> route option" where
  "route_of cl = List.find (\<lambda>r. (rt_method r, rt_pattern r) = endpoint_of cl) v1_routes"

definition guards_of :: "api_call \<Rightarrow> (string \<times> string) list" where
  "guards_of cl = (case route_of cl of None \<Rightarrow> [] | Some r \<Rightarrow> rt_guards r)"

subsection \<open>Handlers on the panel\<close>

type_synonym ('d, 'o, 'e) panel_handler = "http \<Rightarrow> ('d, 'o, 'e) panel \<Rightarrow> body reply \<times> http \<times> ('d, 'o, 'e) panel"

definition reads :: "('a \<Rightarrow> body) \<Rightarrow> (request \<Rightarrow> ('d, 'o, 'e) panel \<Rightarrow> 'a reply) \<Rightarrow> ('d, 'o, 'e) panel_handler" where
  "reads b h c s = (map_reply b (h (hc_rq c) s), c, s)"

definition on_world :: "('a \<Rightarrow> body) \<Rightarrow> (request \<Rightarrow> 'd world \<Rightarrow> 'a reply \<times> 'd world) \<Rightarrow> ('d, 'o, 'e) panel_handler" where
  "on_world b h c s = (case h (hc_rq c) (sv_world s) of (r, w) \<Rightarrow> (map_reply b r, c, s\<lparr>sv_world := w\<rparr>))"

definition on_db :: "('a \<Rightarrow> body) \<Rightarrow> (request \<Rightarrow> 'd \<Rightarrow> 'a reply \<times> 'd) \<Rightarrow> ('d, 'o, 'e) panel_handler" where
  "on_db b h = on_world b (\<lambda>rq w. case h rq (wdb w) of (r, d) \<Rightarrow> (r, w\<lparr>wdb := d\<rparr>))"

definition on_dns :: "('a \<Rightarrow> body) \<Rightarrow> (request \<Rightarrow> 'd dns_world \<Rightarrow> 'a reply \<times> 'd dns_world) \<Rightarrow> ('d, 'o, 'e) panel_handler" where
  "on_dns b h c s =
     (case h (hc_rq c) (sv_world s, pn_pdns s) of
        (r, w, sent) \<Rightarrow> (map_reply b r, c, s\<lparr>sv_world := w, pn_pdns := sent\<rparr>))"

definition on_host :: "('a \<Rightarrow> body) \<Rightarrow> (request \<Rightarrow> ('d, 'o) host_world \<Rightarrow> 'a reply \<times> ('d, 'o) host_world) \<Rightarrow>
    ('d, 'o, 'e) panel_handler" where
  "on_host b h c s =
     (case h (hc_rq c) (sv_world s, pn_os s) of
        (r, w, os) \<Rightarrow> (map_reply b r, c, s\<lparr>sv_world := w, pn_os := os\<rparr>))"

definition on_out :: "('a \<Rightarrow> body) \<Rightarrow> ('d \<Rightarrow> 'e \<Rightarrow> 'a reply \<times> 'e) \<Rightarrow> ('d, 'o, 'e) panel_handler" where
  "on_out b h c s =
     (case h (wdb (sv_world s)) (pn_out s) of (r, e) \<Rightarrow> (map_reply b r, c, s\<lparr>pn_out := e\<rparr>))"

definition on_license :: "('a \<Rightarrow> body) \<Rightarrow> (request \<Rightarrow> 'd \<Rightarrow> license_state \<Rightarrow> 'a reply \<times> 'd \<times> license_state) \<Rightarrow>
    ('d, 'o, 'e) panel_handler" where
  "on_license b h c s =
     (case h (hc_rq c) (wdb (sv_world s)) (pn_license s) of
        (r, d, L) \<Rightarrow> (map_reply b r, c, s\<lparr>sv_world := (sv_world s)\<lparr>wdb := d\<rparr>, pn_license := L\<rparr>))"

text \<open>Which handler \<open>registerV1\<close> registers for a call.\<close>

fun serve :: "('d, 'o, 'e, 'k) panel_deps \<Rightarrow> api_call \<Rightarrow> ('d, 'o, 'e) panel_handler" where
  "serve P Me = reads BClaims (\<lambda>rq s. me_MeHandler rq)"
| "serve P MyQuotas = on_db BQuota (quota_MeHandler (su_Quota (pd_services P)))"
| "serve P SecretList = reads BSecrets (\<lambda>rq s. vault_ListHandler (vault_deps_of P) rq (sv_world s))"
| "serve P (SecretPut qid b) = on_world BSecret (\<lambda>rq. vault_PutHandler (vault_deps_of P) rq qid b)"
| "serve P (SecretGet n) = on_world BSecret (\<lambda>rq. vault_GetHandler (vault_deps_of P) rq n)"
| "serve P (SecretRead n) = on_world BValue (\<lambda>rq. vault_ReadHandler (vault_deps_of P) rq n)"
| "serve P (SecretDelete n) = on_world (\<lambda>_. BEmpty) (\<lambda>rq. vault_DeleteHandler (vault_deps_of P) rq n)"
| "serve P SystemGet = reads BSystem (\<lambda>rq s. AdminSystem (pd_env P) (rq_now rq))"
| "serve P LicenseGet = reads BLicense (\<lambda>rq s. AdminLicense (pn_license s))"
| "serve P LicenseRenewal =
     reads BRenewal (\<lambda>rq s. AdminLicenseRenewal (su_Store (pd_services P)) (pd_env P) (rq_now rq) (wdb (sv_world s)))"
| "serve P (LicenseUpload b) =
     on_license BUploaded (\<lambda>rq. AdminLicenseUpload (pd_verify P) (pd_env P) (su_Store (pd_services P)) (rq_now rq) (rq_id rq)
       (rq_nonce rq) (rq_claims rq) b)"
| "serve P (AuditLogGet n) = reads BAudit (\<lambda>rq s. AdminAuditLog (Some (pd_gorm P)) n (wdb (sv_world s)))"
| "serve P AuditVerify = reads BVerify (\<lambda>rq s. AdminAuditVerify (Some (pd_audit P)) (wdb (sv_world s)))"
| "serve P (AuditSearch b) =
     reads BSearch (\<lambda>rq s. AuditSearchHandler (pd_audit P) (rq_claims rq) b (wdb (sv_world s)))"
| "serve P (AuditExport b) = on_out BExport (AuditExportHandler (pd_audit P) (pd_outputs P) b)"
| "serve P RoleList = reads BRoles (\<lambda>rq s. role_ListHandler (rbac_deps_of P) rq (sv_world s))"
| "serve P (RoleCreate b) = on_world BRole (\<lambda>rq. role_CreateHandler (rbac_deps_of P) rq b)"
| "serve P (RoleUpdate n b) = on_world (\<lambda>_. BEmpty) (\<lambda>rq. role_UpdateHandler (rbac_deps_of P) rq n b)"
| "serve P (RoleDelete n) = on_world (\<lambda>_. BEmpty) (\<lambda>rq. role_DeleteHandler (rbac_deps_of P) rq n)"
| "serve P (RoleAssign u b) = on_world BAssigned (\<lambda>rq. AssignRoleHandler (rbac_deps_of P) rq u b)"
| "serve P KeyList = reads BKeys (\<lambda>rq s. ListAPIKeyHandler (key_deps_of P) rq (sv_world s))"
| "serve P (KeyCreate r1 r2 b) = on_world BKey (\<lambda>rq. CreateAPIKeyHandler (key_deps_of P) rq r1 r2 b)"
| "serve P (KeyRevoke i) = on_world (\<lambda>_. BEmpty) (\<lambda>rq. RevokeAPIKeyHandler (key_deps_of P) rq i)"
| "serve P (QuotaGet t) = on_db BQuota (\<lambda>rq. quota_GetHandler (su_Quota (pd_services P)) rq t)"
| "serve P (QuotaPut t b) = on_db BQuota (\<lambda>rq. quota_PutHandler (su_Quota (pd_services P)) rq t b)"
| "serve P (AccountCreate b) = on_host BAccount (\<lambda>rq. CreateAccountHandler (account_deps_of P) rq b)"
| "serve P AccountList = reads BAccounts (\<lambda>rq s. ListAccountsHandler (account_deps_of P) rq (wdb (sv_world s)))"
| "serve P (AccountGet i) = on_host BAccount (\<lambda>rq. GetAccountHandler (account_deps_of P) rq i)"
| "serve P (AccountDelete i) = on_host (\<lambda>_. BEmpty) (\<lambda>rq. DeleteAccountHandler (account_deps_of P) rq i)"
| "serve P (AccountSuspend i) = on_host BAccount (\<lambda>rq. SuspendAccountHandler (account_deps_of P) rq i)"
| "serve P (AccountUnsuspend i) = on_host BAccount (\<lambda>rq. UnsuspendAccountHandler (account_deps_of P) rq i)"
| "serve P (AccountUsage i) = on_host BUsage (\<lambda>rq. AccountUsageHandler (account_deps_of P) rq i)"
| "serve P (DomainCreate i b) = on_host BDomain (\<lambda>rq. CreateDomainHandler (domain_deps_of P) rq i b)"
| "serve P (DomainList i) = reads BDomains (\<lambda>rq s. ListDomainsHandler (domain_deps_of P) rq i (wdb (sv_world s)))"
| "serve P (DomainDelete i n) = on_host (\<lambda>_. BEmpty) (\<lambda>rq. DeleteDomainHandler (domain_deps_of P) rq i n)"
| "serve P (DeploymentList i) =
     reads BDeployments (\<lambda>rq s. ListDeploymentsHandler (domain_deps_of P) rq i (sv_world s, pn_os s))"
| "serve P ZoneList = reads BZones (\<lambda>rq s. ListZonesHandler (dns_deps_of P) rq (wdb (sv_world s)))"
| "serve P (ZoneCreate b) = on_dns BZone (\<lambda>rq. CreateZoneHandler (dns_deps_of P) rq b)"
| "serve P (ZoneGet i) = reads BZone (\<lambda>rq s. GetZoneHandler (dns_deps_of P) rq i (wdb (sv_world s)))"
| "serve P (ZoneUpdate i b) = on_dns BZone (\<lambda>rq. UpdateZoneHandler (dns_deps_of P) rq i b)"
| "serve P (ZoneDelete i) = on_dns (\<lambda>_. BEmpty) (\<lambda>rq. DeleteZoneHandler (dns_deps_of P) rq i)"
| "serve P (RecordList i) = reads BRecords (\<lambda>rq s. ListRecordsHandler (dns_deps_of P) rq i (wdb (sv_world s)))"
| "serve P (RecordCreate i b) = on_dns BRecord (\<lambda>rq. CreateRecordHandler (dns_deps_of P) rq i b)"
| "serve P (RecordUpdate i j b) = on_dns BRecord (\<lambda>rq. UpdateRecordHandler (dns_deps_of P) rq i j b)"
| "serve P (RecordDelete i j) = on_dns (\<lambda>_. BEmpty) (\<lambda>rq. DeleteRecordHandler (dns_deps_of P) rq i j)"
| "serve P TemplateList = reads BTemplates (\<lambda>rq s. ListTemplatesHandler (dns_deps_of P) rq (wdb (sv_world s)))"
| "serve P (TemplateCreate b) = on_dns BTemplate (\<lambda>rq. CreateTemplateHandler (dns_deps_of P) rq b)"
| "serve P (TemplateApply env i b) = on_dns (\<lambda>_. BEmpty) (\<lambda>rq. ApplyTemplateHandler (dns_deps_of P) rq env i b)"
| "serve P (RecordValidate b) = reads BValid (\<lambda>rq s. ValidateRecordHandler (dns_deps_of P) b)"
| "serve P (DnsLookup n) = reads BLookup (\<lambda>rq s. LookupHandler (dns_deps_of P) rq n (wdb (sv_world s)))"

subsection \<open>Requests\<close>

text \<open>The probes, the endpoints below \<open>/auth\<close>, and the API; the files of the user interface leave the state alone.\<close>

datatype endpoint =
    Healthz | Readyz
  | AuthLogin fresh "login_request option" | AuthRefresh fresh "string option" | AuthLogout
  | V1 api_call

definition panel_handle :: "('d, 'o, 'e, 'k) panel_deps \<Rightarrow> endpoint \<Rightarrow> ('d, 'o, 'e) panel_handler" where
  "panel_handle P ep c s =
     (case ep of
        Healthz \<Rightarrow> reads BText (\<lambda>rq s. healthz) c s
      | Readyz \<Rightarrow> reads BText (\<lambda>rq s. pd_ready P (wdb (sv_world s))) c s
      | AuthLogin f b \<Rightarrow> on_db BTokens (\<lambda>rq. LoginHandler (ad_Auth (pd_api P)) rq f b) c s
      | AuthRefresh f b \<Rightarrow> on_db BPair (\<lambda>rq. RefreshHandler (ad_Auth (pd_api P)) rq f b) c s
      | AuthLogout \<Rightarrow> AuthMiddleware (ad_Auth (pd_api P)) (on_db (\<lambda>_. BEmpty) (LogoutHandler (ad_Auth (pd_api P)))) c s
      | V1 cl \<Rightarrow> v1_chain (pd_api P) (pn_license s) (guards_of cl) (serve P cl) c s)"

definition panel_request :: "('d, 'o, 'e, 'k) panel_deps \<Rightarrow> endpoint \<Rightarrow> ('d, 'o, 'e) panel_handler" where
  "panel_request P ep = app_chain (pd_api P) (panel_handle P ep)"

text \<open>The panel as the start leaves it; \<open>os\<close> and \<open>out\<close> are the systems around it.\<close>

definition panel_start :: "('d, 'o) services \<Rightarrow> 'o \<Rightarrow> 'e \<Rightarrow> ('d, 'o, 'e) panel" where
  "panel_start S os out =
     \<lparr>sv_world = su_World S, sv_limiter = init_limiter, pn_pdns = [], pn_os = os, pn_out = out, pn_license = su_License S\<rparr>"

end
