(* ===== verification/HandlerIsolation.thy ===== *)
theory HandlerIsolation
  imports Isolation Panel
begin

text \<open>
  Every handler of the API keeps to the tenant of its caller, apart from at most one audit record.
\<close>

subsection \<open>Handlers\<close>

text \<open>A handler does what its caller's tenant may do, then records at most one event.\<close>

definition handled :: "string option \<Rightarrow> ('d \<Rightarrow> database) \<Rightarrow> 'd auditor option \<Rightarrow> request \<Rightarrow> 'd world \<Rightarrow> 'd world \<Rightarrow> bool" where
  "handled who view a rq w w' \<longleftrightarrow>
     (\<exists>d. kept who (view (wdb w)) (view d) \<and> (w' = w\<lparr>wdb := d\<rparr> \<or> (\<exists>ev. w' = record_event a rq ev (w\<lparr>wdb := d\<rparr>))))"

lemma handled_same [simp]: "handled who view a rq w w"
  unfolding handled_def by (intro exI [of _ "wdb w"]) simp

lemma handled_db: "kept who (view (wdb w)) (view d) \<Longrightarrow> handled who view a rq w (w\<lparr>wdb := d\<rparr>)"
  unfolding handled_def by blast

lemma handled_record: "kept who (view (wdb w)) (view d) \<Longrightarrow> handled who view a rq w (record_event a rq ev (w\<lparr>wdb := d\<rparr>))"
  unfolding handled_def by blast

lemma handled_event: "handled who view a rq w (record_event a rq ev w)"
  using handled_record [of who view w "wdb w" a rq ev] by simp

lemmas handled_intros = handled_db handled_record handled_event

text \<open>The caller of a handler.\<close>

definition caller :: "request \<Rightarrow> string option" where
  "caller rq = map_option cl_TenantID (rq_claims rq)"

lemma caller_Some [simp]: "rq_claims rq = Some cl \<Longrightarrow> caller rq = Some (cl_TenantID cl)"
  by (simp add: caller_def)

context gorm_db
begin

lemma vault_Put_handled:
  assumes "\<forall>v. vd_Vault D = Some v \<longrightarrow> va_gorm v = G" "\<forall>Q. vd_Quota D = Some Q \<longrightarrow> Q = G" "vault_PutHandler D rq qid body w = (r, w')"
  shows "handled (caller rq) view (vd_Audit D) rq w w'"
proof (cases "\<exists>cl req v. rq_claims rq = Some cl \<and> body = Some req \<and> pr_Name req \<noteq> [] \<and> pr_Plaintext req \<noteq> [] \<and> vd_Vault D = Some v")
  case False
  then show ?thesis using assms(3) by (auto simp: vault_PutHandler_def split: option.splits if_splits)
next
  case True
  then obtain cl req v where c: "rq_claims rq = Some cl" "body = Some req" "pr_Name req \<noteq> []" "pr_Plaintext req \<noteq> []" "vd_Vault D = Some v"
    by blast
  obtain x d1 where q: "put_quota D v rq qid cl (pr_Name req) (wdb w) = (x, d1)" by fastforce
  then have k1: "kept (caller rq) (view (wdb w)) (view d1)"
    using assms(2) c(1) quota_Check_kept by (auto simp: put_quota_def split: sum.splits option.splits prod.splits if_splits)
  obtain y d2 where p: "vault_Put v (rq_now rq) (rq_id rq) (rq_nonce rq) (cl_TenantID cl) (pr_Name req) (pr_Plaintext req) (cl_UserID cl) d1 = (y, d2)"
    by fastforce
  have "va_gorm v = G" using assms(1) c(5) by blast
  then have "kept (caller rq) (view (wdb w)) (view d2)" using kept_trans [OF k1] vault_Put_kept [OF _ p] c(1) by simp
  then show ?thesis
    using assms(3) c q p k1 by (auto simp: vault_PutHandler_def RecordAccess_def intro: handled_intros split: option.splits sum.splits)
qed

lemma vault_Delete_handled:
  assumes "\<forall>v. vd_Vault D = Some v \<longrightarrow> va_gorm v = G" "vault_DeleteHandler D rq n w = (r, w')"
  shows "handled (caller rq) view (vd_Audit D) rq w w'"
proof -
  have "kept (Some t) (view (wdb w)) (view d)" if "vd_Vault D = Some v" "vault_Delete v now t n (wdb w) = (e, d)" for v now t e d
    using vault_Delete_kept [OF _ that(2)] assms(1) that(1) by blast
  then show ?thesis using assms(2)
    by (auto simp: vault_DeleteHandler_def RecordAccess_def intro: handled_intros split: option.splits prod.splits if_splits)
qed

lemma vault_reads_handled:
  "vault_GetHandler D rq n w = (r, w') \<Longrightarrow> handled who view (vd_Audit D) rq w w'"
  "vault_ReadHandler D rq n w = (r', w') \<Longrightarrow> handled who view (vd_Audit D) rq w w'"
  by (auto simp: vault_GetHandler_def vault_ReadHandler_def RecordAccess_def intro: handled_event split: option.splits sum.splits if_splits)

lemma role_handlers_handled:
  assumes "rb_gorm (rd_Service D) = G"
  shows "role_CreateHandler D rq b1 w = (r1, w') \<Longrightarrow> handled (caller rq) view (rd_Audit D) rq w w'"
    and "role_UpdateHandler D rq n b2 w = (r2, w') \<Longrightarrow> handled (caller rq) view (rd_Audit D) rq w w'"
    and "role_DeleteHandler D rq n w = (r3, w') \<Longrightarrow> handled (caller rq) view (rd_Audit D) rq w w'"
  using role_Create_kept [OF assms] role_Update_kept [OF assms] role_Delete_kept [OF assms]
  by (auto simp: role_CreateHandler_def role_UpdateHandler_def role_DeleteHandler_def auditCustomRole_def
      intro!: handled_intros split: option.splits prod.splits sum.splits)

lemma AssignRole_handled:
  assumes "rd_DB D = G" "AssignRoleHandler D rq uid body w = (r, w')"
  shows "handled (caller rq) view (rd_Audit D) rq w w'"
proof (cases "w' = w")
  case False
  then obtain actor role rows where c: "rq_claims rq = Some actor" "body = Some role"
      "tScan (Users G) (\<lambda>u. ID u = uid) (wdb w) = Inr rows"
      "(case rows of [] \<Rightarrow> [] | u # _ \<Rightarrow> u_TenantID u) = cl_TenantID actor" "do_assign D rq actor uid role w = (r, w')"
    using assms by (auto simp: AssignRoleHandler_def Let_def split: option.splits sum.splits if_splits)
  have own: "own user_tid (caller rq) u"
    if "ids_ok (db_users (view (wdb w)))" "u \<in> set (db_users (view (wdb w)))" "ID u = uid" for u
  proof -
    have mem: "x \<in> set rows \<longleftrightarrow> x = u" for x
      using user.scan_mem [OF c(3), of x] ids_ok_unique [OF that(1,2), of x] that by auto
    then obtain rest where "rows = u # rest" by (cases rows) auto
    then show ?thesis using c(1,4) by (simp add: kept_simps)
  qed
  have "kept (caller rq) (view (wdb w)) (view d)" if "AssignRole G (rq_now rq) uid role (wdb w) = (e, d)" for e d
  proof -
    have "kept (caller rq) (view (wdb w)) (view d2)"
      if "tUpdates (Users G) (rq_now rq) (\<lambda>u. ID u = uid) (\<lambda>u. u\<lparr>u_Role := role\<rparr>) (wdb w) = (x, d2)" for x d2
      using that by (rule k_user.updates_kept) (use own in \<open>auto simp: kept_simps\<close>)
    then show ?thesis using that by (auto simp: AssignRole_def Let_def split: if_splits sum.splits prod.splits)
  qed
  then show ?thesis using c(5) assms(1)
    by (auto simp: do_assign_def auditCustomRole_def intro!: handled_intros split: prod.splits option.splits)
qed simp

lemma key_handlers_handled:
  assumes "ks_gorm (kd_Keys D) = G"
  shows "CreateAPIKeyHandler D rq r1 r2 b w = (x, w') \<Longrightarrow> handled (caller rq) view (kd_Audit D) rq w w'"
    and "RevokeAPIKeyHandler D rq i w = (y, w') \<Longrightarrow> handled (caller rq) view (kd_Audit D) rq w w'"
  using key_Create_kept [OF assms] key_Revoke_kept [OF assms]
  by (auto simp: CreateAPIKeyHandler_def RevokeAPIKeyHandler_def intro!: handled_intros
      split: option.splits prod.splits sum.splits)

subsection \<open>Accounts and domains\<close>

lemma account_saved:
  assumes "tenant_account G cl aid d = Inr a" "ID a' = ID a" "ac_TenantID a' = ac_TenantID a"
  shows "kept (Some (cl_TenantID cl)) (view d) (view (snd (tSave (Accounts G) now a' d)))"
  using assms(1) [unfolded tenant_account_def] surjective_pairing assms(2)
  by (rule k_account.first_save_kept) (use assms(3) in \<open>simp add: kept_simps\<close>)

lemma account_purged:
  assumes "tenant_account G cl aid d = Inr a"
  shows "kept (Some (cl_TenantID cl)) (view d) (view (snd (tPurge (Accounts G) (\<lambda>x. ID x = ID a) d)))"
  using assms [unfolded tenant_account_def] surjective_pairing
  by (rule k_account.first_purge_kept) (simp add: kept_simps)

lemma account_created:
  "tCreate (Accounts G) now (account_row newid cl req) d = (r, d') \<Longrightarrow> kept (Some (cl_TenantID cl)) (view d) (view d')"
  by (rule k_account.create_kept) (auto simp: kept_simps account_row_def)

lemma account_handlers_handled:
  assumes [simp]: "ad_DB D = G"
  shows "CreateAccountHandler D rq b w = (r1, w') \<Longrightarrow> handled (caller rq) view (ad_Audit D) rq (fst w) (fst w')"
    and "SuspendAccountHandler D rq i w = (r2, w') \<Longrightarrow> handled (caller rq) view (ad_Audit D) rq (fst w) (fst w')"
    and "UnsuspendAccountHandler D rq i w = (r3, w') \<Longrightarrow> handled (caller rq) view (ad_Audit D) rq (fst w) (fst w')"
    and "DeleteAccountHandler D rq i w = (r4, w') \<Longrightarrow> handled (caller rq) view (ad_Audit D) rq (fst w) (fst w')"
proof -
  show "CreateAccountHandler D rq b w = (r1, w') \<Longrightarrow> handled (caller rq) view (ad_Audit D) rq (fst w) (fst w')"
    by (auto simp: CreateAccountHandler_def Let_def account_event_def host_event_def intro!: handled_intros
        dest: account_created split: option.splits if_splits sum.splits prod.splits)
qed (auto simp: SuspendAccountHandler_def UnsuspendAccountHandler_def DeleteAccountHandler_def Let_def account_event_def
    host_event_def intro!: handled_intros account_saved account_purged split: option.splits sum.splits prod.splits)

lemma account_reads_handled:
  "GetAccountHandler D rq i w = (r1, w') \<Longrightarrow> fst w' = fst w"
  "AccountUsageHandler D rq i w = (r2, w') \<Longrightarrow> fst w' = fst w"
  by (auto simp: GetAccountHandler_def AccountUsageHandler_def Let_def split: option.splits sum.splits prod.splits)

lemma domain_handlers_handled:
  assumes [simp]: "dm_DB D = G"
  shows "CreateDomainHandler D rq i b w = (r1, w') \<Longrightarrow> handled (caller rq) view (dm_Audit D) rq (fst w) (fst w')"
    and "DeleteDomainHandler D rq i n w = (r2, w') \<Longrightarrow> handled (caller rq) view (dm_Audit D) rq (fst w) (fst w')"
  by (auto simp: CreateDomainHandler_def DeleteDomainHandler_def Let_def host_event_def intro!: handled_intros account_saved
      split: option.splits sum.splits prod.splits if_splits)

subsection \<open>Zones, records and templates\<close>

lemma put_state_handled:
  "kept who (view (wdb (fst w))) (view (fst st)) \<Longrightarrow> handled who view a rq (fst w) (fst (put_state w st))"
  by (auto simp: put_state_def intro: handled_db)

lemma dns_event_handled:
  "kept who (view (wdb (fst w))) (view (fst st)) \<Longrightarrow>
   handled who view (dd_Audit D) rq (fst w) (fst (dns_event D rq cl action rtype rid rname (put_state w st)))"
  by (auto simp: put_state_def dns_event_def intro: handled_record)

lemmas dns_intros = put_state_handled dns_event_handled

lemma owned_zone_mem:
  "owned_zone D cl zid d = Inr z \<Longrightarrow> dns_GetZone (dd_DNS D) zid d = Inr z \<and> z_TenantID z = cl_TenantID cl"
  by (auto simp: owned_zone_def split: sum.splits if_splits)

lemma CreateZone_handled:
  assumes "dn_gorm (dd_DNS D) = G" "CreateZoneHandler D rq b w = (r, w')"
  shows "handled (caller rq) view (dd_Audit D) rq (fst w) (fst w')"
  using assms(2)
  by (auto simp: CreateZoneHandler_def Let_def get_state_def intro!: dns_intros dest!: dns_CreateZone_kept [OF assms(1)]
      split: option.splits if_splits sum.splits prod.splits)

lemma UpdateZone_handled:
  assumes "dn_gorm (dd_DNS D) = G" "UpdateZoneHandler D rq i b w = (r, w')"
  shows "handled (caller rq) view (dd_Audit D) rq (fst w) (fst w')"
  using assms(2)
  by (auto simp: UpdateZoneHandler_def intro!: dns_intros dest!: owned_zone_mem dest: dns_UpdateZone_kept [OF assms(1)]
      split: option.splits sum.splits prod.splits)

lemma DeleteZone_handled:
  assumes "dn_gorm (dd_DNS D) = G" "DeleteZoneHandler D rq i w = (r, w')"
  shows "handled (caller rq) view (dd_Audit D) rq (fst w) (fst w')"
  using assms(2)
  by (auto simp: DeleteZoneHandler_def get_state_def intro!: dns_intros dest!: owned_zone_mem dest: dns_DeleteZone_kept [OF assms(1)]
      split: option.splits sum.splits prod.splits)

lemma record_handlers_handled:
  assumes "dn_gorm (dd_DNS D) = G"
  shows "CreateRecordHandler D rq i b1 w = (r1, w') \<Longrightarrow> handled (caller rq) view (dd_Audit D) rq (fst w) (fst w')"
    and "UpdateRecordHandler D rq i j b2 w = (r2, w') \<Longrightarrow> handled (caller rq) view (dd_Audit D) rq (fst w) (fst w')"
    and "DeleteRecordHandler D rq i j w = (r3, w') \<Longrightarrow> handled (caller rq) view (dd_Audit D) rq (fst w) (fst w')"
  by (auto simp: CreateRecordHandler_def UpdateRecordHandler_def DeleteRecordHandler_def get_state_def intro!: dns_intros
      dest!: dns_CreateRecord_kept [OF assms, where who = "caller rq"] dns_UpdateRecord_kept [OF assms, where who = "caller rq"]
        dns_DeleteRecord_kept [OF assms, where who = "caller rq"]
      split: option.splits sum.splits prod.splits)

lemma template_handlers_handled:
  assumes "dn_gorm (dd_DNS D) = G"
  shows "CreateTemplateHandler D rq b1 w = (r1, w') \<Longrightarrow> handled (caller rq) view (dd_Audit D) rq (fst w) (fst w')"
    and "ApplyTemplateHandler D rq env i b2 w = (r2, w') \<Longrightarrow> handled (caller rq) view (dd_Audit D) rq (fst w) (fst w')"
  by (auto simp: CreateTemplateHandler_def ApplyTemplateHandler_def get_state_def intro!: dns_intros
      dest!: dns_CreateTemplate_kept [OF assms] dns_ApplyTemplate_kept [OF assms, where who = "caller rq"]
      split: option.splits if_splits sum.splits prod.splits)

subsection \<open>Quotas and the license\<close>

lemma quota_handlers_kept:
  "quota_MeHandler G rq d = (r1, d') \<Longrightarrow> kept (caller rq) (view d) (view d')"
  "quota_GetHandler G rq t d = (r2, d') \<Longrightarrow> kept (Some t) (view d) (view d')"
  "quota_PutHandler G rq t b d = (r3, d') \<Longrightarrow> kept (Some t) (view d) (view d')"
proof -
  show "quota_PutHandler G rq t b d = (r3, d') \<Longrightarrow> kept (Some t) (view d) (view d')"
    using quota_Put_kept [where q = "(the b)\<lparr>q_TenantID := t\<rparr>"]
    by (fastforce simp: quota_PutHandler_def split: option.splits prod.splits)
qed (auto simp: quota_MeHandler_def quota_GetHandler_def intro: quota_Get_kept split: option.splits prod.splits sum.splits)

lemma license_upload_kept:
  assumes "\<forall>S. store = Some S \<longrightarrow> st_gorm S = G" "AdminLicenseUpload verify en store now newid nonce cl b d L = (r, d', L')"
  shows "kept who (view d) (view d')"
proof (cases store)
  case (Some S)
  then have "kept who (view d) (view d1)" if "Save S now newid nonce lc up d = (e, d1)" for lc up e d1
    using license_Save_kept [OF _ that] assms(1) by blast
  then show ?thesis using assms(2) Some
    by (auto simp: AdminLicenseUpload_def Let_def split: option.splits if_splits sum.splits prod.splits)
qed (use assms(2) in \<open>simp add: AdminLicenseUpload_def\<close>)

end

end
