(* ===== verification/PanelServe.thy ===== *)
theory PanelServe
  imports HandlerIsolation StartupProps AccessProps
begin

text \<open>
  One request to the panel: which handler runs, on whose behalf, and what of the database and the audit log it can change.
\<close>

subsection \<open>The services share one database\<close>

definition wired :: "'d gorm \<Rightarrow> ('d, 'o, 'e, 'k) panel_deps \<Rightarrow> bool" where
  "wired G P \<longleftrightarrow>
     pd_gorm P = G \<and> su_Quota (pd_services P) = G \<and> dn_gorm (su_DNS (pd_services P)) = G \<and>
     (\<forall>v. su_Vault (pd_services P) = Some v \<longrightarrow> va_gorm v = G) \<and> (\<forall>S. su_Store (pd_services P) = Some S \<longrightarrow> st_gorm S = G) \<and>
     as_gorm (ad_Auth (pd_api P)) = G \<and> rb_gorm (ad_RBAC (pd_api P)) = G \<and> ks_gorm (ad_APIKeys (pd_api P)) = G \<and>
     au_gorm (pd_audit P) = G"

lemma wired_simps:
  assumes "wired G P"
  shows "pd_gorm P = G" "su_Quota (pd_services P) = G" "dn_gorm (dd_DNS (dns_deps_of P)) = G"
    "rb_gorm (rd_Service (rbac_deps_of P)) = G" "rd_DB (rbac_deps_of P) = G" "ks_gorm (kd_Keys (key_deps_of P)) = G"
    "ad_DB (account_deps_of P) = G" "dm_DB (domain_deps_of P) = G" "as_gorm (ad_Auth (pd_api P)) = G"
    "ks_gorm (ad_APIKeys (pd_api P)) = G" "au_gorm (pd_audit P) = G" "au_gorm (api_deps.ad_Audit (pd_api P)) = G"
  using assms by (simp_all add: wired_def dns_deps_of_def rbac_deps_of_def key_deps_of_def account_deps_of_def domain_deps_of_def
      pd_audit_def)

lemma deps_audit [simp]:
  "vd_Audit (vault_deps_of P) = Some (pd_audit P)" "rd_Audit (rbac_deps_of P) = Some (pd_audit P)"
  "kd_Audit (key_deps_of P) = Some (pd_audit P)" "account_deps.ad_Audit (account_deps_of P) = Some (pd_audit P)"
  "dm_Audit (domain_deps_of P) = Some (pd_audit P)" "dd_Audit (dns_deps_of P) = Some (pd_audit P)"
  "vd_Vault (vault_deps_of P) = su_Vault (pd_services P)" "vd_Quota (vault_deps_of P) = Some (su_Quota (pd_services P))"
  by (simp_all add: vault_deps_of_def rbac_deps_of_def key_deps_of_def account_deps_of_def domain_deps_of_def dns_deps_of_def)

subsection \<open>What a call's handler does\<close>

text \<open>The tenant a call works for: the caller's, or the one the quota endpoints of the administrator name.\<close>

definition acts_on :: "api_call \<Rightarrow> request \<Rightarrow> string option" where
  "acts_on cl rq = (case cl of QuotaGet t \<Rightarrow> Some t | QuotaPut t _ \<Rightarrow> Some t | _ \<Rightarrow> caller rq)"

lemma combinator_world:
  "reads b h1 c s = (r, c', s') \<Longrightarrow> c' = c \<and> s' = s"
  "on_world b h2 c s = (r, c', s') \<Longrightarrow> c' = c \<and> (\<exists>x. h2 (hc_rq c) (sv_world s) = (x, sv_world s'))"
  "on_db b h3 c s = (r, c', s') \<Longrightarrow> c' = c \<and> (\<exists>x d. h3 (hc_rq c) (wdb (sv_world s)) = (x, d) \<and> sv_world s' = (sv_world s)\<lparr>wdb := d\<rparr>)"
  "on_dns b h4 c s = (r, c', s') \<Longrightarrow> c' = c \<and> (\<exists>x sent. h4 (hc_rq c) (sv_world s, pn_pdns s) = (x, sv_world s', sent))"
  "on_host b h5 c s = (r, c', s') \<Longrightarrow> c' = c \<and> (\<exists>x os. h5 (hc_rq c) (sv_world s, pn_os s) = (x, sv_world s', os))"
  "on_out b h6 c s = (r, c', s') \<Longrightarrow> c' = c \<and> sv_world s' = sv_world s"
  "on_license b h7 c s = (r, c', s') \<Longrightarrow>
   c' = c \<and> (\<exists>x d L. h7 (hc_rq c) (wdb (sv_world s)) (pn_license s) = (x, d, L) \<and> sv_world s' = (sv_world s)\<lparr>wdb := d\<rparr>)"
  by (auto simp: reads_def on_world_def on_db_def on_dns_def on_host_def on_out_def on_license_def split: prod.splits)

lemma serve_context: "serve P cl c s = (r, c', s') \<Longrightarrow> c' = c"
  by (cases cl) (auto dest!: combinator_world)

context gorm_db
begin

lemma serve_handled:
  assumes "wired G P" "serve P cl c s = (r, c', s')"
  shows "handled (acts_on cl (hc_rq c)) view (Some (pd_audit P)) (hc_rq c) (sv_world s) (sv_world s')"
proof -
  note w [simp] = wired_simps [OF assms(1)]
  have v: "\<forall>v. vd_Vault (vault_deps_of P) = Some v \<longrightarrow> va_gorm v = G" "\<forall>Q. vd_Quota (vault_deps_of P) = Some Q \<longrightarrow> Q = G"
    "\<forall>S. su_Store (pd_services P) = Some S \<longrightarrow> st_gorm S = G"
    using assms(1) by (simp_all add: wired_def)
  note h = vault_Put_handled [OF v(1,2)] vault_Delete_handled [OF v(1)] vault_reads_handled role_handlers_handled [OF w(4)]
    AssignRole_handled [OF w(5)] key_handlers_handled [OF w(6)] account_handlers_handled [OF w(7)] domain_handlers_handled [OF w(8)]
    CreateZone_handled [OF w(3)] UpdateZone_handled [OF w(3)] DeleteZone_handled [OF w(3)] record_handlers_handled [OF w(3)]
    template_handlers_handled [OF w(3)]
  show ?thesis
    using assms(2)
    by (cases cl) (auto simp: acts_on_def dest!: combinator_world h quota_handlers_kept account_reads_handled
        license_upload_kept [OF v(3), where who = "caller (hc_rq c)"] intro: handled_db)
qed

end

subsection \<open>The request in its context\<close>

text \<open>The middleware changes the claims and the response headers of a context, not the request.\<close>

definition same_request :: "http \<Rightarrow> http \<Rightarrow> bool" where
  "same_request c c' \<longleftrightarrow> (\<exists>x. hc_rq c' = (hc_rq c)\<lparr>rq_claims := x\<rparr>) \<and> hc_path c' = hc_path c \<and>
     hc_end c' = hc_end c \<and> hc_audit c' = hc_audit c"

lemma same_request_trans: "same_request c c1 \<Longrightarrow> same_request c1 c2 \<Longrightarrow> same_request c c2"
  by (auto simp: same_request_def)

lemma same_request_simps [simp]:
  "same_request c c" "same_request c (set_claims cl c1) \<longleftrightarrow> same_request c c1" "same_request c (set_header k v c1) \<longleftrightarrow> same_request c c1"
  "same_request c (c1\<lparr>hc_request_id := i\<rparr>) \<longleftrightarrow> same_request c c1" "same_request c (c1\<lparr>hc_apikey := a\<rparr>) \<longleftrightarrow> same_request c c1"
proof -
  have eq: "rq1\<lparr>rq_claims := z\<rparr> = rq\<lparr>rq_claims := x\<rparr> \<Longrightarrow> rq1 = rq\<lparr>rq_claims := rq_claims rq1\<rparr>" for rq rq1 :: request and x z
    by (cases rq; cases rq1) simp
  have "\<exists>x. rq = rq\<lparr>rq_claims := x\<rparr>" for rq :: request by (rule exI [of _ "rq_claims rq"]) simp
  then show "same_request c c" "same_request c (set_header k v c1) \<longleftrightarrow> same_request c c1"
      "same_request c (c1\<lparr>hc_request_id := i\<rparr>) \<longleftrightarrow> same_request c c1" "same_request c (c1\<lparr>hc_apikey := a\<rparr>) \<longleftrightarrow> same_request c c1"
    by (simp_all add: same_request_def set_header_def)
  have "(\<exists>x. (hc_rq c1)\<lparr>rq_claims := Some cl\<rparr> = (hc_rq c)\<lparr>rq_claims := x\<rparr>) \<longleftrightarrow> (\<exists>x. hc_rq c1 = (hc_rq c)\<lparr>rq_claims := x\<rparr>)"
    using eq by fastforce
  then show "same_request c (set_claims cl c1) \<longleftrightarrow> same_request c c1"
    by (simp add: same_request_def set_claims_def)
qed

definition keeps_request :: "('d, 'z, 'b) handler \<Rightarrow> bool" where
  "keeps_request h \<longleftrightarrow> (\<forall>c s. same_request c (fst (snd (h c s))))"

lemma keeps_requestD: "keeps_request h \<Longrightarrow> same_request c c1 \<Longrightarrow> same_request c (fst (snd (h c1 s)))"
  unfolding keeps_request_def using same_request_trans by blast

lemma guards_keep_request: "keeps_request h \<Longrightarrow> keeps_request (guard_chain svc guards h)"
proof (induction guards)
  case (Cons p guards)
  then show ?case
    by (simp add: guard_chain_def keeps_request_def PermissionMiddleware_def split: option.splits)
qed (simp add: guard_chain_def)

lemma middleware_keeps_request:
  assumes "keeps_request h"
  shows "keeps_request (ReadOnlyEnforcer L h)" "keeps_request (APIKeyMiddleware ks h)" "keeps_request (AuthMiddleware as h)"
    "keeps_request (TenantMiddleware L h)"
proof -
  note k = keeps_requestD [OF assms]
  show "keeps_request (ReadOnlyEnforcer L h)" by (simp add: keeps_request_def ReadOnlyEnforcer_def Let_def k)
  show "keeps_request (TenantMiddleware L h)" by (simp add: keeps_request_def TenantMiddleware_def k split: option.split)
  show "keeps_request (AuthMiddleware as h)" by (simp add: keeps_request_def AuthMiddleware_def Let_def k split: sum.split)
  show "keeps_request (APIKeyMiddleware ks h)"
    by (simp add: keeps_request_def APIKeyMiddleware_def Let_def k split: sum.split prod.split)
qed

lemma v1_chain_keeps_request: "keeps_request h \<Longrightarrow> keeps_request (v1_chain D L guards h)"
  unfolding v1_chain_def by (intro middleware_keeps_request guards_keep_request)

lemma passes_same_request:
  assumes "passes (v1_chain D L guards :: ('d, 'z, 'b) handler \<Rightarrow> _) c s c' s'"
  shows "same_request c c'"
proof -
  let ?h = "\<lambda>c s. (Panic, c, s) :: 'b reply \<times> http \<times> ('d, 'z) server_scheme"
  have "keeps_request (v1_chain D L guards ?h)" by (rule v1_chain_keeps_request) (simp add: keeps_request_def)
  then have "same_request c (fst (snd (v1_chain D L guards ?h c s)))" by (simp add: keeps_request_def)
  then show ?thesis using assms by (simp add: passes_def)
qed

lemma panel_keeps_request: "keeps_request (panel_handle P ep)"
proof -
  have serve: "keeps_request (serve P cl)" for cl
    unfolding keeps_request_def using serve_context by (metis prod.collapse same_request_simps(1))
  have db: "keeps_request (on_db b h)" for b :: "'x \<Rightarrow> body" and h
    unfolding keeps_request_def using combinator_world(3) by (metis prod.collapse same_request_simps(1))
  note k = db [unfolded keeps_request_def, rule_format] middleware_keeps_request(3) [OF db, unfolded keeps_request_def, rule_format]
    v1_chain_keeps_request [OF serve, unfolded keeps_request_def, rule_format]
  show ?thesis
    by (cases ep) (simp_all add: keeps_request_def panel_handle_def k reads_def)
qed

end
