(* ===== verification/PanelStep.thy ===== *)
theory PanelStep
  imports PanelServe
begin

text \<open>
  The effect of one request on the shared world, through all middleware, and of a sequence of requests.
\<close>

subsection \<open>On whose behalf a request runs\<close>

text \<open>The claims the API accepts a request with, and the tenant whose data it may change: a quota endpoint serves the tenant it names,
  for callers with \<open>admin:*\<close>.\<close>

definition accepted_claims :: "('d, 'o, 'e, 'k) panel_deps \<Rightarrow> http \<Rightarrow> ('d, 'o, 'e) panel \<Rightarrow> claims option" where
  "accepted_claims P c s =
     (case VerifyAndCheckSession (ad_Auth (pd_api P)) (rq_now (hc_rq c)) (presented_token c)
             (wdb (sv_world (after_key (ad_APIKeys (pd_api P)) c s))) of
        Inl e \<Rightarrow> None
      | Inr cl \<Rightarrow> Some cl)"

definition may_admin :: "('d, 'o, 'e, 'k) panel_deps \<Rightarrow> http \<Rightarrow> ('d, 'o, 'e) panel \<Rightarrow> claims \<Rightarrow> bool" where
  "may_admin P c s cl \<longleftrightarrow>
     HasPermissionFor (ad_RBAC (pd_api P)) (cl_TenantID cl) (cl_Role cl) ''admin'' ''*''
       (wdb (sv_world (after_key (ad_APIKeys (pd_api P)) c s)))"

fun quota_of :: "api_call \<Rightarrow> string option" where
  "quota_of (QuotaGet t) = Some t"
| "quota_of (QuotaPut t b) = Some t"
| "quota_of _ = None"

definition acts_for :: "('d, 'o, 'e, 'k) panel_deps \<Rightarrow> endpoint \<Rightarrow> http \<Rightarrow> ('d, 'o, 'e) panel \<Rightarrow> string option" where
  "acts_for P ep c s =
     (case ep of
        V1 cl \<Rightarrow>
          (case accepted_claims P c s of
             None \<Rightarrow> None
           | Some claims \<Rightarrow>
               (case quota_of cl of
                  None \<Rightarrow> Some (cl_TenantID claims)
                | Some t \<Rightarrow> if may_admin P c s claims then Some t else None))
      | _ \<Rightarrow> None)"

lemma acts_on_quota: "acts_on cl rq = (case quota_of cl of None \<Rightarrow> caller rq | Some t \<Rightarrow> Some t)"
  by (cases cl) (simp_all add: acts_on_def)

lemma route_quota:
  "route_of (QuotaGet t) =
     Some (mk_route [(''admin'', ''read''), (''admin'', ''*'')] (''GET'', ''/admin/tenants/:id/quotas'', ''quota.tenant''))"
  "route_of (QuotaPut t b) =
     Some (mk_route [(''admin'', ''read''), (''admin'', ''*'')] (''PUT'', ''/admin/tenants/:id/quotas'', ''quota.tenant''))"
  unfolding route_of_def endpoint_of.simps by code_simp+

lemma quota_guards: "quota_of cl = Some t \<Longrightarrow> guards_of cl = [(''admin'', ''read''), (''admin'', ''*'')]"
  by (cases cl) (simp_all add: guards_of_def route_quota mk_route_def)

text \<open>Every call has its route, so its guards are those of the route.\<close>

lemma route_of_mem: "route_of cl = Some r \<Longrightarrow> r \<in> set v1_routes \<and> rt_pattern r = snd (endpoint_of cl)"
  by (auto simp: route_of_def find_Some_iff prod_eq_iff)

lemma route_of_some: "route_of cl \<noteq> None"
  by (induct cl; unfold route_of_def endpoint_of.simps; code_simp)

lemma admin_guards:
  assumes "HasPrefix (snd (endpoint_of cl)) ''/admin/''"
  shows "(''admin'', ''read'') \<in> set (guards_of cl)"
proof -
  have "list_all (\<lambda>r. HasPrefix (rt_pattern r) ''/admin/'' \<longrightarrow> (''admin'', ''read'') \<in> set (rt_guards r)) v1_routes" by code_simp
  then show ?thesis
    using assms route_of_mem [of cl] route_of_some [of cl] by (auto simp: guards_of_def list_all_iff)
qed

text \<open>What the claims depend on.\<close>

lemma after_key_cong:
  assumes "hc_rq c1 = hc_rq c" "presented_key c1 = presented_key c" "sv_world s1 = sv_world s"
  shows "sv_world (after_key svc c1 s1) = sv_world (after_key svc c s)"
  using assms by (simp add: after_key_def with_db_def)

lemma accepted_claims_cong:
  assumes "hc_rq c1 = hc_rq c" "presented_key c1 = presented_key c" "presented_token c1 = presented_token c"
    "sv_world s1 = sv_world s"
  shows "accepted_claims P c1 s1 = accepted_claims P c s" "may_admin P c1 s1 cl = may_admin P c s cl" "acts_for P ep c1 s1 = acts_for P ep c s"
proof -
  show eq: "accepted_claims P c1 s1 = accepted_claims P c s" "may_admin P c1 s1 cl = may_admin P c s cl" for cl
    using assms after_key_cong [OF assms(1,2,4)] by (simp_all add: accepted_claims_def may_admin_def)
  show "acts_for P ep c1 s1 = acts_for P ep c s"
    unfolding acts_for_def eq ..
qed

subsection \<open>The two ways of a request\<close>

lemma entered_simps:
  "same_request c (entered c)" "hc_rq (entered c) = hc_rq c" "presented_key (entered c) = presented_key c"
  "presented_token (entered c) = presented_token c"
  by (simp_all add: entered_def Let_def presented_key_def presented_token_def)

lemma panel_request_cases:
  assumes "panel_request P ep c s = (r, c', s')"
  obtains (limited) l where "r = Fail 429 ''rate_limited''" "s' = s\<lparr>sv_limiter := l\<rparr>"
    | (served) l r0 c2 s2 where "panel_handle P ep (entered c) (s\<lparr>sv_limiter := l\<rparr>) = (r0, c2, s2)"
        "r = (if r0 = Panic then Fail 500 ''internal_panic'' else r0)" "s' = s2\<lparr>sv_world := sv_world s'\<rparr>"
        "sv_world s' = (if r0 = Panic \<or> hc_path c2 \<in> set unaudited then sv_world s2
           else snd (Record (pd_audit P) (hc_end c2) (hc_audit c2) (request_event c2 r0) (sv_world s2)))"
proof -
  let ?key = "case hc_claims c of None \<Rightarrow> rq_ip (hc_rq c) | Some cl \<Rightarrow> rq_ip (hc_rq c) @ ''|'' @ cl_UserID cl"
  obtain ok l where l: "allow (rq_now (hc_rq c)) ?key (sv_limiter s) = (ok, l)" by fastforce
  show ?thesis
  proof (cases ok)
    case False
    then show ?thesis using assms l limited
      by (auto simp: panel_request_def app_chain_def RequestIDMiddleware_def RateLimitMiddleware_def Let_def)
  next
    case True
    obtain r0 c2 s2 where h: "panel_handle P ep (entered c) (s\<lparr>sv_limiter := l\<rparr>) = (r0, c2, s2)" by (metis prod_cases3)
    then show ?thesis using assms l True
      by (intro served [OF h])
        (auto simp: panel_request_def app_chain_def RequestIDMiddleware_def RateLimitMiddleware_def recoverMiddleware_def
          securityHeadersMiddleware_def AuditMiddleware_def pd_audit_def entered_def Let_def split: if_splits reply.splits)
  qed
qed

subsection \<open>The effect of a request\<close>

text \<open>
  First an operation on behalf of nobody (a login, the last use of a key), then what the handler does for \<open>who\<close> with at most one
  audit record, then the record of the audit middleware.
\<close>

definition request_effect :: "string option \<Rightarrow> ('d \<Rightarrow> database) \<Rightarrow> 'd auditor \<Rightarrow> http \<Rightarrow> 'd world \<Rightarrow> 'd world \<Rightarrow> bool" where
  "request_effect who view A c w w' \<longleftrightarrow>
     (\<exists>d w2. kept None (view (wdb w)) (view d) \<and> handled who view (Some A) (hc_rq c) (w\<lparr>wdb := d\<rparr>) w2 \<and>
        (w' = w2 \<or> (\<exists>ev. w' = snd (Record A (hc_end c) (hc_audit c) ev w2))))"

lemma handled_claims: "handled who view a (rq\<lparr>rq_claims := x\<rparr>) w w' \<longleftrightarrow> handled who view a rq w w'"
  by (simp add: handled_def record_event_def)

lemma handled_same_request: "same_request c c1 \<Longrightarrow> handled who view a (hc_rq c1) w w' \<longleftrightarrow> handled who view a (hc_rq c) w w'"
  by (auto simp: same_request_def handled_claims)

text \<open>The part of the effect before the audit middleware.\<close>

definition inner_effect :: "string option \<Rightarrow> ('d \<Rightarrow> database) \<Rightarrow> 'd auditor \<Rightarrow> http \<Rightarrow> 'd world \<Rightarrow> 'd world \<Rightarrow> bool" where
  "inner_effect who view A c w w' \<longleftrightarrow>
     (\<exists>d. kept None (view (wdb w)) (view d) \<and> handled who view (Some A) (hc_rq c) (w\<lparr>wdb := d\<rparr>) w')"

lemma inner_effect_db: "kept None (view (wdb w)) (view d) \<Longrightarrow> inner_effect who view A c w (w\<lparr>wdb := d\<rparr>)"
  unfolding inner_effect_def by (intro exI [of _ d]) simp

lemma inner_effect_same [simp]: "inner_effect who view A c w w"
  using inner_effect_db [of view w "wdb w"] by simp

context gorm_db
begin

lemma after_key_kept:
  assumes "ks_gorm svc = G"
  shows "kept None (view (wdb (sv_world s))) (view (wdb (sv_world (after_key svc c s))))"
  using key_Verify_kept [OF assms surjective_pairing] by (simp add: after_key_def)

lemma V1_effect:
  assumes "wired G P" "v1_chain (pd_api P) L (guards_of cl) (serve P cl) c s = (r, c', s')"
  shows "inner_effect (acts_for P (V1 cl) c s) view (pd_audit P) c (sv_world s) (sv_world s')"
proof -
  let ?s1 = "after_key (ad_APIKeys (pd_api P)) (warned L c) s"
  have s1: "?s1 = after_key (ad_APIKeys (pd_api P)) c s" by (simp add: after_key_def)
  have key: "kept None (view (wdb (sv_world s))) (view (wdb (sv_world ?s1)))"
    using after_key_kept wired_simps(10) [OF assms(1)] by blast
  have w1: "sv_world ?s1 = (sv_world s)\<lparr>wdb := wdb (sv_world ?s1)\<rparr>" by (simp add: after_key_def with_db_def)
  show ?thesis
  proof (rule v1_chain_cases [OF refl, where D = "pd_api P" and L = L and c = c and s = s and guards = "guards_of cl" and 'b = body], goal_cases)
    case handler: (1 c1 claims)
    then have run: "serve P cl c1 ?s1 = (r, c', s')" using assms(2) by (simp add: passes_def)
    have claims: "accepted_claims P c s = Some claims" using handler(5) s1 by (simp add: accepted_claims_def)
    have "may_admin P c s claims" if "quota_of cl = Some t" for t
      using handler(6) quota_guards [OF that] s1 by (simp add: may_admin_def guards_ok_def)
    then have "acts_on cl (hc_rq c1) = acts_for P (V1 cl) c s"
      using claims handler(2) by (auto simp: acts_on_quota acts_for_def caller_def hc_claims_def split: option.splits)
    then show ?case
      using serve_handled [OF assms(1) run] handled_same_request [OF passes_same_request [OF handler(1)]] key w1
      unfolding inner_effect_def by metis
  next
    case 2
    then show ?case using assms(2) by (auto simp: refuses_def)
  next
    case (3 code)
    then have "s' = ?s1" using assms(2) by (auto simp: refuses_def)
    then show ?case using inner_effect_db [OF key] w1 by metis
  qed
qed

lemma on_db_effect:
  assumes "on_db b h c s = (r, c', s')" "\<And>x d. h (hc_rq c) (wdb (sv_world s)) = (x, d) \<Longrightarrow> kept None (view (wdb (sv_world s))) (view d)"
  shows "inner_effect who view A c0 (sv_world s) (sv_world s')"
  using combinator_world(3) [OF assms(1)] assms(2) inner_effect_db by metis

lemma panel_handle_effect:
  assumes "wired G P" "panel_handle P ep c s = (r, c', s')"
  shows "inner_effect (acts_for P ep c s) view (pd_audit P) c (sv_world s) (sv_world s')"
proof (cases ep)
  case (AuthLogin f b)
  then have "on_db BTokens (\<lambda>rq. LoginHandler (ad_Auth (pd_api P)) rq f b) c s = (r, c', s')"
    using assms(2) by (simp add: panel_handle_def)
  then show ?thesis
    by (rule on_db_effect) (auto simp: LoginHandler_def Let_def dest: Login_kept [OF wired_simps(9) [OF assms(1)]] split: option.splits if_splits prod.splits sum.splits)
next
  case (AuthRefresh f b)
  then have "on_db BPair (\<lambda>rq. RefreshHandler (ad_Auth (pd_api P)) rq f b) c s = (r, c', s')"
    using assms(2) by (simp add: panel_handle_def)
  then show ?thesis
    by (rule on_db_effect) (auto simp: RefreshHandler_def Let_def dest: Refresh_kept [OF wired_simps(9) [OF assms(1)]] split: option.splits if_splits prod.splits sum.splits)
next
  case AuthLogout
  let ?h = "on_db (\<lambda>_. BEmpty) (LogoutHandler (ad_Auth (pd_api P)))"
  have "AuthMiddleware (ad_Auth (pd_api P)) ?h c s = (r, c', s')" using assms(2) AuthLogout by (simp add: panel_handle_def)
  then consider c1 where "?h c1 s = (r, c', s')" | "s' = s"
    using AuthMiddleware_cases [of "ad_Auth (pd_api P)" c s, where 'b = body] by (auto simp: passes_def refuses_def)
  then show ?thesis
    by cases (auto intro!: on_db_effect simp: LogoutHandler_def dest: Logout_kept [OF wired_simps(9) [OF assms(1)]] split: option.splits prod.splits)
qed (use assms V1_effect in \<open>auto simp: panel_handle_def reads_def\<close>)

lemma request_effect:
  assumes "wired G P" "panel_request P ep c s = (r, c', s')"
  shows "request_effect (acts_for P ep c s) view (pd_audit P) c (sv_world s) (sv_world s')"
  using assms(2)
proof (cases rule: panel_request_cases)
  case (limited l)
  then show ?thesis unfolding request_effect_def using inner_effect_same [unfolded inner_effect_def] by fastforce
next
  case (served l r0 c2 s2)
  have key: "hc_rq (entered c) = hc_rq c" "presented_key (entered c) = presented_key c" "presented_token (entered c) = presented_token c"
    by (simp_all add: entered_simps)
  have "acts_for P ep (entered c) (s\<lparr>sv_limiter := l\<rparr>) = acts_for P ep c s" by (rule accepted_claims_cong) (simp_all add: key)
  then have inner: "inner_effect (acts_for P ep c s) view (pd_audit P) c (sv_world s) (sv_world s2)"
    using panel_handle_effect [OF assms(1) served(1)] key by (simp add: inner_effect_def)
  have c2: "same_request c c2"
    using keeps_requestD [OF panel_keeps_request entered_simps(1)] served(1) by (metis fst_conv snd_conv)
  have "sv_world s' = sv_world s2 \<or> (\<exists>ev. sv_world s' = snd (Record (pd_audit P) (hc_end c2) (hc_audit c2) ev (sv_world s2)))"
    using served(4) by auto
  then show ?thesis
    using inner c2 unfolding request_effect_def inner_effect_def same_request_def by metis
qed

end

subsection \<open>How a call ends\<close>

lemma served_frame:
  assumes "gorm_db G view" "wired G P"
    and "sv_world s' = (if b then sv_world s2 else snd (Record (pd_audit P) now i ev (sv_world s2)))"
  shows "\<exists>es. view (wdb (sv_world s')) = (view (wdb (sv_world s2)))\<lparr>db_audit := es\<rparr>"
proof (cases b)
  case True
  then show ?thesis using assms(3) by (intro exI [of _ "db_audit (view (wdb (sv_world s2)))"]) simp
next
  case False
  then show ?thesis
    using gorm_db.Record_frame [OF assms(1) wired_simps(11) [OF assms(2)] surjective_pairing, of now i ev "sv_world s2"] assms(3) by auto
qed

lemma after_key_more:
  "pn_os (after_key svc c s) = pn_os s" "pn_pdns (after_key svc c s) = pn_pdns s" "pn_out (after_key svc c s) = pn_out s"
  "pn_license (after_key svc c s) = pn_license s"
  by (simp_all add: after_key_def with_db_def)

lemma after_key_entered: "after_key svc (warned L (entered c)) (s\<lparr>sv_limiter := l\<rparr>) = (after_key svc c s)\<lparr>sv_limiter := l\<rparr>"
  by (simp add: after_key_def entered_simps with_db_def)

text \<open>A call runs with the accepted claims, or is refused and changes at most the last use of an API key.\<close>

lemma v1_outcome:
  fixes r :: "body reply"
  assumes "gorm_db G view" "wired G P" "v1_chain (pd_api P) L guards h (entered c) (s\<lparr>sv_limiter := l\<rparr>) = (r, c', s')"
  obtains (handler) claims c1 where "accepted_claims P c s = Some claims" "hc_claims c1 = Some claims"
      "guards_ok (ad_RBAC (pd_api P)) claims (wdb (sv_world (after_key (ad_APIKeys (pd_api P)) c s))) guards"
      "h c1 ((after_key (ad_APIKeys (pd_api P)) c s)\<lparr>sv_limiter := l\<rparr>) = (r, c', s')"
    | (refused) code msg ks where "code \<in> {401, 403, 423}" "r = Fail code msg"
      "view (wdb (sv_world s')) = (view (wdb (sv_world s)))\<lparr>db_api_keys := ks\<rparr>"
      "pn_os s' = pn_os s" "pn_pdns s' = pn_pdns s" "pn_out s' = pn_out s" "pn_license s' = pn_license s"
proof (rule v1_chain_cases [OF refl, where D = "pd_api P" and L = L and c = "entered c" and s = "s\<lparr>sv_limiter := l\<rparr>" and guards = guards and 'b = body], goal_cases)
  case (1 c1 claims)
  then show ?case
    using handler [of claims c1] assms(3) by (simp add: accepted_claims_def after_key_entered entered_simps passes_def)
next
  case 2
  then show ?case
    using assms(3) refused [of 423 _ "db_api_keys (view (wdb (sv_world s)))"] by (auto simp: refuses_def)
next
  case (3 code)
  obtain ks where "view (wdb (sv_world (after_key (ad_APIKeys (pd_api P)) c s))) = (view (wdb (sv_world s)))\<lparr>db_api_keys := ks\<rparr>"
    using gorm_db.after_key_frame(1) [OF assms(1) wired_simps(10) [OF assms(2)]] by blast
  moreover obtain msg where "r = Fail code msg" "s' = (after_key (ad_APIKeys (pd_api P)) c s)\<lparr>sv_limiter := l\<rparr>"
    using 3(3) assms(3) by (auto simp: refuses_def after_key_entered)
  ultimately show ?case using 3(4) by (intro refused [of code msg ks]) (auto simp: after_key_more)
qed

end
