(* ===== verification/PanelRun.thy ===== *)
theory PanelRun
  imports PanelStep
begin

text \<open>
  Sequences of requests: what every request keeps, every sequence keeps. Requests run one after the other here; what concurrent
  requests do to the audit log is shown in AuditChain.
\<close>

subsection \<open>What one request keeps\<close>

lemma tenant_data_audit [simp]: "tenant_data b (v\<lparr>db_audit := x\<rparr>) = tenant_data b v" "keys_ok (v\<lparr>db_audit := x\<rparr>) = keys_ok v"
  by (simp_all add: tenant_data_def keys_ok_def)

text \<open>The audit IDs of a request are drawn in order, above those in the log.\<close>

definition fresh_audit :: "('d \<Rightarrow> database) \<Rightarrow> http \<Rightarrow> 'd world \<Rightarrow> bool" where
  "fresh_audit view c w \<longleftrightarrow>
     (\<forall>r\<in>set (db_audit (view (wdb w))). ID r < rq_audit (hc_rq c)) \<and> rq_audit (hc_rq c) < hc_audit c"

context gorm_db
begin

lemma Record_grows:
  assumes "au_gorm A = G" "Record A now newid ev w = (res, w')"
  shows "\<exists>new. db_audit (view (wdb w')) = db_audit (view (wdb w)) @ new \<and> length new \<le> 1 \<and> (\<forall>r\<in>set new. ID r = newid)"
  using assms audit_entry.create_ok audit_entry.create_fail
  by (fastforce simp: Record_def Let_def audit_entry_defaults_def split: sum.splits prod.splits)

lemma Record_tenants:
  assumes "au_gorm A = G" "Record A now newid ev w = (res, w')"
  shows "tenant_data b (view (wdb w')) = tenant_data b (view (wdb w))" "keys_ok (view (wdb w')) = keys_ok (view (wdb w))"
  using Record_frame [OF assms] tenant_data_audit by metis+

lemma handled_tenants:
  assumes "au_gorm A = G" "handled who view (Some A) rq w w'" "keys_ok (view (wdb w))"
  shows "keys_ok (view (wdb w')) \<and> (who \<noteq> Some b \<longrightarrow> tenant_data b (view (wdb w')) = tenant_data b (view (wdb w)))"
proof -
  obtain d where d: "kept who (view (wdb w)) (view d)" "w' = w\<lparr>wdb := d\<rparr> \<or> (\<exists>ev. w' = record_event (Some A) rq ev (w\<lparr>wdb := d\<rparr>))"
    using assms(2) unfolding handled_def by blast
  have "keys_ok (view d) \<and> (who \<noteq> Some b \<longrightarrow> tenant_data b (view d) = tenant_data b (view (wdb w)))"
    using d(1) assms(3) by (simp add: kept_def)
  then show ?thesis
    using d(2) Record_tenants [OF assms(1) surjective_pairing] by (auto simp: record_event_def audit_ignore_def)
qed

lemma effect_tenants:
  assumes "au_gorm A = G" "request_effect who view A c w w'" "keys_ok (view (wdb w))"
  shows "keys_ok (view (wdb w')) \<and> (who \<noteq> Some b \<longrightarrow> tenant_data b (view (wdb w')) = tenant_data b (view (wdb w)))"
proof -
  obtain d w2 where e: "kept None (view (wdb w)) (view d)" "handled who view (Some A) (hc_rq c) (w\<lparr>wdb := d\<rparr>) w2"
    "w' = w2 \<or> (\<exists>ev. w' = snd (Record A (hc_end c) (hc_audit c) ev w2))"
    using assms(2) unfolding request_effect_def by blast
  have "keys_ok (view d) \<and> tenant_data b (view d) = tenant_data b (view (wdb w))" using e(1) assms(3) by (simp add: kept_def)
  then show ?thesis
    using handled_tenants [OF assms(1) e(2)] e(3) Record_tenants [OF assms(1) surjective_pairing] by auto
qed

lemma effect_audit:
  assumes "au_gorm A = G" "request_effect who view A c w w'" "audit_inv A view w" "fresh_audit view c w"
  shows "audit_inv A view w' \<and> (\<exists>new. db_audit (view (wdb w')) = db_audit (view (wdb w)) @ new \<and> length new \<le> 2)"
proof -
  obtain d w2 where e: "kept None (view (wdb w)) (view d)" "handled who view (Some A) (hc_rq c) (w\<lparr>wdb := d\<rparr>) w2"
    "w' = w2 \<or> (\<exists>ev. w' = snd (Record A (hc_end c) (hc_audit c) ev w2))"
    using assms(2) unfolding request_effect_def by blast
  obtain d2 where d2: "kept who (view d) (view d2)"
    "w2 = w\<lparr>wdb := d2\<rparr> \<or> (\<exists>ev. w2 = snd (Record A (rq_now (hc_rq c)) (rq_audit (hc_rq c)) ev (w\<lparr>wdb := d2\<rparr>)))"
    using e(2) by (auto simp: handled_def record_event_def audit_ignore_def)
  have au: "db_audit (view d2) = db_audit (view (wdb w))" using e(1) d2(1) by (simp add: kept_def)
  then have inv: "audit_inv A view (w\<lparr>wdb := d2\<rparr>)"
    using audit_inv_frame [of view w "w\<lparr>wdb := d2\<rparr>"] assms(3) by (simp add: audit_frame_def)
  have w2: "audit_inv A view w2 \<and> (\<exists>new. db_audit (view (wdb w2)) = db_audit (view (wdb w)) @ new \<and> length new \<le> 1 \<and>
      (\<forall>r\<in>set new. ID r = rq_audit (hc_rq c)))"
    using d2(2)
  proof (elim disjE exE)
    fix ev assume w2: "w2 = snd (Record A (rq_now (hc_rq c)) (rq_audit (hc_rq c)) ev (w\<lparr>wdb := d2\<rparr>))"
    show ?thesis
      using Record_inv [OF assms(1) inv surjective_pairing] Record_grows [OF assms(1) surjective_pairing, of _ _ ev "w\<lparr>wdb := d2\<rparr>"]
        assms(4) au unfolding w2 by (simp add: fresh_audit_def)
  qed (use inv au in simp)
  then have "\<forall>r\<in>set (db_audit (view (wdb w2))). ID r < hc_audit c"
    using assms(4) by (auto simp: fresh_audit_def intro: order.strict_trans)
  then have w': "audit_inv A view w'" using e(3) w2 Record_inv [OF assms(1) _ surjective_pairing] by blast
  obtain new where new: "db_audit (view (wdb w2)) = db_audit (view (wdb w)) @ new" "length new \<le> 1" using w2 by blast
  have "\<exists>more. db_audit (view (wdb w')) = db_audit (view (wdb w2)) @ more \<and> length more \<le> 1"
    using e(3) Record_grows [OF assms(1) surjective_pairing, of "hc_end c" "hc_audit c" _ w2] by (elim disjE exE) (simp, metis)
  then obtain more where "db_audit (view (wdb w')) = db_audit (view (wdb w2)) @ more" "length more \<le> 1" by blast
  then show ?thesis using w' new by (intro conjI exI [of _ "new @ more"]) simp_all
qed

end

subsection \<open>Sequences of requests\<close>

text \<open>The trace has each request with the state it found.\<close>

inductive panel_steps :: "('d, 'o, 'e, 'k) panel_deps \<Rightarrow> ('d, 'o, 'e) panel \<Rightarrow> (endpoint \<times> http \<times> ('d, 'o, 'e) panel) list \<Rightarrow>
    ('d, 'o, 'e) panel \<Rightarrow> bool" for P s where
  no_request: "panel_steps P s [] s"
| request: "panel_steps P s tr s1 \<Longrightarrow> panel_request P ep c s1 = (r, c', s2) \<Longrightarrow> panel_steps P s (tr @ [(ep, c, s1)]) s2"

inductive_cases panel_stepsE: "panel_steps P s tr s'"

inductive_simps panel_steps_Nil: "panel_steps P s [] s'"

lemma panel_steps_single: "panel_request P ep c s = (r, c', s') \<Longrightarrow> panel_steps P s [(ep, c, s)] s'"
  by (rule request [OF no_request, simplified])

text \<open>An invariant of requests holds along every sequence.\<close>

lemma panel_steps_invariant:
  assumes "panel_steps P s tr s'" "I s" "\<forall>(ep, c, s0)\<in>set tr. Q ep c s0"
    and "\<And>ep c s1 r c' s2. I s1 \<Longrightarrow> Q ep c s1 \<Longrightarrow> panel_request P ep c s1 = (r, c', s2) \<Longrightarrow> I s2"
  shows "I s'"
  using assms(1,3) by induction (auto intro: assms(2,4))

subsection \<open>The panel of a start\<close>

lemma open_stores_wired:
  assumes "open_stores M en d L = Inr (store, v, L')"
  shows "store = Some st \<Longrightarrow> st_gorm st = mc_gorm M" "v = Some va \<Longrightarrow> va_gorm va = mc_gorm M"
proof -
  have "NewStore a u G k = Inr st \<Longrightarrow> st_gorm st = G" for a u k st and G :: "'a gorm"
    by (auto simp: NewStore_def split: sum.splits)
  moreover have "vault_New a G k = Inr va \<Longrightarrow> va_gorm va = G" for a k va and G :: "'a gorm"
    by (auto simp: vault_New_def split: sum.splits if_splits)
  ultimately show "store = Some st \<Longrightarrow> st_gorm st = mc_gorm M" "v = Some va \<Longrightarrow> va_gorm va = mc_gorm M"
    using assms by (auto simp: open_stores_def split: sum.splits)
qed

text \<open>What the start hands to \<open>NewServer\<close>; all services work on its one database.\<close>

lemma run_wired:
  assumes "run M en0 ls ps args s0 = (Inr S, d, s')"
  shows "wired (mc_gorm M) (panel_deps_of M en S outs fmt stmp uuid5)"
proof -
  obtain cfg d0 d' s1 L where r: "run_services M (started_env M en0 s0) cfg ls ps args L d0 s1 = (Inr S, d', s')"
    using run_ok [OF assms] by blast
  obtain w svc stores where st: "auth_of M cfg = Inr svc" "open_stores M (started_env M en0 s0) d' L = Inr stores"
    "S = services_of M (started_env M en0 s0) cfg svc stores (w\<lparr>wdb := d'\<rparr>)"
    using run_services_ok [OF r] by blast
  obtain store v L1 where stores: "stores = (store, v, L1)" by (metis prod_cases3)
  have "as_gorm svc = mc_gorm M" using st(1) by (auto simp: auth_of_def auth_New_def Let_def split: if_splits)
  then show ?thesis
    using open_stores_wired [of M "started_env M en0 s0" d' L store v L1] st(2,3) stores
    by (auto simp: wired_def panel_deps_of_def pd_api_def pd_audit_def services_of_def auditor_of_def dns_NewService_def Let_def)
qed

lemma run_without_key:
  assumes "run M en0 ls ps args s0 = (Inr S, d, s')"
    and "MasterKeySource (as_sum256 (mc_auth M)) (env_of M (started_env M en0 s0)) = Inl e"
  shows "su_Vault S = None \<and> su_Store S = None"
proof -
  obtain cfg d0 d' s1 L where r: "run_services M (started_env M en0 s0) cfg ls ps args L d0 s1 = (Inr S, d', s')"
    using run_ok [OF assms(1)] by blast
  obtain w svc stores where "open_stores M (started_env M en0 s0) d' L = Inr stores"
    "S = services_of M (started_env M en0 s0) cfg svc stores (w\<lparr>wdb := d'\<rparr>)"
    using run_services_ok [OF r] by blast
  then show ?thesis using assms(2) by (auto simp: open_stores_def services_of_def)
qed

context gorm_db
begin

lemma createAdminUser_keys:
  assumes [simp]: "as_gorm s = G" and "createAdminUser s now r email password d = (e, d')" "keys_ok (view d)"
  shows "keys_ok (view d')"
proof -
  have tenant: "keys_ok (view d2)" if "tCreate (Tenants G) now row d1 = (x, d2)" "keys_ok (view d1)" for row d1 x d2
    using k_tenant.create_kept [OF that(1), of None] that(2) by (simp add: own_def kept_def)
  have user: "keys_ok (view d2)" if "tCreate (Users G) now row d1 = (x, d2)" "keys_ok (view d1)" for row d1 x d2
    using k_user.create_kept [OF that(1), of "user_tid row"] that(2) by (simp add: own_def kept_def)
  show ?thesis
    using assms(2,3) by (auto simp: createAdminUser_def ensure_tenant_def split: sum.splits prod.splits dest!: tenant user)
qed

end

text \<open>A started panel has unique primary keys and an intact audit chain, when the migrated database has.\<close>

definition migrated_ok :: "('d, 'o, 'k) machine \<Rightarrow> ('d \<Rightarrow> database) \<Rightarrow> bool" where
  "migrated_ok M view \<longleftrightarrow>
     (\<forall>d d1. mc_migrate M d = (None, d1) \<longrightarrow>
        keys_ok (view d1) \<and> distinct (map ID (db_audit (view d1))) \<and>
        chain_ok (as_sum256 (mc_auth M)) (mc_tf M) [] (audit_log (db_audit (view d1))))"

lemma start_ok:
  assumes "run M en0 ls ps args s0 = (Inr S, d, s')" "gorm_db (mc_gorm M) view" "migrated_ok M view"
  shows "keys_ok (view (wdb (su_World S))) \<and> audit_inv (pd_audit (panel_deps_of M en S outs fmt stmp uuid5)) view (su_World S)"
proof -
  obtain d0 d1 acted where f: "mc_migrate M d0 = (None, d1)" "as_gorm (ad_Auth (su_API S)) = mc_gorm M"
    "RunBootstrapWizard (ad_Auth (su_API S)) (started_env M en0 s0) (mc_now M) (mc_rand M) ls ps args d1 = ((acted, None), wdb (su_World S))"
    "api_deps.ad_Audit (su_API S) = auditor_of M" "audit_inv (auditor_of M) view (su_World S)"
    using start_facts [OF assms(1,2)] assms(3) unfolding migrated_ok_def by blast
  have "keys_ok (view d1)" using assms(3) f(1) by (auto simp: migrated_ok_def)
  then have "keys_ok (view (wdb (su_World S)))"
    using wizard_cases [OF f(3)] gorm_db.createAdminUser_keys [OF assms(2) f(2)] by auto
  then show ?thesis using f(4,5) by (simp add: pd_audit_def pd_api_def panel_deps_of_def)
qed

subsection \<open>What sequences keep\<close>

lemma steps_tenants:
  assumes "gorm_db G view" "wired G P" "panel_steps P s tr s'" "keys_ok (view (wdb (sv_world s)))"
    and "\<forall>(ep, c, s0)\<in>set tr. who = None \<or> acts_for P ep c s0 \<noteq> who"
  shows "keys_ok (view (wdb (sv_world s'))) \<and>
    (\<forall>b. who = Some b \<longrightarrow> tenant_data b (view (wdb (sv_world s'))) = tenant_data b (view (wdb (sv_world s))))"
proof (rule panel_steps_invariant [OF assms(3) _ assms(5)])
  fix ep c s1 r c' s2
  assume *: "keys_ok (view (wdb (sv_world s1))) \<and>
      (\<forall>b. who = Some b \<longrightarrow> tenant_data b (view (wdb (sv_world s1))) = tenant_data b (view (wdb (sv_world s))))"
    "who = None \<or> acts_for P ep c s1 \<noteq> who" "panel_request P ep c s1 = (r, c', s2)"
  note e = gorm_db.effect_tenants [OF assms(1) wired_simps(11) [OF assms(2)] gorm_db.request_effect [OF assms(1,2) *(3)]]
  show "keys_ok (view (wdb (sv_world s2))) \<and>
      (\<forall>b. who = Some b \<longrightarrow> tenant_data b (view (wdb (sv_world s2))) = tenant_data b (view (wdb (sv_world s))))"
    using e *(1,2) by (cases who) auto
qed (use assms(4) in simp)

lemma steps_audit:
  assumes "gorm_db G view" "wired G P" "panel_steps P s tr s'" "audit_inv (pd_audit P) view (sv_world s)"
    and "\<forall>(ep, c, s0)\<in>set tr. fresh_audit view c (sv_world s0)"
  shows "audit_inv (pd_audit P) view (sv_world s') \<and>
    (\<exists>new. db_audit (view (wdb (sv_world s'))) = db_audit (view (wdb (sv_world s))) @ new \<and> length new \<le> 2 * length tr)"
  using assms(3,5)
proof induction
  case no_request
  then show ?case using assms(4) by simp
next
  case (request tr s1 ep c r c' s2)
  obtain new where new: "audit_inv (pd_audit P) view (sv_world s1)"
    "db_audit (view (wdb (sv_world s1))) = db_audit (view (wdb (sv_world s))) @ new" "length new \<le> 2 * length tr"
    using request by auto
  have "fresh_audit view c (sv_world s1)" using request.prems by simp
  from gorm_db.effect_audit [OF assms(1) wired_simps(11) [OF assms(2)] gorm_db.request_effect [OF assms(1,2) request.hyps(2)] new(1) this]
  obtain more where "audit_inv (pd_audit P) view (sv_world s2)"
    "db_audit (view (wdb (sv_world s2))) = db_audit (view (wdb (sv_world s1))) @ more" "length more \<le> 2" by blast
  then show ?case using new by (intro conjI exI [of _ "new @ more"]) simp_all
qed

end
