(* ===== verification/PanelDemo.thy ===== *)
theory PanelDemo
  imports PanelRun
begin

text \<open>
  A concrete panel to run the properties on: the machine of the first start, with a database that has a user of tenant
  01T with a session, and a user of tenant 02T. There is no master key.
\<close>

definition other_user :: user where
  "other_user = run_user\<lparr>ID := ''02U'', u_Email := ''c@d'', u_TenantID := ''02T''\<rparr>"

definition two_tenants :: database where
  "two_tenants = session_db\<lparr>db_users := [run_user, other_user]\<rparr>"

definition two_machine :: "(database, mem_os, unit) machine" where
  "two_machine = demo_machine\<lparr>mc_migrate := \<lambda>_. (None, two_tenants), mc_now := 0\<rparr>"

definition no_outputs :: "unit outputs" where
  "no_outputs = \<lparr>OpenFile = (\<lambda>_ _. (Some (ErrNew ''permission denied''), ())), ResolveAddr = (\<lambda>_ _. None),
     Dial = (\<lambda>_ _ _. (None, ())), WriteOut = (\<lambda>_ _. (None, ())), SyslogTime = (\<lambda>_. []), Hostname = ''panel''\<rparr>"

definition two_panel :: "(database, mem_os) services \<Rightarrow> (database, mem_os, unit, unit) panel_deps" where
  "two_panel S = panel_deps_of two_machine dev_environ S no_outputs string_of_int string_of_int (\<lambda>s. s)"

definition two_http :: "string \<Rightarrow> string \<Rightarrow> http" where
  "two_http meth path =
     (run_http meth path ''Authorization'' ''Bearer token'')\<lparr>hc_rq := demo_request\<lparr>rq_now := 1\<rparr>, hc_end := 1\<rparr>"

lemma two_migrated: "migrated_ok two_machine (\<lambda>d. d)"
  by (simp add: migrated_ok_def two_machine_def two_tenants_def session_db_def empty_database_def keys_ok_def ids_ok_def
      other_user_def audit_log_def sel_def)

lemma two_gorm [simp]: "mc_gorm two_machine = mem_gorm"
  by (simp add: two_machine_def)

lemma two_simps:
  "mc_os two_machine = mc_os demo_machine" "mc_ids two_machine = mc_ids demo_machine" "mc_chown two_machine = mc_chown demo_machine"
  by (simp_all add: two_machine_def)

lemma two_load:
  "config_Load (mc_viper two_machine)
     (\<lambda>p. ReadFile (mc_os two_machine) p (snd (ensureRuntimeDir two_machine ''/run/orvixpanel'' 493 ''orvixpanel'' demo_disk)))
     (mc_secret two_machine) dev_environ = (applyDevDefaults dev_environ (mc_secret demo_machine) demo_config, dev_environ)"
proof -
  have s: "ensureRuntimeDir two_machine ''/run/orvixpanel'' 493 ''orvixpanel'' demo_disk =
      ensureRuntimeDir demo_machine ''/run/orvixpanel'' 493 ''orvixpanel'' demo_disk"
    unfolding ensureRuntimeDir_def two_simps ..
  show ?thesis unfolding s using demo_load [of dev_environ] by (simp add: two_machine_def dev_environ_def)
qed

lemma two_env [simp]: "started_env two_machine dev_environ demo_disk = dev_environ"
  by (simp add: started_env_def Let_def two_load)

lemma two_run:
  "\<exists>S s. run two_machine dev_environ [] [] demo_args demo_disk = (Inr S, Some two_tenants, s) \<and>
    su_World S = \<lparr>wdb = two_tenants, wcache = []\<rparr> \<and> ad_Auth (su_API S) = run_auth \<and>
    su_License S = SetGlobal 0 (Some (dev_fallback (env_of two_machine dev_environ))) license_init"
proof -
  let ?s = "snd (ensureRuntimeDir two_machine ''/run/orvixpanel'' 493 ''orvixpanel'' demo_disk)"
  let ?L = "SetGlobal 0 (Some (dev_fallback (env_of two_machine dev_environ))) license_init"
  note load = two_load
  have cfg: "applyDevDefaults dev_environ (mc_secret demo_machine) demo_config =
      Inr (demo_config\<lparr>cf_License := (cf_License demo_config)\<lparr>lc_Key := ''ORVIX-SMB-2025-DEV-DEVPLACE''\<rparr>\<rparr>)" (is "_ = Inr ?cfg")
    by (simp add: applyDevDefaults_def dev_environ_def os_Getenv_def demo_config_def)
  have db: "db_Open two_machine (cf_DB ?cfg) = Inr empty_database"
    by (simp add: db_Open_def demo_config_def two_machine_def demo_machine_def)
  have au: "New (auditor_of two_machine) two_tenants = Inr \<lparr>wdb = two_tenants, wcache = []\<rparr>"
    by (simp add: New_def auditor_of_def loadLastHash_def mem_gorm_def mem_table_def two_tenants_def session_db_def empty_database_def sel_def
        sort_by_def)
  have svc: "auth_of two_machine ?cfg = Inr run_auth"
    using demo_auth by (simp add: auth_of_def demo_config_def two_machine_def)
  have wiz: "RunBootstrapWizard run_auth dev_environ (mc_now two_machine) (mc_rand two_machine) [] [] demo_args two_tenants = ((False, None), two_tenants)"
    by (simp add: RunBootstrapWizard_def mem_gorm_def mem_table_def two_tenants_def sel_def)
  have st: "open_stores two_machine dev_environ two_tenants ?L = Inr (None, None, ?L)"
    by (simp add: open_stores_def MasterKeySource_def env_of_def os_Getenv_def dev_environ_def)
  have run: "\<exists>s'. run_services two_machine dev_environ ?cfg [] [] demo_args ?L empty_database ?s =
      (Inr (services_of two_machine dev_environ ?cfg run_auth (None, None, ?L) \<lparr>wdb = two_tenants, wcache = []\<rparr>), two_tenants, s')"
    using au svc wiz st by (simp add: run_services_def Migrate_def two_machine_def)
  have lic: "load_license two_machine dev_environ k = Inr (dev_fallback (env_of two_machine dev_environ))" for k
    by (simp add: load_license_dev dev_environ_def os_Getenv_def)
  have now: "mc_now two_machine = 0" by (simp add: two_machine_def)
  show ?thesis using run load cfg db lic now
    by (auto simp: run_def Let_def services_of_def two_machine_def [THEN arg_cong [where f = mc_rand]] split: prod.splits)
qed

lemma two_presented: "presented_key (two_http m p) = []" "presented_token (two_http m p) = ''token''"
proof -
  have "TrimSpace (drop (length bearer) ''Bearer token'') = ''token''" "HasPrefix ''Bearer token'' bearer" "\<not> HasPrefix ''token'' KeyPrefix"
    by code_simp+
  then show "presented_key (two_http m p) = []" "presented_token (two_http m p) = ''token''"
    by (simp_all add: presented_key_def presented_token_def two_http_def Let_def)
qed

lemma two_verify: "VerifyAndCheckSession run_auth 1 ''token'' two_tenants = Inr run_claims"
  by (simp add: VerifyAndCheckSession_def Verify_def run_claims_def two_tenants_def session_db_def mem_gorm_def mem_table_def
      first_row_def sel_def session_IsActive_def)

lemma two_now [simp]: "rq_now (hc_rq (two_http m p)) = 1"
  by (simp add: two_http_def)

lemma two_auth: "ad_Auth (pd_api (two_panel S)) = ad_Auth (su_API S)"
  by (simp add: two_panel_def panel_deps_of_def pd_api_def)

lemma two_claims:
  assumes "ad_Auth (su_API S) = run_auth" "wdb (sv_world s) = two_tenants"
  shows "accepted_claims (two_panel S) (two_http m p) s = Some run_claims"
  using assms by (simp add: two_presented accepted_claims_def after_key_def two_auth two_verify)

lemma two_http_entered:
  "hc_method (entered (two_http m p)) = m" "hc_path (entered (two_http m p)) = p" "hc_route (entered (two_http m p)) = []"
  "rq_now (hc_rq (entered (two_http m p))) = 1" "hc_claims (two_http m p) = None"
  by (simp_all add: entered_def Let_def two_http_def run_http_def set_header_def hc_claims_def demo_request_def)

end
