(* ===== verification/PanelProps.thy ===== *)
theory PanelProps
  imports PanelDemo
begin

text \<open>
  The panel as a whole: what holds of every request and of every sequence of requests after a start.
\<close>



subsection \<open>Administration\<close>


subsection \<open>Without a master key\<close>

text \<open>The calls that reach the vault: their parameters pass the handler's checks.\<close>

fun vault_call :: "api_call \<Rightarrow> bool" where
  "vault_call SecretList = True"
| "vault_call (SecretPut qid b) = (case b of None \<Rightarrow> False | Some req \<Rightarrow> pr_Name req \<noteq> [] \<and> pr_Plaintext req \<noteq> [])"
| "vault_call (SecretGet n) = (n \<noteq> [])"
| "vault_call (SecretRead n) = (n \<noteq> [])"
| "vault_call (SecretDelete n) = (n \<noteq> [])"
| "vault_call _ = False"

lemma vault_call_panics:
  assumes "vault_call cl" "su_Vault (pd_services P) = None" "hc_claims c = Some claims"
  shows "serve P cl c s = (Panic, c, s)"
  using assms
  by (cases cl) (auto simp: reads_def on_world_def hc_claims_def vault_ListHandler_def vault_PutHandler_def vault_GetHandler_def
      vault_ReadHandler_def vault_DeleteHandler_def split: option.splits)

text \<open>
  C18: Without a master key the vault is nil. The panel starts all the same, and every call that reaches the vault panics:
  it is refused before, or answered with 500 \<open>internal_panic\<close>, and then the audit log has no trace of it.
\<close>

theorem no_master_key_panics:
  assumes "run M en0 ls ps args s0 = (Inr S, d, os)" "gorm_db (mc_gorm M) view"
    and "MasterKeySource (as_sum256 (mc_auth M)) (env_of M (started_env M en0 s0)) = Inl e"
    and "P = panel_deps_of M en S outs fmt stmp uuid5" "vault_call cl"
    and "panel_request P (V1 cl) c s = (r, c', s')"
  shows "su_Vault S = None \<and> su_Store S = None \<and>
    ((\<exists>code\<in>{401, 403, 423, 429}. \<exists>msg. r = Fail code msg) \<or>
     (r = Fail 500 ''internal_panic'' \<and> accepted_claims P c s \<noteq> None \<and>
      db_audit (view (wdb (sv_world s'))) = db_audit (view (wdb (sv_world s)))))"
proof -
  have nil: "su_Vault S = None" "su_Store S = None" using run_without_key [OF assms(1,3)] by auto
  have wired: "wired (mc_gorm M) P" unfolding assms(4) by (rule run_wired [OF assms(1)])
  have vault: "su_Vault (pd_services P) = None" using nil assms(4) by (simp add: panel_deps_of_def)
  from assms(6) show ?thesis
  proof (cases rule: panel_request_cases)
    case (served l r0 c2 s2)
    have "v1_chain (pd_api P) (pn_license s) (guards_of cl) (serve P cl) (entered c) (s\<lparr>sv_limiter := l\<rparr>) = (r0, c2, s2)"
      using served(1) by (simp add: panel_handle_def)
    then show ?thesis
    proof (rule v1_outcome [OF assms(2) wired], goal_cases)
      case (1 claims c1)
      then have "r0 = Panic" "s2 = (after_key (ad_APIKeys (pd_api P)) c s)\<lparr>sv_limiter := l\<rparr>"
        using vault_call_panics [OF assms(5) vault] by auto
      moreover have "db_audit (view (wdb (sv_world (after_key (ad_APIKeys (pd_api P)) c s)))) = db_audit (view (wdb (sv_world s)))"
        using gorm_db.after_key_frame(1) [OF assms(2) wired_simps(10) [OF wired], of c s] by auto
      ultimately show ?thesis using nil 1(1) served(2,4) by simp
    qed (use nil served(2) in auto)
  qed (use nil in auto)
qed

subsection \<open>Concrete runs\<close>

lemma two_fresh: "sv_world s = \<lparr>wdb = two_tenants, wcache = []\<rparr> \<Longrightarrow> fresh_audit (\<lambda>d. d) (two_http m p) (sv_world s)"
  by (simp add: fresh_audit_def two_http_def run_http_def two_tenants_def session_db_def empty_database_def demo_request_def)

definition two_template :: api_call where
  "two_template = TemplateCreate (Some \<lparr>tr_Name = ''web'', tr_Description = [], tr_Records = None\<rparr>)"

lemma two_template_for: "accepted_claims P c s = Some run_claims \<Longrightarrow> acts_for P (V1 two_template) c s = Some ''01T''"
  by (simp add: acts_for_def two_template_def run_claims_def)




lemma two_list_panics:
  assumes "ad_Auth (su_API S) = run_auth" "sv_world s = \<lparr>wdb = two_tenants, wcache = []\<rparr>" "su_Vault S = None" "sv_limiter s = init_limiter"
  shows "\<exists>c' s'. panel_request (two_panel S) (V1 SecretList) (two_http ''GET'' ''/api/v1/vault/secrets'') s = (Fail 500 ''internal_panic'', c', s')"
proof -
  let ?c = "two_http ''GET'' ''/api/v1/vault/secrets''" and ?P = "two_panel S"
  obtain l where l: "allow (rq_now (hc_rq ?c)) (rq_ip (hc_rq ?c)) (sv_limiter s) = (True, l)"
    using run_allow [of "rq_now (hc_rq ?c)" "rq_ip (hc_rq ?c)"] assms(4)
    by (cases "allow (rq_now (hc_rq ?c)) (rq_ip (hc_rq ?c)) init_limiter") simp
  have g: "guards_of SecretList = []" unfolding guards_of_def route_of_def endpoint_of.simps by code_simp
  have t: "cl_TenantID run_claims \<noteq> []" by (simp add: run_claims_def)
  have m: "''GET'' \<notin> set writeMethods" by (simp add: writeMethods_def)
  have "v1_chain (pd_api ?P) L [] (serve ?P SecretList) (entered ?c) (s\<lparr>sv_limiter := l\<rparr>) =
      serve ?P SecretList (set_claims run_claims (entered ?c)) (s\<lparr>sv_limiter := l\<rparr>)" for L
    using assms(1,2) t m by (simp add: v1_chain_def ReadOnlyEnforcer_def APIKeyMiddleware_def AuthMiddleware_def TenantMiddleware_def guard_chain_def
        Let_def two_http_entered entered_simps two_presented two_auth two_verify set_claims_def hc_claims_def)
  also have "\<dots> = (Panic, set_claims run_claims (entered ?c), s\<lparr>sv_limiter := l\<rparr>)"
    using assms(3) by (intro vault_call_panics) (simp_all add: two_panel_def panel_deps_of_def)
  finally have "panel_handle ?P (V1 SecretList) (entered ?c) (s\<lparr>sv_limiter := l\<rparr>) =
      (Panic, set_claims run_claims (entered ?c), s\<lparr>sv_limiter := l\<rparr>)" for L
    by (simp add: panel_handle_def g)
  then show ?thesis
    using app_chain_eq [OF two_http_entered(5) l, of "pd_api ?P" "panel_handle ?P (V1 SecretList)"]
    by (simp add: panel_request_def AuditMiddleware_def)
qed

theorem no_master_key_panics_witness:
  "\<exists>S os c' s'. run two_machine dev_environ [] [] demo_args demo_disk = (Inr S, Some two_tenants, os) \<and>
    panel_request (two_panel S) (V1 SecretList) (two_http ''GET'' ''/api/v1/vault/secrets'') (panel_start S os ()) = (Fail 500 ''internal_panic'', c', s') \<and>
    db_audit (wdb (sv_world s')) = []"
proof -
  obtain S os where S: "run two_machine dev_environ [] [] demo_args demo_disk = (Inr S, Some two_tenants, os)"
    "su_World S = \<lparr>wdb = two_tenants, wcache = []\<rparr>" "ad_Auth (su_API S) = run_auth"
    using two_run by blast
  let ?P = "two_panel S" and ?c = "two_http ''GET'' ''/api/v1/vault/secrets''" and ?s = "panel_start S os () :: (_, _, unit) panel"
  obtain e where e: "MasterKeySource (as_sum256 (mc_auth two_machine)) (env_of two_machine dev_environ) = Inl e"
    by (simp add: MasterKeySource_def env_of_def os_Getenv_def dev_environ_def)
  have db: "gorm_db (mc_gorm two_machine) (\<lambda>d. d)" using mem_gorm_db by simp
  have "su_Vault S = None" using run_without_key [OF S(1)] e by simp
  then obtain c' s' where r: "panel_request ?P (V1 SecretList) ?c ?s = (Fail 500 ''internal_panic'', c', s')"
    using two_list_panics [OF S(3), of ?s] S(2) by (auto simp: panel_start_def)
  have "db_audit (wdb (sv_world s')) = db_audit (wdb (sv_world ?s))"
    using no_master_key_panics [OF S(1) db _ two_panel_def _ r] e by auto
  then show ?thesis using S(1,2) r by (auto simp: panel_start_def two_tenants_def session_db_def empty_database_def)
qed

end
