(* ===== verification/PanelLogin.thy ===== *)
theory PanelLogin
  imports PanelDemo SessionRefine
begin

text \<open>
  A session of the panel from the login to the logout, through all middleware.
\<close>

subsection \<open>What a request leaves of the tables\<close>

lemma panel_request_frame:
  assumes "gorm_db G view" "wired G P" "panel_request P ep c s = (r, c', s')"
  obtains (limited) "r = Fail 429 ''rate_limited''" "sv_world s' = sv_world s"
    | (served) l r0 c2 s2 es where "panel_handle P ep (entered c) (s\<lparr>sv_limiter := l\<rparr>) = (r0, c2, s2)"
        "r = (if r0 = Panic then Fail 500 ''internal_panic'' else r0)"
        "view (wdb (sv_world s')) = (view (wdb (sv_world s2)))\<lparr>db_audit := es\<rparr>"
  using assms(3)
proof (cases rule: panel_request_cases)
  case (limited l)
  then show ?thesis using that(1) by simp
next
  case (served l r0 c2 s2)
  then show ?thesis using that(2) served_frame [OF assms(1,2) served(4)] by blast
qed

subsection \<open>The three requests\<close>

text \<open>
  What the panel relies on of the JWT library: a token it signed is not empty, and parses as valid, with the claims it was signed for, until it expires.
\<close>

definition jwt_sound :: "'d auth \<Rightarrow> bool" where
  "jwt_sound A \<longleftrightarrow> (\<forall>cl tok now. jwt_sign A (as_secret A) cl = Inr tok \<longrightarrow>
     tok \<noteq> [] \<and> (now < cl_Exp cl * Second \<longrightarrow> cl_Iss cl = as_issuer A \<longrightarrow>
       jwt_parse A now (as_secret A) (as_issuer A) tok = Inr (cl, True)))"

lemma jwt_soundD:
  assumes "jwt_sound A" "jwt_sign A (as_secret A) cl = Inr tok"
  shows "tok \<noteq> []" "now < cl_Exp cl * Second \<Longrightarrow> cl_Iss cl = as_issuer A \<Longrightarrow>
    jwt_parse A now (as_secret A) (as_issuer A) tok = Inr (cl, True)"
  using assms unfolding jwt_sound_def by blast+

lemma login_served:
  assumes "panel_handle P (AuthLogin f (Some req)) c s = (Reply 200 (BTokens (pair, uid, email, role)), c', s')"
  obtains u d where "Login (ad_Auth (pd_api P)) (rq_now (hc_rq c)) f (lr_Email req) (lr_Password req) (rq_ip (hc_rq c))
      (wdb (sv_world s)) = (Inr (pair, u), d)" "wdb (sv_world s') = d" "uid = ID u" "email = u_Email u" "role = u_Role u"
  using assms
  by (auto simp: panel_handle_def on_db_def on_world_def LoginHandler_def Let_def split: if_splits prod.splits sum.splits reply.splits)

lemma me_served:
  assumes "VerifyAndCheckSession (ad_Auth (pd_api P)) (rq_now (hc_rq c)) (presented_token c) (wdb (sv_world s)) = Inr cl"
    and "presented_token c \<noteq> []" "presented_key c = []" "hc_method c = ''GET''" "hc_route c = []"
  shows "panel_handle P (V1 Me) c s =
    (if cl_TenantID cl = [] then Fail 403 ''tenant_missing'' else Reply 200 (BClaims cl), set_claims cl c, s)"
proof -
  have g: "guards_of Me = []" unfolding guards_of_def route_of_def endpoint_of.simps by code_simp
  have m: "''GET'' \<notin> set writeMethods" by (simp add: writeMethods_def)
  show ?thesis
    using assms m by (simp add: panel_handle_def g v1_chain_def ReadOnlyEnforcer_def APIKeyMiddleware_def AuthMiddleware_def
        TenantMiddleware_def guard_chain_def Let_def set_claims_def hc_claims_def reads_def me_MeHandler_def)
qed

lemma logout_served:
  assumes "panel_handle P AuthLogout c s = (Reply 200 BEmpty, c', s')"
    and "VerifyAndCheckSession (ad_Auth (pd_api P)) (rq_now (hc_rq c)) (presented_token c) (wdb (sv_world s)) = Inr cl"
  obtains d where "Logout (ad_Auth (pd_api P)) (rq_now (hc_rq c)) (Some cl) (wdb (sv_world s)) = (None, d)" "wdb (sv_world s') = d"
  using assms
  by (auto simp: panel_handle_def AuthMiddleware_def on_db_def on_world_def LogoutHandler_def Let_def set_claims_def
      split: if_splits prod.splits option.splits reply.splits)

context gorm_db_up
begin

text \<open>The session of a login, in the tables and for the tokens.\<close>

lemma login_session:
  assumes "as_gorm A = G" "jwt_sound A" "sessions_ok (db_sessions (view d))"
    and "Login A now f email password ip d = (Inr (pair, u), d')" "db_sessions (view d1) = db_sessions (view d')"
  shows "sessions_ok (db_sessions (view d1))" "tp_AccessToken pair \<noteq> []"
    and "later < tp_ExpiresAt pair * Second \<Longrightarrow> later < time_Add now (as_refreshTTL A) \<Longrightarrow>
      VerifyAndCheckSession A later (tp_AccessToken pair) d1 = Inr (token_claims A now u (fr_uuid f))"
proof -
  note o = Login_opens [OF assms(1,4,3), folded assms(5)]
  show ok: "sessions_ok (db_sessions (view d1))" using o(1) .
  obtain d0 where it: "issueTokens A now f u ip [] d0 = (Inr pair, d')" using Login_ok [OF assms(1,4)] by auto
  let ?cl = "token_claims A now u (fr_uuid f)"
  have tok: "jwt_sign A (as_secret A) ?cl = Inr (tp_AccessToken pair)" "tp_ExpiresAt pair = cl_Exp ?cl"
    using issueTokens_ok [OF assms(1) it] by (auto simp: token_claims_def)
  show "tp_AccessToken pair \<noteq> []" by (rule jwt_soundD(1) [OF assms(2) tok(1)])
  assume t: "later < tp_ExpiresAt pair * Second" "later < time_Add now (as_refreshTTL A)"
  have "cl_Iss ?cl = as_issuer A" by (simp add: token_claims_def)
  then have "jwt_parse A later (as_secret A) (as_issuer A) (tp_AccessToken pair) = Inr (?cl, True)"
    using jwt_soundD(2) [OF assms(2) tok(1)] t(1) tok(2) by simp
  moreover have "open_sessions (db_sessions (view d1)) (cl_SessionID ?cl) =
      Some (ID u, hashRefresh A (tp_RefreshToken pair), time_Add now (as_refreshTTL A))"
    using o(3) by (simp add: token_claims_def)
  ultimately show "VerifyAndCheckSession A later (tp_AccessToken pair) d1 = Inr ?cl"
    using t(2) VerifyAndCheckSession_open [OF assms(1) ok] by (simp add: Verify_def)
qed

end

lemma after_key_sessions:
  assumes "gorm_db G view" "ks_gorm svc = G"
  shows "db_sessions (view (wdb (sv_world (after_key svc c s)))) = db_sessions (view (wdb (sv_world s)))"
  using gorm_db.after_key_frame(1) [OF assms, of c s] by auto

subsection \<open>Through all middleware\<close>

lemma me_request:
  assumes "VerifyAndCheckSession (ad_Auth (pd_api P)) (rq_now (hc_rq c)) (presented_token c) (wdb (sv_world s)) = Inr cl"
    and "presented_token c \<noteq> []" "presented_key c = []" "hc_method c = ''GET''" "hc_route c = []"
    and "panel_request P (V1 Me) c s = (r, c', s')"
  shows "r = Fail 429 ''rate_limited'' \<or> r = (if cl_TenantID cl = [] then Fail 403 ''tenant_missing'' else Reply 200 (BClaims cl))"
  using assms(6)
proof (cases rule: panel_request_cases)
  case (served l r0 c2 s2)
  have "hc_method (entered c) = ''GET''" "hc_route (entered c) = []"
    using assms(4,5) by (simp_all add: entered_def Let_def set_header_def)
  then have "r0 = (if cl_TenantID cl = [] then Fail 403 ''tenant_missing'' else Reply 200 (BClaims cl))"
    using me_served [of P "entered c" "s\<lparr>sv_limiter := l\<rparr>" cl] assms(1-3) served(1) by (simp add: entered_simps)
  then show ?thesis using served(2) by auto
qed simp

lemma logout_request:
  assumes "gorm_db_up G view" "wired G P" "sessions_ok (db_sessions (view (wdb (sv_world s))))"
    and "VerifyAndCheckSession (ad_Auth (pd_api P)) (rq_now (hc_rq c)) (presented_token c) (wdb (sv_world s)) = Inr cl"
    and "cl_SessionID cl \<noteq> []" "panel_request P AuthLogout c s = (Reply 200 BEmpty, c', s')" "accepted_claims P cx s' = Some cl'"
  shows "cl_SessionID cl' \<noteq> cl_SessionID cl"
proof -
  let ?A = "ad_Auth (pd_api P)" and ?d = "wdb (sv_world (after_key (ad_APIKeys (pd_api P)) cx s'))"
  note db = gorm_db_up.axioms(1) [OF assms(1)] and A = wired_simps(9,10) [OF assms(2)]
  from assms(6) obtain l c2 s2 es where h: "panel_handle P AuthLogout (entered c) (s\<lparr>sv_limiter := l\<rparr>) = (Reply 200 BEmpty, c2, s2)"
    and v: "view (wdb (sv_world s')) = (view (wdb (sv_world s2)))\<lparr>db_audit := es\<rparr>"
    by (auto elim!: panel_request_frame [OF db assms(2)] split: if_splits)
  obtain d where lo: "Logout ?A (rq_now (hc_rq c)) (Some cl) (wdb (sv_world s)) = (None, d)" "wdb (sv_world s2) = d"
    by (rule logout_served [OF h, of cl]) (use assms(4) in \<open>simp_all add: entered_simps\<close>)
  note c = gorm_db.Logout_closes [OF db A(1) lo(1) assms(3)]
  have d: "db_sessions (view ?d) = db_sessions (view d)" using v lo(2) by (simp add: after_key_sessions [OF db A(2)])
  have "sessions_ok (db_sessions (view ?d))" using c(1) d by simp
  then have "open_sessions (db_sessions (view ?d)) (cl_SessionID cl') \<noteq> None"
    using assms(7) gorm_db_up.VerifyAndCheckSession_open [OF assms(1) A(1)] by (auto simp: accepted_claims_def split: sum.splits)
  then show ?thesis using c(2) d assms(5) by auto
qed

lemma token_claims_success [simp]: "token_claims A now (after_success t ip u) sid = token_claims A now u sid"
  by (simp add: token_claims_def after_success_def)

text \<open>
  C4: A login opens the panel and a logout closes it. When the panel answers a login with tokens, the password was that of an active, unlocked
  user with this email. A request for \<open>/me\<close> with the access token is then answered with this user's identity, role and tenant, through all
  middleware and until the token or the session expires, unless the rate limit intervenes or the user has no tenant. After a logout with the token
  no request is accepted with claims of that session, at any time.
\<close>

theorem login_opens_panel:
  assumes "gorm_db_up G view" "wired G P" "A = ad_Auth (pd_api P)" "jwt_sound A" "sessions_ok (db_sessions (view (wdb (sv_world s))))"
    and "panel_request P (AuthLogin f (Some req)) c s = (Reply 200 (BTokens (pair, uid, email, role)), c', s1)"
    and "presented_token cm = tp_AccessToken pair" "rq_now (hc_rq cm) < tp_ExpiresAt pair * Second"
      "rq_now (hc_rq cm) < time_Add (rq_now (hc_rq c)) (as_refreshTTL A)"
  shows "\<exists>u\<in>set (db_users (view (wdb (sv_world s)))).
    live u \<and> u_Email u = ToLower (TrimSpace (lr_Email req)) \<and> u_Status u = ''active'' \<and> \<not> user_locked (rq_now (hc_rq c)) u \<and>
    bcrypt_ok A (u_PasswordHash u) (lr_Password req) \<and> uid = ID u \<and> role = u_Role u \<and>
    (hc_method cm = ''GET'' \<longrightarrow> presented_key cm = [] \<longrightarrow> hc_route cm = [] \<longrightarrow> panel_request P (V1 Me) cm s1 = (r, cm', s2) \<longrightarrow>
       r = Fail 429 ''rate_limited'' \<or>
       r = (if u_TenantID u = [] then Fail 403 ''tenant_missing''
            else Reply 200 (BClaims (token_claims A (rq_now (hc_rq c)) u (fr_uuid f))))) \<and>
    (fr_uuid f \<noteq> [] \<longrightarrow> panel_request P AuthLogout cm s1 = (Reply 200 BEmpty, co', s3) \<longrightarrow>
       (\<forall>cx cl. accepted_claims P cx s3 = Some cl \<longrightarrow> cl_SessionID cl \<noteq> fr_uuid f))"
proof -
  note db = gorm_db_up.axioms(1) [OF assms(1)]
  have A: "as_gorm A = G" "ks_gorm (ad_APIKeys (pd_api P)) = G" using wired_simps(9,10) [OF assms(2)] assms(3) by simp_all
  from assms(6) obtain l c2 s2' es where h: "panel_handle P (AuthLogin f (Some req)) (entered c) (s\<lparr>sv_limiter := l\<rparr>) =
      (Reply 200 (BTokens (pair, uid, email, role)), c2, s2')" and v1: "view (wdb (sv_world s1)) = (view (wdb (sv_world s2')))\<lparr>db_audit := es\<rparr>"
    by (auto elim!: panel_request_frame [OF db assms(2)] split: if_splits)
  obtain u1 d where l: "Login A (rq_now (hc_rq c)) f (lr_Email req) (lr_Password req) (rq_ip (hc_rq c)) (wdb (sv_world s)) = (Inr (pair, u1), d)"
    "wdb (sv_world s2') = d" "uid = ID u1" "role = u_Role u1"
    by (rule login_served [OF h]) (use assms(3) in \<open>auto simp: entered_simps\<close>)
  obtain u where u: "u \<in> set (db_users (view (wdb (sv_world s))))" "live u" "u_Email u = ToLower (TrimSpace (lr_Email req))"
    "u_Status u = ''active''" "\<not> user_locked (rq_now (hc_rq c)) u" "bcrypt_ok A (u_PasswordHash u) (lr_Password req)"
    "u1 = after_success (rq_now (hc_rq c)) (rq_ip (hc_rq c)) u"
    using gorm_db.Login_ok [OF db A(1) l(1)] by blast
  let ?cl = "token_claims A (rq_now (hc_rq c)) u (fr_uuid f)"
  have "db_sessions (view (wdb (sv_world s1))) = db_sessions (view d)" using v1 l(2) by simp
  note ses = gorm_db_up.login_session [OF assms(1) A(1) assms(4,5) l(1) this]
  have ver: "VerifyAndCheckSession A (rq_now (hc_rq cm)) (presented_token cm) (wdb (sv_world s1)) = Inr ?cl"
    using ses(3) [OF assms(8,9)] assms(7) u(7) by simp
  have sid: "cl_SessionID ?cl = fr_uuid f" "cl_TenantID ?cl = u_TenantID u" by (simp_all add: token_claims_def)
  note me = me_request [OF ver [unfolded assms(3)]] and out = logout_request [OF assms(1,2) ses(1) ver [unfolded assms(3)]]
  have "uid = ID u" "role = u_Role u" using l(3,4) u(7) by (simp_all add: after_success_def)
  then show ?thesis
    using u(1-6) me [of r cm' s2] out [of co' s3] ses(2) assms(7) sid by (intro bexI [of _ u]) (auto simp: assms(3))
qed

subsection \<open>A concrete run\<close>

lemma panel_request_ok:
  assumes "hc_claims c = None" "allow (rq_now (hc_rq c)) (rq_ip (hc_rq c)) (sv_limiter s) = (True, l)"
    and "panel_handle P ep (entered c) (s\<lparr>sv_limiter := l\<rparr>) = (r0, c2, s2)" "r0 \<noteq> Panic"
  shows "\<exists>w. panel_request P ep c s = (r0, c2, s2\<lparr>sv_world := w\<rparr>)"
proof -
  have "\<exists>w. AuditMiddleware (api_deps.ad_Audit (pd_api P)) (panel_handle P ep) (entered c) (s\<lparr>sv_limiter := l\<rparr>) = (r0, c2, s2\<lparr>sv_world := w\<rparr>)"
    using assms(3,4) by (auto simp: AuditMiddleware_def Let_def intro: exI [of _ "sv_world s2"] split: reply.splits)
  then show ?thesis
    using app_chain_eq [OF assms(1,2), of "pd_api P" "panel_handle P ep"] assms(4) by (auto simp: panel_request_def split: reply.splits)
qed

lemma me_answer:
  assumes "gorm_db G view" "wired G P" "panel_handle P (V1 Me) (entered c) (s\<lparr>sv_limiter := l\<rparr>) = (r, c', s')"
  shows "r \<noteq> Panic \<and> r \<noteq> Fail 429 msg"
proof -
  have "v1_chain (pd_api P) (pn_license s) (guards_of Me) (serve P Me) (entered c) (s\<lparr>sv_limiter := l\<rparr>) = (r, c', s')"
    using assms(3) by (simp add: panel_handle_def)
  then show ?thesis
    by (rule v1_outcome [OF assms(1,2)]) (auto simp: reads_def me_MeHandler_def hc_claims_def)
qed

lemma me_not_limited:
  assumes "gorm_db G view" "wired G P" "hc_claims c = None" "fst (allow (rq_now (hc_rq c)) (rq_ip (hc_rq c)) (sv_limiter s))"
    and "panel_request P (V1 Me) c s = (r, c', s')"
  shows "r \<noteq> Fail 429 msg"
proof -
  obtain l where l: "allow (rq_now (hc_rq c)) (rq_ip (hc_rq c)) (sv_limiter s) = (True, l)" using assms(4) by (metis prod.collapse)
  obtain r0 c2 s2 where h: "panel_handle P (V1 Me) (entered c) (s\<lparr>sv_limiter := l\<rparr>) = (r0, c2, s2)" by (metis prod_cases3)
  note a = me_answer [OF assms(1,2) h, of msg]
  then show ?thesis using panel_request_ok [OF assms(3) l h] assms(5) by auto
qed

text \<open>A JWT library that signs the claims of one session only.\<close>

definition strict_claims :: claims where
  "strict_claims = run_claims\<lparr>cl_SessionID := ''s2''\<rparr>"

definition strict_auth :: "database auth" where
  "strict_auth = run_auth\<lparr>jwt_sign := \<lambda>_ cl. if cl = strict_claims then Inr ''token'' else Inl (ErrNew ''key is invalid''),
     jwt_parse := \<lambda>_ _ _ _. Inr (strict_claims, True)\<rparr>"

definition strict_panel :: "(database, mem_os) services \<Rightarrow> (database, mem_os, unit, unit) panel_deps" where
  "strict_panel S = (two_panel S)\<lparr>pd_services := S\<lparr>su_API := (su_API S)\<lparr>ad_Auth := strict_auth\<rparr>\<rparr>\<rparr>"

definition second_fresh :: fresh where
  "second_fresh = run_fresh\<lparr>fr_uuid := ''s2'', fr_id := ''02S''\<rparr>"

lemma strict_simps [simp]:
  "as_gorm strict_auth = mem_gorm" "as_refreshTTL strict_auth = 86400 * Second" "as_accessTTL strict_auth = 900 * Second"
  "bcrypt_ok strict_auth h p = (h = p)" "as_issuer strict_auth = ''orvixpanel''" "ad_Auth (pd_api (strict_panel S)) = strict_auth"
  "jwt_sign strict_auth k cl = (if cl = strict_claims then Inr ''token'' else Inl (ErrNew ''key is invalid''))"
  by (simp_all add: strict_auth_def strict_panel_def two_panel_def panel_deps_of_def pd_api_def)

lemma strict_sound: "jwt_sound strict_auth"
  by (simp add: jwt_sound_def strict_auth_def)

lemma strict_times: "time_Add 1 (86400 * Second) = 86400 * Second + 1" "time_Add 1 (900 * Second) = 900 * Second + 1"
  unfolding time_Add_def by (subst norm_time_sane; simp)+

lemma strict_token: "token_claims strict_auth 1 run_user ''s2'' = strict_claims"
  using strict_times(2) by (simp add: token_claims_def strict_claims_def run_claims_def)

lemma two_ip: "rq_ip (hc_rq (two_http m p)) = rq_ip demo_request"
  by (simp add: two_http_def run_http_def)

lemma strict_login:
  "\<exists>pair d. Login strict_auth 1 second_fresh ''a@b'' ''correct horse 1'' ip two_tenants = (Inr (pair, after_success 1 ip run_user), d) \<and>
     tp_AccessToken pair = ''token'' \<and> tp_ExpiresAt pair = 900"
proof -
  have e: "ToLower (TrimSpace ''a@b'') = ''a@b''" by code_simp
  let ?d1 = "snd (tSave (Users mem_gorm) 1 (after_success 1 ip run_user) two_tenants)"
  have u: "tFirst (Users mem_gorm) (\<lambda>u. u_Email u = ''a@b'') two_tenants = Inr run_user"
    by (simp add: mem_gorm_def mem_table_def two_tenants_def first_row_def sel_def other_user_def)
  have "db_sessions ?d1 = [run_session]"
    by (simp add: mem_gorm_def mem_table_def two_tenants_def session_db_def empty_database_def)
  then have "\<exists>pair d. issueTokens strict_auth 1 second_fresh (after_success 1 ip run_user) ip [] ?d1 = (Inr pair, d) \<and>
      tp_AccessToken pair = ''token'' \<and> tp_ExpiresAt pair = 900"
    using strict_token strict_times(2)
    by (simp add: issueTokens_def newRefreshToken_def second_fresh_def run_fresh_def signAccessToken_def mem_gorm_def mem_table_def Let_def
        user_session_clash_def)
  then show ?thesis
    using u e by (auto simp: Login_def Let_def VerifyPassword_def user_locked_def)
qed

lemma two_allow: "fst (allow t k (snd (allow t k init_limiter)))"
  by (simp add: allow_def init_limiter_def NewRateLimiter_def Let_def minF_def time_Sub_def Seconds_def)

theorem login_opens_panel_witness:
  "\<exists>S os pair c' s1 cm' s2. run two_machine dev_environ [] [] demo_args demo_disk = (Inr S, Some two_tenants, os) \<and>
    panel_request (strict_panel S) (AuthLogin second_fresh (Some \<lparr>lr_Email = ''a@b'', lr_Password = ''correct horse 1''\<rparr>))
      (two_http ''POST'' ''/auth/login'') (panel_start S os ()) = (Reply 200 (BTokens (pair, ''01U'', ''a@b'', ''account_dev'')), c', s1) \<and>
    panel_request (strict_panel S) (V1 Me) (two_http ''GET'' ''/api/v1/me'') s1 = (Reply 200 (BClaims strict_claims), cm', s2)"
proof -
  obtain S os where S: "run two_machine dev_environ [] [] demo_args demo_disk = (Inr S, Some two_tenants, os)"
    "su_World S = \<lparr>wdb = two_tenants, wcache = []\<rparr>"
    using two_run by blast
  let ?P = "strict_panel S" and ?s = "panel_start S os () :: (_, _, unit) panel"
  let ?c = "two_http ''POST'' ''/auth/login''" and ?cm = "two_http ''GET'' ''/api/v1/me''"
  let ?req = "\<lparr>lr_Email = ''a@b'', lr_Password = ''correct horse 1''\<rparr>"
  let ?ip = "rq_ip (hc_rq ?c)"
  obtain l where l: "allow 1 ?ip init_limiter = (True, l)" using run_allow [of 1 ?ip] by (cases "allow 1 ?ip init_limiter") auto
  obtain pair d where lg: "Login strict_auth 1 second_fresh ''a@b'' ''correct horse 1'' ?ip two_tenants =
      (Inr (pair, after_success 1 ?ip run_user), d)" "tp_AccessToken pair = ''token''" "tp_ExpiresAt pair = 900"
    using strict_login by blast
  have "panel_handle ?P (AuthLogin second_fresh (Some ?req)) (entered ?c) (?s\<lparr>sv_limiter := l\<rparr>) =
      (Reply 200 (BTokens (pair, ''01U'', ''a@b'', ''account_dev'')), entered ?c, ?s\<lparr>sv_limiter := l, sv_world := \<lparr>wdb = d, wcache = []\<rparr>\<rparr>)"
    using lg(1) S(2) by (simp add: panel_handle_def on_db_def on_world_def LoginHandler_def entered_simps panel_start_def after_success_def)
  from panel_request_ok [OF two_http_entered(5) _ this] l obtain w where
    r: "panel_request ?P (AuthLogin second_fresh (Some ?req)) ?c ?s = (Reply 200 (BTokens (pair, ''01U'', ''a@b'', ''account_dev'')), entered ?c,
      ?s\<lparr>sv_limiter := l, sv_world := w\<rparr>)" (is "_ = (_, _, ?s1)")
    by (auto simp: panel_start_def)
  obtain rm cm' s2 where m: "panel_request ?P (V1 Me) ?cm ?s1 = (rm, cm', s2)" by (metis prod_cases3)
  have "wired mem_gorm (two_panel S)" unfolding two_panel_def using run_wired [OF S(1)] by simp
  then have wired: "wired mem_gorm ?P"
    by (simp add: wired_def strict_panel_def pd_api_def pd_audit_def two_panel_def panel_deps_of_def)
  have ok: "sessions_ok (db_sessions (wdb (sv_world ?s)))"
    using S(2) by (simp add: panel_start_def two_tenants_def session_db_def sessions_ok_def ids_ok_def)
  have sound: "jwt_sound (ad_Auth (pd_api ?P))" using strict_sound by simp
  have tok: "presented_token ?cm = tp_AccessToken pair" "rq_now (hc_rq ?cm) < tp_ExpiresAt pair * Second"
    "rq_now (hc_rq ?cm) < time_Add (rq_now (hc_rq ?c)) (as_refreshTTL (ad_Auth (pd_api ?P)))"
    using lg(2,3) strict_times(1) by (simp_all add: two_presented)
  have plain: "hc_method ?cm = ''GET''" "hc_route ?cm = []" by (simp_all add: two_http_def run_http_def)
  obtain u where u: "u \<in> set (db_users (wdb (sv_world ?s)))" "u_Email u = ToLower (TrimSpace (lr_Email ?req))"
    "rm = Fail 429 ''rate_limited'' \<or> rm = (if u_TenantID u = [] then Fail 403 ''tenant_missing''
       else Reply 200 (BClaims (token_claims (ad_Auth (pd_api ?P)) (rq_now (hc_rq ?c)) u (fr_uuid second_fresh))))"
    using login_opens_panel [OF mem_gorm_db_up wired refl sound ok r tok, of rm cm' s2] m plain two_presented(1) by blast
  have "u = run_user"
  proof -
    have "ToLower (TrimSpace ''a@b'') = ''a@b''" by code_simp
    then show ?thesis using u(1,2) S(2) by (auto simp: panel_start_def two_tenants_def other_user_def)
  qed
  then have "rm = Fail 429 ''rate_limited'' \<or> rm = Reply 200 (BClaims strict_claims)" using u(3) strict_token by (simp add: second_fresh_def)
  moreover have "rm \<noteq> Fail 429 ''rate_limited''"
    by (rule me_not_limited [OF mem_gorm_db wired _ _ m]) (use l two_allow [of 1 ?ip] in \<open>simp_all add: two_http_entered(5) two_ip\<close>)
  ultimately show ?thesis using S(1) r m by blast
qed

end
