(* ===== verification/Spec2Isabelle.thy ===== *)
theory Spec2Isabelle
  imports AuditChain AuditExport LicenseProps RbacProps SessionRefine ApiKeyProps LimiterProps AccessProps VaultProps QuotaProps DnsProps HostingProps
    BootstrapProps StartupProps Frontend PanelProps PanelLogin
begin

text \<open>
  A verification development for OrvixPanel, a hosting control panel written in Go. The program is one process: it reads its
  configuration, opens a SQLite database through GORM, and serves an HTTP API and a user interface. Administrators and tenants
  manage users, roles, API keys, licenses, secrets, quotas, hosting accounts, domains and DNS zones through the API; the panel
  runs system commands and writes nginx and PHP-FPM files for the hosting part, and copies zones to PowerDNS. This theory imports
  all others and says what they hold.

  \<^bold>\<open>How the parts fit together.\<close>
  \<open>run\<close> (cmd/orvixpanel/main.go; theory Startup) loads the configuration (Config), takes a license (License), opens and migrates the
  database, builds the auditor (AuditLog) and the authentication service (Auth), creates the first administrator (Bootstrap), opens
  the license store (LicenseStore) and the vault (Vault), and hands all services to the server. A request then passes
  \<open>app_chain\<close> (Middleware; internal/api/server.go): request ID, rate limit, panic recovery, security headers, audit. Below
  \<open>/api/v1\<close> follows \<open>v1_chain\<close>: read-only mode of a lapsed license, API key, access token with its session, tenant, and the permissions
  of the route. Then \<open>serve\<close> (Panel; internal/api/router.go) runs the handler the route is registered with. Handlers call the services; the
  services share one database, the auditor's cached hash, the license in force, and the operating system. The record \<open>panel\<close> holds this
  state, and \<open>panel_request\<close> is one request from the outermost middleware to the reply. \<open>panel_steps\<close> are sequences of requests.

  \<^bold>\<open>Where the code is modelled.\<close>
  Definitions have the names of the functions they translate, with a prefix where two packages use the same name (\<open>vault_Get\<close>,
  \<open>quota_Get\<close>), and \<open>Handler\<close> at the end for endpoints.

  \<^item> Prelude, Encoding, Crypto, GoTime, GoPath, NetText, Regex: the parts of Go's standard library the code uses. Errors are
    values of \<open>go_error\<close> with wrapping and \<open>errors_Is\<close>; strings are lists of bytes; hex, base64 and the string values of JSON; \<open>time.Time\<close> in
    nanoseconds with the wrap-around of \<open>int64\<close>; \<open>path.Join\<close> and \<open>Clean\<close>; \<open>Sscanf\<close> of one decimal verb and what \<open>net.ParseIP\<close> accepts; anchored regular
    expressions, decided by derivatives and proved to decide their language.
  \<^item> Gorm and Models (internal/db/models/models.go): tables as records of operations over an unknown database state, with the documented
    effect of each GORM call as the locale \<open>gorm_table\<close>; one record per model, its column defaults and unique indexes; all thirteen
    tables together are the locale \<open>gorm_db\<close>. \<open>gorm_db_up\<close> adds that calls fail only where the data makes them fail. The database in
    memory \<open>mem_gorm\<close> is an instance of both, and is what the witnesses run on. Tenancy: what of the database belongs to a tenant.
  \<^item> AuditLog (internal/audit/audit.go) and AuditExport (search.go, export.go, and the endpoints in internal/api/v1/audit.go and admin.go).
  \<^item> Roles, Rbac and RbacHandlers (internal/auth/roles.go, internal/api/middleware/rbac.go, internal/rbac).
  \<^item> Auth and ApiKey (internal/auth/jwt.go, apikey.go, apikey_handlers.go, and internal/api/v1/auth.go); Request: what a handler sees of a
    request.
  \<^item> License and LicenseStore (internal/license, and the license endpoints of internal/api/v1/admin.go).
  \<^item> Middleware (internal/api/middleware, the chains of internal/api/server.go, the route table of internal/api/router.go).
  \<^item> Quota (internal/quota) and Vault (internal/vault), each with its endpoints.
  \<^item> DnsValid, PowerDns, Dns, DnsHandlers (internal/dns, internal/api/v1/dns.go).
  \<^item> Os: the calls of \<open>os\<close>, \<open>os/user\<close> and \<open>os/exec\<close> as a record of parameters; the locale \<open>os_fs\<close> says what the calls on files do to the tree, and \<open>mem_os_ops\<close>
    is its instance. HostingConf, Hosting and HostingHandlers (internal/hosting, and accounts.go, domains.go and deployments.go of
    internal/api/v1).
  \<^item> Config (internal/config), Bootstrap (cmd/orvixpanel/bootstrap.go), Startup (cmd/orvixpanel/main.go, runtime_dir_linux.go,
    internal/db/db.go, the probes), Frontend (internal/web/frontend.go), Panel (the whole).

  \<^bold>\<open>What is proved.\<close>
  The theories named \<open>...Props\<close>, AuditChain and SessionRefine hold the properties; each has a comment with its number and its meaning, and is
  followed by a witness, which applies it to a concrete run. In order of scale:

  \<^item> The panel (Isolation, HandlerIsolation, PanelServe, PanelStep, PanelRun, PanelDemo, PanelProps, PanelLogin): every service operation is \<open>kept\<close> for the
    tenant it is called for, so every handler is, so every request is, so every sequence of requests after a start leaves the rows of a tenant
    alone except for callers of that tenant; the audit log only grows and stays a chain; the administration is closed to callers without \<open>admin:read\<close>;
    a login opens the panel until the logout (PanelLogin); without a master key the calls that reach the vault panic.
  \<^item> The chains (MiddlewareProps, AccessProps, LimiterProps): who reaches a handler and how everyone else is refused, what read-only mode
    lets pass, that every request that passes the limiter is audited, how many requests a client gets in any window.
  \<^item> The services: refinement of abstract maps by the session table (SessionRefine) and the vault (VaultProps); lockout and single-use refresh
    tokens (AuthProps); key and role life cycles (ApiKeyProps, RbacProps); which limits are kept (VaultProps, QuotaProps); the three windows of a license, key parsing and the store
    (LicenseProps); the exactness of \<open>VerifyChain\<close> and what tampering it reveals (AuditChain); export and its escaping (AuditExport); what validators
    accept, and zones all or nothing (DnsValidProps, DnsProps); generated configuration, release swaps, deletion of accounts (HostingProps).
  \<^item> The start (BootstrapProps, StartupProps): the first administrator, when the program starts at all, in what mode.
  \<^item> Some properties state where the code does not do what its comments say; they are theorems about the code as it is. Examples are
    \<open>concurrent_Record_forks\<close>, \<open>admin_read_is_root\<close>, \<open>domain_takeover\<close>, \<open>production_never_starts\<close> and \<open>no_master_key_panics\<close>.

  \<^bold>\<open>Parameters.\<close>
  What is not in the repository is an argument: GORM and SQLite (with the laws above as named hypotheses), bcrypt, SHA-256, AES-GCM, ECDSA and X.509,
  the JWT library, viper, \<open>json.Unmarshal\<close> into structures, the network behind PowerDNS and the order in which Go walks a map there, system commands and
  users, destinations of exports, and text for times. Values drawn from outside come with the call: the clock, ULIDs, UUIDs, nonces, random bytes,
  and a parsed body (\<open>None\<close> when parsing fails). Hash functions are not assumed to be injective; where that matters the property says so, as a
  collision in its conclusion or as two hashes that differ in its hypothesis.

  \<^bold>\<open>Termination and bounds.\<close>
  Every definition is total and needs no fuel. Most recursions are structural; \<open>float_unit\<close>, \<open>to_valid\<close>, \<open>json_read\<close> and \<open>ip6_loop\<close> have a measure. The loops of
  the code run over finite data: the retry of \<open>userdel\<close> counts down from six (\<open>delete_account_ends\<close>), input lines of the
  bootstrap are a list that may run out, exports run over the rows selected. \<open>int64\<close> arithmetic of times and durations wraps (\<open>wrap64\<close>) or saturates (\<open>time_Sub\<close>) as in Go; counters of
  rows and the paging of searches are within the range of \<open>int\<close> for any data that fits in memory and are unbounded here. Numbers in the JSON of an
  audit event pass through \<open>float64\<close>, which is modelled for the whole range of \<open>int\<close>.

  \<^bold>\<open>Concurrency.\<close>
  Requests run one after the other in \<open>panel_steps\<close>. The part of the code that claims to be safe for concurrent calls, \<open>Record\<close>, is also split at its
  critical sections, and AuditChain interleaves them (\<open>conc_step\<close>).

  \<^bold>\<open>Not modelled.\<close>
  \<^item> provision_other.go and runtime_dir_other.go (other systems than Linux): stand-ins that return a fixed error or do nothing, excluded
    from a Linux build.
  \<^item> internal/auth/id.go, internal/db/models/id.go: ULIDs of a library; internal/api/v1/osenv.go: a wrapper of \<open>os.Getenv\<close>;
    internal/license/testhelpers.go: encoders for tests.
  \<^item> Output only: log lines, printed messages, AccessLogMiddleware. Sleeps between attempts.
  \<^item> \<open>errorHandler\<close> of server.go and some helpers (\<open>ensureDir\<close>, \<open>chownR\<close>, \<open>isWritePath\<close>): nothing calls them.
  \<^item> Fiber: the matching of a path to a route, body parsing, headers of replies other than those the middleware sets, sending
    files. A request comes with its route. Of the listening socket only its result is modelled (\<open>listening\<close>).
  \<^item> Percentages and byte counts the usage endpoint computes in floating point. Token counts of the rate limiter are exact rationals instead of \<open>float64\<close>.
  \<^item> The database library: opening SQLite, \<open>AutoMigrate\<close>, its pragmas. Migration is a parameter and what is needed of it a hypothesis.
  \<^item> Everything that is not Go: the web frontend, the installation scripts, the WHMCS module, the documentation.
\<close>

end
